(* ===== verification/Prelude.thy ===== *)
theory Prelude
  imports Complex_Main "HOL-Library.Multiset"
begin

text \<open>
  The vocabulary every component of the development shares: Go's fixed-width integers as
  mathematical integers with the wrap-around written out, \<^verbatim>\<open>time.Time\<close> and
  \<^verbatim>\<open>time.Duration\<close> as nanosecond counts, decimal rendering and parsing
  (\<^verbatim>\<open>strconv\<close>), the symbolic form of messages built by \<^verbatim>\<open>fmt.Sprintf\<close>,
  and the generic lemmas on lists that the component theories use.

  A Go string is a byte sequence, and so is Isabelle's \<^typ>\<open>string\<close>.
\<close>

named_theorems go_arith \<open>width lemmas: an in-range value survives the wrap-around\<close>
named_theorems list_lib \<open>list facts shared by the components\<close>

section \<open>Fixed-width integers\<close>

type_synonym duration = int
type_synonym time = int

definition MaxInt64 :: int where "MaxInt64 = 9223372036854775807"
definition MinInt64 :: int where "MinInt64 = -9223372036854775808"
definition MaxInt32 :: int where "MaxInt32 = 2147483647"
definition MinInt32 :: int where "MinInt32 = -2147483648"

lemmas int_bounds = MaxInt64_def MinInt64_def MaxInt32_def MinInt32_def

text \<open>Two's complement reading of the low 64 (32) bits: the value of a Go conversion or of an
  overflowing operation.\<close>

definition wrap64 :: "int \<Rightarrow> int" where
  "wrap64 x = (x + 9223372036854775808) mod 18446744073709551616 - 9223372036854775808"

definition wrap32 :: "int \<Rightarrow> int" where
  "wrap32 x = (x + 2147483648) mod 4294967296 - 2147483648"

definition in_int64 :: "int \<Rightarrow> bool" where
  "in_int64 x \<longleftrightarrow> MinInt64 \<le> x \<and> x \<le> MaxInt64"

definition in_int32 :: "int \<Rightarrow> bool" where
  "in_int32 x \<longleftrightarrow> MinInt32 \<le> x \<and> x \<le> MaxInt32"

lemma wrap64_id [go_arith]: "in_int64 x \<Longrightarrow> wrap64 x = x"
  by (simp add: wrap64_def in_int64_def int_bounds)

lemma wrap32_id [go_arith]: "in_int32 x \<Longrightarrow> wrap32 x = x"
  by (simp add: wrap32_def in_int32_def int_bounds)

lemma wrap64_in_range [simp]: "in_int64 (wrap64 x)"
  by (simp add: wrap64_def in_int64_def int_bounds)

lemma wrap32_in_range [simp]: "in_int32 (wrap32 x)"
  by (simp add: wrap32_def in_int32_def int_bounds)

lemma in_int64_nonneg [go_arith]: "0 \<le> x \<Longrightarrow> x \<le> y \<Longrightarrow> in_int64 y \<Longrightarrow> in_int64 x"
  by (simp add: in_int64_def int_bounds)

lemma in_int32_int64 [go_arith]: "in_int32 x \<Longrightarrow> in_int64 x"
  by (simp add: in_int32_def in_int64_def int_bounds)

lemma le_div_iff_int [go_arith]: "0 < (b::int) \<Longrightarrow> x \<le> y div b \<longleftrightarrow> x * b \<le> y"
proof -
  assume "0 < b"
  moreover have "x \<le> y div b \<longleftrightarrow> of_int x \<le> (of_int y / of_int b :: rat)"
    by (simp add: le_floor_iff flip: floor_divide_of_int_eq[where 'a = rat])
  ultimately show ?thesis by (simp add: pos_le_divide_eq flip: of_int_mult)
qed

section \<open>Time\<close>

text \<open>
  \<^verbatim>\<open>time.Duration\<close> is an \<^verbatim>\<open>int64\<close> of nanoseconds, so its operators wrap.
  \<^verbatim>\<open>time.Time\<close> has a range no run can leave; it is an unbounded nanosecond count, and
  \<^verbatim>\<open>Time.Sub\<close> saturates at the ends of \<^verbatim>\<open>Duration\<close> as the library documents.
\<close>

abbreviation (input) Nanosecond :: duration where "Nanosecond \<equiv> 1"
abbreviation (input) Microsecond :: duration where "Microsecond \<equiv> 1000"
abbreviation (input) Second :: duration where "Second \<equiv> 1000000000"
abbreviation (input) Minute :: duration where "Minute \<equiv> 60000000000"

definition dur_add :: "duration \<Rightarrow> duration \<Rightarrow> duration" where
  "dur_add a b = wrap64 (a + b)"

definition dur_sub :: "duration \<Rightarrow> duration \<Rightarrow> duration" where
  "dur_sub a b = wrap64 (a - b)"

definition dur_mul :: "duration \<Rightarrow> duration \<Rightarrow> duration" where
  "dur_mul a b = wrap64 (a * b)"

definition time_Add :: "time \<Rightarrow> duration \<Rightarrow> time" where
  "time_Add t d = t + d"

definition time_Sub :: "time \<Rightarrow> time \<Rightarrow> duration" where
  "time_Sub t u = max MinInt64 (min MaxInt64 (t - u))"

definition time_Before :: "time \<Rightarrow> time \<Rightarrow> bool" where
  "time_Before t u \<longleftrightarrow> t < u"

definition time_After :: "time \<Rightarrow> time \<Rightarrow> bool" where
  "time_After t u \<longleftrightarrow> u < t"

lemmas time_defs = time_Add_def time_Before_def time_After_def
lemmas dur_defs = dur_add_def dur_sub_def dur_mul_def

lemma time_Sub_exact [go_arith]: "in_int64 (t - u) \<Longrightarrow> time_Sub t u = t - u"
  by (simp add: time_Sub_def in_int64_def)

lemma time_Sub_nonneg_iff [simp]: "0 \<le> time_Sub t u \<longleftrightarrow> u \<le> t"
  by (auto simp: time_Sub_def int_bounds max_def min_def)

lemma time_Sub_pos_iff [simp]: "0 < time_Sub t u \<longleftrightarrow> u < t"
  by (auto simp: time_Sub_def int_bounds max_def min_def)

lemma time_Sub_neg_iff [simp]: "time_Sub t u < 0 \<longleftrightarrow> t < u"
  by (auto simp: time_Sub_def int_bounds max_def min_def)

lemma time_Sub_le_Max [simp]: "time_Sub t u \<le> MaxInt64"
  by (simp add: time_Sub_def int_bounds)

lemma time_Sub_range [simp]: "in_int64 (time_Sub t u)"
  by (simp add: time_Sub_def in_int64_def int_bounds)

lemma time_Sub_mono: "t \<le> t' \<Longrightarrow> time_Sub t u \<le> time_Sub t' u"
  by (simp add: time_Sub_def)

section \<open>Decimal numbers (strconv)\<close>

definition digit_char :: "nat \<Rightarrow> char" where
  "digit_char d = char_of (48 + d)"

definition char_digit :: "char \<Rightarrow> nat option" where
  "char_digit c = (let n = of_char c :: nat in if 48 \<le> n \<and> n \<le> 57 then Some (n - 48) else None)"

lemma char_digit_digit_char [simp]: "d < 10 \<Longrightarrow> char_digit (digit_char d) = Some d"
  by (simp add: char_digit_def digit_char_def)

fun utoa :: "nat \<Rightarrow> string" where
  "utoa n = (if n < 10 then [digit_char n] else utoa (n div 10) @ [digit_char (n mod 10)])"

declare utoa.simps [simp del]

definition itoa :: "int \<Rightarrow> string" where
  "itoa i = (if i < 0 then CHR ''-'' # utoa (nat (- i)) else utoa (nat i))"

fun digits_value :: "nat \<Rightarrow> string \<Rightarrow> nat option" where
  "digits_value acc [] = Some acc"
| "digits_value acc (c # cs) =
     (case char_digit c of None \<Rightarrow> None | Some d \<Rightarrow> digits_value (10 * acc + d) cs)"

lemma digits_value_append:
  "digits_value acc (xs @ ys) =
     (case digits_value acc xs of None \<Rightarrow> None | Some a \<Rightarrow> digits_value a ys)"
  by (induction xs arbitrary: acc) (auto split: option.split)

lemma digits_value_utoa: "digits_value 0 (utoa n) = Some n"
proof (induction n rule: utoa.induct)
  case (1 n)
  then show ?case
    by (cases "n < 10") (simp_all add: utoa.simps[of n] digits_value_append)
qed

lemma utoa_nonempty [simp]: "utoa n \<noteq> []"
  by (subst utoa.simps) simp

text \<open>\<^verbatim>\<open>strconv.ParseUint(s, 10, bits)\<close> and \<^verbatim>\<open>strconv.ParseInt(s, 10, bits)\<close>; every
  failure (syntax or range) is \<^const>\<open>None\<close>.\<close>

definition ParseUint :: "nat \<Rightarrow> string \<Rightarrow> nat option" where
  "ParseUint bits s =
     (if s = [] then None
      else case digits_value 0 s of None \<Rightarrow> None
           | Some n \<Rightarrow> if n < 2 ^ bits then Some n else None)"

definition ParseInt :: "nat \<Rightarrow> string \<Rightarrow> int option" where
  "ParseInt bits s =
     (case s of [] \<Rightarrow> None
      | c # cs \<Rightarrow>
          let neg = (c = CHR ''-''); body = (if c = CHR ''+'' \<or> neg then cs else s)
          in case ParseUint 64 body of None \<Rightarrow> None
             | Some n \<Rightarrow>
                 if neg then (if int n \<le> 2 ^ (bits - 1) then Some (- int n) else None)
                 else (if int n < 2 ^ (bits - 1) then Some (int n) else None))"

lemma ParseUint_utoa: "n < 2 ^ bits \<Longrightarrow> ParseUint bits (utoa n) = Some n"
  by (simp add: ParseUint_def digits_value_utoa)

lemma ParseUint_bound: "ParseUint bits s = Some n \<Longrightarrow> n < 2 ^ bits"
  by (auto simp: ParseUint_def split: if_splits option.splits)

section \<open>Messages\<close>

text \<open>
  A message is a format string with its arguments, kept as a list of pieces; the verb that
  renders an argument (\<^verbatim>\<open>%q\<close>, \<^verbatim>\<open>%.2f\<close>, \<^verbatim>\<open>%s\<close> of a
  \<^verbatim>\<open>Duration\<close>) is the piece's constructor. No part of the program reads a message
  back, so the rendering is left symbolic. Strings that other code does read (URLs, names,
  flag values) are real strings.
\<close>

datatype piece =
    L string            \<comment> \<open>literal text and \<^verbatim>\<open>%s\<close> of a string\<close>
  | D int               \<comment> \<open>\<^verbatim>\<open>%d\<close>\<close>
  | Q string            \<comment> \<open>\<^verbatim>\<open>%q\<close>\<close>
  | Dur duration        \<comment> \<open>\<^verbatim>\<open>%s\<close> of a \<^verbatim>\<open>time.Duration\<close>\<close>
  | Fx nat rat          \<comment> \<open>\<^verbatim>\<open>%.nf\<close> of a \<^verbatim>\<open>float64\<close>\<close>

type_synonym message = "piece list"

section \<open>Lists\<close>

fun find_index :: "('a \<Rightarrow> bool) \<Rightarrow> 'a list \<Rightarrow> nat" where
  "find_index P [] = 0"
| "find_index P (x # xs) = (if P x then 0 else Suc (find_index P xs))"

lemma find_index_le [simp]: "find_index P xs \<le> length xs"
  by (induction xs) auto

lemma find_index_hit [list_lib]: "find_index P xs < length xs \<Longrightarrow> P (xs ! find_index P xs)"
  by (induction xs) auto

lemma find_index_before [list_lib]: "i < find_index P xs \<Longrightarrow> \<not> P (xs ! i)"
  by (induction xs arbitrary: i) (auto split: if_splits simp: nth_Cons' less_Suc_eq_0_disj)

lemma find_index_less_iff [list_lib]: "find_index P xs < length xs \<longleftrightarrow> (\<exists>x\<in>set xs. P x)"
  by (induction xs) auto

lemma find_index_eqI:
  assumes "j \<le> length xs" and "\<And>i. i < j \<Longrightarrow> \<not> P (xs ! i)"
    and "j < length xs \<Longrightarrow> P (xs ! j)"
  shows "find_index P xs = j"
proof (rule linorder_cases)
  assume less: "find_index P xs < j"
  then have "find_index P xs < length xs" using assms(1) by simp
  then have "P (xs ! find_index P xs)" by (rule find_index_hit)
  with assms(2)[OF less] show ?thesis by simp
next
  assume gt: "j < find_index P xs"
  moreover have "find_index P xs \<le> length xs" by simp
  ultimately have "P (xs ! j)" using assms(3) by linarith
  with find_index_before[OF gt] show ?thesis by simp
qed simp

lemma length_filter_compl [list_lib]:
  "length (filter P xs) + length (filter (\<lambda>x. \<not> P x) xs) = length xs"
  by (induction xs) auto

lemma length_filter_mset [list_lib]:
  "mset xs = mset ys \<Longrightarrow> length (filter P xs) = length (filter P ys)"
  by (metis mset_filter size_mset)

end
