(* ===== verification/Api_Types.thy ===== *)
theory Api_Types
  imports Prelude
begin

text \<open>
  The API types of \<^verbatim>\<open>api/v1beta1/scalevalidation_types.go\<close>. A Go struct is a record,
  a pointer field an \<^verbatim>\<open>option\<close>, \<^verbatim>\<open>metav1.Duration\<close> a \<^typ>\<open>duration\<close> and
  \<^verbatim>\<open>metav1.Time\<close> a \<^typ>\<open>time\<close>. The string-typed vocabularies (\<^verbatim>\<open>TargetMode\<close>,
  \<^verbatim>\<open>Verdict\<close>, \<^verbatim>\<open>Severity\<close> and so on) stay strings, because the code
  compares them as strings and meets values outside the constants; only
  \<^verbatim>\<open>Phase\<close>, which no code but the reconciler writes and the CRD schema closes, is a
  datatype, with a constructor for the empty string of a fresh object.
\<close>

section \<open>Vocabularies\<close>

abbreviation "TargetModeServiceDefault \<equiv> ''ServiceDefault''"
abbreviation "TargetModeAutoDiscoverProbe \<equiv> ''AutoDiscoverProbe''"
abbreviation "TargetModeCustomPath \<equiv> ''CustomPath''"

abbreviation "LoadPatternConstant \<equiv> ''Constant''"
abbreviation "LoadPatternPoisson \<equiv> ''Poisson''"
abbreviation "LoadPatternRamp \<equiv> ''Ramp''"
abbreviation "LoadPatternStep \<equiv> ''Step''"
abbreviation "LoadPatternSpike \<equiv> ''Spike''"

type_synonym Severity = string

abbreviation "SeverityInfo \<equiv> ''Info''"
abbreviation "SeverityWarning \<equiv> ''Warning''"
abbreviation "SeverityCritical \<equiv> ''Critical''"

type_synonym Verdict = string

abbreviation "VerdictPass \<equiv> ''Pass''"
abbreviation "VerdictFail \<equiv> ''Fail''"
abbreviation "VerdictUnknown \<equiv> ''Unknown''"

datatype Phase =
    PhaseNone       \<comment> \<open>the empty string\<close>
  | PhasePending | PhaseRunning | PhaseSucceeded | PhaseFailed | PhaseError | PhaseTerminating

definition FailureRateScale :: int where "FailureRateScale = 10000"
definition RunHistoryLimit :: nat where "RunHistoryLimit = 10"

section \<open>Spec\<close>

record CrossVersionObjectReference =
  ref_APIVersion :: string
  ref_Kind :: string
  ref_Name :: string

record ConfigMapKeyRef =
  cm_Name :: string
  cm_Key :: string

record TLSConfig =
  InsecureSkipVerify :: bool
  CABundle :: "ConfigMapKeyRef option"

record TargetConfig =
  tgt_Mode :: string
  tgt_CustomPath :: string
  tgt_Port :: int
  tgt_NetworkPath :: string
  tgt_Host :: string
  tgt_Protocol :: string
  tgt_GRPC :: "string option"
  tgt_TLS :: "TLSConfig option"

record SpikeWindow =
  sw_At :: duration
  sw_Duration :: duration
  sw_RPS :: int

record LoadProfile =
  lp_Pattern :: string
  lp_EndRPS :: "int option"
  lp_RampDuration :: "duration option"
  lp_StepRPS :: "int option"
  lp_StepDuration :: "duration option"
  lp_Spikes :: "SpikeWindow list"

record LoadConfig =
  load_BaseRPS :: int
  load_ConcurrencyFactor :: int
  load_Concurrency :: int
  load_WarmupDuration :: "duration option"
  load_Profile :: "LoadProfile option"

record DisruptionConfig =
  dis_InjectPodDeletion :: bool
  dis_MinReplicasForChaos :: int
  dis_TriggerDelay :: "duration option"

record ScaleValidationSpec =
  spec_TargetRef :: CrossVersionObjectReference
  spec_SLA :: duration
  spec_Target :: TargetConfig
  spec_Load :: LoadConfig
  spec_Disruption :: "DisruptionConfig option"
  spec_Schedule :: string
  spec_Suspend :: bool

section \<open>Status\<close>

record DiagnosticAlert =
  alert_Type :: string
  alert_Severity :: Severity
  alert_Message :: message
  alert_Recommendation :: message

record RunSummary =
  run_FinishedAt :: time
  run_Phase :: Phase
  run_SLAStatus :: Verdict
  run_TrafficIntegrity :: Verdict
  run_FailureRateBasisPoints :: int

text \<open>\<^verbatim>\<open>metav1.Condition\<close>; its transition time is left out, as no code reads it.\<close>

record Condition =
  cond_Type :: string
  cond_Status :: string
  cond_ObservedGeneration :: int
  cond_Reason :: string
  cond_Message :: message

record ScaleValidationStatus =
  st_Phase :: Phase
  st_ScaleUpDuration :: "duration option"
  st_SLAStatus :: Verdict
  st_TrafficIntegrity :: Verdict
  st_TotalRequests :: int
  st_FailedRequests :: int
  st_FailureRateBasisPoints :: int
  st_Diagnostics :: "DiagnosticAlert list"
  st_LastRunTime :: "time option"
  st_History :: "RunSummary list"
  st_NextRunTime :: "time option"
  st_ObservedGeneration :: int
  st_Conditions :: "Condition list"

text \<open>The object metadata fields the reconcilers read, and the object itself.\<close>

record ScaleValidation =
  sv_Name :: string
  sv_Namespace :: string
  sv_Generation :: int
  sv_CreationTimestamp :: time
  sv_DeletionTimestamp :: "time option"
  sv_Finalizers :: "string list"
  sv_Spec :: ScaleValidationSpec
  sv_Status :: ScaleValidationStatus

definition terminal_phase :: "Phase \<Rightarrow> bool" where
  "terminal_phase p \<longleftrightarrow> p \<in> {PhaseSucceeded, PhaseFailed, PhaseError}"

lemma terminal_phase_simps [simp]:
  "terminal_phase PhaseSucceeded" "terminal_phase PhaseFailed" "terminal_phase PhaseError"
  "\<not> terminal_phase PhaseNone" "\<not> terminal_phase PhasePending" "\<not> terminal_phase PhaseRunning"
  "\<not> terminal_phase PhaseTerminating"
  by (simp_all add: terminal_phase_def)

end
