(* ===== verification/Correlation.thy ===== *)
theory Correlation
  imports Api_Types
begin

text \<open>
  What the leakage and drain analyzers share: the two event streams
  (\<^verbatim>\<open>leakage.EndpointEvent\<close>, \<^verbatim>\<open>leakage.ErrorSample\<close>) and, as a locale, the contract
  of their two-pointer scan. The locale fixes a scan that advances a cursor over the events
  while walking the errors, and proves once that on time-ordered streams it computes the
  quadratic reference: an error is attributed exactly when it lies in the window of some
  event, and then to the earliest event whose window has not closed.
\<close>

record EndpointEvent =
  ev_At :: time
  ev_PodIP :: string
  ev_Kind :: string

abbreviation "EndpointReady \<equiv> ''Ready''"
abbreviation "EndpointRemoved \<equiv> ''Removed''"

record ErrorSample =
  es_At :: time
  es_Category :: string
  es_Status :: int

section \<open>The reference\<close>

text \<open>The window of an event, widened backwards by a lookback.\<close>

definition in_window :: "duration \<Rightarrow> duration \<Rightarrow> EndpointEvent \<Rightarrow> ErrorSample \<Rightarrow> bool" where
  "in_window lookback window ev e \<longleftrightarrow>
     ev_At ev - lookback \<le> es_At e \<and> es_At e < ev_At ev + window"

definition near_some :: "duration \<Rightarrow> duration \<Rightarrow> EndpointEvent list \<Rightarrow> ErrorSample \<Rightarrow> bool" where
  "near_some lookback window evs e \<longleftrightarrow> (\<exists>ev\<in>set evs. in_window lookback window ev e)"

text \<open>The position of the earliest event whose window is still open at time \<open>t\<close>.\<close>

definition open_index :: "EndpointEvent list \<Rightarrow> duration \<Rightarrow> time \<Rightarrow> nat" where
  "open_index evs window t = find_index (\<lambda>ev. t < ev_At ev + window) evs"

definition time_ordered :: "EndpointEvent list \<Rightarrow> bool" where
  "time_ordered evs \<longleftrightarrow> sorted (map ev_At evs)"

definition errors_ordered :: "ErrorSample list \<Rightarrow> bool" where
  "errors_ordered es \<longleftrightarrow> sorted (map es_At es)"

lemma open_index_le [simp]: "open_index evs w t \<le> length evs"
  by (simp add: open_index_def)

lemma open_index_before: "i < open_index evs w t \<Longrightarrow> \<not> t < ev_At (evs ! i) + w"
  unfolding open_index_def by (drule find_index_before) simp

lemma open_index_at: "open_index evs w t < length evs \<Longrightarrow> t < ev_At (evs ! open_index evs w t) + w"
  unfolding open_index_def by (drule find_index_hit) simp

lemma open_index_mono: "t \<le> t' \<Longrightarrow> open_index evs w t \<le> open_index evs w t'"
proof (rule ccontr)
  assume le: "t \<le> t'" and "\<not> open_index evs w t \<le> open_index evs w t'"
  then have lt: "open_index evs w t' < open_index evs w t" by simp
  then have "open_index evs w t' < length evs"
    using open_index_le[of evs w t] by linarith
  then have "t' < ev_At (evs ! open_index evs w t') + w" by (rule open_index_at)
  moreover have "\<not> t < ev_At (evs ! open_index evs w t') + w" using lt by (rule open_index_before)
  ultimately show False using le by linarith
qed

text \<open>On ordered events, looking at the earliest open event decides membership in any window.\<close>

definition attributed :: "duration \<Rightarrow> duration \<Rightarrow> EndpointEvent list \<Rightarrow> ErrorSample \<Rightarrow> bool" where
  "attributed lookback w evs e \<longleftrightarrow>
     open_index evs w (es_At e) < length evs \<and>
     \<not> es_At e < ev_At (evs ! open_index evs w (es_At e)) - lookback"

lemma attributed_near_some:
  assumes "time_ordered evs"
  shows "attributed lookback w evs e \<longleftrightarrow> near_some lookback w evs e"
proof
  assume a: "attributed lookback w evs e"
  let ?i = "open_index evs w (es_At e)"
  have "in_window lookback w (evs ! ?i) e"
    using a open_index_at[of evs w "es_At e"] by (simp add: attributed_def in_window_def not_less)
  then show "near_some lookback w evs e"
    using a by (auto simp: near_some_def attributed_def)
next
  assume "near_some lookback w evs e"
  then obtain k where k: "k < length evs" "in_window lookback w (evs ! k) e"
    by (auto simp: near_some_def in_set_conv_nth)
  let ?i = "open_index evs w (es_At e)"
  have ik: "?i \<le> k"
    using open_index_before[of k evs w "es_At e"] k(2) by (meson in_window_def not_le)
  have "ev_At (evs ! ?i) \<le> ev_At (evs ! k)"
    using assms ik k(1) sorted_nth_mono[of "map ev_At evs" ?i k] by (simp add: time_ordered_def)
  then show "attributed lookback w evs e"
    using ik k by (simp add: attributed_def in_window_def)
qed

section \<open>The scan\<close>

text \<open>
  The operations an analyzer provides: the inner loop \<open>advance\<close>, the outer loop
  \<open>scan\<close> over a triple (per-event breakdown, errors outside every window, errors inside),
  and the accessors of one breakdown entry.
\<close>

locale two_pointer =
  fixes lookback :: duration
    and advance :: "EndpointEvent list \<Rightarrow> duration \<Rightarrow> time \<Rightarrow> nat \<Rightarrow> nat"
    and scan :: "EndpointEvent list \<Rightarrow> duration \<Rightarrow> ErrorSample list \<Rightarrow> nat \<Rightarrow>
                 'c list \<times> nat \<times> nat \<Rightarrow> 'c list \<times> nat \<times> nat"
    and add_error :: "'c \<Rightarrow> ErrorSample \<Rightarrow> 'c"
    and entry_event :: "'c \<Rightarrow> EndpointEvent"
    and entry_errors :: "'c \<Rightarrow> ErrorSample list"
  assumes advance_step: "advance evs w t j =
      (if j < length evs \<and> \<not> t < ev_At (evs ! j) + w then advance evs w t (Suc j) else j)"
    and scan_Nil: "scan evs w [] j st = st"
    and scan_Cons: "scan evs w (e # es) j (corr, clean, hit) =
      (let j' = advance evs w (es_At e) j in
       if j' \<ge> length evs \<or> es_At e < ev_At (evs ! j') - lookback
       then scan evs w es j' (corr, Suc clean, hit)
       else scan evs w es j' (corr[j' := add_error (corr ! j') e], clean, Suc hit))"
    and event_add: "entry_event (add_error c e) = entry_event c"
    and errors_add: "entry_errors (add_error c e) = entry_errors c @ [e]"
begin

lemma advance_open:
  "j \<le> open_index evs w t \<Longrightarrow> advance evs w t j = open_index evs w t"
proof (induction "open_index evs w t - j" arbitrary: j)
  case 0
  then have j: "j = open_index evs w t" by simp
  show ?case
    using advance_step[of evs w t j] open_index_at[of evs w t] j by auto
next
  case (Suc n)
  then have lt: "j < open_index evs w t" by simp
  then have "j < length evs" using open_index_le[of evs w t] by linarith
  moreover have "\<not> t < ev_At (evs ! j) + w" using lt by (rule open_index_before)
  ultimately have "advance evs w t j = advance evs w t (Suc j)"
    using advance_step[of evs w t j] by simp
  also have "\<dots> = open_index evs w t" using Suc lt by (intro Suc.hyps) auto
  finally show ?case .
qed

text \<open>The errors the scan hands to the event at position \<open>k\<close>.\<close>

definition share :: "EndpointEvent list \<Rightarrow> duration \<Rightarrow> nat \<Rightarrow> ErrorSample \<Rightarrow> bool" where
  "share evs w k e \<longleftrightarrow> attributed lookback w evs e \<and> open_index evs w (es_At e) = k"

lemma scan_correct:
  assumes "errors_ordered es" and "\<And>e. e \<in> set es \<Longrightarrow> j \<le> open_index evs w (es_At e)"
    and "length corr = length evs" and "scan evs w es j (corr, clean, hit) = (corr', clean', hit')"
  shows "clean' = clean + length (filter (\<lambda>e. \<not> attributed lookback w evs e) es)
    \<and> hit' = hit + length (filter (attributed lookback w evs) es)
    \<and> length corr' = length evs
    \<and> (\<forall>k<length evs. entry_event (corr' ! k) = entry_event (corr ! k)
         \<and> entry_errors (corr' ! k) = entry_errors (corr ! k) @ filter (share evs w k) es)"
  using assms
proof (induction es arbitrary: j corr clean hit)
  case Nil
  then show ?case by (simp add: scan_Nil)
next
  case (Cons e es)
  let ?i = "open_index evs w (es_At e)"
  have i: "advance evs w (es_At e) j = ?i" using Cons.prems(2) by (intro advance_open) simp
  have ord: "errors_ordered es" using Cons.prems(1) by (simp add: errors_ordered_def)
  have j': "\<And>x. x \<in> set es \<Longrightarrow> ?i \<le> open_index evs w (es_At x)"
    using Cons.prems(1) by (intro open_index_mono) (auto simp: errors_ordered_def)
  show ?case
  proof (cases "attributed lookback w evs e")
    case False
    then have "scan evs w es ?i (corr, Suc clean, hit) = (corr', clean', hit')"
      using Cons.prems(4) i by (auto simp: scan_Cons Let_def attributed_def not_less)
    from Cons.IH[OF ord j' Cons.prems(3) this] False show ?thesis by (simp add: share_def)
  next
    case True
    then have lt: "?i < length evs" by (simp add: attributed_def)
    let ?c = "corr[?i := add_error (corr ! ?i) e]"
    have len: "length ?c = length evs" using Cons.prems(3) by simp
    have "scan evs w es ?i (?c, clean, Suc hit) = (corr', clean', hit')"
      using Cons.prems(4) i True by (auto simp: scan_Cons Let_def attributed_def)
    from Cons.IH[OF ord j' len this] True lt show ?thesis
      by (auto simp: share_def nth_list_update event_add errors_add Cons.prems(3))
  qed
qed

text \<open>The whole scan, from an empty breakdown and cursor \<open>0\<close>, on ordered streams.\<close>

lemma scan_from_start:
  assumes "time_ordered evs" "errors_ordered es" "length corr = length evs"
    and "scan evs w es 0 (corr, 0, 0) = (corr', clean, hit)"
  shows "hit = length (filter (near_some lookback w evs) es)"
    and "clean = length (filter (\<lambda>e. \<not> near_some lookback w evs e) es)"
    and "hit + clean = length es"
    and "length corr' = length evs"
    and "k < length evs \<Longrightarrow> entry_event (corr' ! k) = entry_event (corr ! k)"
    and "k < length evs \<Longrightarrow> entry_errors (corr' ! k) = entry_errors (corr ! k) @
           filter (\<lambda>e. near_some lookback w evs e \<and> open_index evs w (es_At e) = k) es"
proof -
  have att: "attributed lookback w evs = near_some lookback w evs"
    using attributed_near_some[OF assms(1)] by (simp add: fun_eq_iff)
  note c = scan_correct[OF assms(2) _ assms(3) assms(4), simplified]
  show "hit = length (filter (near_some lookback w evs) es)"
    "clean = length (filter (\<lambda>e. \<not> near_some lookback w evs e) es)"
    "length corr' = length evs"
    "k < length evs \<Longrightarrow> entry_event (corr' ! k) = entry_event (corr ! k)"
    "k < length evs \<Longrightarrow> entry_errors (corr' ! k) = entry_errors (corr ! k) @
       filter (\<lambda>e. near_some lookback w evs e \<and> open_index evs w (es_At e) = k) es"
    using c by (simp_all add: att share_def[abs_def])
  then show "hit + clean = length es"
    using length_filter_compl[of "near_some lookback w evs" es] by simp
qed

end

section \<open>Ordering the streams\<close>

text \<open>
  \<^verbatim>\<open>sort.Slice\<close> is not stable, so it may return any ordered permutation. The model sorts
  stably; the next fact is why no count depends on that choice.
\<close>

definition sort_events :: "EndpointEvent list \<Rightarrow> EndpointEvent list" where
  "sort_events evs = sort_key ev_At evs"

definition sort_errors :: "ErrorSample list \<Rightarrow> ErrorSample list" where
  "sort_errors es = sort_key es_At es"

lemma sort_events_props [simp]:
  "time_ordered (sort_events evs)" "mset (sort_events evs) = mset evs"
  "set (sort_events evs) = set evs" "length (sort_events evs) = length evs"
  by (simp_all add: sort_events_def time_ordered_def)

lemma sort_errors_props [simp]:
  "errors_ordered (sort_errors es)" "mset (sort_errors es) = mset es"
  "set (sort_errors es) = set es" "length (sort_errors es) = length es"
  by (simp_all add: sort_errors_def errors_ordered_def)

lemma near_some_mset: "mset evs = mset evs' \<Longrightarrow> near_some lb w evs = near_some lb w evs'"
  by (auto simp: near_some_def fun_eq_iff dest: mset_eq_setD)

text \<open>\<^verbatim>\<open>totalWindow\<close> of both analyzers: the span of an ordered error stream.\<close>

definition totalWindow :: "ErrorSample list \<Rightarrow> duration" where
  "totalWindow samples =
     (if length samples < 2 then 0 else time_Sub (es_At (last samples)) (es_At (hd samples)))"

lemma totalWindow_nonneg: "errors_ordered es \<Longrightarrow> 0 \<le> totalWindow es"
proof -
  assume a: "errors_ordered es"
  show ?thesis
  proof (cases "length es < 2")
    case False
    then have "es_At (hd es) \<le> es_At (last es)"
      using a sorted_nth_mono[of "map es_At es" 0 "length es - 1"]
      by (cases es) (auto simp: errors_ordered_def hd_conv_nth last_conv_nth)
    then show ?thesis using False by (simp add: totalWindow_def)
  qed (simp add: totalWindow_def)
qed

end
