(* ===== verification/Leakage.thy ===== *)
theory Leakage
  imports Correlation
begin

text \<open>
  \<^verbatim>\<open>internal/analyzer/leakage/leakage.go\<close>: the cold-start leakage detector. The scan is
  shown to be an instance of the two-pointer contract, which gives the reference semantics of
  \<^verbatim>\<open>Correlate\<close>: leaked requests are exactly the failures inside the leakage window of some
  Ready event.
\<close>

section \<open>Model\<close>

definition DefaultLeakageWindow :: duration where "DefaultLeakageWindow = 2 * Second"

definition criticalLeakedCount :: nat where "criticalLeakedCount = 50"

record CorrelatedEvent =
  ce_Event :: EndpointEvent
  ce_Errors :: "ErrorSample list"

record LeakageReport =
  lr_Window :: duration
  lr_LeakageWindow :: duration
  lr_LeakedRequests :: nat
  lr_CleanRequests :: nat
  lr_Correlated :: "CorrelatedEvent list"
  lr_EndpointEventCount :: nat

text \<open>The inner loop: skip events whose window closed before the error.\<close>

function leakage_advance :: "EndpointEvent list \<Rightarrow> duration \<Rightarrow> time \<Rightarrow> nat \<Rightarrow> nat" where
  "leakage_advance evs w t j =
     (if j < length evs \<and> \<not> time_Before t (time_Add (ev_At (evs ! j)) w)
      then leakage_advance evs w t (Suc j) else j)"
  by pat_completeness auto
termination
  by (relation "measure (\<lambda>(evs, w, t, j). length evs - j)") auto

declare leakage_advance.simps [simp del]

definition leakage_append :: "CorrelatedEvent \<Rightarrow> ErrorSample \<Rightarrow> CorrelatedEvent" where
  "leakage_append c e = c\<lparr>ce_Errors := ce_Errors c @ [e]\<rparr>"

text \<open>The outer loop over the sorted errors; the triple is
  (\<^verbatim>\<open>correlated\<close>, \<^verbatim>\<open>r.CleanRequests\<close>, \<^verbatim>\<open>r.LeakedRequests\<close>).\<close>

fun leakage_scan :: "EndpointEvent list \<Rightarrow> duration \<Rightarrow> ErrorSample list \<Rightarrow> nat \<Rightarrow>
    CorrelatedEvent list \<times> nat \<times> nat \<Rightarrow> CorrelatedEvent list \<times> nat \<times> nat" where
  "leakage_scan evs w [] j st = st"
| "leakage_scan evs w (e # es) j (corr, clean, leaked) =
     (let j' = leakage_advance evs w (es_At e) j in
      if j' \<ge> length evs \<or> time_Before (es_At e) (ev_At (evs ! j'))
      then leakage_scan evs w es j' (corr, Suc clean, leaked)
      else leakage_scan evs w es j' (corr[j' := leakage_append (corr ! j') e], clean, Suc leaked))"

definition leakage_correlate_sorted ::
  "EndpointEvent list \<Rightarrow> ErrorSample list \<Rightarrow> duration \<Rightarrow> LeakageReport" where
  "leakage_correlate_sorted readyEvents sortedErrors w =
     (if readyEvents = []
      then \<lparr>lr_Window = totalWindow sortedErrors, lr_LeakageWindow = w, lr_LeakedRequests = 0,
            lr_CleanRequests = length sortedErrors, lr_Correlated = [], lr_EndpointEventCount = 0\<rparr>
      else let (corr, clean, leaked) =
                 leakage_scan readyEvents w sortedErrors 0
                   (map (\<lambda>ev. \<lparr>ce_Event = ev, ce_Errors = []\<rparr>) readyEvents, 0, 0)
           in \<lparr>lr_Window = totalWindow sortedErrors, lr_LeakageWindow = w, lr_LeakedRequests = leaked,
               lr_CleanRequests = clean, lr_Correlated = corr,
               lr_EndpointEventCount = length readyEvents\<rparr>)"

definition leakage_window :: "duration \<Rightarrow> duration" where
  "leakage_window w = (if w \<le> 0 then DefaultLeakageWindow else w)"

definition ready_events :: "EndpointEvent list \<Rightarrow> EndpointEvent list" where
  "ready_events evs = filter (\<lambda>e. ev_Kind e = EndpointReady) evs"

definition leakage_Correlate ::
  "EndpointEvent list \<Rightarrow> ErrorSample list \<Rightarrow> duration \<Rightarrow> LeakageReport" where
  "leakage_Correlate events errors w =
     leakage_correlate_sorted (sort_events (ready_events events)) (sort_errors errors) (leakage_window w)"

definition leakage_Diagnostics :: "LeakageReport \<Rightarrow> DiagnosticAlert list" where
  "leakage_Diagnostics r =
     (if lr_LeakedRequests r = 0 then []
      else [\<lparr>alert_Type = ''ColdStartLeakage'',
             alert_Severity = (if lr_LeakedRequests r \<ge> criticalLeakedCount then SeverityCritical
                               else SeverityWarning),
             alert_Message = [D (int (lr_LeakedRequests r)), L '' failed requests landed within '',
                Dur (lr_LeakageWindow r), L '' of an endpoint becoming Ready (across '',
                D (int (lr_EndpointEventCount r)), L '' ready events)''],
             alert_Recommendation = [L ''add readinessProbe.initialDelaySeconds or a startupProbe; verify the application returns 503 until warmup completes; check kube-proxy iptables sync latency'']\<rparr>])"

section \<open>The scan is the two-pointer scan\<close>

interpretation leak: two_pointer 0 leakage_advance leakage_scan leakage_append ce_Event ce_Errors
proof
  show "leakage_advance evs w t j =
      (if j < length evs \<and> \<not> t < ev_At (evs ! j) + w then leakage_advance evs w t (Suc j) else j)"
    for evs w t j by (subst leakage_advance.simps) (simp add: time_defs)
qed (simp_all add: time_defs leakage_append_def)

lemma leakage_sorted_counts:
  assumes "time_ordered evs" "errors_ordered es"
  shows "lr_LeakedRequests (leakage_correlate_sorted evs es w) = length (filter (near_some 0 w evs) es)"
    and "lr_CleanRequests (leakage_correlate_sorted evs es w) =
           length (filter (\<lambda>e. \<not> near_some 0 w evs e) es)"
proof -
  obtain c cl l where s: "leakage_scan evs w es 0
      (map (\<lambda>ev. \<lparr>ce_Event = ev, ce_Errors = []\<rparr>) evs, 0, 0) = (c, cl, l)"
    using prod_cases3 by blast
  show "lr_LeakedRequests (leakage_correlate_sorted evs es w) = length (filter (near_some 0 w evs) es)"
    "lr_CleanRequests (leakage_correlate_sorted evs es w) =
       length (filter (\<lambda>e. \<not> near_some 0 w evs e) es)"
    using leak.scan_from_start(1,2)[OF assms _ s]
    by (auto simp: leakage_correlate_sorted_def s near_some_def)
qed

lemma leakage_event_count [simp]:
  "lr_EndpointEventCount (leakage_correlate_sorted evs es w) = length evs"
  by (simp add: leakage_correlate_sorted_def split: prod.split)

lemma leakage_window_pos [simp]: "0 < leakage_window w"
  by (simp add: leakage_window_def DefaultLeakageWindow_def)

lemma leakage_counts:
  "lr_LeakedRequests (leakage_Correlate events errors w) =
     length (filter (near_some 0 (leakage_window w) (ready_events events)) errors)
   \<and> lr_CleanRequests (leakage_Correlate events errors w) =
     length (filter (\<lambda>e. \<not> near_some 0 (leakage_window w) (ready_events events) e) errors)
   \<and> lr_LeakedRequests (leakage_Correlate events errors w)
       + lr_CleanRequests (leakage_Correlate events errors w) = length errors"
proof -
  have ns: "near_some 0 (leakage_window w) (sort_events (ready_events events)) =
      near_some 0 (leakage_window w) (ready_events events)"
    by (rule near_some_mset) simp
  have len: "length (filter P (sort_errors errors)) = length (filter P errors)" for P
    by (rule length_filter_mset) simp
  show ?thesis
    using length_filter_compl[of "near_some 0 (leakage_window w) (ready_events events)" errors]
    by (simp add: leakage_Correlate_def leakage_sorted_counts ns len)
qed

section \<open>Properties\<close>

text \<open>C18. Correctness of the leakage correlator against the quadratic reference: whatever the
  order of its inputs, \<^verbatim>\<open>Correlate\<close> reports as leaked exactly the failed requests that lie
  in the leakage window of at least one Ready event, reports the others as clean, and counts
  every failed request once.\<close>

theorem leakage_Correlate_counts:
  "lr_LeakedRequests (leakage_Correlate events errors w) =
     length (filter (near_some 0 (leakage_window w) (ready_events events)) errors)
   \<and> lr_CleanRequests (leakage_Correlate events errors w) =
     length (filter (\<lambda>e. \<not> near_some 0 (leakage_window w) (ready_events events) e) errors)
   \<and> lr_LeakedRequests (leakage_Correlate events errors w)
       + lr_CleanRequests (leakage_Correlate events errors w) = length errors"
  by (rule leakage_counts)

text \<open>The per-event breakdown: on streams in time order, entry \<open>k\<close> of
  \<^verbatim>\<open>Correlated\<close> carries the \<open>k\<close>-th event and exactly those leaked failures whose
  earliest still-open event is the \<open>k\<close>-th, in order; the two-pointer scan never revisits an
  event.\<close>

theorem leakage_breakdown:
  assumes "time_ordered evs" "errors_ordered es" "k < length evs"
  shows "length (lr_Correlated (leakage_correlate_sorted evs es w)) = length evs
    \<and> ce_Event (lr_Correlated (leakage_correlate_sorted evs es w) ! k) = evs ! k
    \<and> ce_Errors (lr_Correlated (leakage_correlate_sorted evs es w) ! k) =
        filter (\<lambda>e. near_some 0 w evs e \<and> open_index evs w (es_At e) = k) es"
proof -
  let ?init = "map (\<lambda>ev. \<lparr>ce_Event = ev, ce_Errors = []\<rparr>) evs"
  obtain c cl l where s: "leakage_scan evs w es 0 (?init, 0, 0) = (c, cl, l)"
    using prod_cases3 by blast
  have ne: "evs \<noteq> []" using assms(3) by auto
  show ?thesis
    using leak.scan_from_start(4)[OF assms(1,2) _ s]
      leak.scan_from_start(5,6)[OF assms(1,2) _ s, where k = k] assms(3) ne
    by (simp add: leakage_correlate_sorted_def s)
qed

text \<open>Two Ready events one second apart, window two seconds: the second failure falls in both
  windows and goes to the earlier event.\<close>

definition leak_demo_events :: "EndpointEvent list" where
  "leak_demo_events = [\<lparr>ev_At = 0, ev_PodIP = ''a'', ev_Kind = EndpointReady\<rparr>,
                       \<lparr>ev_At = 10, ev_PodIP = ''b'', ev_Kind = EndpointReady\<rparr>]"

definition leak_demo_errors :: "ErrorSample list" where
  "leak_demo_errors = [\<lparr>es_At = 5, es_Category = ''Dial'', es_Status = 0\<rparr>,
                       \<lparr>es_At = 12, es_Category = ''Dial'', es_Status = 0\<rparr>,
                       \<lparr>es_At = 22, es_Category = ''Dial'', es_Status = 0\<rparr>]"

theorem leakage_breakdown_witness:
  "time_ordered leak_demo_events \<and> errors_ordered leak_demo_errors \<and> 0 < length leak_demo_events
   \<and> ce_Errors (lr_Correlated (leakage_correlate_sorted leak_demo_events leak_demo_errors 20) ! 0) =
       [\<lparr>es_At = 5, es_Category = ''Dial'', es_Status = 0\<rparr>,
        \<lparr>es_At = 12, es_Category = ''Dial'', es_Status = 0\<rparr>]"
proof -
  have 1: "time_ordered leak_demo_events" by (simp add: time_ordered_def leak_demo_events_def)
  have 2: "errors_ordered leak_demo_errors" by (simp add: errors_ordered_def leak_demo_errors_def)
  have 3: "0 < length leak_demo_events" by (simp add: leak_demo_events_def)
  show ?thesis
    using 1 2 3 leakage_breakdown[OF 1 2 3, where w = 20]
    by (simp add: leak_demo_events_def leak_demo_errors_def near_some_def in_window_def open_index_def)
qed

text \<open>\<^verbatim>\<open>sort.Slice\<close> is unstable, so the code may process any time-ordered permutation of
  its inputs: the leaked and clean counts, and with them the alert and its severity, are the same
  for every such permutation.\<close>

theorem leakage_sort_independent:
  assumes "mset evs = mset (ready_events events)" "time_ordered evs"
    and "mset es = mset errors" "errors_ordered es"
  shows "leakage_Diagnostics (leakage_correlate_sorted evs es (leakage_window w)) =
         leakage_Diagnostics (leakage_Correlate events errors w)"
proof -
  let ?a = "leakage_correlate_sorted evs es (leakage_window w)"
  let ?b = "leakage_Correlate events errors w"
  have ns: "near_some 0 (leakage_window w) evs = near_some 0 (leakage_window w) (ready_events events)"
    using assms(1) by (rule near_some_mset)
  have "lr_LeakedRequests ?a = lr_LeakedRequests ?b"
    using leakage_counts[of events errors w] length_filter_mset[OF assms(3)]
    by (simp add: leakage_sorted_counts(1)[OF assms(2,4)] ns)
  moreover have "lr_EndpointEventCount ?a = lr_EndpointEventCount ?b"
    using mset_eq_length[OF assms(1)] assms(1)
    by (simp add: leakage_Correlate_def)
  moreover have "lr_LeakageWindow ?a = lr_LeakageWindow ?b"
    by (simp add: leakage_Correlate_def leakage_correlate_sorted_def split: prod.split)
  ultimately show ?thesis by (simp add: leakage_Diagnostics_def)
qed

theorem leakage_sort_independent_witness:
  "leakage_Diagnostics (leakage_correlate_sorted leak_demo_events leak_demo_errors (leakage_window 20)) =
   leakage_Diagnostics (leakage_Correlate (rev leak_demo_events) (rev leak_demo_errors) 20)"
  by (rule leakage_sort_independent)
    (simp_all add: leak_demo_events_def leak_demo_errors_def ready_events_def time_ordered_def
      errors_ordered_def)

end
