(* ===== verification/Drain.thy ===== *)
theory Drain
  imports Correlation
begin

text \<open>
  \<^verbatim>\<open>internal/analyzer/drain/drain.go\<close>: ungraceful-shutdown detection. The same two-pointer
  contract, with the window opened \<^verbatim>\<open>DefaultLookback\<close> before the removal.
\<close>

section \<open>Model\<close>

definition DefaultDrainWindow :: duration where "DefaultDrainWindow = 10 * Second"
definition DefaultLookback :: duration where "DefaultLookback = 2 * Second"
definition criticalDroppedCount :: nat where "criticalDroppedCount = 25"

record CorrelatedRemoval =
  cr_Event :: EndpointEvent
  cr_Errors :: "ErrorSample list"

record DrainReport =
  dr_DrainWindow :: duration
  dr_Window :: duration
  dr_DroppedRequests :: nat
  dr_CleanRequests :: nat
  dr_Correlated :: "CorrelatedRemoval list"
  dr_RemovalCount :: nat

function drain_advance :: "EndpointEvent list \<Rightarrow> duration \<Rightarrow> time \<Rightarrow> nat \<Rightarrow> nat" where
  "drain_advance evs w t j =
     (if j < length evs \<and> \<not> time_Before t (time_Add (ev_At (evs ! j)) w)
      then drain_advance evs w t (Suc j) else j)"
  by pat_completeness auto
termination
  by (relation "measure (\<lambda>(evs, w, t, j). length evs - j)") auto

declare drain_advance.simps [simp del]

definition drain_append :: "CorrelatedRemoval \<Rightarrow> ErrorSample \<Rightarrow> CorrelatedRemoval" where
  "drain_append c e = c\<lparr>cr_Errors := cr_Errors c @ [e]\<rparr>"

fun drain_scan :: "EndpointEvent list \<Rightarrow> duration \<Rightarrow> ErrorSample list \<Rightarrow> nat \<Rightarrow>
    CorrelatedRemoval list \<times> nat \<times> nat \<Rightarrow> CorrelatedRemoval list \<times> nat \<times> nat" where
  "drain_scan evs w [] j st = st"
| "drain_scan evs w (e # es) j (corr, clean, dropped) =
     (let j' = drain_advance evs w (es_At e) j in
      if j' \<ge> length evs \<or> time_Before (es_At e) (time_Add (ev_At (evs ! j')) (- DefaultLookback))
      then drain_scan evs w es j' (corr, Suc clean, dropped)
      else drain_scan evs w es j' (corr[j' := drain_append (corr ! j') e], clean, Suc dropped))"

definition drain_correlate_sorted ::
  "EndpointEvent list \<Rightarrow> ErrorSample list \<Rightarrow> duration \<Rightarrow> DrainReport" where
  "drain_correlate_sorted removals sorted_es w =
     (if removals = []
      then \<lparr>dr_DrainWindow = w, dr_Window = totalWindow sorted_es, dr_DroppedRequests = 0,
            dr_CleanRequests = length sorted_es, dr_Correlated = [], dr_RemovalCount = 0\<rparr>
      else let (corr, clean, dropped) =
                 drain_scan removals w sorted_es 0
                   (map (\<lambda>ev. \<lparr>cr_Event = ev, cr_Errors = []\<rparr>) removals, 0, 0)
           in \<lparr>dr_DrainWindow = w, dr_Window = totalWindow sorted_es, dr_DroppedRequests = dropped,
               dr_CleanRequests = clean, dr_Correlated = corr, dr_RemovalCount = length removals\<rparr>)"

definition drain_window :: "duration \<Rightarrow> duration" where
  "drain_window w = (if w \<le> 0 then DefaultDrainWindow else w)"

definition removal_events :: "EndpointEvent list \<Rightarrow> EndpointEvent list" where
  "removal_events evs = filter (\<lambda>e. ev_Kind e = EndpointRemoved) evs"

definition drain_Correlate :: "EndpointEvent list \<Rightarrow> ErrorSample list \<Rightarrow> duration \<Rightarrow> DrainReport" where
  "drain_Correlate events errors w =
     drain_correlate_sorted (sort_events (removal_events events)) (sort_errors errors) (drain_window w)"

definition drain_Diagnostics :: "DrainReport \<Rightarrow> DiagnosticAlert list" where
  "drain_Diagnostics r =
     (if dr_DroppedRequests r = 0 then []
      else [\<lparr>alert_Type = ''UngracefulDrain'',
             alert_Severity = (if dr_DroppedRequests r \<ge> criticalDroppedCount then SeverityCritical
                               else SeverityWarning),
             alert_Message = [D (int (dr_DroppedRequests r)), L '' requests failed within '',
                Dur (dr_DrainWindow r), L '' of a pod endpoint being removed (across '',
                D (int (dr_RemovalCount r)), L '' removals)''],
             alert_Recommendation = [L ''add a preStop hook that sleeps past the kube-proxy sync interval, raise terminationGracePeriodSeconds, and ensure the app keeps draining in-flight requests after SIGTERM'']\<rparr>])"

section \<open>The scan is the two-pointer scan\<close>

interpretation drain: two_pointer DefaultLookback drain_advance drain_scan drain_append cr_Event cr_Errors
proof
  show "drain_advance evs w t j =
      (if j < length evs \<and> \<not> t < ev_At (evs ! j) + w then drain_advance evs w t (Suc j) else j)"
    for evs w t j by (subst drain_advance.simps) (simp add: time_defs)
qed (simp_all add: time_defs drain_append_def)

lemma drain_sorted_counts:
  assumes "time_ordered evs" "errors_ordered es"
  shows "dr_DroppedRequests (drain_correlate_sorted evs es w) =
           length (filter (near_some DefaultLookback w evs) es)"
    and "dr_CleanRequests (drain_correlate_sorted evs es w) =
           length (filter (\<lambda>e. \<not> near_some DefaultLookback w evs e) es)"
proof -
  obtain c cl l where s: "drain_scan evs w es 0
      (map (\<lambda>ev. \<lparr>cr_Event = ev, cr_Errors = []\<rparr>) evs, 0, 0) = (c, cl, l)"
    using prod_cases3 by blast
  show "dr_DroppedRequests (drain_correlate_sorted evs es w) =
      length (filter (near_some DefaultLookback w evs) es)"
    "dr_CleanRequests (drain_correlate_sorted evs es w) =
       length (filter (\<lambda>e. \<not> near_some DefaultLookback w evs e) es)"
    using drain.scan_from_start(1,2)[OF assms _ s]
    by (auto simp: drain_correlate_sorted_def s near_some_def)
qed

lemma drain_counts:
  "dr_DroppedRequests (drain_Correlate events errors w) =
     length (filter (near_some DefaultLookback (drain_window w) (removal_events events)) errors)"
  "dr_CleanRequests (drain_Correlate events errors w) =
     length (filter (\<lambda>e. \<not> near_some DefaultLookback (drain_window w) (removal_events events) e) errors)"
proof -
  have ns: "near_some DefaultLookback (drain_window w) (sort_events (removal_events events)) =
      near_some DefaultLookback (drain_window w) (removal_events events)"
    by (rule near_some_mset) simp
  have len: "length (filter P (sort_errors errors)) = length (filter P errors)" for P
    by (rule length_filter_mset) simp
  show "dr_DroppedRequests (drain_Correlate events errors w) =
      length (filter (near_some DefaultLookback (drain_window w) (removal_events events)) errors)"
    "dr_CleanRequests (drain_Correlate events errors w) =
      length (filter (\<lambda>e. \<not> near_some DefaultLookback (drain_window w) (removal_events events) e) errors)"
    by (simp_all add: drain_Correlate_def drain_sorted_counts ns len)
qed

section \<open>Properties\<close>


end
