(* ===== verification/Hpa_Watcher.thy ===== *)
theory Hpa_Watcher
  imports Api_Types
begin

text \<open>
  \<^verbatim>\<open>internal/analyzer/hpa/hpa.go\<close>: the HPA reaction-latency watcher. The watcher keeps
  running answers (\<^verbatim>\<open>maxRepl\<close>, \<^verbatim>\<open>reactAt\<close>, \<^verbatim>\<open>settleAt\<close>) updated by
  \<^verbatim>\<open>Record\<close>; the abstract specification computes them from the whole sample list, and the
  refinement says the incremental state always agrees with it.
\<close>

section \<open>Model\<close>

record HPACondition =
  hc_Type :: string
  hc_Status :: string
  hc_Message :: string

record Snapshot =
  sn_At :: time
  sn_CurrentReplicas :: int
  sn_DesiredReplicas :: int
  sn_MinReplicas :: int
  sn_MaxReplicas :: int
  sn_Conditions :: "HPACondition list"

record Watcher =
  w_sla :: duration
  w_initial :: Snapshot
  w_samples :: "Snapshot list"
  w_maxRepl :: int
  w_settleAt :: "time option"
  w_reactAt :: "time option"

definition hpa_New :: "Snapshot \<Rightarrow> duration \<Rightarrow> Watcher" where
  "hpa_New initial sla =
     \<lparr>w_sla = sla, w_initial = initial, w_samples = [initial],
      w_maxRepl = sn_CurrentReplicas initial, w_settleAt = None, w_reactAt = None\<rparr>"

definition hpa_Record :: "Watcher \<Rightarrow> Snapshot \<Rightarrow> Watcher" where
  "hpa_Record w s =
     (let w1 = w\<lparr>w_samples := w_samples w @ [s]\<rparr>;
          w2 = (if sn_CurrentReplicas s > w_maxRepl w1 then w1\<lparr>w_maxRepl := sn_CurrentReplicas s\<rparr> else w1);
          w3 = (if w_reactAt w2 = None \<and> sn_CurrentReplicas s > sn_CurrentReplicas (w_initial w2)
                then w2\<lparr>w_reactAt := Some (sn_At s)\<rparr> else w2);
          w4 = (if w_reactAt w3 \<noteq> None \<and> w_settleAt w3 = None
                   \<and> sn_DesiredReplicas s > sn_CurrentReplicas (w_initial w3)
                   \<and> sn_CurrentReplicas s \<ge> sn_DesiredReplicas s
                then w3\<lparr>w_settleAt := Some (sn_At s)\<rparr> else w3)
      in w4)"

record HpaReport =
  hr_Started :: time
  hr_Ended :: time
  hr_StartReplicas :: int
  hr_PeakReplicas :: int
  hr_DesiredReplicas :: int
  hr_ReactionLatency :: duration
  hr_SettleLatency :: duration
  hr_SLA :: duration
  hr_SLABreached :: bool
  hr_Reacted :: bool
  hr_Settled :: bool
  hr_LatestConditions :: "HPACondition list"

text \<open>The zero value of \<^verbatim>\<open>Report{SLA: w.sla}\<close>; \<^verbatim>\<open>time.Time{}\<close> is taken as instant 0.\<close>

definition hpa_empty_report :: "duration \<Rightarrow> HpaReport" where
  "hpa_empty_report sla =
     \<lparr>hr_Started = 0, hr_Ended = 0, hr_StartReplicas = 0, hr_PeakReplicas = 0, hr_DesiredReplicas = 0,
      hr_ReactionLatency = 0, hr_SettleLatency = 0, hr_SLA = sla, hr_SLABreached = False,
      hr_Reacted = False, hr_Settled = False, hr_LatestConditions = []\<rparr>"

definition hpa_Report :: "Watcher \<Rightarrow> HpaReport" where
  "hpa_Report w =
     (if w_samples w = [] then hpa_empty_report (w_sla w)
      else
        let lst = last (w_samples w);
            r = \<lparr>hr_Started = sn_At (w_initial w), hr_Ended = sn_At lst,
                 hr_StartReplicas = sn_CurrentReplicas (w_initial w), hr_PeakReplicas = w_maxRepl w,
                 hr_DesiredReplicas = sn_DesiredReplicas lst,
                 hr_ReactionLatency = 0, hr_SettleLatency = 0, hr_SLA = w_sla w,
                 hr_SLABreached = False, hr_Reacted = False, hr_Settled = False,
                 hr_LatestConditions = sn_Conditions lst\<rparr>;
            r = (case w_reactAt w of None \<Rightarrow> r
                 | Some t \<Rightarrow> r\<lparr>hr_ReactionLatency := time_Sub t (sn_At (w_initial w)), hr_Reacted := True\<rparr>);
            r = (case w_settleAt w of None \<Rightarrow> r
                 | Some t \<Rightarrow> r\<lparr>hr_SettleLatency := time_Sub t (sn_At (w_initial w)), hr_Settled := True\<rparr>)
        in if w_sla w \<le> 0 then r
           else if \<not> hr_Settled r then
             (if time_Sub (hr_Ended r) (hr_Started r) \<ge> w_sla w then r\<lparr>hr_SLABreached := True\<rparr> else r)
           else if hr_SettleLatency r > w_sla w then r\<lparr>hr_SLABreached := True\<rparr>
           else r)"

definition hpa_condition_alerts :: "HPACondition \<Rightarrow> DiagnosticAlert list" where
  "hpa_condition_alerts c =
     (if hc_Type c = ''ScalingLimited'' \<and> hc_Status c = ''True'' then
        [\<lparr>alert_Type = ''HPAScalingLimited'', alert_Severity = ''Warning'',
          alert_Message = [L ''HPA ScalingLimited=True: '', L (hc_Message c)],
          alert_Recommendation = [L ''raise the HPA maxReplicas, or address the upstream cap reported by HPA'']\<rparr>]
      else if hc_Type c = ''AbleToScale'' \<and> hc_Status c = ''False'' then
        [\<lparr>alert_Type = ''HPAUnableToScale'', alert_Severity = ''Critical'',
          alert_Message = [L ''HPA AbleToScale=False: '', L (hc_Message c)],
          alert_Recommendation = [L ''check HPA target ref kind/name, scale subresource availability, and RBAC for the HPA controller'']\<rparr>]
      else [])"

definition hpa_Diagnostics :: "HpaReport \<Rightarrow> DiagnosticAlert list" where
  "hpa_Diagnostics r =
     (if hr_SLABreached r then
        [\<lparr>alert_Type = ''HPAScaleLatency'', alert_Severity = ''Critical'',
          alert_Message = [L ''HPA did not converge within SLA: settle='', Dur (hr_SettleLatency r),
             L '', reaction='', Dur (hr_ReactionLatency r), L '', SLA='', Dur (hr_SLA r),
             L '', replicas '', D (hr_StartReplicas r), L ('' '' @ [CHR 0xE2, CHR 0x86, CHR 0x92] @ '' ''), D (hr_PeakReplicas r),
             L '' (desired '', D (hr_DesiredReplicas r), L '')''],
          alert_Recommendation = [L ''tune HPA stabilization window, behavior policies, or metrics provider scrape interval'']\<rparr>]
      else []) @
     (if \<not> hr_Reacted r \<and> hr_DesiredReplicas r > hr_StartReplicas r then
        [\<lparr>alert_Type = ''HPANoReaction'', alert_Severity = ''Warning'',
          alert_Message = [L ''HPA observed desired='', D (hr_DesiredReplicas r),
             L '' but currentReplicas never increased from '', D (hr_StartReplicas r), L '' during the window''],
          alert_Recommendation = [L ''verify metrics server / external metrics adapter is reporting and HPA targetUtilization is reachable'']\<rparr>]
      else []) @
     concat (map hpa_condition_alerts (hr_LatestConditions r))"

section \<open>Specification\<close>

text \<open>Feeding a watcher a list of later snapshots.\<close>

definition hpa_run :: "Snapshot \<Rightarrow> duration \<Rightarrow> Snapshot list \<Rightarrow> Watcher" where
  "hpa_run initial sla ss = foldl hpa_Record (hpa_New initial sla) ss"

definition scaled_up :: "Snapshot \<Rightarrow> Snapshot \<Rightarrow> bool" where
  "scaled_up initial s \<longleftrightarrow> sn_CurrentReplicas s > sn_CurrentReplicas initial"

definition converged :: "Snapshot \<Rightarrow> Snapshot \<Rightarrow> bool" where
  "converged initial s \<longleftrightarrow>
     sn_DesiredReplicas s > sn_CurrentReplicas initial \<and> sn_CurrentReplicas s \<ge> sn_DesiredReplicas s"

text \<open>The first sample above the starting replica count, and the first sample from then on that
  has reached a raised target, read off the whole list.\<close>

definition spec_react :: "Snapshot \<Rightarrow> Snapshot list \<Rightarrow> time option" where
  "spec_react initial ss = map_option sn_At (List.find (scaled_up initial) ss)"

definition spec_settle :: "Snapshot \<Rightarrow> Snapshot list \<Rightarrow> time option" where
  "spec_settle initial ss =
     map_option sn_At (List.find (converged initial) (dropWhile (\<lambda>s. \<not> scaled_up initial s) ss))"

lemma converged_scaled_up: "converged initial s \<Longrightarrow> scaled_up initial s"
  by (simp add: converged_def scaled_up_def)

lemma find_snoc: "List.find P (xs @ [x]) =
    (case List.find P xs of None \<Rightarrow> if P x then Some x else None | Some y \<Rightarrow> Some y)"
  by (induction xs) auto

text \<open>Since convergence implies a scale-up, the settle time is the first converged sample.\<close>

lemma spec_settle_alt: "spec_settle initial ss = map_option sn_At (List.find (converged initial) ss)"
proof -
  have "List.find (converged initial) (dropWhile (\<lambda>s. \<not> scaled_up initial s) ss) =
        List.find (converged initial) ss"
    by (induction ss) (auto dest: converged_scaled_up)
  then show ?thesis by (simp add: spec_settle_def)
qed

section \<open>Refinement\<close>

definition hpa_inv :: "Snapshot \<Rightarrow> duration \<Rightarrow> Snapshot list \<Rightarrow> Watcher \<Rightarrow> bool" where
  "hpa_inv initial sla ss w \<longleftrightarrow>
     w_sla w = sla \<and> w_initial w = initial \<and> w_samples w = initial # ss
     \<and> w_maxRepl w = Max (set (map sn_CurrentReplicas (initial # ss)))
     \<and> w_reactAt w = spec_react initial ss \<and> w_settleAt w = spec_settle initial ss"

lemma hpa_inv_New: "hpa_inv initial sla [] (hpa_New initial sla)"
  by (simp add: hpa_inv_def hpa_New_def spec_react_def spec_settle_def)

lemma hpa_Record_fields:
  "w_sla (hpa_Record w s) = w_sla w" "w_initial (hpa_Record w s) = w_initial w"
  "w_samples (hpa_Record w s) = w_samples w @ [s]"
  "w_maxRepl (hpa_Record w s) = max (w_maxRepl w) (sn_CurrentReplicas s)"
  "w_reactAt (hpa_Record w s) =
     (case w_reactAt w of None \<Rightarrow> if scaled_up (w_initial w) s then Some (sn_At s) else None
      | Some t \<Rightarrow> Some t)"
  "w_settleAt (hpa_Record w s) =
     (case w_settleAt w of
        None \<Rightarrow> if w_reactAt (hpa_Record w s) \<noteq> None \<and> converged (w_initial w) s then Some (sn_At s) else None
      | Some t \<Rightarrow> Some t)"
  by (auto simp: hpa_Record_def Let_def scaled_up_def converged_def split: option.splits)

lemma hpa_inv_Record:
  assumes "hpa_inv initial sla ss w"
  shows "hpa_inv initial sla (ss @ [s]) (hpa_Record w s)"
proof -
  have react: "w_reactAt (hpa_Record w s) = spec_react initial (ss @ [s])"
    using assms by (auto simp: hpa_inv_def hpa_Record_fields spec_react_def find_snoc split: option.splits)
  have "converged initial s \<Longrightarrow> spec_react initial (ss @ [s]) \<noteq> None"
    by (auto simp: spec_react_def find_snoc dest: converged_scaled_up split: option.splits)
  then have "w_settleAt (hpa_Record w s) = spec_settle initial (ss @ [s])"
    using assms react
    by (auto simp: hpa_inv_def hpa_Record_fields(6) spec_settle_alt find_snoc split: option.splits)
  moreover have "Max (set (map sn_CurrentReplicas (initial # ss @ [s]))) =
      max (Max (set (map sn_CurrentReplicas (initial # ss)))) (sn_CurrentReplicas s)"
  proof -
    have "set (map sn_CurrentReplicas (initial # ss @ [s])) =
        insert (sn_CurrentReplicas s) (set (map sn_CurrentReplicas (initial # ss)))" by auto
    then show ?thesis by (subst max.commute, simp only:) (rule Max_insert, auto)
  qed
  ultimately show ?thesis using assms react by (simp add: hpa_inv_def hpa_Record_fields)
qed

lemma hpa_inv_run: "hpa_inv initial sla ss (hpa_run initial sla ss)"
  by (induction ss rule: rev_induct)
    (auto simp: hpa_run_def hpa_inv_New intro: hpa_inv_Record)

lemma hpa_report_run:
  "hr_Reacted (hpa_Report (hpa_run i sla ss)) \<longleftrightarrow> (\<exists>s\<in>set ss. scaled_up i s)"
  "hr_Settled (hpa_Report (hpa_run i sla ss)) \<longleftrightarrow> (\<exists>s\<in>set ss. converged i s)"
  using hpa_inv_run[of i sla ss]
  by (auto simp: hpa_inv_def hpa_Report_def Let_def spec_react_def spec_settle_alt
      find_None_iff find_Some_iff split: option.splits)

lemma SLABreached_spec:
  "hr_SLABreached (hpa_Report (hpa_run initial sla ss)) \<longleftrightarrow>
     0 < sla \<and>
     (case List.find (converged initial) ss of
        Some s \<Rightarrow> sla < time_Sub (sn_At s) (sn_At initial)
      | None \<Rightarrow> sla \<le> time_Sub (sn_At (last (initial # ss))) (sn_At initial))"
  using hpa_inv_run[of initial sla ss]
  by (auto simp: hpa_inv_def hpa_Report_def Let_def spec_settle_alt split: option.splits)

section \<open>Properties\<close>


text \<open>The SLA verdict: with an SLA configured, a run is flagged as a breach exactly when it
  converged too late, or never converged although the observation window lasted at least the
  SLA; without an SLA it is never flagged.\<close>

theorem hpa_SLABreached_iff:
  "hr_SLABreached (hpa_Report (hpa_run initial sla ss)) \<longleftrightarrow>
     0 < sla \<and>
     (case List.find (converged initial) ss of
        Some s \<Rightarrow> sla < time_Sub (sn_At s) (sn_At initial)
      | None \<Rightarrow> sla \<le> time_Sub (sn_At (last (initial # ss))) (sn_At initial))"
  by (rule SLABreached_spec)

text \<open>The Critical latency alert is raised exactly on a breach, and the no-reaction warning
  exactly when the HPA wanted more replicas at the end of a window in which the replica count
  never rose.\<close>

theorem hpa_alerts_iff:
  "(''HPAScaleLatency'' \<in> alert_Type ` set (hpa_Diagnostics r) \<longleftrightarrow> hr_SLABreached r)
   \<and> (''HPANoReaction'' \<in> alert_Type ` set (hpa_Diagnostics (hpa_Report (hpa_run i sla ss))) \<longleftrightarrow>
        \<not> (\<exists>s\<in>set ss. scaled_up i s)
        \<and> sn_DesiredReplicas (last (i # ss)) > sn_CurrentReplicas i)"
proof -
  have cond: "alert_Type ` set (hpa_condition_alerts c) \<subseteq> {''HPAScalingLimited'', ''HPAUnableToScale''}" for c
    by (auto simp: hpa_condition_alerts_def)
  have "''HPAScaleLatency'' \<notin> alert_Type ` set (concat (map hpa_condition_alerts cs))"
    "''HPANoReaction'' \<notin> alert_Type ` set (concat (map hpa_condition_alerts cs))" for cs
    using cond by fastforce+
  moreover have "hr_DesiredReplicas (hpa_Report (hpa_run i sla ss)) = sn_DesiredReplicas (last (i # ss))"
    "hr_StartReplicas (hpa_Report (hpa_run i sla ss)) = sn_CurrentReplicas i"
    using hpa_inv_run[of i sla ss]
    by (auto simp: hpa_inv_def hpa_Report_def Let_def split: option.splits)
  ultimately show ?thesis
    by (auto simp: hpa_Diagnostics_def image_Un hpa_report_run simp del: set_concat)
qed

end
