(* ===== verification/Go_Strings.thy ===== *)
theory Go_Strings
  imports Prelude "HOL-Library.Sublist"
begin

text \<open>
  The functions of Go's \<^verbatim>\<open>strings\<close> package (and \<^verbatim>\<open>bufio.Scanner\<close>'s line splitting)
  the program uses, on byte strings.
\<close>

section \<open>Prefixes, cuts, containment\<close>

definition HasPrefix :: "string \<Rightarrow> string \<Rightarrow> bool" where
  "HasPrefix s p \<longleftrightarrow> take (length p) s = p"

definition CutPrefix :: "string \<Rightarrow> string \<Rightarrow> string option" where
  "CutPrefix s p = (if HasPrefix s p then Some (drop (length p) s) else None)"

text \<open>\<^verbatim>\<open>strings.Cut\<close> at a one-byte separator.\<close>

fun Cut :: "string \<Rightarrow> char \<Rightarrow> (string \<times> string) option" where
  "Cut [] c = None"
| "Cut (x # xs) c =
     (if x = c then Some ([], xs)
      else case Cut xs c of None \<Rightarrow> None | Some (a, b) \<Rightarrow> Some (x # a, b))"

fun Contains :: "string \<Rightarrow> string \<Rightarrow> bool" where
  "Contains [] p \<longleftrightarrow> p = []"
| "Contains (x # xs) p \<longleftrightarrow> HasPrefix (x # xs) p \<or> Contains xs p"

text \<open>\<^verbatim>\<open>strings.Split\<close> at a one-byte separator: always at least one element.\<close>

fun Split :: "string \<Rightarrow> char \<Rightarrow> string list" where
  "Split [] c = [[]]"
| "Split (x # xs) c =
     (if x = c then [] # Split xs c
      else case Split xs c of [] \<Rightarrow> [[x]] | l # ls \<Rightarrow> (x # l) # ls)"

text \<open>\<^verbatim>\<open>bufio.ScanLines\<close>: lines without their newline; no empty line at the end of input.
  A trailing carriage return is dropped.\<close>

definition drop_cr :: "string \<Rightarrow> string" where
  "drop_cr l = (if l \<noteq> [] \<and> last l = CHR 0x0D then butlast l else l)"

definition raw_lines :: "string \<Rightarrow> string list" where
  "raw_lines s = (let ls = Split s CHR 0x0A in if last ls = [] then butlast ls else ls)"

definition lower :: "char \<Rightarrow> char" where
  "lower c = (let n = of_char c :: nat in if 65 \<le> n \<and> n \<le> 90 then char_of (n + 32) else c)"

text \<open>\<^verbatim>\<open>strings.EqualFold\<close> against an ASCII constant: besides the other case of an ASCII
  letter, the only runes that fold to one are the long s (U+017F) and the Kelvin sign (U+212A).\<close>

fun fold_ascii :: "string \<Rightarrow> string" where
  "fold_ascii [] = []"
| "fold_ascii (c # cs) =
     (if HasPrefix (c # cs) [CHR 0xC5, CHR 0xBF] then CHR ''s'' # fold_ascii (drop 1 cs)
      else if HasPrefix (c # cs) [CHR 0xE2, CHR 0x84, CHR 0xAA] then CHR ''k'' # fold_ascii (drop 2 cs)
      else lower c # fold_ascii cs)"

definition EqualFold_ascii :: "string \<Rightarrow> string \<Rightarrow> bool" where
  "EqualFold_ascii s t \<longleftrightarrow> fold_ascii s = map lower t"

section \<open>TrimSpace\<close>

text \<open>The UTF-8 encodings of the code points \<^verbatim>\<open>unicode.IsSpace\<close> accepts.\<close>

definition space_encodings :: "string list" where
  "space_encodings =
     [[CHR 0x09], [CHR 0x0A], [CHR 0x0B], [CHR 0x0C], [CHR 0x0D], [CHR 0x20],
      [CHR 0xC2, CHR 0x85], [CHR 0xC2, CHR 0xA0], [CHR 0xE1, CHR 0x9A, CHR 0x80]]
     @ map (\<lambda>n. [CHR 0xE2, CHR 0x80, char_of (n::nat)]) [128..<139]
     @ [[CHR 0xE2, CHR 0x80, CHR 0xA8], [CHR 0xE2, CHR 0x80, CHR 0xA9], [CHR 0xE2, CHR 0x80, CHR 0xAF],
        [CHR 0xE2, CHR 0x81, CHR 0x9F], [CHR 0xE3, CHR 0x80, CHR 0x80]]"

text \<open>Strip encodings from the front as long as one matches; each strip removes at least a byte,
  so the length of the string is fuel enough.\<close>

fun strip :: "string list \<Rightarrow> nat \<Rightarrow> string \<Rightarrow> string" where
  "strip encs 0 s = s"
| "strip encs (Suc n) s =
     (case List.find (HasPrefix s) encs of None \<Rightarrow> s | Some e \<Rightarrow> strip encs n (drop (length e) s))"

definition TrimSpace :: "string \<Rightarrow> string" where
  "TrimSpace s =
     (let l = strip space_encodings (length s) s
      in rev (strip (map rev space_encodings) (length l) (rev l)))"

section \<open>Lemmas\<close>

lemma HasPrefix_append [simp]: "HasPrefix (p @ s) p"
  by (simp add: HasPrefix_def)

lemma HasPrefix_iff: "HasPrefix s p \<longleftrightarrow> (\<exists>r. s = p @ r)"
  unfolding HasPrefix_def by (metis append_eq_conv_conj append_take_drop_id)

lemma CutPrefix_append [simp]: "CutPrefix (p @ s) p = Some s"
  by (simp add: CutPrefix_def)

lemma CutPrefix_Some: "CutPrefix s p = Some r \<longleftrightarrow> s = p @ r"
  by (auto simp: CutPrefix_def HasPrefix_iff)

lemma Cut_append: "c \<notin> set a \<Longrightarrow> Cut (a @ c # b) c = Some (a, b)"
  by (induction a) auto

lemma Split_nonempty [simp]: "Split s c \<noteq> []"
  by (induction s) (auto split: list.split)

lemma Split_no_sep: "c \<notin> set s \<Longrightarrow> Split s c = [s]"
  by (induction s) auto

lemma Split_append: "c \<notin> set a \<Longrightarrow> Split (a @ c # b) c = a # Split b c"
  by (induction a) (auto split: list.split)

lemma raw_lines_append: "CHR 0x0A \<notin> set a \<Longrightarrow> raw_lines (a @ CHR 0x0A # b) = a # raw_lines b"
  by (simp add: raw_lines_def Split_append Let_def)

lemma raw_lines_Nil [simp]: "raw_lines [] = []"
  by (simp add: raw_lines_def)

text \<open>A graphic ASCII character neither is nor ends nor starts a space encoding.\<close>

definition graphic :: "char \<Rightarrow> bool" where
  "graphic c \<longleftrightarrow> 33 \<le> (of_char c :: nat) \<and> (of_char c :: nat) \<le> 126"

lemma strip_none:
  assumes "\<And>e. e \<in> set encs \<Longrightarrow> \<not> HasPrefix s e"
  shows "strip encs n s = s"
proof (cases n)
  case (Suc m)
  have "List.find (HasPrefix s) encs = None" using assms by (simp add: find_None_iff)
  then show ?thesis using Suc by simp
qed simp

lemma space_encoding_ends: "e \<in> set space_encodings \<Longrightarrow> e \<noteq> [] \<and> \<not> graphic (hd e) \<and> \<not> graphic (last e)"
  by (auto simp: space_encodings_def graphic_def)

lemma graphic_no_prefix:
  assumes "graphic c" "e \<in> set space_encodings"
  shows "\<not> HasPrefix (c # s) e" "\<not> HasPrefix (c # s) (rev e)"
  using space_encoding_ends[OF assms(2)] assms(1)
  by (auto simp: HasPrefix_iff append_eq_Cons_conv hd_rev[symmetric] dest!: arg_cong[where f = hd])

lemma TrimSpace_graphic:
  assumes "s \<noteq> []" "graphic (hd s)" "graphic (last s)"
  shows "TrimSpace s = s"
proof -
  have s: "s = hd s # tl s" using assms(1) by simp
  have r: "rev s = last s # rev (butlast s)"
    using append_butlast_last_id[OF assms(1)] by (metis rev_eq_Cons_iff rev_rev_ident)
  have "strip space_encodings (length s) s = s"
    by (rule strip_none) (metis s assms(2) graphic_no_prefix(1))
  moreover have "strip (map rev space_encodings) (length s) (rev s) = rev s"
    by (rule strip_none) (auto simp: r graphic_no_prefix(2)[OF assms(3)])
  ultimately show ?thesis by (simp add: TrimSpace_def)
qed

lemma graphic_digit_char: "d < 10 \<Longrightarrow> graphic (digit_char d)"
  by (simp add: graphic_def digit_char_def)

lemma utoa_graphic: "c \<in> set (utoa n) \<Longrightarrow> graphic c"
proof (induction n rule: utoa.induct)
  case (1 n)
  then show ?case
    by (cases "n < 10") (auto simp: utoa.simps[of n] graphic_digit_char)
qed

lemma TrimSpace_utoa [simp]: "TrimSpace (utoa n) = utoa n"
  by (rule TrimSpace_graphic) (simp_all add: utoa_graphic[OF hd_in_set] utoa_graphic[OF last_in_set])

end
