(* ===== verification/Go_Float.thy ===== *)
theory Go_Float
  imports Prelude "HOL-Library.Log_Nat"
begin

text \<open>
  Go's \<^verbatim>\<open>float64\<close> arithmetic: a finite float is the rational number it denotes, and
  every operation rounds its exact result to 53 significant bits, ties to even
  (\<open>fl64\<close>). The exponent is unbounded: the quantities the program computes with (request
  counts, rates, seconds) stay between \<open>2 ^ -200\<close> and \<open>2 ^ 200\<close>, far from the
  subnormal and overflow ranges of the format. The library proves what the component proofs
  need of rounding: its relative error, its monotonicity, and that integers up to
  \<open>2 ^ 53\<close> are exact.
\<close>

type_synonym float64 = rat

section \<open>Rounding\<close>

text \<open>The exponent of the leading bit of a positive rational.\<close>

definition exp2 :: "rat \<Rightarrow> int" where
  "exp2 x = (let (n, d) = quotient_of x; k = bitlen n - bitlen d
             in if (2::rat) powi k \<le> x then k else k - 1)"

definition round_half_even :: "rat \<Rightarrow> int" where
  "round_half_even x =
     (let f = \<lfloor>x\<rfloor>; r = x - of_int f
      in if r < 1 / 2 then f else if r > 1 / 2 then f + 1 else if even f then f else f + 1)"

definition fl64 :: "rat \<Rightarrow> float64" where
  "fl64 x = (if x = 0 then 0
             else let u = (2::rat) powi (exp2 \<bar>x\<bar> - 52) in of_int (round_half_even (x / u)) * u)"

definition fl_div :: "float64 \<Rightarrow> float64 \<Rightarrow> float64" where
  "fl_div a b = fl64 (a / b)"

definition fl_mul :: "float64 \<Rightarrow> float64 \<Rightarrow> float64" where
  "fl_mul a b = fl64 (a * b)"

definition fl_add :: "float64 \<Rightarrow> float64 \<Rightarrow> float64" where
  "fl_add a b = fl64 (a + b)"

text \<open>\<^verbatim>\<open>float64(i)\<close> of an integer, \<^verbatim>\<open>int64(f)\<close> (truncation towards zero) and
  \<^verbatim>\<open>math.Round\<close> (half away from zero).\<close>

definition fl_of_int :: "int \<Rightarrow> float64" where
  "fl_of_int i = fl64 (of_int i)"

definition fl_trunc :: "float64 \<Rightarrow> int" where
  "fl_trunc x = (if x < 0 then \<lceil>x\<rceil> else \<lfloor>x\<rfloor>)"

definition math_Round :: "float64 \<Rightarrow> int" where
  "math_Round x = (if x < 0 then - \<lfloor>- x + 1 / 2\<rfloor> else \<lfloor>x + 1 / 2\<rfloor>)"

definition math_Ceil :: "float64 \<Rightarrow> int" where
  "math_Ceil x = \<lceil>x\<rceil>"

section \<open>The exponent\<close>

lemma powi_mono2: "i \<le> j \<Longrightarrow> (2::rat) powi i \<le> 2 powi j"
  by (rule power_int_increasing) auto

lemma powi_pos [simp]: "0 < (2::rat) powi i"
  by (rule zero_less_power_int) simp

lemma powi_strict: "(2::rat) powi i < 2 powi j \<longleftrightarrow> i < j"
  using power_int_strict_increasing[of i j "2::rat"] powi_mono2[of j i] by force

lemma bitlen_powi:
  assumes "0 < n"
  shows "(2::rat) powi (bitlen n - 1) \<le> of_int n" "of_int n < (2::rat) powi bitlen n"
proof -
  have b: "0 < bitlen n" using bitlen_eq_zero_iff[of n] bitlen_nonneg[of n] assms by linarith
  have *: "(2::int) ^ nat (bitlen n - 1) \<le> n" "n < 2 ^ nat (bitlen n)"
    using bitlen_bounds[of n] assms by auto
  have "(2::rat) powi (bitlen n - 1) = of_int (2 ^ nat (bitlen n - 1))"
    using b by (simp add: power_int_def)
  also have "\<dots> \<le> of_int n" using *(1) of_int_le_iff by blast
  finally show "(2::rat) powi (bitlen n - 1) \<le> of_int n" .
  have "(of_int n :: rat) < of_int (2 ^ nat (bitlen n))" using *(2) of_int_less_iff by blast
  also have "\<dots> = (2::rat) powi bitlen n" using b by (simp add: power_int_def)
  finally show "of_int n < (2::rat) powi bitlen n" .
qed

lemma exp2_bounds:
  assumes "0 < x"
  shows "(2::rat) powi exp2 x \<le> x" "x < 2 powi (exp2 x + 1)"
proof -
  obtain n d where nd: "quotient_of x = (n, d)" by fastforce
  have d: "0 < d" using quotient_of_denom_pos[OF nd] .
  have x: "x = of_int n / of_int d" using quotient_of_div[OF nd] .
  have n: "0 < n" using assms x d by (simp add: zero_less_divide_iff)
  define k where "k = bitlen n - bitlen d"
  have lo: "(2::rat) powi (k - 1) \<le> x"
  proof -
    have "(2::rat) powi (k - 1) = 2 powi (bitlen n - 1) / 2 powi (bitlen d)"
      by (simp add: k_def power_int_diff)
    also have "\<dots> \<le> of_int n / of_int d"
      using bitlen_powi[OF n] bitlen_powi[OF d] n d by (intro frac_le) auto
    finally show ?thesis using x by simp
  qed
  have hi: "x < 2 powi (k + 1)"
  proof -
    have "of_int n / of_int d < (2::rat) powi bitlen n / 2 powi (bitlen d - 1)"
      using bitlen_powi[OF n] bitlen_powi[OF d] n d by (intro frac_less) auto
    also have "\<dots> = 2 powi (k + 1)"
      by (simp add: k_def algebra_simps flip: power_int_diff)
    finally show ?thesis using x by simp
  qed
  have e: "exp2 x = (if (2::rat) powi k \<le> x then k else k - 1)"
    by (simp add: exp2_def nd k_def Let_def)
  show "(2::rat) powi exp2 x \<le> x" "x < 2 powi (exp2 x + 1)"
    using lo hi by (auto simp: e)
qed

lemma exp2_unique:
  assumes "(2::rat) powi e \<le> x" "x < 2 powi (e + 1)"
  shows "exp2 x = e"
proof -
  have "0 < x" using assms(1) powi_pos[of e] by linarith
  note b = exp2_bounds[OF this]
  have "(2::rat) powi e < 2 powi (exp2 x + 1)" "(2::rat) powi exp2 x < 2 powi (e + 1)"
    using assms b by linarith+
  then show ?thesis by (simp add: powi_strict)
qed

lemma exp2_mono: "0 < x \<Longrightarrow> x \<le> y \<Longrightarrow> exp2 x \<le> exp2 y"
proof -
  assume a: "0 < x" "x \<le> y"
  have "(2::rat) powi exp2 x < 2 powi (exp2 y + 1)"
    using exp2_bounds[of x] exp2_bounds[of y] a by linarith
  then show ?thesis by (simp add: powi_strict)
qed

section \<open>Rounding to an integer\<close>

lemma round_half_even_error: "\<bar>of_int (round_half_even x) - x\<bar> \<le> 1 / 2"
proof -
  define r where "r = x - of_int \<lfloor>x\<rfloor>"
  have "0 \<le> r" "r < 1" unfolding r_def by linarith+
  moreover have "of_int \<lfloor>x\<rfloor> - x = - r" "of_int (\<lfloor>x\<rfloor> + 1) - x = 1 - r" by (simp_all add: r_def)
  ultimately show ?thesis
    by (simp add: round_half_even_def Let_def r_def[symmetric] del: of_int_add)
qed

lemma round_half_even_int [simp]: "round_half_even (of_int n) = n"
  by (simp add: round_half_even_def)

lemma round_half_even_mono:
  assumes "x \<le> y" shows "round_half_even x \<le> round_half_even y"
proof (cases "\<lfloor>x\<rfloor> = \<lfloor>y\<rfloor>")
  case True
  then show ?thesis using assms by (auto simp: round_half_even_def Let_def)
next
  case False
  then have "\<lfloor>x\<rfloor> + 1 \<le> \<lfloor>y\<rfloor>" using floor_mono[OF assms] by linarith
  moreover have "round_half_even x \<le> \<lfloor>x\<rfloor> + 1" by (auto simp: round_half_even_def Let_def)
  moreover have "\<lfloor>y\<rfloor> \<le> round_half_even y" by (auto simp: round_half_even_def Let_def)
  ultimately show ?thesis by linarith
qed

section \<open>Rounding to 53 bits\<close>

abbreviation ulp :: "rat \<Rightarrow> rat" where "ulp x \<equiv> 2 powi (exp2 \<bar>x\<bar> - 52)"

lemma fl64_0 [simp]: "fl64 0 = 0"
  by (simp add: fl64_def)

lemma fl64_nz: "x \<noteq> 0 \<Longrightarrow> fl64 x = of_int (round_half_even (x / ulp x)) * ulp x"
  by (simp add: fl64_def Let_def)

lemma ulp_rel: "x \<noteq> 0 \<Longrightarrow> ulp x \<le> \<bar>x\<bar> / 2 ^ 52"
proof -
  assume "x \<noteq> 0"
  then have "(2::rat) powi exp2 \<bar>x\<bar> \<le> \<bar>x\<bar>" by (intro exp2_bounds) auto
  then show ?thesis by (simp add: power_int_diff field_simps)
qed

lemma fl64_rel_error: "\<bar>fl64 x - x\<bar> \<le> \<bar>x\<bar> / 2 ^ 53"
proof (cases "x = 0")
  case False
  define u where "u = ulp x"
  have u: "0 < u" by (simp add: u_def)
  have "fl64 x - x = (of_int (round_half_even (x / u)) - x / u) * u"
    using fl64_nz[OF False] u by (simp add: u_def left_diff_distrib)
  then have "\<bar>fl64 x - x\<bar> = \<bar>of_int (round_half_even (x / u)) - x / u\<bar> * u"
    using u by (simp add: abs_mult)
  also have "\<dots> \<le> 1 / 2 * u"
    using round_half_even_error[of "x / u"] u by (intro mult_right_mono) auto
  also have "\<dots> \<le> 1 / 2 * (\<bar>x\<bar> / 2 ^ 52)"
    using ulp_rel[OF False] by (simp add: u_def)
  finally show ?thesis by simp
qed simp

lemma fl64_exact:
  assumes "x = of_int m * 2 powi k" and "\<bar>m\<bar> \<le> 2 ^ 53"
  shows "fl64 x = x"
proof (cases "x = 0")
  case False
  have m0: "m \<noteq> 0" using False assms(1) by auto
  have ax: "\<bar>x\<bar> = of_int \<bar>m\<bar> * 2 powi k" using assms(1) by (simp add: abs_mult)
  have integral: "\<exists>z. x / ulp x = of_int z"
  proof (cases "\<bar>m\<bar> = 2 ^ 53")
    case True
    have "exp2 \<bar>x\<bar> = 53 + k"
    proof (rule exp2_unique)
      show "2 powi (53 + k) \<le> \<bar>x\<bar>" using ax True by (simp add: power_int_add)
      show "\<bar>x\<bar> < 2 powi (53 + k + 1)" using ax True by (simp add: power_int_add field_simps)
    qed
    then have "x / ulp x = of_int m / 2"
      using assms(1) by (simp add: power_int_add power_int_diff field_simps)
    moreover have "m = 2 ^ 53 \<or> m = - (2 ^ 53)" using True by linarith
    then have "of_int m / (2::rat) = of_int (2 ^ 52) \<or> of_int m / (2::rat) = of_int (- (2 ^ 52))"
      by auto
    ultimately show ?thesis by metis
  next
    case False
    then have lt: "\<bar>m\<bar> < 2 ^ 53" using assms(2) by linarith
    have "2 powi exp2 \<bar>x\<bar> \<le> \<bar>x\<bar>" using \<open>x \<noteq> 0\<close> by (intro exp2_bounds) auto
    also have "\<bar>x\<bar> < 2 powi (53 + k)"
    proof -
      have "(of_int \<bar>m\<bar> :: rat) < of_int (2 ^ 53)" using lt of_int_less_iff by blast
      then show ?thesis using ax by (simp add: power_int_add)
    qed
    finally have "exp2 \<bar>x\<bar> - 52 \<le> k" by (simp add: powi_strict)
    then obtain j where j: "k = exp2 \<bar>x\<bar> - 52 + int j" using zle_iff_zadd by blast
    have x: "x = of_int m * (ulp x * 2 ^ j)" using assms(1) by (simp add: j power_int_add)
    have "(of_int m * (u * 2 ^ j)) / u = of_int (m * 2 ^ j)" if "u \<noteq> 0" for u :: rat
      using that by simp
    then have "x / ulp x = of_int (m * 2 ^ j)" using x by (metis powi_pos less_irrefl)
    then show ?thesis by blast
  qed
  then obtain z where z: "x / ulp x = of_int z" by blast
  then have "fl64 x = x / ulp x * ulp x" unfolding fl64_nz[OF False] by (simp only: round_half_even_int)
  then show ?thesis by simp
qed simp

lemma fl64_of_int: "\<bar>n\<bar> \<le> 2 ^ 53 \<Longrightarrow> fl64 (of_int n) = of_int n"
  by (rule fl64_exact[of _ n 0]) auto

lemma fl64_nonneg: "0 \<le> x \<Longrightarrow> 0 \<le> fl64 x"
proof -
  assume "0 \<le> x"
  moreover have "\<bar>fl64 x - x\<bar> \<le> \<bar>x\<bar> / 2 ^ 53" by (rule fl64_rel_error)
  ultimately show ?thesis by (simp add: abs_if split: if_splits)
qed

lemma fl64_binade:
  assumes "0 < x"
  shows "2 powi exp2 x \<le> fl64 x" "fl64 x \<le> 2 powi (exp2 x + 1)"
proof -
  define e where "e = exp2 x"
  have b: "2 powi e \<le> x" "x < 2 powi (e + 1)" using exp2_bounds[OF assms] by (simp_all add: e_def)
  have u: "ulp x = 2 powi e / 2 ^ 52" using assms by (simp add: e_def power_int_diff)
  have fx: "fl64 x = of_int (round_half_even (x / ulp x)) * ulp x"
    using assms by (intro fl64_nz) simp
  have "of_int (2 ^ 52) \<le> x / ulp x" using b(1) by (simp add: u field_simps)
  then have "2 ^ 52 \<le> round_half_even (x / ulp x)"
    using round_half_even_mono[of "of_int (2 ^ 52)"] by (metis round_half_even_int)
  then have lo: "(of_int (2 ^ 52) :: rat) \<le> of_int (round_half_even (x / ulp x))"
    using of_int_le_iff by blast
  have "x / ulp x \<le> of_int (2 ^ 53)" using b(2) by (simp add: u field_simps power_int_add)
  then have "round_half_even (x / ulp x) \<le> 2 ^ 53"
    using round_half_even_mono[of _ "of_int (2 ^ 53)"] by (metis round_half_even_int)
  then have hi: "(of_int (round_half_even (x / ulp x)) :: rat) \<le> of_int (2 ^ 53)"
    using of_int_le_iff by blast
  have p: "0 < ulp x" by simp
  have "of_int (2 ^ 52) * ulp x \<le> fl64 x" using lo p by (simp add: fx)
  then show "2 powi exp2 x \<le> fl64 x" by (simp add: u e_def)
  have "fl64 x \<le> of_int (2 ^ 53) * ulp x" using hi p by (simp add: fx)
  then show "fl64 x \<le> 2 powi (exp2 x + 1)" by (simp add: u e_def power_int_add)
qed

lemma fl64_mono:
  assumes "0 \<le> x" "x \<le> y" shows "fl64 x \<le> fl64 y"
proof (cases "x = 0")
  case True then show ?thesis using assms fl64_nonneg by simp
next
  case False
  then have x: "0 < x" and y: "0 < y" using assms by linarith+
  show ?thesis
  proof (cases "exp2 x = exp2 y")
    case True
    then have "ulp x = ulp y" using x y by simp
    moreover have "x / ulp y \<le> y / ulp y" using assms(2) by (simp add: divide_right_mono)
    then have "round_half_even (x / ulp y) \<le> round_half_even (y / ulp y)"
      by (rule round_half_even_mono)
    ultimately show ?thesis using x y by (simp add: fl64_nz mult_right_mono)
  next
    case neq: False
    then have "exp2 x + 1 \<le> exp2 y" using exp2_mono[OF x assms(2)] by linarith
    then have "(2::rat) powi (exp2 x + 1) \<le> 2 powi exp2 y" by (rule powi_mono2)
    then show ?thesis using fl64_binade[OF x] fl64_binade[OF y] by linarith
  qed
qed

lemma fl64_upper: "0 \<le> x \<Longrightarrow> fl64 x \<le> x * (1 + 1 / 2 ^ 53)"
  using fl64_rel_error[of x] by (simp add: abs_if field_simps split: if_splits)

lemma fl64_lower: "0 \<le> x \<Longrightarrow> x * (1 - 1 / 2 ^ 53) \<le> fl64 x"
  using fl64_rel_error[of x] by (simp add: abs_if field_simps split: if_splits)

section \<open>Derived facts\<close>

lemma fl_of_int_exact: "\<bar>n\<bar> \<le> 2 ^ 53 \<Longrightarrow> fl_of_int n = of_int n"
  by (simp add: fl_of_int_def fl64_of_int)

text \<open>Truncating a rounded quotient of integers is integer division, as long as the dividend is
  below \<open>2 ^ 52\<close>: rounding can never carry the quotient past the next integer.\<close>

lemma fl_trunc_div:
  assumes "0 \<le> a" "a < 2 ^ 52" "0 < b" "b \<le> 2 ^ 53"
  shows "fl_trunc (fl_div (fl_of_int a) (fl_of_int b)) = a div b"
proof -
  define q where "q = (of_int a / of_int b :: rat)"
  have ex: "fl_div (fl_of_int a) (fl_of_int b) = fl64 q"
    using assms by (simp add: fl_div_def fl_of_int_exact q_def)
  have q0: "0 \<le> q" using assms by (simp add: q_def)
  have ab: "a = a div b * b + a mod b" by simp
  have lo: "of_int (a div b) \<le> q"
    using assms by (simp add: q_def pos_le_divide_eq flip: of_int_mult of_int_le_iff)
      (metis ab add_increasing2 assms(3) mult.commute of_int_le_iff of_int_mult order_refl pos_mod_sign)
  have "a div b \<le> a" using assms zdiv_mono2[of a 1 b] by simp
  moreover have "0 \<le> a div b" using assms pos_imp_zdiv_nonneg_iff[of b a] by simp
  ultimately have "\<bar>a div b\<bar> \<le> 2 ^ 53" using assms by simp
  then have 1: "of_int (a div b) \<le> fl64 q"
    using fl64_mono[of "of_int (a div b)" q] lo assms fl64_of_int[of "a div b"]
      pos_imp_zdiv_nonneg_iff[of b a] by simp
  have "q + 1 / of_int b \<le> of_int (a div b) + 1"
  proof -
    have "a + 1 \<le> (a div b + 1) * b"
      using ab pos_mod_bound[OF assms(3), of a] unfolding distrib_right by linarith
    then have "(of_int (a + 1) :: rat) \<le> of_int ((a div b + 1) * b)" using of_int_le_iff by blast
    then show ?thesis using assms(3) by (simp add: q_def field_simps)
  qed
  moreover have "q / 2 ^ 53 < 1 / of_int b"
    using assms by (simp add: q_def field_simps)
  ultimately have 2: "fl64 q < of_int (a div b) + 1"
    using fl64_upper[OF q0] by (simp add: algebra_simps)
  have "\<lfloor>fl64 q\<rfloor> = a div b" using 1 2 by (simp add: floor_eq_iff)
  then show ?thesis using fl64_nonneg[OF q0] by (simp add: ex fl_trunc_def)
qed

lemma math_Round_nonneg: "0 \<le> x \<Longrightarrow> 0 \<le> math_Round x"
  by (simp add: math_Round_def)

lemma math_Round_mono: "0 \<le> x \<Longrightarrow> x \<le> y \<Longrightarrow> math_Round x \<le> math_Round y"
  by (simp add: math_Round_def floor_mono)

lemma math_Round_of_int: "math_Round (of_int n) = n"
  by (auto simp: math_Round_def floor_eq_iff)

end
