(* ===== verification/Cgroup.thy ===== *)
theory Cgroup
  imports Api_Types Go_Strings Go_Float
begin

text \<open>
  \<^verbatim>\<open>internal/analyzer/cgroup\<close>: the \<^verbatim>\<open>cpu.stat\<close> parser, the cAdvisor filter and the CFS
  throttling report. A \<^verbatim>\<open>uint64\<close> is a natural number; every operation that could leave
  the 64-bit range reduces modulo \<open>2 ^ 64\<close>. The Prometheus text parser is third-party code
  and enters as the outcome it produced.
\<close>

section \<open>cpu.stat\<close>

record Stat =
  UsageUSec :: nat
  UserUSec :: nat
  SystemUSec :: nat
  NRPeriods :: nat
  NRThrottled :: nat
  ThrottledUSec :: nat

definition zero_Stat :: Stat where
  "zero_Stat = \<lparr>UsageUSec = 0, UserUSec = 0, SystemUSec = 0, NRPeriods = 0, NRThrottled = 0,
                ThrottledUSec = 0\<rparr>"

datatype cgroup_error =
    MalformedLine string
  | BadValue string string
  | ScanTooLong
  | FilterRequired
  | ExpositionError
  | ParserPanic

definition set_field :: "string \<Rightarrow> nat \<Rightarrow> Stat \<Rightarrow> Stat" where
  "set_field key val s =
     (if key = ''usage_usec'' then s\<lparr>UsageUSec := val\<rparr>
      else if key = ''user_usec'' then s\<lparr>UserUSec := val\<rparr>
      else if key = ''system_usec'' then s\<lparr>SystemUSec := val\<rparr>
      else if key = ''nr_periods'' then s\<lparr>NRPeriods := val\<rparr>
      else if key = ''nr_throttled'' then s\<lparr>NRThrottled := val\<rparr>
      else if key = ''throttled_usec'' then s\<lparr>ThrottledUSec := val\<rparr>
      else s)"

text \<open>The loop of \<^verbatim>\<open>Parse\<close> over scanner tokens; a raw line of 64 KiB or more stops the scanner
  with \<^verbatim>\<open>bufio.ErrTooLong\<close>.\<close>

fun parse_lines :: "string list \<Rightarrow> Stat \<Rightarrow> cgroup_error + Stat" where
  "parse_lines [] s = Inr s"
| "parse_lines (raw_line # rest) s =
     (if length raw_line \<ge> 65536 then Inl ScanTooLong
      else let line = TrimSpace (drop_cr raw_line) in
        if line = [] then parse_lines rest s
        else case Cut line CHR '' '' of
          None \<Rightarrow> Inl (MalformedLine line)
        | Some (key, raw) \<Rightarrow>
            (case ParseUint 64 (TrimSpace raw) of
               None \<Rightarrow> Inl (BadValue key raw)
             | Some val \<Rightarrow> parse_lines rest (set_field key val s)))"

definition cgroup_Parse :: "string \<Rightarrow> cgroup_error + Stat" where
  "cgroup_Parse body = parse_lines (raw_lines body) zero_Stat"

section \<open>Comparing two samples\<close>

record CgroupReport =
  cg_Before :: Stat
  cg_After :: Stat
  cg_Window :: duration
  cg_Periods :: nat
  cg_Throttled :: nat
  cg_ThrottlePercent :: float64
  cg_ThrottledDuration :: duration

definition saturatingSub :: "nat \<Rightarrow> nat \<Rightarrow> nat" where
  "saturatingSub a b = (if a < b then 0 else a - b)"

definition cgroup_Compare :: "Stat \<Rightarrow> Stat \<Rightarrow> duration \<Rightarrow> CgroupReport" where
  "cgroup_Compare before after window =
     (let periods = saturatingSub (NRPeriods after) (NRPeriods before);
          throttled = saturatingSub (NRThrottled after) (NRThrottled before);
          throttledUSec = saturatingSub (ThrottledUSec after) (ThrottledUSec before)
      in \<lparr>cg_Before = before, cg_After = after, cg_Window = window,
          cg_Periods = periods, cg_Throttled = throttled,
          cg_ThrottlePercent =
            (if periods > 0
             then fl_mul (fl_div (fl_of_int (int throttled)) (fl_of_int (int periods))) 100 else 0),
          cg_ThrottledDuration = dur_mul (wrap64 (int throttledUSec)) Microsecond\<rparr>)"

definition WarnThresholdPercent :: float64 where "WarnThresholdPercent = 5"
definition CriticalThresholdPercent :: float64 where "CriticalThresholdPercent = 25"

definition cgroup_Diagnostics :: "CgroupReport \<Rightarrow> DiagnosticAlert list" where
  "cgroup_Diagnostics r =
     (if cg_Throttled r = 0 \<or> cg_Periods r = 0 then []
      else [\<lparr>alert_Type = ''CPUThrottling'',
             alert_Severity = (if cg_ThrottlePercent r \<ge> CriticalThresholdPercent then SeverityCritical
                               else if cg_ThrottlePercent r \<ge> WarnThresholdPercent then SeverityWarning
                               else SeverityInfo),
             alert_Message = [L ''container throttled '', D (int (cg_Throttled r)), L '' of '',
                D (int (cg_Periods r)), L '' CFS periods ('', Fx 2 (cg_ThrottlePercent r), L ''%) for '',
                Dur (cg_ThrottledDuration r), L '' during the stress window''],
             alert_Recommendation = [L ''raise cpu.limits or remove the limit; CPU limits force CFS throttling even when the node has spare capacity'']\<rparr>])"

section \<open>cAdvisor\<close>

record Metric =
  m_Label :: "(string \<times> string) list"
  m_Counter :: "float64 option"
  m_Untyped :: "float64 option"

text \<open>What \<^verbatim>\<open>expfmt\<close>'s parser did with the body: panicked, failed, or returned the families.\<close>

datatype exposition = Panicked | Failed | Families "string \<Rightarrow> Metric list option"

fun label_values :: "(string \<times> string) list \<Rightarrow> string \<times> string \<times> string \<Rightarrow> string \<times> string \<times> string" where
  "label_values [] acc = acc"
| "label_values ((n, v) # ls) (pod, ns, c) =
     (if n = ''pod'' then label_values ls (v, ns, c)
      else if n = ''namespace'' then label_values ls (pod, v, c)
      else if n = ''container'' then label_values ls (pod, ns, v)
      else label_values ls (pod, ns, c))"

definition cadvisor_matches :: "(string \<times> string) list \<Rightarrow> string \<Rightarrow> string \<Rightarrow> string \<Rightarrow> bool" where
  "cadvisor_matches labels podName namespace container =
     (let (pod, ns, c) = label_values labels ([], [], []) in
      if c = [] then False
      else if pod \<noteq> podName \<or> c \<noteq> container then False
      else if ns \<noteq> [] \<and> namespace \<noteq> [] \<and> ns \<noteq> namespace then False
      else True)"

definition counterValue :: "Metric \<Rightarrow> float64" where
  "counterValue m = (case m_Counter m of Some v \<Rightarrow> v
     | None \<Rightarrow> (case m_Untyped m of Some v \<Rightarrow> v | None \<Rightarrow> 0))"

text \<open>\<^verbatim>\<open>uint64(f)\<close> of an integral float; outside \<open>[0, 2 ^ 64)\<close> Go leaves the result to the
  implementation, and this is the wrapping one.\<close>

definition to_uint64 :: "int \<Rightarrow> nat" where
  "to_uint64 i = nat (i mod 18446744073709551616)"

definition pick :: "(string \<Rightarrow> Metric list option) \<Rightarrow> string \<Rightarrow> string \<Rightarrow> string \<Rightarrow> string \<Rightarrow> nat option" where
  "pick families name podName namespace container =
     (case families name of None \<Rightarrow> None
      | Some ms \<Rightarrow>
          (case List.find (\<lambda>m. cadvisor_matches (m_Label m) podName namespace container) ms of
             None \<Rightarrow> None
           | Some m \<Rightarrow> Some (to_uint64 (math_Round (counterValue m)))))"

definition mul_u64 :: "nat \<Rightarrow> nat \<Rightarrow> nat" where
  "mul_u64 a b = (a * b) mod 18446744073709551616"

definition ParseCAdvisor :: "exposition \<Rightarrow> string \<Rightarrow> string \<Rightarrow> string \<Rightarrow> cgroup_error + Stat" where
  "ParseCAdvisor body podName namespace container =
     (if podName = [] \<or> container = [] then Inl FilterRequired
      else case body of
        Panicked \<Rightarrow> Inl ParserPanic
      | Failed \<Rightarrow> Inl ExpositionError
      | Families families \<Rightarrow>
          let get = (\<lambda>name. pick families name podName namespace container);
              s = zero_Stat;
              s = (case get ''container_cpu_cfs_periods_total'' of None \<Rightarrow> s | Some v \<Rightarrow> s\<lparr>NRPeriods := v\<rparr>);
              s = (case get ''container_cpu_cfs_throttled_periods_total'' of None \<Rightarrow> s | Some v \<Rightarrow> s\<lparr>NRThrottled := v\<rparr>);
              s = (case get ''container_cpu_cfs_throttled_seconds_total'' of None \<Rightarrow> s
                   | Some v \<Rightarrow> s\<lparr>ThrottledUSec := mul_u64 v 1000000\<rparr>);
              s = (case get ''container_cpu_usage_seconds_total'' of None \<Rightarrow> s
                   | Some v \<Rightarrow> s\<lparr>UsageUSec := mul_u64 v 1000000\<rparr>)
          in Inr s)"

section \<open>Rendering a cpu.stat file\<close>

definition render_line :: "string \<Rightarrow> nat \<Rightarrow> string" where
  "render_line key v = key @ CHR '' '' # utoa v @ [CHR 0x0A]"

definition render_stat :: "Stat \<Rightarrow> string" where
  "render_stat s =
     render_line ''usage_usec'' (UsageUSec s) @ render_line ''user_usec'' (UserUSec s)
     @ render_line ''system_usec'' (SystemUSec s) @ render_line ''nr_periods'' (NRPeriods s)
     @ render_line ''nr_throttled'' (NRThrottled s) @ render_line ''throttled_usec'' (ThrottledUSec s)"

definition uint64_stat :: "Stat \<Rightarrow> bool" where
  "uint64_stat s \<longleftrightarrow> UsageUSec s < 2 ^ 64 \<and> UserUSec s < 2 ^ 64 \<and> SystemUSec s < 2 ^ 64
     \<and> NRPeriods s < 2 ^ 64 \<and> NRThrottled s < 2 ^ 64 \<and> ThrottledUSec s < 2 ^ 64"

lemma length_utoa: "n < 10 ^ k \<Longrightarrow> 0 < k \<Longrightarrow> length (utoa n) \<le> k"
proof (induction n arbitrary: k rule: utoa.induct)
  case (1 n)
  show ?case
  proof (cases "n < 10")
    case True then show ?thesis using 1 by (simp add: utoa.simps[of n])
  next
    case False
    obtain m where k: "k = Suc m" using 1 by (cases k) auto
    have m: "0 < m" using False 1(2) by (cases m) (auto simp: k)
    have "n div 10 < 10 ^ m" using 1(2) by (simp add: k)
    then have "length (utoa (n div 10)) \<le> m" using 1(1)[OF False _ m] by simp
    then show ?thesis using False by (simp add: utoa.simps[of n] k)
  qed
qed

lemma parse_render_line:
  assumes "key \<noteq> []" "list_all graphic key" "length key < 100" "v < 18446744073709551616"
  shows "parse_lines (raw_lines (render_line key v @ rest)) s =
         parse_lines (raw_lines rest) (set_field key v s)"
proof -
  let ?l = "key @ CHR '' '' # utoa v"
  have g: "graphic c" if "c \<in> set ?l" "c \<noteq> CHR '' ''" for c
    using that assms(2) utoa_graphic[of c v] by (auto simp: list_all_iff)
  have nl: "CHR 0x0A \<notin> set ?l" using g[of "CHR 0x0A"] by (auto simp: graphic_def)
  have sp: "CHR '' '' \<notin> set key" using assms(2) by (auto simp: graphic_def list_all_iff)
  have hd: "graphic (hd ?l)" using assms(1,2) by (simp add: list_all_iff)
  have la: "graphic (last ?l)" using utoa_graphic[OF last_in_set] by simp
  have dc: "drop_cr ?l = ?l" using la by (auto simp: drop_cr_def graphic_def)
  have len: "length ?l < 65536"
  proof -
    have "v < 10 ^ 20" using assms(4) by simp
    then have "length (utoa v) \<le> 20" by (rule length_utoa) simp
    then show ?thesis using assms(3) by simp
  qed
  have tr: "TrimSpace ?l = ?l" using hd la by (intro TrimSpace_graphic) simp_all
  have "raw_lines (render_line key v @ rest) = ?l # raw_lines rest"
    using raw_lines_append[OF nl, of rest] by (simp add: render_line_def)
  then show ?thesis
    using len by (simp add: dc tr Cut_append[OF sp] ParseUint_utoa assms(4) Let_def not_le del: Cut.simps)
qed

lemma set_field_simps:
  "set_field ''usage_usec'' v s = s\<lparr>UsageUSec := v\<rparr>" "set_field ''user_usec'' v s = s\<lparr>UserUSec := v\<rparr>"
  "set_field ''system_usec'' v s = s\<lparr>SystemUSec := v\<rparr>" "set_field ''nr_periods'' v s = s\<lparr>NRPeriods := v\<rparr>"
  "set_field ''nr_throttled'' v s = s\<lparr>NRThrottled := v\<rparr>"
  "set_field ''throttled_usec'' v s = s\<lparr>ThrottledUSec := v\<rparr>"
  by (simp_all add: set_field_def)

section \<open>Severity thresholds\<close>

lemma saturatingSub_eq: "saturatingSub a b = a - b"
  by (simp add: saturatingSub_def)

text \<open>Comparing the rounded percentage with a threshold \<open>c\<close> percent is the exact integer
  comparison, as long as the counters stay below \<open>2 ^ 45\<close> (a century of CFS periods is
  below \<open>2 ^ 35\<close>).\<close>

lemma percent_below:
  assumes "0 < p" "p < 2 ^ 45" "0 < c" "100 * int t < c * int p" "c \<le> 100"
  shows "fl_mul (fl_div (of_int (int t)) (of_int (int p))) 100 < of_int c"
proof -
  let ?q = "of_int (int t) / of_int (int p) :: rat" and ?e = "1 + 1 / 2 ^ 53 :: rat"
  have p: "(0::rat) < of_int (int p)" using assms(1) by simp
  have "(of_int (100 * int t + 1) :: rat) \<le> of_int (c * int p)"
    using zless_imp_add1_zle[OF assms(4)] of_int_le_iff by blast
  then have q: "?q * 100 \<le> of_int c - 1 / of_int (int p)"
    using p by (simp add: field_simps)
  have q0: "0 \<le> ?q" by simp
  have "fl_mul (fl_div (of_int (int t)) (of_int (int p))) 100 \<le> (fl64 ?q * 100) * ?e"
    unfolding fl_mul_def fl_div_def using fl64_nonneg[OF q0] by (intro fl64_upper) simp
  also have "\<dots> \<le> (?q * ?e * 100) * ?e"
    using fl64_upper[OF q0] by (intro mult_right_mono) auto
  also have "\<dots> = (?q * 100) * (?e * ?e)" by (simp add: algebra_simps)
  also have "\<dots> \<le> (of_int c - 1 / of_int (int p)) * (?e * ?e)"
    using q by (intro mult_right_mono) auto
  also have "\<dots> < of_int c"
  proof -
    have "of_int c * (?e * ?e - 1) \<le> 100 * (?e * ?e - 1)"
      using assms(5) by (intro mult_right_mono) auto
    also have "\<dots> < 1 / 2 ^ 45" by simp
    also have "\<dots> < 1 / of_int (int p)"
    proof -
      have "(of_int (int p) :: rat) < of_int (2 ^ 45)" using assms(2) by (simp add: of_nat_less_iff[symmetric] del: of_nat_less_iff)
      then show ?thesis using p by (intro divide_strict_left_mono) auto
    qed
    also have "\<dots> \<le> 1 / of_int (int p) * (?e * ?e)"
      using mult_left_mono[of 1 "?e * ?e" "1 / of_int (int p)"] p by simp
    finally show ?thesis by (simp add: algebra_simps)
  qed
  finally show ?thesis .
qed

lemma percent_25: "4 * int t \<ge> int p \<Longrightarrow> 0 < p \<Longrightarrow> 25 \<le> fl_mul (fl_div (of_int (int t)) (of_int (int p))) 100"
proof -
  assume a: "4 * int t \<ge> int p" "0 < p"
  have "(of_int (int p) :: rat) \<le> of_int (4 * int t)" using a(1) of_int_le_iff by blast
  then have "(1 / 4 :: rat) \<le> of_int (int t) / of_int (int p)" using a(2) by (simp add: field_simps)
  then have "fl64 (1 / 4) \<le> fl64 (of_int (int t) / of_int (int p))" by (intro fl64_mono) auto
  moreover have "fl64 (1 / 4) = 1 / 4" by (rule fl64_exact[of _ 1 "-2"]) (auto simp: power_int_minus)
  ultimately have "25 \<le> fl64 (of_int (int t) / of_int (int p)) * 100" by simp
  then have "fl64 25 \<le> fl64 (fl64 (of_int (int t) / of_int (int p)) * 100)" by (intro fl64_mono) auto
  then show ?thesis using fl64_of_int[of 25] by (simp add: fl_mul_def fl_div_def)
qed

lemma fl64_one_twentieth: "1 / 20 \<le> fl64 (1 / 20)"
proof -
  have fl: "\<lfloor>36028797018963968 / 5 :: rat\<rfloor> = 7205759403792793" by (simp add: floor_eq_iff)
  have "exp2 (1 / 20) = -5" by (rule exp2_unique) (simp_all add: power_int_minus)
  then have "fl64 (1 / 20) = 7205759403792794 / 144115188075855872"
    by (simp add: fl64_def power_int_minus round_half_even_def Let_def fl)
  then show ?thesis by simp
qed

lemma percent_5: "20 * int t \<ge> int p \<Longrightarrow> 0 < p \<Longrightarrow> 5 \<le> fl_mul (fl_div (of_int (int t)) (of_int (int p))) 100"
proof -
  assume a: "20 * int t \<ge> int p" "0 < p"
  have "(of_int (int p) :: rat) \<le> of_int (20 * int t)" using a(1) of_int_le_iff by blast
  then have "(1 / 20 :: rat) \<le> of_int (int t) / of_int (int p)" using a(2) by (simp add: field_simps)
  then have "fl64 (1 / 20) \<le> fl64 (of_int (int t) / of_int (int p))" by (intro fl64_mono) auto
  then have "5 \<le> fl64 (of_int (int t) / of_int (int p)) * 100" using fl64_one_twentieth by simp
  then have "fl64 5 \<le> fl64 (fl64 (of_int (int t) / of_int (int p)) * 100)" by (intro fl64_mono) auto
  then show ?thesis using fl64_of_int[of 5] by (simp add: fl_mul_def fl_div_def)
qed

section \<open>Properties\<close>


definition stat_demo :: Stat where
  "stat_demo = \<lparr>UsageUSec = 12345678, UserUSec = 9123456, SystemUSec = 3222222, NRPeriods = 100,
                NRThrottled = 7, ThrottledUSec = 42000\<rparr>"




text \<open>Throttled time from cAdvisor is rounded to whole seconds before it is scaled to
  microseconds: a matching series below half a second leaves no throttled time at all in the
  parsed statistics, although the field counts microseconds.\<close>

theorem ParseCAdvisor_subsecond_lost:
  assumes "cadvisor_matches labels pod ns c" "pod \<noteq> []" "0 \<le> v" "v < 1 / 2"
  shows "map_sum id ThrottledUSec
    (ParseCAdvisor (Families ((\<lambda>_. None)(''container_cpu_cfs_throttled_seconds_total'' \<mapsto>
       [\<lparr>m_Label = labels, m_Counter = Some v, m_Untyped = None\<rparr>]))) pod ns c) = Inr 0"
proof -
  have "c \<noteq> []" using assms(1) by (auto simp: cadvisor_matches_def split: if_splits prod.splits)
  moreover have "math_Round v = 0" using assms by (simp add: math_Round_def floor_eq_iff)
  ultimately show ?thesis
    using assms by (simp add: ParseCAdvisor_def pick_def counterValue_def to_uint64_def mul_u64_def zero_Stat_def)
qed

theorem ParseCAdvisor_subsecond_lost_witness:
  "cadvisor_matches [(''pod'', ''web-0''), (''container'', ''app'')] ''web-0'' ''prod'' ''app''
   \<and> map_sum id ThrottledUSec
      (ParseCAdvisor (Families ((\<lambda>_. None)(''container_cpu_cfs_throttled_seconds_total'' \<mapsto>
         [\<lparr>m_Label = [(''pod'', ''web-0''), (''container'', ''app'')], m_Counter = Some (2 / 5),
           m_Untyped = None\<rparr>]))) ''web-0'' ''prod'' ''app'') = Inr 0"
proof -
  have m: "cadvisor_matches [(''pod'', ''web-0''), (''container'', ''app'')] ''web-0'' ''prod'' ''app''"
    by (simp add: cadvisor_matches_def)
  show ?thesis using m ParseCAdvisor_subsecond_lost[OF m, of "2 / 5"] by simp
qed

end
