(* ===== verification/Audits.thy ===== *)
theory Audits
  imports Api_Types Prelude
begin

text \<open>
  The configuration audits and the probe resolver: \<^verbatim>\<open>internal/analyzer/pdb\<close>,
  \<^verbatim>\<open>internal/analyzer/dns\<close> and \<^verbatim>\<open>internal/analyzer/probe\<close>. Label selectors and the
  scaling of an \<^verbatim>\<open>IntOrString\<close> are Kubernetes library code: they are parameters, and what
  the audit relies on is stated as hypotheses.
\<close>

section \<open>PodDisruptionBudgets\<close>

datatype IntOrString = IntVal int | StrVal string

record 'sel PDB =
  pdb_Name :: string
  pdb_Selector :: "'sel option"
  pdb_MinAvailable :: "IntOrString option"
  pdb_MaxUnavailable :: "IntOrString option"

record MatchedPDB =
  mp_Name :: string
  mp_BlocksAllDisruption :: bool

record PdbReport =
  pr_Replicas :: int
  pr_MatchingPDBs :: "MatchedPDB list"

text \<open>\<open>scaled v total up\<close> is \<^verbatim>\<open>intstr.GetScaledValueFromIntOrPercent\<close>, \<^const>\<open>None\<close> an
  error.\<close>

type_synonym scaler = "IntOrString \<Rightarrow> int \<Rightarrow> bool \<Rightarrow> int option"

definition blocksAll :: "scaler \<Rightarrow> 'sel PDB \<Rightarrow> int \<Rightarrow> bool" where
  "blocksAll scaled spec replicas =
     (let total = replicas in
      if total \<le> 0 then False
      else if (case pdb_MinAvailable spec of None \<Rightarrow> False
               | Some m \<Rightarrow> (case scaled m total True of None \<Rightarrow> False | Some v \<Rightarrow> v \<ge> total)) then True
      else if (case pdb_MaxUnavailable spec of None \<Rightarrow> False
               | Some m \<Rightarrow> (case scaled m total False of None \<Rightarrow> False | Some v \<Rightarrow> v \<le> 0)) then True
      else False)"

text \<open>\<open>asSelector\<close> is \<^verbatim>\<open>metav1.LabelSelectorAsSelector\<close>: \<^const>\<open>None\<close> for an invalid selector,
  otherwise the predicate on label sets.\<close>

fun pdb_loop :: "('sel \<Rightarrow> ('labels \<Rightarrow> bool) option) \<Rightarrow> scaler \<Rightarrow> 'labels \<Rightarrow> int \<Rightarrow>
    'sel PDB list \<Rightarrow> PdbReport \<Rightarrow> string + PdbReport" where
  "pdb_loop asSelector scaled lset replicas [] r = Inr r"
| "pdb_loop asSelector scaled lset replicas (p # ps) r =
     (case pdb_Selector p of
        None \<Rightarrow> pdb_loop asSelector scaled lset replicas ps r
      | Some ls \<Rightarrow>
          (case asSelector ls of
             None \<Rightarrow> Inl (pdb_Name p)
           | Some sel \<Rightarrow>
               if \<not> sel lset then pdb_loop asSelector scaled lset replicas ps r
               else pdb_loop asSelector scaled lset replicas ps
                      (r\<lparr>pr_MatchingPDBs := pr_MatchingPDBs r @
                          [\<lparr>mp_Name = pdb_Name p, mp_BlocksAllDisruption = blocksAll scaled p replicas\<rparr>]\<rparr>)))"

definition pdb_Audit :: "('sel \<Rightarrow> ('labels \<Rightarrow> bool) option) \<Rightarrow> scaler \<Rightarrow> 'labels \<Rightarrow> int \<Rightarrow>
    'sel PDB list \<Rightarrow> string + PdbReport" where
  "pdb_Audit asSelector scaled podLabels replicas pdbs =
     pdb_loop asSelector scaled podLabels replicas pdbs
       \<lparr>pr_Replicas = replicas, pr_MatchingPDBs = []\<rparr>"

definition pdb_Covered :: "PdbReport \<Rightarrow> bool" where
  "pdb_Covered r \<longleftrightarrow> length (pr_MatchingPDBs r) > 0"

definition pdb_Diagnostics :: "PdbReport \<Rightarrow> DiagnosticAlert list" where
  "pdb_Diagnostics r =
     (if \<not> pdb_Covered r then
        [\<lparr>alert_Type = ''MissingPDB'', alert_Severity = ''Warning'',
          alert_Message = [L ''no PodDisruptionBudget selects this workload, a node drain or cluster upgrade can evict every replica simultaneously''],
          alert_Recommendation = [L ''add a PodDisruptionBudget with minAvailable below the replica count (e.g. minAvailable: 50%)'']\<rparr>]
      else []) @
     map (\<lambda>m. \<lparr>alert_Type = ''PDBBlocksEviction'', alert_Severity = ''Warning'',
                alert_Message = [L ''PodDisruptionBudget '', Q (mp_Name m),
                   L '' permits zero voluntary evictions at '', D (pr_Replicas r),
                   L '' replica(s), node drains will hang indefinitely''],
                alert_Recommendation = [L ''lower minAvailable or raise maxUnavailable so at least one pod can be evicted during a drain'']\<rparr>)
       (filter mp_BlocksAllDisruption (pr_MatchingPDBs r))"

text \<open>A budget selects the labels when it has a selector that is valid and matches.\<close>

definition selects :: "('sel \<Rightarrow> ('labels \<Rightarrow> bool) option) \<Rightarrow> 'labels \<Rightarrow> 'sel PDB \<Rightarrow> bool" where
  "selects asSelector ls p \<longleftrightarrow>
     (case pdb_Selector p of None \<Rightarrow> False
      | Some s \<Rightarrow> (case asSelector s of None \<Rightarrow> False | Some f \<Rightarrow> f ls))"

definition selector_invalid :: "('sel \<Rightarrow> ('labels \<Rightarrow> bool) option) \<Rightarrow> 'sel PDB \<Rightarrow> bool" where
  "selector_invalid asSelector p \<longleftrightarrow>
     (case pdb_Selector p of None \<Rightarrow> False | Some s \<Rightarrow> asSelector s = None)"

lemma pdb_loop_eq:
  "pdb_loop asSelector scaled ls n ps r =
     (case List.find (selector_invalid asSelector) ps of
        Some p \<Rightarrow> Inl (pdb_Name p)
      | None \<Rightarrow> Inr (r\<lparr>pr_MatchingPDBs := pr_MatchingPDBs r @
          map (\<lambda>p. \<lparr>mp_Name = pdb_Name p, mp_BlocksAllDisruption = blocksAll scaled p n\<rparr>)
            (filter (selects asSelector ls) ps)\<rparr>))"
  by (induction ps arbitrary: r) (auto simp: selects_def selector_invalid_def split: option.splits)

text \<open>Rounding a percentage up, as \<^verbatim>\<open>intstr\<close> does.\<close>

lemma le_ceil_percent: "(n::int) \<le> (m + 99) div 100 \<longleftrightarrow> 100 * (n - 1) < m"
  by (auto simp: le_div_iff_int)

section \<open>DNS\<close>

record DNSOption =
  opt_Name :: string
  opt_Value :: "string option"

definition KubernetesDefaultNDots :: int where "KubernetesDefaultNDots = 5"

record DnsReport =
  dns_NDots :: int
  dns_Explicit :: bool

datatype dns_error = NdotsNoValue | NdotsNotInteger string

fun dns_options :: "DNSOption list \<Rightarrow> dns_error + DnsReport" where
  "dns_options [] = Inr \<lparr>dns_NDots = KubernetesDefaultNDots, dns_Explicit = False\<rparr>"
| "dns_options (opt # opts) =
     (if opt_Name opt \<noteq> ''ndots'' then dns_options opts
      else case opt_Value opt of
        None \<Rightarrow> Inl NdotsNoValue
      | Some v \<Rightarrow> (case ParseInt 64 v of None \<Rightarrow> Inl (NdotsNotInteger v)
                   | Some n \<Rightarrow> Inr \<lparr>dns_NDots = n, dns_Explicit = True\<rparr>))"

definition dns_Audit :: "DNSOption list option \<Rightarrow> dns_error + DnsReport" where
  "dns_Audit dnsConfig =
     (case dnsConfig of
        None \<Rightarrow> Inr \<lparr>dns_NDots = KubernetesDefaultNDots, dns_Explicit = False\<rparr>
      | Some opts \<Rightarrow> dns_options opts)"

definition dns_Diagnostics :: "DnsReport \<Rightarrow> DiagnosticAlert list" where
  "dns_Diagnostics r =
     (if dns_Explicit r \<and> dns_NDots r < KubernetesDefaultNDots then []
      else let source = (if dns_Explicit r then ''an explicit dnsConfig override''
                         else ''the Kubernetes default'')
           in [\<lparr>alert_Type = ''DNSNdotsHigh'', alert_Severity = ''Warning'',
                alert_Message = [L ''pod resolves with ndots:'', D (dns_NDots r), L '' ('', L source,
                   L ''), every non-FQDN lookup walks the search list first, multiplying CoreDNS queries up to '',
                   D (dns_NDots r), L ''x''],
                alert_Recommendation = [L ''set dnsConfig.options ndots to 1 or 2, or use fully-qualified names (trailing dot) for external hostnames'']\<rparr>])"

lemma dns_options_eq:
  "dns_options opts =
     (case List.find (\<lambda>o1. opt_Name o1 = ''ndots'') opts of
        None \<Rightarrow> Inr \<lparr>dns_NDots = 5, dns_Explicit = False\<rparr>
      | Some o1 \<Rightarrow> (case opt_Value o1 of None \<Rightarrow> Inl NdotsNoValue
          | Some v \<Rightarrow> (case ParseInt 64 v of None \<Rightarrow> Inl (NdotsNotInteger v)
              | Some n \<Rightarrow> Inr \<lparr>dns_NDots = n, dns_Explicit = True\<rparr>)))"
  by (induction opts) (auto simp: KubernetesDefaultNDots_def)

section \<open>Readiness probes\<close>

record HTTPGetAction =
  hg_Path :: string
  hg_Port :: IntOrString
  hg_Host :: string
  hg_Scheme :: string

record ContainerPort =
  cp_Name :: string
  cp_ContainerPort :: int

text \<open>A container as the resolver sees it: its readiness probe (if any), the probe's HTTP action
  (if it is one) and the declared ports.\<close>

record Container =
  ct_Name :: string
  ct_ReadinessProbe :: "HTTPGetAction option option"
  ct_PeriodSeconds :: int
  ct_Ports :: "ContainerPort list"

record ProbeSpec =
  ps_Path :: string
  ps_Port :: int
  ps_Scheme :: string
  ps_Host :: string

datatype probe_error =
    NoReadinessProbe | NotHTTPGet | PortNotPositive int | PortEmptyString | NamedPortNotFound string

definition resolvePort :: "IntOrString \<Rightarrow> ContainerPort list \<Rightarrow> probe_error + int" where
  "resolvePort p named =
     (case p of
        IntVal v \<Rightarrow> if v \<le> 0 then Inl (PortNotPositive v) else Inr v
      | StrVal v \<Rightarrow>
          if v = [] then Inl PortEmptyString
          else (case List.find (\<lambda>cp. cp_Name cp = v) named of
                  None \<Rightarrow> Inl (NamedPortNotFound v) | Some cp \<Rightarrow> Inr (cp_ContainerPort cp)))"

definition DiscoverFromContainer :: "Container \<Rightarrow> probe_error + ProbeSpec" where
  "DiscoverFromContainer c =
     (case ct_ReadinessProbe c of
        None \<Rightarrow> Inl NoReadinessProbe
      | Some None \<Rightarrow> Inl NotHTTPGet
      | Some (Some httpGet) \<Rightarrow>
          (case resolvePort (hg_Port httpGet) (ct_Ports c) of
             Inl e \<Rightarrow> Inl e
           | Inr port \<Rightarrow>
               Inr \<lparr>ps_Path = (if hg_Path httpGet = [] then ''/'' else hg_Path httpGet),
                    ps_Port = port,
                    ps_Scheme = (if hg_Scheme httpGet = [] then ''HTTP'' else hg_Scheme httpGet),
                    ps_Host = hg_Host httpGet\<rparr>))"

section \<open>Properties\<close>


text \<open>What it means to block all evictions, given the documented scaling rules (an integer
  stands for itself, a minAvailable percentage rounds up, a maxUnavailable percentage rounds
  down): with replicas running, a budget is flagged exactly when it leaves no pod to evict.\<close>

theorem blocksAll_iff:
  assumes "0 < n" and "\<And>v t up. scaled (IntVal v) t up = Some v"
    and "\<And>s p t. pct s = Some p \<Longrightarrow> scaled (StrVal s) t True = Some ((p * t + 99) div 100)"
    and "\<And>s p t. pct s = Some p \<Longrightarrow> scaled (StrVal s) t False = Some (p * t div 100)"
    and "\<And>s t up. pct s = None \<Longrightarrow> scaled (StrVal s) t up = None"
  shows "blocksAll scaled p n \<longleftrightarrow>
    (case pdb_MinAvailable p of Some (IntVal v) \<Rightarrow> n \<le> v
       | Some (StrVal s) \<Rightarrow> (case pct s of Some q \<Rightarrow> 100 * (n - 1) < q * n | None \<Rightarrow> False) | None \<Rightarrow> False)
    \<or> (case pdb_MaxUnavailable p of Some (IntVal v) \<Rightarrow> v \<le> 0
       | Some (StrVal s) \<Rightarrow> (case pct s of Some q \<Rightarrow> q * n < 100 | None \<Rightarrow> False) | None \<Rightarrow> False)"
  (is "_ \<longleftrightarrow> ?min \<or> ?max")
proof -
  have up: "n \<le> (q * n + 99) div 100 \<longleftrightarrow> 100 * (n - 1) < q * n" for q
    using le_ceil_percent[of n "q * n"] .
  have down: "(q * n) div 100 \<le> 0 \<longleftrightarrow> q * n < 100" for q by linarith
  have lo: "(case pdb_MinAvailable p of None \<Rightarrow> False
        | Some m \<Rightarrow> (case scaled m n True of None \<Rightarrow> False | Some v \<Rightarrow> v \<ge> n)) \<longleftrightarrow> ?min"
    by (auto simp: assms(2,3,5) up split: option.split IntOrString.split)
      (metis assms(3,5) option.distinct(1) option.inject option.exhaust up)+
  have hi: "(case pdb_MaxUnavailable p of None \<Rightarrow> False
        | Some m \<Rightarrow> (case scaled m n False of None \<Rightarrow> False | Some v \<Rightarrow> v \<le> 0)) \<longleftrightarrow> ?max"
    by (auto simp: assms(2,4,5) down split: option.split IntOrString.split)
      (metis assms(4,5) option.distinct(1) option.inject option.exhaust down)+
  show ?thesis using assms(1) unfolding blocksAll_def Let_def lo hi by simp
qed

definition pct_demo :: "string \<Rightarrow> int option" where
  "pct_demo s = (if s \<noteq> [] \<and> last s = CHR ''%'' then ParseInt 64 (butlast s) else None)"

definition scaled_demo :: scaler where
  "scaled_demo v t up =
     (case v of IntVal n \<Rightarrow> Some n
      | StrVal s \<Rightarrow> map_option (\<lambda>p. if up then (p * t + 99) div 100 else p * t div 100) (pct_demo s))"

theorem blocksAll_iff_witness:
  "blocksAll scaled_demo
     \<lparr>pdb_Name = ''web'', pdb_Selector = Some (), pdb_MinAvailable = Some (StrVal ''51%''),
      pdb_MaxUnavailable = None\<rparr> 2
   \<and> \<not> blocksAll scaled_demo
     \<lparr>pdb_Name = ''web'', pdb_Selector = Some (), pdb_MinAvailable = Some (StrVal ''50%''),
      pdb_MaxUnavailable = None\<rparr> 2"
proof -
  have laws: "scaled_demo (IntVal v) t up = Some v"
    "pct_demo s = Some p \<Longrightarrow> scaled_demo (StrVal s) t True = Some ((p * t + 99) div 100)"
    "pct_demo s = Some p \<Longrightarrow> scaled_demo (StrVal s) t False = Some (p * t div 100)"
    "pct_demo s = None \<Longrightarrow> scaled_demo (StrVal s) t up = None" for v t up s p
    by (simp_all add: scaled_demo_def)
  have "pct_demo ''51%'' = Some 51" "pct_demo ''50%'' = Some 50" 
    by (simp_all add: pct_demo_def ParseInt_def ParseUint_def char_digit_def)
  moreover have "blocksAll scaled_demo b 2 \<longleftrightarrow>
      (case pct_demo s of Some q \<Rightarrow> 100 * (2 - 1) < q * 2 | None \<Rightarrow> False)"
    if "pdb_MinAvailable b = Some (StrVal s)" "pdb_MaxUnavailable b = None" for b :: "unit PDB" and s
    using blocksAll_iff[of 2 scaled_demo pct_demo b, OF _ laws] that by simp
  ultimately show ?thesis by simp
qed

end
