(* ===== verification/Probelag.thy ===== *)
theory Probelag
  imports Api_Types Go_Float
begin

text \<open>
  \<^verbatim>\<open>internal/analyzer/probelag/probelag.go\<close>: readiness-probe sampling lag, computed from a
  pod's lifecycle conditions.
\<close>

section \<open>Model\<close>

record PodCondition =
  pc_Type :: string
  pc_Status :: string
  pc_LastTransitionTime :: time

record ProbelagReport =
  pl_Scheduled :: "time option"
  pl_ReadyToStartContainers :: "time option"
  pl_Initialized :: "time option"
  pl_ContainersReady :: "time option"
  pl_Ready :: "time option"
  pl_SchedulingLatency :: duration
  pl_TrueSchedulingLatency :: duration
  pl_InitContainerRuntime :: duration
  pl_StartupLatency :: duration
  pl_ReadinessLag :: duration
  pl_TotalStartupLatency :: duration
  pl_PeriodSeconds :: int

definition warnPeriods :: int where "warnPeriods = 2"
definition criticalPeriods :: int where "criticalPeriods = 5"

definition probelag_diff :: "time option \<Rightarrow> time option \<Rightarrow> duration" where
  "probelag_diff a b =
     (case (a, b) of (Some x, Some y) \<Rightarrow> (let d = time_Sub y x in if d < 0 then 0 else d) | _ \<Rightarrow> 0)"

text \<open>The loop over the conditions: only a condition with status True sets its timestamp, and a
  later one of the same type wins.\<close>

definition record_condition :: "ProbelagReport \<Rightarrow> PodCondition \<Rightarrow> ProbelagReport" where
  "record_condition r c =
     (if pc_Status c \<noteq> ''True'' then r
      else let ts = Some (pc_LastTransitionTime c) in
        if pc_Type c = ''PodScheduled'' then r\<lparr>pl_Scheduled := ts\<rparr>
        else if pc_Type c = ''PodReadyToStartContainers'' then r\<lparr>pl_ReadyToStartContainers := ts\<rparr>
        else if pc_Type c = ''Initialized'' then r\<lparr>pl_Initialized := ts\<rparr>
        else if pc_Type c = ''ContainersReady'' then r\<lparr>pl_ContainersReady := ts\<rparr>
        else if pc_Type c = ''Ready'' then r\<lparr>pl_Ready := ts\<rparr>
        else r)"

definition probelag_zero :: "int \<Rightarrow> ProbelagReport" where
  "probelag_zero period =
     \<lparr>pl_Scheduled = None, pl_ReadyToStartContainers = None, pl_Initialized = None,
      pl_ContainersReady = None, pl_Ready = None, pl_SchedulingLatency = 0,
      pl_TrueSchedulingLatency = 0, pl_InitContainerRuntime = 0, pl_StartupLatency = 0,
      pl_ReadinessLag = 0, pl_TotalStartupLatency = 0, pl_PeriodSeconds = period\<rparr>"

definition FromPodConditions :: "PodCondition list \<Rightarrow> int \<Rightarrow> ProbelagReport" where
  "FromPodConditions conds periodSeconds =
     (let r = foldl record_condition (probelag_zero periodSeconds) conds;
          r = r\<lparr>pl_SchedulingLatency := probelag_diff (pl_Scheduled r) (pl_Initialized r)\<rparr>;
          r = (if pl_ReadyToStartContainers r \<noteq> None
               then r\<lparr>pl_TrueSchedulingLatency := probelag_diff (pl_Scheduled r) (pl_ReadyToStartContainers r),
                      pl_InitContainerRuntime := probelag_diff (pl_ReadyToStartContainers r) (pl_Initialized r)\<rparr>
               else r)
      in r\<lparr>pl_StartupLatency := probelag_diff (pl_Initialized r) (pl_ContainersReady r),
           pl_ReadinessLag := probelag_diff (pl_ContainersReady r) (pl_Ready r),
           pl_TotalStartupLatency := probelag_diff (pl_Scheduled r) (pl_Ready r)\<rparr>)"

definition probelag_Diagnostics :: "ProbelagReport \<Rightarrow> DiagnosticAlert list" where
  "probelag_Diagnostics r =
     (if pl_PeriodSeconds r \<le> 0 then []
      else if pl_ContainersReady r = None \<or> pl_Ready r = None then []
      else let period = dur_mul (pl_PeriodSeconds r) Second in
        if pl_ReadinessLag r < dur_mul warnPeriods period then []
        else let severity = (if pl_ReadinessLag r \<ge> dur_mul criticalPeriods period
                             then SeverityCritical else SeverityWarning);
                 periodsCovered = fl_div (fl_of_int (pl_ReadinessLag r)) (fl_of_int period)
             in [\<lparr>alert_Type = ''ReadinessSamplingSparse'', alert_Severity = severity,
                  alert_Message = [L ''readiness lag '', Dur (pl_ReadinessLag r), L '' spans '',
                     Fx 1 periodsCovered, L ''x the probe period ('', Dur period,
                     L ''), container was running but unmarked Ready for '', D (fl_trunc periodsCovered),
                     L ''+ probe cycles''],
                  alert_Recommendation = [L ''lower readinessProbe.periodSeconds (e.g. 2s) and/or readinessProbe.failureThreshold to shorten cold-start exposure'']\<rparr>])"

section \<open>Lemmas\<close>

lemma probelag_diff_nonneg [simp]: "0 \<le> probelag_diff a b"
  by (simp add: probelag_diff_def Let_def split: option.split)

lemma probelag_diff_ordered:
  "x \<le> y \<Longrightarrow> in_int64 (y - x) \<Longrightarrow> probelag_diff (Some x) (Some y) = y - x"
  by (simp add: probelag_diff_def time_Sub_exact)

text \<open>The timestamp of the last True condition of a type.\<close>

definition last_true :: "string \<Rightarrow> PodCondition list \<Rightarrow> time option" where
  "last_true ty conds =
     (case filter (\<lambda>c. pc_Type c = ty \<and> pc_Status c = ''True'') conds of [] \<Rightarrow> None
      | cs \<Rightarrow> Some (pc_LastTransitionTime (last cs)))"

lemma last_true_snoc:
  "last_true ty (cs @ [c]) =
     (if pc_Type c = ty \<and> pc_Status c = ''True'' then Some (pc_LastTransitionTime c) else last_true ty cs)"
  by (cases "filter (\<lambda>c. pc_Type c = ty \<and> pc_Status c = ''True'') cs") (auto simp: last_true_def)

lemma conditions_recorded:
  "let r = foldl record_condition (probelag_zero p) conds in
     pl_Scheduled r = last_true ''PodScheduled'' conds
     \<and> pl_ReadyToStartContainers r = last_true ''PodReadyToStartContainers'' conds
     \<and> pl_Initialized r = last_true ''Initialized'' conds
     \<and> pl_ContainersReady r = last_true ''ContainersReady'' conds
     \<and> pl_Ready r = last_true ''Ready'' conds \<and> pl_PeriodSeconds r = p"
proof (induction conds rule: rev_induct)
  case Nil
  then show ?case by (simp add: probelag_zero_def last_true_def)
next
  case (snoc c cs)
  then show ?case by (auto simp: Let_def last_true_snoc record_condition_def)
qed

lemma FromPodConditions_fields:
  "pl_Ready (FromPodConditions conds p) = last_true ''Ready'' conds"
  "pl_ContainersReady (FromPodConditions conds p) = last_true ''ContainersReady'' conds"
  "pl_PeriodSeconds (FromPodConditions conds p) = p"
  "pl_ReadinessLag (FromPodConditions conds p) =
     probelag_diff (last_true ''ContainersReady'' conds) (last_true ''Ready'' conds)"
  "pl_SchedulingLatency (FromPodConditions conds p) =
     probelag_diff (last_true ''PodScheduled'' conds) (last_true ''Initialized'' conds)"
  "pl_TotalStartupLatency (FromPodConditions conds p) =
     probelag_diff (last_true ''PodScheduled'' conds) (last_true ''Ready'' conds)"
  "pl_StartupLatency (FromPodConditions conds p) =
     probelag_diff (last_true ''Initialized'' conds) (last_true ''ContainersReady'' conds)"
  "last_true ''PodReadyToStartContainers'' conds = Some t \<Longrightarrow>
     pl_TrueSchedulingLatency (FromPodConditions conds p) =
       probelag_diff (last_true ''PodScheduled'' conds) (Some t)"
  "last_true ''PodReadyToStartContainers'' conds = Some t \<Longrightarrow>
     pl_InitContainerRuntime (FromPodConditions conds p) =
       probelag_diff (Some t) (last_true ''Initialized'' conds)"
  using conditions_recorded[of p conds] by (simp_all add: FromPodConditions_def Let_def)

section \<open>Properties\<close>

text \<open>The cold start decomposes: for a pod whose five lifecycle conditions are all True and in
  order, the total startup latency is the sum of the scheduling, container-startup and
  readiness-lag stages, and the scheduling stage is the sum of its two halves.\<close>

theorem probelag_decomposition:
  assumes "last_true ''PodScheduled'' conds = Some t1" "last_true ''PodReadyToStartContainers'' conds = Some t2"
    and "last_true ''Initialized'' conds = Some t3" "last_true ''ContainersReady'' conds = Some t4"
    and "last_true ''Ready'' conds = Some t5"
    and "t1 \<le> t2" "t2 \<le> t3" "t3 \<le> t4" "t4 \<le> t5" "t5 - t1 \<le> MaxInt64"
  shows "let r = FromPodConditions conds p in
    pl_SchedulingLatency r = pl_TrueSchedulingLatency r + pl_InitContainerRuntime r
    \<and> pl_TotalStartupLatency r = pl_SchedulingLatency r + pl_StartupLatency r + pl_ReadinessLag r"
  using assms
  by (simp add: Let_def FromPodConditions_fields probelag_diff_ordered in_int64_def int_bounds)

definition probelag_demo :: "PodCondition list" where
  "probelag_demo =
     [\<lparr>pc_Type = ''PodScheduled'', pc_Status = ''True'', pc_LastTransitionTime = 0\<rparr>,
      \<lparr>pc_Type = ''PodReadyToStartContainers'', pc_Status = ''True'', pc_LastTransitionTime = 1\<rparr>,
      \<lparr>pc_Type = ''Initialized'', pc_Status = ''True'', pc_LastTransitionTime = 3\<rparr>,
      \<lparr>pc_Type = ''ContainersReady'', pc_Status = ''True'', pc_LastTransitionTime = 6\<rparr>,
      \<lparr>pc_Type = ''Ready'', pc_Status = ''True'', pc_LastTransitionTime = 6 + 25 * 1000000000\<rparr>]"

theorem probelag_decomposition_witness:
  "let r = FromPodConditions probelag_demo 10 in
     pl_SchedulingLatency r = pl_TrueSchedulingLatency r + pl_InitContainerRuntime r
     \<and> pl_TotalStartupLatency r = pl_SchedulingLatency r + pl_StartupLatency r + pl_ReadinessLag r"
  by (rule probelag_decomposition[of _ 0 1 3 6 "6 + 25 * 1000000000"])
    (simp_all add: probelag_demo_def last_true_def int_bounds)

text \<open>The sparse-sampling alert: for every probe period up to 1.8 billion seconds (past which
  five periods overflow a \<^verbatim>\<open>Duration\<close>), the alert is raised exactly when the readiness lag
  is known and spans at least two periods, and is Critical exactly from five periods on.\<close>

theorem probelag_severity:
  assumes "0 < p" "p \<le> 1800000000"
  shows "map alert_Severity (probelag_Diagnostics (FromPodConditions conds p)) =
    (let cready = last_true ''ContainersReady'' conds; ready = last_true ''Ready'' conds;
         lag = probelag_diff cready ready in
     if cready = None \<or> ready = None \<or> lag < 2 * p * 1000000000 then []
     else if lag < 5 * p * 1000000000 then [''Warning''] else [''Critical''])"
proof -
  have w: "dur_mul p 1000000000 = p * 1000000000"
    "dur_mul 2 (p * 1000000000) = 2 * p * 1000000000"
    "dur_mul 5 (p * 1000000000) = 5 * p * 1000000000"
    using assms by (simp_all add: dur_mul_def wrap64_id in_int64_def int_bounds)
  show ?thesis
    using assms by (auto simp: probelag_Diagnostics_def FromPodConditions_fields Let_def w
        warnPeriods_def criticalPeriods_def)
qed

theorem probelag_severity_witness:
  "map alert_Severity (probelag_Diagnostics (FromPodConditions probelag_demo 10)) = [''Warning'']"
  using probelag_severity[of 10 probelag_demo]
  by (simp add: probelag_demo_def last_true_def probelag_diff_def time_Sub_def int_bounds Let_def)

end
