(* ===== verification/Chaos.thy ===== *)
theory Chaos
  imports Audits Probelag
begin

text \<open>
  The disruption planner, \<^verbatim>\<open>internal/chaos/chaos.go\<close>, and the pod as the components read
  it. The random choice of the victim is the parameter \<open>pick\<close>, of which nothing is assumed.
\<close>

section \<open>Pods\<close>

record Pod =
  pod_Name :: string
  pod_Labels :: "(string \<times> string) list"
  pod_CreationTimestamp :: time
  pod_DeletionTimestamp :: "time option"
  pod_NodeName :: string
  pod_Containers :: "Container list"
  pod_DNSConfig :: "DNSOption list option"
  pod_Phase :: string
  pod_Conditions :: "PodCondition list"

section \<open>The planner\<close>

record ChaosConfig =
  cc_InjectPodDeletion :: bool
  cc_MinReplicasForChaos :: int
  cc_TriggerDelay :: duration

record Decision =
  dec_Inject :: bool
  dec_SkipReason :: message
  dec_DisruptAt :: "time option"
  dec_Victim :: "Pod option"
  dec_HealthyCount :: nat

fun pod_ready_conditions :: "PodCondition list \<Rightarrow> bool" where
  "pod_ready_conditions [] = False"
| "pod_ready_conditions (c # cs) =
     (if pc_Type c = ''Ready'' then pc_Status c = ''True'' else pod_ready_conditions cs)"

definition podReady :: "Pod \<Rightarrow> bool" where
  "podReady p = pod_ready_conditions (pod_Conditions p)"

fun HealthyPods :: "Pod list \<Rightarrow> Pod list" where
  "HealthyPods [] = []"
| "HealthyPods (p # ps) =
     (if pod_DeletionTimestamp p \<noteq> None then HealthyPods ps
      else if pod_Phase p \<noteq> ''Running'' then HealthyPods ps
      else if \<not> podReady p then HealthyPods ps
      else p # HealthyPods ps)"

definition no_decision :: "nat \<Rightarrow> Decision" where
  "no_decision n = \<lparr>dec_Inject = False, dec_SkipReason = [], dec_DisruptAt = None,
     dec_Victim = None, dec_HealthyCount = n\<rparr>"

definition Plan :: "ChaosConfig \<Rightarrow> time \<Rightarrow> Pod list \<Rightarrow> (nat \<Rightarrow> int) \<Rightarrow> Decision" where
  "Plan cfg loadStart pods pick =
     (if \<not> cc_InjectPodDeletion cfg then no_decision 0
      else
        let healthy = HealthyPods pods; d = no_decision (length healthy) in
        if length healthy = 0 \<or> int (length healthy) < cc_MinReplicasForChaos cfg
        then d\<lparr>dec_SkipReason := [L ''only '', D (int (length healthy)),
               L '' healthy replica(s); minReplicasForChaos is '', D (cc_MinReplicasForChaos cfg),
               L '', skipping disruption to avoid total unavailability'']\<rparr>
        else
          let idx = pick (length healthy);
              idx = (if idx < 0 \<or> idx \<ge> int (length healthy) then 0 else idx)
          in d\<lparr>dec_Inject := True, dec_Victim := Some (healthy ! nat idx),
               dec_DisruptAt := Some (time_Add loadStart (cc_TriggerDelay cfg))\<rparr>)"

section \<open>Lemmas\<close>

definition healthy_pod :: "Pod \<Rightarrow> bool" where
  "healthy_pod p \<longleftrightarrow> pod_DeletionTimestamp p = None \<and> pod_Phase p = ''Running'' \<and> podReady p"

lemma HealthyPods_filter [simp]: "HealthyPods ps = filter healthy_pod ps"
  by (induction ps) (auto simp: healthy_pod_def)

lemma Plan_Inject_iff:
  "dec_Inject (Plan cfg t pods pick) \<longleftrightarrow>
     cc_InjectPodDeletion cfg
     \<and> max 1 (cc_MinReplicasForChaos cfg) \<le> int (length (filter healthy_pod pods))"
  by (auto simp: Plan_def Let_def no_decision_def simp flip: length_greater_0_conv)

lemma Plan_Victim:
  "dec_Inject (Plan cfg t pods pick) \<longleftrightarrow> dec_Victim (Plan cfg t pods pick) \<noteq> None"
  "dec_Victim (Plan cfg t pods pick) = Some v \<Longrightarrow> v \<in> set pods \<and> healthy_pod v"
proof -
  show "dec_Inject (Plan cfg t pods pick) \<longleftrightarrow> dec_Victim (Plan cfg t pods pick) \<noteq> None"
    by (simp add: Plan_def Let_def no_decision_def)
  assume "dec_Victim (Plan cfg t pods pick) = Some v"
  then have "v \<in> set (filter healthy_pod pods)"
    by (force simp: Plan_def Let_def no_decision_def nat_less_iff
        simp del: set_filter split: if_splits intro!: nth_mem)
  then show "v \<in> set pods \<and> healthy_pod v" by simp
qed

lemma Plan_HealthyCount:
  "dec_Inject (Plan cfg t pods pick) \<Longrightarrow>
     dec_HealthyCount (Plan cfg t pods pick) = length (filter healthy_pod pods)"
  by (auto simp: Plan_def Let_def no_decision_def split: if_splits)

lemma length_filter_remove1:
  "P v \<Longrightarrow> v \<in> set xs \<Longrightarrow> Suc (length (filter P (remove1 v xs))) = length (filter P xs)"
  by (induction xs) auto

section \<open>Properties\<close>

text \<open>The safety gate of the disruption planner, for every pod list, every configuration and
  every choice function (one that is out of range included): it injects exactly when injection is
  enabled and the healthy pods number at least one and at least the configured minimum.\<close>

theorem Plan_gate:
  "dec_Inject (Plan cfg t pods pick) \<longleftrightarrow>
     cc_InjectPodDeletion cfg
     \<and> max 1 (cc_MinReplicasForChaos cfg)
         \<le> int (length (filter (\<lambda>p. pod_DeletionTimestamp p = None \<and> pod_Phase p = ''Running'' \<and> podReady p) pods))"
  using Plan_Inject_iff unfolding healthy_pod_def .

lemma healthy_pod_left:
  assumes "v \<in> set pods" "healthy_pod v" "2 \<le> int (length (filter healthy_pod pods))"
  shows "\<exists>p \<in> set (remove1 v pods). healthy_pod p"
proof -
  have "length (filter healthy_pod (remove1 v pods)) \<ge> 1"
    using assms length_filter_remove1[of healthy_pod v pods] by simp
  then have "filter healthy_pod (remove1 v pods) \<noteq> []" by force
  then show ?thesis by (auto simp: filter_empty_conv)
qed

text \<open>A disruption never takes the target down: with the minimum of two replicas the CRD schema
  enforces, deleting the chosen victim (a running, ready, non-terminating pod of the target) leaves
  at least one healthy pod.\<close>

theorem Plan_leaves_healthy_pod:
  assumes "dec_Victim (Plan cfg t pods pick) = Some v" and "2 \<le> cc_MinReplicasForChaos cfg"
  shows "v \<in> set pods \<and> podReady v \<and> pod_DeletionTimestamp v = None
    \<and> (\<exists>p \<in> set (remove1 v pods). podReady p \<and> pod_Phase p = ''Running'' \<and> pod_DeletionTimestamp p = None)"
proof -
  have inj: "dec_Inject (Plan cfg t pods pick)" using assms(1) by (simp add: Plan_Victim(1))
  have v: "v \<in> set pods" "healthy_pod v" using Plan_Victim(2)[OF assms(1)] by auto
  have "2 \<le> int (length (filter healthy_pod pods))" using inj assms(2) by (simp add: Plan_Inject_iff)
  from healthy_pod_left[OF v this] v show ?thesis by (auto simp: healthy_pod_def)
qed

definition demo_pod :: "string \<Rightarrow> string \<Rightarrow> Pod" where
  "demo_pod n ready = \<lparr>pod_Name = n, pod_Labels = [], pod_CreationTimestamp = 0,
     pod_DeletionTimestamp = None, pod_NodeName = ''node'', pod_Containers = [], pod_DNSConfig = None,
     pod_Phase = ''Running'',
     pod_Conditions = [\<lparr>pc_Type = ''Ready'', pc_Status = ready, pc_LastTransitionTime = 0\<rparr>]\<rparr>"

theorem Plan_leaves_healthy_pod_witness:
  "\<exists>p \<in> set (remove1 (demo_pod ''b'' ''True'') [demo_pod ''a'' ''True'', demo_pod ''b'' ''True'', demo_pod ''c'' ''False'']).
     podReady p"
proof -
  let ?cfg = "\<lparr>cc_InjectPodDeletion = True, cc_MinReplicasForChaos = 2, cc_TriggerDelay = 0\<rparr>"
  let ?pods = "[demo_pod ''a'' ''True'', demo_pod ''b'' ''True'', demo_pod ''c'' ''False'']"
  have "dec_Victim (Plan ?cfg 0 ?pods (\<lambda>n. 1)) = Some (demo_pod ''b'' ''True'')"
    by (simp add: Plan_def Let_def no_decision_def demo_pod_def healthy_pod_def podReady_def)
  from Plan_leaves_healthy_pod[OF this] show ?thesis by (simp del: remove1.simps) blast
qed

end
