(* ===== verification/Endpoint_Tracker.thy ===== *)
theory Endpoint_Tracker
  imports Correlation "HOL-Library.AList"
begin

text \<open>
  The observer's view of a Service's EndpointSlices, \<^verbatim>\<open>internal/observer/endpoints.go\<close>. A Go
  map is an association list with distinct keys: its order stands for the unspecified iteration
  order, and no theorem depends on it.
\<close>

section \<open>The tracker\<close>

record Endpoint =
  ep_Addresses :: "string list"
  ep_Ready :: "bool option"

record endpointTracker =
  tr_slices :: "(string \<times> (string \<times> bool) list) list"
  tr_ready :: "string list"

definition newEndpointTracker :: endpointTracker where
  "newEndpointTracker = \<lparr>tr_slices = [], tr_ready = []\<rparr>"

definition is_true :: "(string \<times> bool) list \<Rightarrow> string \<Rightarrow> bool" where
  "is_true m ip \<longleftrightarrow> map_of m ip = Some True"

fun add_addresses :: "bool \<Rightarrow> (string \<times> bool) list \<Rightarrow> string list \<Rightarrow> (string \<times> bool) list" where
  "add_addresses ready m [] = m"
| "add_addresses ready m (ip # ips) = add_addresses ready (AList.update ip (is_true m ip \<or> ready) m) ips"

fun slice_contribution :: "(string \<times> bool) list \<Rightarrow> Endpoint list \<Rightarrow> (string \<times> bool) list" where
  "slice_contribution m [] = m"
| "slice_contribution m (ep # eps) =
     slice_contribution (add_addresses (ep_Ready ep = Some True) m (ep_Addresses ep)) eps"

definition union_ready :: "(string \<times> (string \<times> bool) list) list \<Rightarrow> string list" where
  "union_ready sl = remdups (concat (map (\<lambda>(n, m). map fst (filter snd m)) sl))"

definition tracker_apply ::
  "endpointTracker \<Rightarrow> string \<Rightarrow> Endpoint list \<Rightarrow> bool \<Rightarrow> time \<Rightarrow> EndpointEvent list \<times> endpointTracker" where
  "tracker_apply t sliceName eps deleted at_t =
     (let sl = (if deleted then AList.delete sliceName (tr_slices t)
                else AList.update sliceName (slice_contribution [] eps) (tr_slices t));
          nxt = union_ready sl;
          events = map (\<lambda>ip. \<lparr>ev_At = at_t, ev_PodIP = ip, ev_Kind = EndpointReady\<rparr>)
                     (filter (\<lambda>ip. ip \<notin> set (tr_ready t)) nxt)
                 @ map (\<lambda>ip. \<lparr>ev_At = at_t, ev_PodIP = ip, ev_Kind = EndpointRemoved\<rparr>)
                     (filter (\<lambda>ip. ip \<notin> set nxt) (tr_ready t))
      in (events, \<lparr>tr_slices = sl, tr_ready = nxt\<rparr>))"

text \<open>A watch delivers slice events; \<^verbatim>\<open>consumeWatch\<close> feeds them to the tracker and appends what
  comes back to the session's events. An event whose object is not a slice is skipped.\<close>

record slice_event =
  se_Name :: string
  se_Endpoints :: "Endpoint list"
  se_Deleted :: bool
  se_At :: time

definition addEvents :: "EndpointEvent list \<Rightarrow> EndpointEvent list \<Rightarrow> EndpointEvent list" where
  "addEvents evs new = (if new = [] then evs else evs @ new)"

lemma addEvents_append [simp]: "addEvents evs new = evs @ new"
  by (simp add: addEvents_def)

fun consumeWatch :: "slice_event option list \<Rightarrow> endpointTracker \<Rightarrow> EndpointEvent list \<Rightarrow>
    endpointTracker \<times> EndpointEvent list" where
  "consumeWatch [] t evs = (t, evs)"
| "consumeWatch (None # ws) t evs = consumeWatch ws t evs"
| "consumeWatch (Some w # ws) t evs =
     (let (new, t') = tracker_apply t (se_Name w) (se_Endpoints w) (se_Deleted w) (se_At w)
      in consumeWatch ws t' (addEvents evs new))"

section \<open>Specification\<close>

text \<open>The slices that exist after a history of events, and the addresses ready in one of them.\<close>

definition latest :: "slice_event option list \<Rightarrow> string \<rightharpoonup> Endpoint list" where
  "latest ws = foldl (\<lambda>s w. case w of None \<Rightarrow> s
      | Some w \<Rightarrow> if se_Deleted w then s(se_Name w := None) else s(se_Name w \<mapsto> se_Endpoints w)) Map.empty ws"

definition ready_in :: "(string \<rightharpoonup> Endpoint list) \<Rightarrow> string set" where
  "ready_in s = {ip. \<exists>n eps ep. s n = Some eps \<and> ep \<in> set eps \<and> ep_Ready ep = Some True \<and> ip \<in> set (ep_Addresses ep)}"

text \<open>Playing endpoint events back: Ready adds an address, Removed takes it away.\<close>

definition replay :: "EndpointEvent list \<Rightarrow> string set" where
  "replay evs = foldl (\<lambda>s e. if ev_Kind e = EndpointReady then insert (ev_PodIP e) s else s - {ev_PodIP e}) {} evs"

section \<open>Lemmas\<close>

lemma add_addresses_true [simp]:
  "is_true (add_addresses r m ips) ip \<longleftrightarrow> is_true m ip \<or> (r \<and> ip \<in> set ips)"
  by (induction ips arbitrary: m) (auto simp: is_true_def update_conv')

lemma add_addresses_distinct [simp]: "distinct (map fst m) \<Longrightarrow> distinct (map fst (add_addresses r m ips))"
  by (induction ips arbitrary: m) (auto simp: distinct_update)

lemma slice_contribution_true:
  "is_true (slice_contribution m eps) ip \<longleftrightarrow>
     is_true m ip \<or> (\<exists>ep\<in>set eps. ep_Ready ep = Some True \<and> ip \<in> set (ep_Addresses ep))"
  by (induction eps arbitrary: m) auto

lemma slice_contribution_distinct: "distinct (map fst m) \<Longrightarrow> distinct (map fst (slice_contribution m eps))"
  by (induction eps arbitrary: m) auto

text \<open>The tracker's slices are the contributions of the slices that exist.\<close>

definition tracks :: "endpointTracker \<Rightarrow> (string \<rightharpoonup> Endpoint list) \<Rightarrow> bool" where
  "tracks t s \<longleftrightarrow> distinct (map fst (tr_slices t))
     \<and> (\<forall>n. map_of (tr_slices t) n = map_option (slice_contribution []) (s n))
     \<and> set (tr_ready t) = ready_in s \<and> distinct (tr_ready t)"

lemma union_ready_set:
  assumes "distinct (map fst sl)" "\<And>n. map_of sl n = map_option (slice_contribution []) (s n)"
  shows "set (union_ready sl) = ready_in s"
proof -
  have "ip \<in> set (union_ready sl) \<longleftrightarrow> (\<exists>n m. map_of sl n = Some m \<and> (ip, True) \<in> set m)" for ip
    by (auto simp: union_ready_def map_of_eq_Some_iff[OF assms(1)] image_iff split: prod.splits) force+
  also have "(\<exists>n m. map_of sl n = Some m \<and> (ip, True) \<in> set m) \<longleftrightarrow>
      (\<exists>n eps. s n = Some eps \<and> is_true (slice_contribution [] eps) ip)" for ip
    by (auto simp: assms(2) is_true_def map_of_eq_Some_iff slice_contribution_distinct)
  finally have "ip \<in> set (union_ready sl) \<longleftrightarrow> ip \<in> ready_in s" for ip
    by (auto simp: ready_in_def slice_contribution_true) (simp add: is_true_def)
  then show ?thesis by blast
qed

lemma tracker_apply_tracks:
  assumes "tracks t s" and s'_def: "s' = (if deleted then s(nm := None) else s(nm \<mapsto> eps))"
  shows "tracks (snd (tracker_apply t nm eps deleted at_t)) s'"
    and "ev_PodIP ` set (filter (\<lambda>e. ev_Kind e = EndpointReady) (fst (tracker_apply t nm eps deleted at_t))) = ready_in s' - ready_in s"
    and "ev_PodIP ` set (filter (\<lambda>e. ev_Kind e \<noteq> EndpointReady) (fst (tracker_apply t nm eps deleted at_t))) = ready_in s - ready_in s'"
proof -
  let ?sl = "if deleted then AList.delete nm (tr_slices t) else AList.update nm (slice_contribution [] eps) (tr_slices t)"
  have d: "distinct (map fst ?sl)" using assms(1) by (auto simp: tracks_def distinct_update distinct_delete)
  have m: "map_of ?sl n = map_option (slice_contribution []) (s' n)" for n
    using assms(1) by (auto simp: tracks_def s'_def update_conv' delete_conv')
  note r = union_ready_set[OF d m]
  show "tracks (snd (tracker_apply t nm eps deleted at_t)) s'"
    using d m r by (simp add: tracks_def tracker_apply_def Let_def union_ready_def)
  show "ev_PodIP ` set (filter (\<lambda>e. ev_Kind e = EndpointReady) (fst (tracker_apply t nm eps deleted at_t))) = ready_in s' - ready_in s"
    "ev_PodIP ` set (filter (\<lambda>e. ev_Kind e \<noteq> EndpointReady) (fst (tracker_apply t nm eps deleted at_t))) = ready_in s - ready_in s'"
    using r assms(1) by (auto simp: tracker_apply_def Let_def tracks_def image_iff)
qed

abbreviation play :: "string set \<Rightarrow> EndpointEvent list \<Rightarrow> string set" where
  "play \<equiv> foldl (\<lambda>s e. if ev_Kind e = EndpointReady then insert (ev_PodIP e) s else s - {ev_PodIP e})"

lemma play_ready [simp]:
  "play S (map (\<lambda>ip. \<lparr>ev_At = t, ev_PodIP = ip, ev_Kind = EndpointReady\<rparr>) ips) = S \<union> set ips"
  by (induction ips arbitrary: S) auto

lemma play_removed [simp]:
  "play S (map (\<lambda>ip. \<lparr>ev_At = t, ev_PodIP = ip, ev_Kind = EndpointRemoved\<rparr>) ips) = S - set ips"
  by (induction ips arbitrary: S) auto

lemma tracker_apply_play:
  "play (set (tr_ready t)) (fst (tracker_apply t nm eps deleted at_t)) =
     set (tr_ready (snd (tracker_apply t nm eps deleted at_t)))"
  by (auto simp: tracker_apply_def Let_def)

definition step_slices :: "(string \<rightharpoonup> Endpoint list) \<Rightarrow> slice_event option \<Rightarrow> string \<rightharpoonup> Endpoint list" where
  "step_slices s w = (case w of None \<Rightarrow> s
      | Some w \<Rightarrow> if se_Deleted w then s(se_Name w := None) else s(se_Name w \<mapsto> se_Endpoints w))"

lemma latest_foldl: "latest ws = foldl step_slices Map.empty ws"
  unfolding latest_def by (rule arg_cong[of _ _ "\<lambda>f. foldl f Map.empty ws"]) (simp add: step_slices_def fun_eq_iff)

lemma consumeWatch_tracks:
  assumes "tracks t s" "replay evs = set (tr_ready t)"
  shows "tracks (fst (consumeWatch ws t evs)) (foldl step_slices s ws)
    \<and> replay (snd (consumeWatch ws t evs)) = set (tr_ready (fst (consumeWatch ws t evs)))"
  using assms
proof (induction ws t evs arbitrary: s rule: consumeWatch.induct)
  case (2 ws t evs)
  then show ?case by (simp add: step_slices_def)
next
  case (3 w ws t evs)
  let ?r = "tracker_apply t (se_Name w) (se_Endpoints w) (se_Deleted w) (se_At w)"
  have "tracks (snd ?r) (step_slices s (Some w))"
    by (rule tracker_apply_tracks(1)[OF 3(2)]) (simp add: step_slices_def)
  moreover have "replay (evs @ fst ?r) = set (tr_ready (snd ?r))"
    using 3(3) tracker_apply_play[of t] by (simp add: replay_def)
  ultimately show ?case using "3.IH"[of ?r "fst ?r" "snd ?r" "step_slices s (Some w)"]
    by (simp add: split_beta)
qed simp

lemma new_tracker: "tracks newEndpointTracker Map.empty" "replay [] = set (tr_ready newEndpointTracker)"
  by (simp_all add: tracks_def newEndpointTracker_def ready_in_def replay_def)

section \<open>Properties\<close>

text \<open>The endpoint tracker refines the set of ready addresses: after any history of slice events
  (several slices, overlapping addresses, deletions, foreign objects) its ready set is exactly the
  addresses ready in some slice that exists, and playing back the Ready and Removed events it emitted
  gives that same set.\<close>

theorem tracker_refines:
  "let (t, evs) = consumeWatch ws newEndpointTracker [] in
     set (tr_ready t) = ready_in (latest ws) \<and> replay evs = ready_in (latest ws)"
  using consumeWatch_tracks[OF new_tracker, of ws] by (auto simp: tracks_def latest_foldl split_beta)

text \<open>Each slice event is reported as the exact difference it makes: the Ready events are the
  addresses that were in no existing slice as ready before and are now, the Removed events those that
  were and are no longer, so an address two slices share is not reported twice.\<close>

theorem tracker_events_exact:
  "let t = fst (consumeWatch ws newEndpointTracker []);
       evs = fst (tracker_apply t (se_Name w) (se_Endpoints w) (se_Deleted w) (se_At w))
   in ev_PodIP ` set (filter (\<lambda>e. ev_Kind e = EndpointReady) evs) = ready_in (latest (ws @ [Some w])) - ready_in (latest ws)
      \<and> ev_PodIP ` set (filter (\<lambda>e. ev_Kind e \<noteq> EndpointReady) evs) = ready_in (latest ws) - ready_in (latest (ws @ [Some w]))
      \<and> distinct evs"
proof -
  let ?t = "fst (consumeWatch ws newEndpointTracker [])"
  have t: "tracks ?t (latest ws)" using consumeWatch_tracks[OF new_tracker, of ws] by (simp add: latest_foldl)
  have "latest (ws @ [Some w]) = (if se_Deleted w then (latest ws)(se_Name w := None) else (latest ws)(se_Name w \<mapsto> se_Endpoints w))"
    by (simp add: latest_foldl step_slices_def)
  note d = tracker_apply_tracks(2,3)[OF t this]
  have "distinct (fst (tracker_apply ?t nm eps dl at_t))" for nm eps dl at_t
    using t by (auto simp: tracker_apply_def Let_def tracks_def distinct_map inj_on_def union_ready_def)
  then show ?thesis using d by (simp only: Let_def)
qed

end
