(* ===== verification/Endpoint_Watch.thy ===== *)
theory Endpoint_Watch
  imports Endpoint_Tracker
begin

text \<open>
  The goroutine that feeds the tracker, \<^verbatim>\<open>watchEndpoints\<close> in \<^verbatim>\<open>internal/observer/endpoints.go\<close>, with
  the session's copy of its event buffer (\<^verbatim>\<open>snapshotEvents\<close> in \<^verbatim>\<open>observer.go\<close>): one watch after
  another, each ended by the server, by the context or by an error. What the API server sends on
  each watch is specified against the history of the cluster, of which the observer does not see what happens
  between two watches.
\<close>

section \<open>The loop\<close>

definition snapshotEvents :: "EndpointEvent list \<Rightarrow> EndpointEvent list" where
  "snapshotEvents evs = map (\<lambda>e. e) evs"

text \<open>How a call of \<^verbatim>\<open>Watch\<close> ends: with an error at once, or with the objects it delivered before the
  channel was closed (re-watch) or the context ended (stop).\<close>

datatype watch_attempt =
    WatchError
  | WatchClosed "slice_event option list"
  | WatchStopped "slice_event option list"

fun watch_loop :: "watch_attempt list \<Rightarrow> endpointTracker \<Rightarrow> EndpointEvent list \<Rightarrow> endpointTracker \<times> EndpointEvent list" where
  "watch_loop [] t evs = (t, evs)"
| "watch_loop (WatchError # ws) t evs = (t, evs)"
| "watch_loop (WatchClosed es # ws) t evs = (let (t, evs) = consumeWatch es t evs in watch_loop ws t evs)"
| "watch_loop (WatchStopped es # ws) t evs = consumeWatch es t evs"

definition watchEndpoints :: "watch_attempt list \<Rightarrow> endpointTracker \<times> EndpointEvent list" where
  "watchEndpoints ws = watch_loop ws newEndpointTracker []"

section \<open>The history of the cluster\<close>

text \<open>A watch as the cluster sees it: what happened to the slices while no watch was open, the objects
  the server sends first, and what happened while the watch was open.\<close>

record watched =
  wt_gap :: "slice_event list"
  wt_initial :: "slice_event list"
  wt_live :: "slice_event list"

abbreviation replay_slices :: "(string \<rightharpoonup> Endpoint list) \<Rightarrow> slice_event list \<Rightarrow> string \<rightharpoonup> Endpoint list" where
  "replay_slices s es \<equiv> foldl step_slices s (map Some es)"

text \<open>A watch without a resource version starts with an Added event for each object that exists.\<close>

definition synthetic :: "(string \<rightharpoonup> Endpoint list) \<Rightarrow> slice_event list \<Rightarrow> bool" where
  "synthetic s es \<longleftrightarrow> list_all (\<lambda>e. \<not> se_Deleted e \<and> s (se_Name e) = Some (se_Endpoints e)) es \<and> dom s = se_Name ` set es"

fun served_watches :: "(string \<rightharpoonup> Endpoint list) \<Rightarrow> watched list \<Rightarrow> bool" where
  "served_watches s [] = True"
| "served_watches s (w # ws) =
     (synthetic (replay_slices s (wt_gap w)) (wt_initial w)
      \<and> served_watches (replay_slices (replay_slices s (wt_gap w)) (wt_live w)) ws)"

definition attempt_of :: "watched \<Rightarrow> watch_attempt" where
  "attempt_of w = WatchClosed (map Some (wt_initial w @ wt_live w))"

definition real_slices :: "watched list \<Rightarrow> string \<rightharpoonup> Endpoint list" where
  "real_slices ws = replay_slices Map.empty (concat (map (\<lambda>w. wt_gap w @ wt_live w) ws))"

section \<open>Lemmas\<close>

lemma snapshotEvents_id [simp]: "snapshotEvents evs = evs"
  by (simp add: snapshotEvents_def)

text \<open>The whole loop is one pass of the tracker over everything that was delivered.\<close>

fun delivered :: "watch_attempt list \<Rightarrow> slice_event option list" where
  "delivered [] = []"
| "delivered (WatchError # ws) = []"
| "delivered (WatchClosed es # ws) = es @ delivered ws"
| "delivered (WatchStopped es # ws) = es"

lemma consumeWatch_append:
  "consumeWatch (es @ fs) t evs = (let (t, evs) = consumeWatch es t evs in consumeWatch fs t evs)"
  by (induction es t evs rule: consumeWatch.induct) (simp_all add: split_beta)

lemma watch_loop_delivered: "watch_loop ws t evs = consumeWatch (delivered ws) t evs"
  by (induction ws t evs rule: watch_loop.induct) (simp_all add: consumeWatch_append split_beta)

lemma delivered_attempts: "delivered (map attempt_of ws) = concat (map (\<lambda>w. map Some (wt_initial w @ wt_live w)) ws)"
  by (induction ws) (simp_all add: attempt_of_def)

lemma step_slices_mono: "s \<subseteq>\<^sub>m s' \<Longrightarrow> step_slices s w \<subseteq>\<^sub>m step_slices s' w"
  by (auto simp: step_slices_def map_le_def split: option.split)

lemma replay_mono: "s \<subseteq>\<^sub>m s' \<Longrightarrow> replay_slices s es \<subseteq>\<^sub>m replay_slices s' es"
  by (induction es arbitrary: s s') (auto intro: step_slices_mono)

text \<open>The first objects of a watch bring every existing slice up to date and leave the others alone.\<close>

lemma replay_synthetic:
  "list_all (\<lambda>e. \<not> se_Deleted e \<and> s (se_Name e) = Some (se_Endpoints e)) es \<Longrightarrow>
   replay_slices o1 es n = (if n \<in> se_Name ` set es then s n else o1 n)"
proof (induction es arbitrary: o1)
  case (Cons e es)
  then show ?case by (auto simp: step_slices_def)
qed simp

lemma synthetic_covers:
  assumes "synthetic s es"
  shows "replay_slices o1 es = o1 ++ s"
proof
  fix n show "replay_slices o1 es n = (o1 ++ s) n"
    using assms replay_synthetic[of s es o1 n] unfolding synthetic_def by (cases "s n") (auto simp: map_add_def)
qed

lemma ready_in_mono: "s \<subseteq>\<^sub>m s' \<Longrightarrow> ready_in s \<subseteq> ready_in s'"
  by (fastforce simp: ready_in_def map_le_def dom_def)

lemma replay_no_delete: "list_all (\<lambda>e. \<not> se_Deleted e) es \<Longrightarrow> dom s \<subseteq> dom (replay_slices s es)"
proof (induction es arbitrary: s)
  case (Cons e es)
  have "dom s \<subseteq> dom (step_slices s (Some e))" using Cons.prems by (auto simp: step_slices_def)
  also have "\<dots> \<subseteq> dom (replay_slices (step_slices s (Some e)) es)" using Cons by simp
  finally show ?case by simp
qed simp

text \<open>What the observer holds contains what exists, and equals it when no slice disappears unseen.\<close>

lemma observed_slices:
  assumes "served_watches s ws" "s \<subseteq>\<^sub>m seen"
  shows "replay_slices s (concat (map (\<lambda>w. wt_gap w @ wt_live w) ws))
      \<subseteq>\<^sub>m replay_slices seen (concat (map (\<lambda>w. wt_initial w @ wt_live w) ws))
    \<and> (s = seen \<longrightarrow> list_all (\<lambda>w. list_all (\<lambda>e. \<not> se_Deleted e) (wt_gap w)) ws \<longrightarrow>
        replay_slices s (concat (map (\<lambda>w. wt_gap w @ wt_live w) ws))
          = replay_slices seen (concat (map (\<lambda>w. wt_initial w @ wt_live w) ws)))"
  using assms
proof (induction ws arbitrary: s seen)
  case (Cons w ws)
  let ?s = "replay_slices s (wt_gap w)"
  have sy: "replay_slices seen (wt_initial w) = seen ++ ?s" using Cons.prems(1) by (simp add: synthetic_covers)
  have le: "?s \<subseteq>\<^sub>m seen ++ ?s" by simp
  have eq: "?s = s ++ ?s" if "list_all (\<lambda>e. \<not> se_Deleted e) (wt_gap w)"
  proof
    fix n show "?s n = (s ++ ?s) n"
      using subsetD[OF replay_no_delete[OF that, of s], of n] by (cases "?s n"; cases "s n") (auto simp: map_add_def domIff)
  qed
  from Cons.IH[of "replay_slices ?s (wt_live w)" "replay_slices (seen ++ ?s) (wt_live w)"] Cons.prems(1) replay_mono[OF le] eq
  show ?case by (auto simp: sy)
qed simp

lemma watchEndpoints_tracks:
  "let (t, evs) = watchEndpoints ws in
     set (tr_ready t) = ready_in (foldl step_slices Map.empty (delivered ws)) \<and> replay evs = set (tr_ready t)"
  using consumeWatch_tracks[OF new_tracker, of "delivered ws"]
  by (auto simp: watchEndpoints_def watch_loop_delivered tracks_def split_beta)

section \<open>Properties\<close>

text \<open>C31. Following the endpoints across broken watches: if the API server opens each watch with the
  slices that exist then and delivers what happens while it is open, the addresses the observer holds
  as ready include all that are ready, playing back the events it recorded gives the addresses it
  holds, and it holds no others as long as no slice is deleted between two watches.\<close>

theorem rewatch_sound:
  assumes "served_watches Map.empty ws"
  shows "let (t, evs) = watchEndpoints (map attempt_of ws) in
     ready_in (real_slices ws) \<subseteq> set (tr_ready t) \<and> replay (snapshotEvents evs) = set (tr_ready t)
     \<and> (list_all (\<lambda>w. list_all (\<lambda>e. \<not> se_Deleted e) (wt_gap w)) ws \<longrightarrow> set (tr_ready t) = ready_in (real_slices ws))"
proof -
  let ?seen = "replay_slices Map.empty (concat (map (\<lambda>w. wt_initial w @ wt_live w) ws))"
  have "foldl step_slices Map.empty (delivered (map attempt_of ws)) = ?seen"
    by (simp add: delivered_attempts map_concat o_def)
  moreover have "real_slices ws \<subseteq>\<^sub>m ?seen"
      "list_all (\<lambda>w. list_all (\<lambda>e. \<not> se_Deleted e) (wt_gap w)) ws \<Longrightarrow> real_slices ws = ?seen"
    using observed_slices[OF assms, of Map.empty] unfolding real_slices_def by simp_all
  ultimately show ?thesis
    using watchEndpoints_tracks[of "map attempt_of ws"] ready_in_mono[of "real_slices ws" ?seen]
    by (auto simp: split_beta Let_def)
qed

text \<open>A slice that is deleted while no watch is open is never noticed: its addresses stay ready, and no
  Removed event is recorded.\<close>

definition one_slice :: "string \<Rightarrow> bool \<Rightarrow> time \<Rightarrow> slice_event" where
  "one_slice ip deleted t = \<lparr>se_Name = ip, se_Endpoints = [\<lparr>ep_Addresses = [ip], ep_Ready = Some True\<rparr>], se_Deleted = deleted, se_At = t\<rparr>"

definition broken_watch :: "bool \<Rightarrow> watched list" where
  "broken_watch deleted = [\<lparr>wt_gap = [one_slice ''a'' False 0], wt_initial = [one_slice ''a'' False 1], wt_live = [one_slice ''b'' False 2]\<rparr>,
     \<lparr>wt_gap = [one_slice ''b'' deleted 3], wt_initial = one_slice ''a'' False 4 # (if deleted then [] else [one_slice ''b'' False 4]), wt_live = []\<rparr>]"

lemma broken_watch_served: "served_watches Map.empty (broken_watch deleted)"
  by (auto simp: broken_watch_def one_slice_def synthetic_def step_slices_def)

lemma rewatch_keeps_deleted:
  "let (t, evs) = watchEndpoints (map attempt_of (broken_watch True)) in
     ''b'' \<in> set (tr_ready t) \<and> ''b'' \<notin> ready_in (real_slices (broken_watch True))
     \<and> list_all (\<lambda>e. ev_Kind e = EndpointReady) evs"
proof -
  have "''b'' \<notin> ready_in (real_slices (broken_watch True))"
    by (auto simp: ready_in_def real_slices_def broken_watch_def one_slice_def step_slices_def split: if_splits)
  moreover have "watchEndpoints (map attempt_of (broken_watch True)) =
      (\<lparr>tr_slices = [(''a'', [(''a'', True)]), (''b'', [(''b'', True)])], tr_ready = [''a'', ''b'']\<rparr>,
       [\<lparr>ev_At = 1, ev_PodIP = ''a'', ev_Kind = EndpointReady\<rparr>, \<lparr>ev_At = 2, ev_PodIP = ''b'', ev_Kind = EndpointReady\<rparr>])"
    by code_simp
  ultimately show ?thesis by simp
qed

theorem rewatch_sound_witness:
  "set (tr_ready (fst (watchEndpoints (map attempt_of (broken_watch False))))) = ready_in (real_slices (broken_watch False))"
proof -
  have "list_all (\<lambda>w. list_all (\<lambda>e. \<not> se_Deleted e) (wt_gap w)) (broken_watch False)"
    by (simp add: broken_watch_def one_slice_def)
  with rewatch_sound[OF broken_watch_served, of False] show ?thesis by (auto simp: split_beta)
qed

end
