(* ===== verification/Loadgen_Config.thy ===== *)
theory Loadgen_Config
  imports Prelude
begin

text \<open>
  The load generator's configuration: \<^verbatim>\<open>internal/loadgen/phase.go\<close> and
  \<^verbatim>\<open>internal/loadgen/config.go\<close>. \<^verbatim>\<open>url.Parse\<close> and \<^verbatim>\<open>http.NewRequest\<close> are
  parameters: the first yields the scheme and the host of a URL it accepts, the second tells
  whether a method is acceptable. A Go \<^verbatim>\<open>int\<close> is 64 bits wide.
\<close>

section \<open>Phases\<close>

abbreviation "PatternConstant \<equiv> ''Constant''"
abbreviation "PatternPoisson \<equiv> ''Poisson''"
abbreviation "PatternRamp \<equiv> ''Ramp''"
abbreviation "PatternStep \<equiv> ''Step''"

abbreviation "WarmupPhaseName \<equiv> ''Warmup''"
abbreviation "MeasurePhaseName \<equiv> ''Measure''"

record LoadPhase =
  ph_Name :: string
  ph_Pattern :: string
  ph_Duration :: duration
  ph_StartRPS :: int
  ph_EndRPS :: int
  ph_StepRPS :: int
  ph_StepEvery :: duration
  ph_RecordStats :: bool

datatype phase_error =
    PhaseNameRequired
  | PhaseDurationNotPositive
  | PhaseStartRPSNotPositive
  | RampNeedsEndRPS
  | StepNeedsStepRPS
  | StepNeedsStepEvery
  | PatternRequired
  | UnknownPattern string

definition phase_Validate :: "LoadPhase \<Rightarrow> phase_error option" where
  "phase_Validate p =
     (if ph_Name p = [] then Some PhaseNameRequired
      else if ph_Duration p \<le> 0 then Some PhaseDurationNotPositive
      else if ph_StartRPS p \<le> 0 then Some PhaseStartRPSNotPositive
      else if ph_Pattern p = PatternConstant \<or> ph_Pattern p = PatternPoisson then None
      else if ph_Pattern p = PatternRamp then
        (if ph_EndRPS p \<le> 0 then Some RampNeedsEndRPS else None)
      else if ph_Pattern p = PatternStep then
        (if ph_StepRPS p \<le> 0 then Some StepNeedsStepRPS
         else if ph_StepEvery p \<le> 0 then Some StepNeedsStepEvery else None)
      else if ph_Pattern p = [] then Some PatternRequired
      else Some (UnknownPattern (ph_Pattern p)))"

text \<open>Go's integer division truncates towards zero; the quotient of two durations is only taken
  of a validated phase, whose operands are positive.\<close>

definition go_div :: "int \<Rightarrow> int \<Rightarrow> int" where
  "go_div a b = (if (a < 0) = (b < 0) then \<bar>a\<bar> div \<bar>b\<bar> else - (\<bar>a\<bar> div \<bar>b\<bar>))"

definition peakRPS :: "LoadPhase \<Rightarrow> int" where
  "peakRPS p =
     (if ph_Pattern p = PatternRamp then
        (if ph_EndRPS p > ph_StartRPS p then ph_EndRPS p else ph_StartRPS p)
      else if ph_Pattern p = PatternStep then
        (let climbs = go_div (ph_Duration p) (ph_StepEvery p)
         in wrap64 (ph_StartRPS p + climbs * ph_StepRPS p))
      else ph_StartRPS p)"

section \<open>Configuration\<close>

abbreviation "KeepAlive \<equiv> ''KeepAlive''"
abbreviation "ShortLived \<equiv> ''ShortLived''"
abbreviation "ProtocolHTTP1 \<equiv> ''HTTP1''"
abbreviation "ProtocolHTTP2 \<equiv> ''HTTP2''"
abbreviation "ProtocolGRPC \<equiv> ''GRPC''"

record LoadgenConfig =
  lc_URL :: string
  lc_Method :: string
  lc_Headers :: "(string \<times> string) list"
  lc_TargetRPS :: int
  lc_Duration :: duration
  lc_Concurrency :: int
  lc_ConnectionMode :: string
  lc_Timeout :: duration
  lc_TargetMode :: string
  lc_NetworkPath :: string
  lc_TLSInsecureSkipVerify :: bool
  lc_TLSCABundlePath :: string
  lc_Protocol :: string
  lc_GRPCService :: string
  lc_Phases :: "LoadPhase list"

datatype config_error =
    URLRequired
  | ParseURL string
  | URLScheme string
  | URLHostRequired
  | TargetRPSNotPositive int
  | DurationNotPositive duration
  | InvalidPhase nat phase_error
  | ConnectionModeRequired
  | UnknownConnectionMode string
  | UnknownProtocol string
  | InvalidMethod string

fun phases_Validate :: "nat \<Rightarrow> LoadPhase list \<Rightarrow> config_error option" where
  "phases_Validate i [] = None"
| "phases_Validate i (p # ps) =
     (case phase_Validate p of Some e \<Rightarrow> Some (InvalidPhase i e) | None \<Rightarrow> phases_Validate (Suc i) ps)"

definition config_Validate ::
  "(string \<Rightarrow> (string \<times> string) option) \<Rightarrow> (string \<Rightarrow> string \<Rightarrow> bool) \<Rightarrow> LoadgenConfig \<Rightarrow> config_error option"
where
  "config_Validate url_Parse http_NewRequest cfg =
     (if lc_URL cfg = [] then Some URLRequired
      else case url_Parse (lc_URL cfg) of
        None \<Rightarrow> Some (ParseURL (lc_URL cfg))
      | Some (scheme, host) \<Rightarrow>
          if scheme \<noteq> ''http'' \<and> scheme \<noteq> ''https'' then Some (URLScheme scheme)
          else if host = [] then Some URLHostRequired
          else
            (case (if lc_Phases cfg = [] then
                     (if lc_TargetRPS cfg \<le> 0 then Some (TargetRPSNotPositive (lc_TargetRPS cfg))
                      else if lc_Duration cfg \<le> 0 then Some (DurationNotPositive (lc_Duration cfg))
                      else None)
                   else phases_Validate 0 (lc_Phases cfg)) of
               Some e \<Rightarrow> Some e
             | None \<Rightarrow>
                 if lc_ConnectionMode cfg = [] then Some ConnectionModeRequired
                 else if lc_ConnectionMode cfg \<noteq> KeepAlive \<and> lc_ConnectionMode cfg \<noteq> ShortLived
                 then Some (UnknownConnectionMode (lc_ConnectionMode cfg))
                 else if lc_Protocol cfg \<notin> {[], ProtocolHTTP1, ProtocolHTTP2, ProtocolGRPC}
                 then Some (UnknownProtocol (lc_Protocol cfg))
                 else if lc_Method cfg \<noteq> [] \<and> \<not> http_NewRequest (lc_Method cfg) (lc_URL cfg)
                 then Some (InvalidMethod (lc_Method cfg))
                 else None))"

fun peak_of :: "int \<Rightarrow> LoadPhase list \<Rightarrow> int" where
  "peak_of peak [] = peak"
| "peak_of peak (p # ps) = peak_of (if peakRPS p > peak then peakRPS p else peak) ps"

definition withDefaults :: "LoadgenConfig \<Rightarrow> LoadgenConfig" where
  "withDefaults cfg0 =
     (let cfg = (if lc_Method cfg0 = [] then cfg0\<lparr>lc_Method := ''GET''\<rparr> else cfg0);
          cfg = (if lc_Timeout cfg = 0 then cfg\<lparr>lc_Timeout := 5 * Second\<rparr> else cfg);
          cfg = (if lc_Protocol cfg = [] then cfg\<lparr>lc_Protocol := ProtocolHTTP1\<rparr> else cfg);
          cfg = (if lc_Phases cfg = [] then cfg\<lparr>lc_Phases :=
                    [\<lparr>ph_Name = MeasurePhaseName, ph_Pattern = PatternConstant,
                      ph_Duration = lc_Duration cfg, ph_StartRPS = lc_TargetRPS cfg, ph_EndRPS = 0,
                      ph_StepRPS = 0, ph_StepEvery = 0, ph_RecordStats = True\<rparr>]\<rparr> else cfg)
      in if lc_Concurrency cfg = 0 then
           cfg\<lparr>lc_Concurrency := (let peak = peak_of 0 (lc_Phases cfg) in if peak > 256 then 256 else peak)\<rparr>
         else cfg)"

section \<open>Lemmas\<close>

definition valid_phase :: "LoadPhase \<Rightarrow> bool" where
  "valid_phase p \<longleftrightarrow> ph_Name p \<noteq> [] \<and> 0 < ph_Duration p \<and> 0 < ph_StartRPS p
     \<and> ph_Pattern p \<in> {PatternConstant, PatternPoisson, PatternRamp, PatternStep}
     \<and> (ph_Pattern p \<noteq> PatternRamp \<or> 0 < ph_EndRPS p)
     \<and> (ph_Pattern p \<noteq> PatternStep \<or> 0 < ph_StepRPS p \<and> 0 < ph_StepEvery p)"

lemma phase_Validate_None [simp]: "phase_Validate p = None \<longleftrightarrow> valid_phase p"
  by (auto simp: phase_Validate_def valid_phase_def)

lemma phases_Validate_None [simp]: "phases_Validate i ps = None \<longleftrightarrow> (\<forall>p\<in>set ps. valid_phase p)"
  by (induction ps arbitrary: i) (auto split: option.split simp flip: phase_Validate_None)

lemma peak_of_ge: "m \<le> peak_of m ps \<and> (\<forall>p\<in>set ps. peakRPS p \<le> peak_of m ps)"
proof (induction ps arbitrary: m)
  case (Cons p ps)
  from Cons[of "if peakRPS p > m then peakRPS p else m"] show ?case by (auto split: if_splits)
qed simp

lemma peakRPS_step:
  assumes "valid_phase p" "ph_Pattern p = PatternStep"
    and "in_int64 (ph_StartRPS p + ph_Duration p div ph_StepEvery p * ph_StepRPS p)"
  shows "peakRPS p = ph_StartRPS p + ph_Duration p div ph_StepEvery p * ph_StepRPS p"
  using assms by (simp add: peakRPS_def go_div_def valid_phase_def wrap64_id)

lemma withDefaults_fields:
  "lc_Phases (withDefaults cfg) = (if lc_Phases cfg = [] then
     [\<lparr>ph_Name = MeasurePhaseName, ph_Pattern = PatternConstant, ph_Duration = lc_Duration cfg,
       ph_StartRPS = lc_TargetRPS cfg, ph_EndRPS = 0, ph_StepRPS = 0, ph_StepEvery = 0,
       ph_RecordStats = True\<rparr>] else lc_Phases cfg)"
  "lc_Concurrency cfg = 0 \<Longrightarrow>
     lc_Concurrency (withDefaults cfg) = min 256 (peak_of 0 (lc_Phases (withDefaults cfg)))"
  "lc_Concurrency cfg \<noteq> 0 \<Longrightarrow> lc_Concurrency (withDefaults cfg) = lc_Concurrency cfg"
  by (auto simp: withDefaults_def Let_def)

lemma config_Validate_phases:
  assumes "config_Validate up nr cfg = None"
  shows "\<forall>p\<in>set (lc_Phases (withDefaults cfg)). valid_phase p" "lc_Phases (withDefaults cfg) \<noteq> []"
  using assms by (auto simp: config_Validate_def withDefaults_fields valid_phase_def
      split: if_splits option.splits prod.splits)

lemma concurrency_pos:
  assumes "config_Validate up nr cfg = None" "0 \<le> lc_Concurrency cfg"
    and "0 < lc_Concurrency cfg \<or> (\<forall>p\<in>set (lc_Phases cfg). ph_StartRPS p \<le> peakRPS p)"
  shows "0 < lc_Concurrency (withDefaults cfg)"
proof (cases "lc_Concurrency cfg = 0")
  case True
  let ?ps = "lc_Phases (withDefaults cfg)"
  obtain p where p: "p \<in> set ?ps" using config_Validate_phases(2)[OF assms(1)] by (meson list.set_sel(1))
  have "ph_StartRPS p \<le> peakRPS p" "0 < ph_StartRPS p"
    using p assms(3) True config_Validate_phases(1)[OF assms(1)]
    by (auto simp: withDefaults_fields peakRPS_def valid_phase_def split: if_splits)
  then have "1 \<le> peak_of 0 ?ps" using p peak_of_ge[of 0 ?ps] by fastforce
  then show ?thesis using True by (simp add: withDefaults_fields)
qed (use assms in \<open>simp add: withDefaults_fields\<close>)

text \<open>Validation does not look at the pool size, and defaulting replaces only zero.\<close>

lemma concurrency_unvalidated:
  "config_Validate url_Parse http_NewRequest (cfg\<lparr>lc_Concurrency := c\<rparr>) = config_Validate url_Parse http_NewRequest cfg
   \<and> (c \<noteq> 0 \<longrightarrow> lc_Concurrency (withDefaults (cfg\<lparr>lc_Concurrency := c\<rparr>)) = c)"
proof
  let ?c = "cfg\<lparr>lc_Concurrency := c\<rparr>"
  have same: "lc_URL ?c = lc_URL cfg" "lc_Phases ?c = lc_Phases cfg" "lc_TargetRPS ?c = lc_TargetRPS cfg"
    "lc_Duration ?c = lc_Duration cfg" "lc_ConnectionMode ?c = lc_ConnectionMode cfg"
    "lc_Protocol ?c = lc_Protocol cfg" "lc_Method ?c = lc_Method cfg" by simp_all
  show "config_Validate url_Parse http_NewRequest ?c = config_Validate url_Parse http_NewRequest cfg"
    unfolding config_Validate_def same ..
  show "c \<noteq> 0 \<longrightarrow> lc_Concurrency (withDefaults ?c) = c" by (simp add: withDefaults_fields)
qed

section \<open>Properties\<close>

text \<open>What validation and defaulting establish: a validated configuration runs at least one
  phase and every phase it runs has a positive length and a positive starting rate; and when the
  pool size is left to the generator and no phase steps past the integer range, the pool has
  between 1 and 256 workers and is the full peak rate of the run up to that cap.\<close>

theorem validated_config_runs:
  assumes "config_Validate url_Parse http_NewRequest cfg = None"
  shows "lc_Phases (withDefaults cfg) \<noteq> []
    \<and> (\<forall>p\<in>set (lc_Phases (withDefaults cfg)). 0 < ph_Duration p \<and> 0 < ph_StartRPS p)
    \<and> (lc_Concurrency cfg = 0 \<and> (\<forall>p\<in>set (lc_Phases cfg). ph_StartRPS p \<le> peakRPS p) \<longrightarrow>
         1 \<le> lc_Concurrency (withDefaults cfg) \<and> lc_Concurrency (withDefaults cfg) \<le> 256
         \<and> (\<forall>p\<in>set (lc_Phases (withDefaults cfg)). min 256 (peakRPS p) \<le> lc_Concurrency (withDefaults cfg)))"
proof (intro conjI impI)
  let ?ps = "lc_Phases (withDefaults cfg)"
  show ne: "?ps \<noteq> []" by (rule config_Validate_phases[OF assms])
  show pos: "\<forall>p\<in>set ?ps. 0 < ph_Duration p \<and> 0 < ph_StartRPS p"
    using config_Validate_phases(1)[OF assms] by (auto simp: valid_phase_def)
  assume c: "lc_Concurrency cfg = 0 \<and> (\<forall>p\<in>set (lc_Phases cfg). ph_StartRPS p \<le> peakRPS p)"
  have conc: "lc_Concurrency (withDefaults cfg) = min 256 (peak_of 0 ?ps)"
    using c by (simp add: withDefaults_fields)
  obtain p where p: "p \<in> set ?ps" using ne by (meson list.set_sel(1))
  have "ph_StartRPS p \<le> peakRPS p" using p c by (auto simp: withDefaults_fields peakRPS_def split: if_splits)
  then have "1 \<le> peak_of 0 ?ps" using pos p peak_of_ge[of 0 ?ps] by fastforce
  then show "1 \<le> lc_Concurrency (withDefaults cfg)" using conc by simp
  show "lc_Concurrency (withDefaults cfg) \<le> 256" using conc by simp
  show "\<forall>p\<in>set ?ps. min 256 (peakRPS p) \<le> lc_Concurrency (withDefaults cfg)"
    using conc peak_of_ge[of 0 ?ps] by (auto simp: min_def)
qed

definition demo_config :: LoadgenConfig where
  "demo_config = \<lparr>lc_URL = ''http://web'', lc_Method = [], lc_Headers = [], lc_TargetRPS = 40,
     lc_Duration = 60 * Second, lc_Concurrency = 0, lc_ConnectionMode = KeepAlive, lc_Timeout = 0,
     lc_TargetMode = [], lc_NetworkPath = [], lc_TLSInsecureSkipVerify = False,
     lc_TLSCABundlePath = [], lc_Protocol = [], lc_GRPCService = [], lc_Phases = []\<rparr>"

theorem validated_config_runs_witness:
  "1 \<le> lc_Concurrency (withDefaults demo_config) \<and> lc_Concurrency (withDefaults demo_config) \<le> 256"
proof -
  have "config_Validate (\<lambda>u. Some (''http'', ''web'')) (\<lambda>m u. True) demo_config = None"
    by (simp add: config_Validate_def demo_config_def)
  from validated_config_runs[OF this] show ?thesis by (simp add: demo_config_def)
qed

end
