(* ===== verification/Loadgen_Client.thy ===== *)
theory Loadgen_Client
  imports Go_Strings Loadgen_Config
begin

text \<open>
  The load generator's protocol clients: \<^verbatim>\<open>internal/loadgen/client.go\<close>,
  \<^verbatim>\<open>h2client.go\<close> and \<^verbatim>\<open>grpcclient.go\<close>. The wire libraries (fasthttp, net/http,
  http2, grpc-go) are not part of the program: what one call to them answers is a parameter of the
  call. The interface \<^verbatim>\<open>protocolClient\<close> is the locale \<open>protocol_client\<close>, interpreted
  on each of the three clients.
\<close>

section \<open>Errors and their classification\<close>

abbreviation "ErrTimeout \<equiv> ''Timeout''"
abbreviation "ErrDial \<equiv> ''Dial''"
abbreviation "ErrConnReset \<equiv> ''ConnReset''"
abbreviation "ErrTLS \<equiv> ''TLS''"
abbreviation "ErrServer \<equiv> ''Server5xx''"
abbreviation "ErrClient \<equiv> ''Client4xx''"
abbreviation "ErrStreamReset \<equiv> ''StreamReset''"
abbreviation "ErrOther \<equiv> ''Other''"

text \<open>A transport error as the code can tell it apart: which sentinel it wraps
  (\<^verbatim>\<open>errors.Is\<close>, \<^verbatim>\<open>errors.As\<close>) and its text.\<close>

record transport_error =
  te_fasthttp_timeout :: bool
  te_deadline_exceeded :: bool
  te_goaway :: bool
  te_msg :: string

definition classify :: "transport_error option \<Rightarrow> string" where
  "classify err =
     (case err of None \<Rightarrow> ErrOther
      | Some e \<Rightarrow>
          if te_fasthttp_timeout e then ErrTimeout
          else if te_deadline_exceeded e then ErrTimeout
          else if Contains (te_msg e) ''GOAWAY'' then ErrServer
          else if Contains (te_msg e) ''stream error'' \<or> Contains (te_msg e) ''RST_STREAM'' then ErrStreamReset
          else if Contains (te_msg e) ''connection reset'' then ErrConnReset
          else if Contains (te_msg e) ''tls:'' \<or> Contains (te_msg e) ''x509:'' then ErrTLS
          else if Contains (te_msg e) ''dial'' \<or> Contains (te_msg e) ''no such host'' then ErrDial
          else ErrOther)"

section \<open>Client statistics and construction\<close>

record ClientStats =
  cs_GoAwayCount :: nat
  cs_ConnsOpened :: nat
  cs_StreamsIssued :: nat

record tls_config =
  tls_MinVersion :: string
  tls_InsecureSkipVerify :: bool
  tls_RootCAs :: "string option"  \<comment> \<open>the PEM text of the pool, when one is set\<close>

datatype client_error =
    ReadCABundle string
  | NoPEMCertificates string
  | GrpcParseURL
  | GrpcMissingHost string
  | ClientUnknownProtocol string

text \<open>\<open>read_file\<close> is \<^verbatim>\<open>os.ReadFile\<close> and \<open>has_pem\<close> tells whether
  \<^verbatim>\<open>AppendCertsFromPEM\<close> finds a certificate.\<close>

definition buildTLSConfig ::
  "(string \<Rightarrow> string option) \<Rightarrow> (string \<Rightarrow> bool) \<Rightarrow> LoadgenConfig \<Rightarrow> client_error + tls_config" where
  "buildTLSConfig read_file has_pem cfg =
     (let t = \<lparr>tls_MinVersion = ''TLS12'', tls_InsecureSkipVerify = lc_TLSInsecureSkipVerify cfg, tls_RootCAs = None\<rparr> in
      if lc_TLSCABundlePath cfg = [] then Inr t
      else case read_file (lc_TLSCABundlePath cfg) of
        None \<Rightarrow> Inl (ReadCABundle (lc_TLSCABundlePath cfg))
      | Some pem \<Rightarrow>
          if \<not> has_pem pem then Inl (NoPEMCertificates (lc_TLSCABundlePath cfg))
          else Inr (t\<lparr>tls_RootCAs := Some pem\<rparr>))"

text \<open>The request a client hands to its library.\<close>

record http_request =
  rq_URL :: string
  rq_Method :: string
  rq_Headers :: "(string \<times> string) list"
  rq_Close :: bool

section \<open>HTTP/1\<close>

definition h1_request :: "LoadgenConfig \<Rightarrow> http_request" where
  "h1_request cfg = \<lparr>rq_URL = lc_URL cfg, rq_Method = lc_Method cfg, rq_Headers = lc_Headers cfg,
     rq_Close = (lc_ConnectionMode cfg = ShortLived)\<rparr>"

type_synonym h1_env = "http_request \<Rightarrow> transport_error + int"

definition h1_Do :: "LoadgenConfig \<Rightarrow> h1_env \<Rightarrow> unit \<Rightarrow> (int \<times> transport_error option) \<times> unit" where
  "h1_Do cfg DoTimeout s =
     (case DoTimeout (h1_request cfg) of Inl err \<Rightarrow> ((0, Some err), s) | Inr code \<Rightarrow> ((code, None), s))"

definition h1_Stats :: "unit \<Rightarrow> ClientStats" where
  "h1_Stats s = \<lparr>cs_GoAwayCount = 0, cs_ConnsOpened = 0, cs_StreamsIssued = 0\<rparr>"

section \<open>HTTP/2\<close>

record h2Stats =
  h2_conns :: nat
  h2_streams :: nat
  h2_goAway :: nat

text \<open>One call: whether \<^verbatim>\<open>http.NewRequestWithContext\<close> fails, the \<^verbatim>\<open>Reused\<close> flags of
  the \<^verbatim>\<open>GotConn\<close> events, and the library's answer.\<close>

record h2_env =
  h2_build_error :: "transport_error option"
  h2_got_conns :: "bool list"
  h2_answer :: "http_request \<Rightarrow> transport_error + int"

definition GotConn :: "h2Stats \<Rightarrow> bool \<Rightarrow> h2Stats" where
  "GotConn s reused =
     (let s = s\<lparr>h2_streams := h2_streams s + 1\<rparr> in
      if \<not> reused then s\<lparr>h2_conns := h2_conns s + 1\<rparr> else s)"

definition h2_request :: "LoadgenConfig \<Rightarrow> http_request" where
  "h2_request cfg = \<lparr>rq_URL = lc_URL cfg, rq_Method = lc_Method cfg,
     rq_Headers = (if lc_ConnectionMode cfg = ShortLived then lc_Headers cfg @ [(''Connection'', ''close'')]
                   else lc_Headers cfg),
     rq_Close = (lc_ConnectionMode cfg = ShortLived)\<rparr>"

definition h2_Do :: "LoadgenConfig \<Rightarrow> h2_env \<Rightarrow> h2Stats \<Rightarrow> (int \<times> transport_error option) \<times> h2Stats" where
  "h2_Do cfg env s =
     (case h2_build_error env of
        Some e \<Rightarrow> ((0, Some e), s)
      | None \<Rightarrow>
          let s = foldl GotConn s (h2_got_conns env) in
          case h2_answer env (h2_request cfg) of
            Inl err \<Rightarrow> ((0, Some err), if te_goaway err then s\<lparr>h2_goAway := h2_goAway s + 1\<rparr> else s)
          | Inr code \<Rightarrow> ((code, None), s))"

definition h2_Stats :: "h2Stats \<Rightarrow> ClientStats" where
  "h2_Stats s = \<lparr>cs_GoAwayCount = h2_goAway s, cs_ConnsOpened = h2_conns s, cs_StreamsIssued = h2_streams s\<rparr>"

section \<open>gRPC\<close>

datatype Code =
    Code_OK | Code_Canceled | Code_Unknown | Code_InvalidArgument | Code_DeadlineExceeded
  | Code_NotFound | Code_AlreadyExists | Code_PermissionDenied | Code_ResourceExhausted
  | Code_FailedPrecondition | Code_Aborted | Code_OutOfRange | Code_Unimplemented | Code_Internal
  | Code_Unavailable | Code_DataLoss | Code_Unauthenticated | Code_Other nat

fun grpcStatusToHTTP :: "Code \<Rightarrow> int" where
  "grpcStatusToHTTP Code_OK = 200"
| "grpcStatusToHTTP Code_Canceled = 499"
| "grpcStatusToHTTP Code_InvalidArgument = 400"
| "grpcStatusToHTTP Code_OutOfRange = 400"
| "grpcStatusToHTTP Code_Unauthenticated = 401"
| "grpcStatusToHTTP Code_PermissionDenied = 403"
| "grpcStatusToHTTP Code_NotFound = 404"
| "grpcStatusToHTTP Code_AlreadyExists = 409"
| "grpcStatusToHTTP Code_Aborted = 409"
| "grpcStatusToHTTP Code_FailedPrecondition = 412"
| "grpcStatusToHTTP Code_ResourceExhausted = 429"
| "grpcStatusToHTTP Code_Internal = 500"
| "grpcStatusToHTTP Code_DataLoss = 500"
| "grpcStatusToHTTP Code_Unknown = 500"
| "grpcStatusToHTTP Code_Unimplemented = 501"
| "grpcStatusToHTTP Code_Unavailable = 503"
| "grpcStatusToHTTP Code_DeadlineExceeded = 504"
| "grpcStatusToHTTP (Code_Other n) = 500"

text \<open>What \<^verbatim>\<open>Health/Check\<close> answers: an error that carries a gRPC status, one that does not,
  or a response that is SERVING or not.\<close>

datatype check_result = CheckStatus Code | CheckError transport_error | CheckResponse bool

record grpc_env =
  g_dial :: "transport_error option"  \<comment> \<open>the error of \<^verbatim>\<open>grpc.NewClient\<close>, if any\<close>
  g_conn_begins :: nat
  g_rpc_begins :: nat
  g_check :: "string \<Rightarrow> check_result"  \<comment> \<open>by service name\<close>

record grpc_state =
  g_conns :: nat
  g_streams :: nat
  g_keepalive :: "transport_error option option"  \<comment> \<open>\<^const>\<open>None\<close> until \<^verbatim>\<open>keepaliveOnce\<close> ran\<close>

definition grpc_check_status :: "check_result \<Rightarrow> int \<times> transport_error option" where
  "grpc_check_status r =
     (case r of CheckStatus c \<Rightarrow> (grpcStatusToHTTP c, None)
      | CheckError e \<Rightarrow> (0, Some e)
      | CheckResponse serving \<Rightarrow> (if \<not> serving then (503, None) else (200, None)))"

definition grpc_Do :: "LoadgenConfig \<Rightarrow> grpc_env \<Rightarrow> grpc_state \<Rightarrow> (int \<times> transport_error option) \<times> grpc_state" where
  "grpc_Do cfg env s =
     (let (dial_err, s) =
            (if lc_ConnectionMode cfg = ShortLived then (g_dial env, s)
             else case g_keepalive s of
                    None \<Rightarrow> (g_dial env, s\<lparr>g_keepalive := Some (g_dial env)\<rparr>)
                  | Some e \<Rightarrow> (e, s))
      in case dial_err of
           Some e \<Rightarrow> ((0, Some e), s)
         | None \<Rightarrow>
             (grpc_check_status (g_check env (lc_GRPCService cfg)),
              s\<lparr>g_conns := g_conns s + g_conn_begins env, g_streams := g_streams s + g_rpc_begins env\<rparr>))"

definition grpc_Stats :: "grpc_state \<Rightarrow> ClientStats" where
  "grpc_Stats s = \<lparr>cs_GoAwayCount = 0, cs_ConnsOpened = g_conns s, cs_StreamsIssued = g_streams s\<rparr>"

definition newGRPCClient ::
  "(string \<Rightarrow> (string \<times> string) option) \<Rightarrow> (string \<Rightarrow> string option) \<Rightarrow> (string \<Rightarrow> bool) \<Rightarrow>
   LoadgenConfig \<Rightarrow> client_error + (string \<times> tls_config option)" where
  "newGRPCClient url_Parse read_file has_pem cfg =
     (case url_Parse (lc_URL cfg) of
        None \<Rightarrow> Inl GrpcParseURL
      | Some (scheme, host) \<Rightarrow>
          if host = [] then Inl (GrpcMissingHost (lc_URL cfg))
          else if EqualFold_ascii scheme ''https'' then
            (case buildTLSConfig read_file has_pem cfg of Inl e \<Rightarrow> Inl e | Inr t \<Rightarrow> Inr (host, Some t))
          else Inr (host, None))"

section \<open>Construction\<close>

text \<open>What \<^verbatim>\<open>newH1Client\<close> sets on the fasthttp client: the timeouts, no retry of idempotent requests, and for
  short-lived runs a connection lifetime of one nanosecond.\<close>

record h1_client =
  h1_ReadTimeout :: duration
  h1_WriteTimeout :: duration
  h1_MaxIdemponentCallAttempts :: int
  h1_DisableHeaderNamesNormalizing :: bool
  h1_TLSConfig :: tls_config
  h1_MaxConnDuration :: duration

definition newH1Client ::
  "(string \<Rightarrow> string option) \<Rightarrow> (string \<Rightarrow> bool) \<Rightarrow> LoadgenConfig \<Rightarrow> client_error + h1_client" where
  "newH1Client read_file has_pem cfg =
     (case buildTLSConfig read_file has_pem cfg of
        Inl e \<Rightarrow> Inl e
      | Inr t \<Rightarrow>
          let c = \<lparr>h1_ReadTimeout = lc_Timeout cfg, h1_WriteTimeout = lc_Timeout cfg, h1_MaxIdemponentCallAttempts = 1,
                   h1_DisableHeaderNamesNormalizing = False, h1_TLSConfig = t, h1_MaxConnDuration = 0\<rparr>
          in Inr (if lc_ConnectionMode cfg = ShortLived then c\<lparr>h1_MaxConnDuration := 1\<rparr> else c))"

text \<open>What \<^verbatim>\<open>newH2Client\<close> sets on the HTTP/2 transport and the client around it.\<close>

record h2_client =
  h2_TLSClientConfig :: tls_config
  h2_NextProtos :: "string list"
  h2_AllowHTTP :: bool
  h2_isHTTPS :: bool
  h2_ReadIdleTimeout :: duration
  h2_PingTimeout :: duration
  h2_Timeout :: duration

definition newH2Client ::
  "(string \<Rightarrow> string option) \<Rightarrow> (string \<Rightarrow> bool) \<Rightarrow> LoadgenConfig \<Rightarrow> client_error + h2_client" where
  "newH2Client read_file has_pem cfg =
     (case buildTLSConfig read_file has_pem cfg of
        Inl e \<Rightarrow> Inl e
      | Inr t \<Rightarrow>
          Inr \<lparr>h2_TLSClientConfig = t, h2_NextProtos = [''h2''], h2_AllowHTTP = True,
               h2_isHTTPS = HasPrefix (lc_URL cfg) ''https://'',
               h2_ReadIdleTimeout = lc_Timeout cfg, h2_PingTimeout = lc_Timeout cfg, h2_Timeout = lc_Timeout cfg\<rparr>)"

text \<open>The dial hook of the transport: what it opens and closes, and the connection it returns. The
  answers of the dialer and of the handshake are arguments.\<close>

datatype dial_effect = Opened | Closed

datatype conn = RawConn | TLSConn

definition DialTLSContext :: "h2_client \<Rightarrow> transport_error option \<Rightarrow> transport_error option \<Rightarrow>
    dial_effect list \<times> (transport_error + conn)" where
  "DialTLSContext h dial handshake =
     (case dial of
        Some e \<Rightarrow> ([], Inl e)
      | None \<Rightarrow>
          if \<not> h2_isHTTPS h then ([Opened], Inr RawConn)
          else case handshake of
            Some e \<Rightarrow> ([Opened, Closed], Inl e)
          | None \<Rightarrow> ([Opened], Inr TLSConn))"

text \<open>The client a configuration selects.\<close>

datatype client_kind = H1 h1_client | H2 h2_client | GRPC string "tls_config option"

definition newProtocolClient ::
  "(string \<Rightarrow> (string \<times> string) option) \<Rightarrow> (string \<Rightarrow> string option) \<Rightarrow> (string \<Rightarrow> bool) \<Rightarrow>
   LoadgenConfig \<Rightarrow> client_error + client_kind" where
  "newProtocolClient url_Parse read_file has_pem cfg =
     (if lc_Protocol cfg = [] \<or> lc_Protocol cfg = ProtocolHTTP1 then
        map_sum id H1 (newH1Client read_file has_pem cfg)
      else if lc_Protocol cfg = ProtocolHTTP2 then
        map_sum id H2 (newH2Client read_file has_pem cfg)
      else if lc_Protocol cfg = ProtocolGRPC then
        map_sum id (\<lambda>(h, t). GRPC h t) (newGRPCClient url_Parse read_file has_pem cfg)
      else Inl (ClientUnknownProtocol (lc_Protocol cfg)))"

text \<open>The dial hook leaks no connection, and a TLS connection is what it returns for an \<^verbatim>\<open>https\<close> URL.\<close>

lemma DialTLSContext_no_leak:
  "count_list (fst (DialTLSContext h dial hs)) Opened =
     count_list (fst (DialTLSContext h dial hs)) Closed + (if isl (snd (DialTLSContext h dial hs)) then 0 else 1)"
  "snd (DialTLSContext h dial hs) = Inr c \<Longrightarrow> c = TLSConn \<longleftrightarrow> h2_isHTTPS h"
  by (auto simp: DialTLSContext_def split: option.splits if_splits)

text \<open>The scheme is compared as written: validation, which sees the parsed and lower-cased scheme, accepts an
  upper-case one, and the HTTP/2 client then speaks plain text to a TLS port.\<close>

lemma h2_upper_case_scheme_plain:
  assumes "newH2Client read_file has_pem (cfg\<lparr>lc_URL := ''HTTPS://web''\<rparr>) = Inr h" "dial = None"
  shows "snd (DialTLSContext h dial hs) = Inr RawConn"
  using assms by (auto simp: newH2Client_def DialTLSContext_def HasPrefix_def split: sum.splits)

section \<open>The interface\<close>

fun do_all :: "('env \<Rightarrow> 's \<Rightarrow> (int \<times> transport_error option) \<times> 's) \<Rightarrow> 'env list \<Rightarrow> 's \<Rightarrow>
    (int \<times> transport_error option) list \<times> 's" where
  "do_all f [] s = ([], s)"
| "do_all f (e # es) s = (let (o1, s1) = f e s; (os, s2) = do_all f es s1 in (o1 # os, s2))"

definition stats_le :: "ClientStats \<Rightarrow> ClientStats \<Rightarrow> bool" where
  "stats_le a b \<longleftrightarrow> cs_GoAwayCount a \<le> cs_GoAwayCount b \<and> cs_ConnsOpened a \<le> cs_ConnsOpened b
     \<and> cs_StreamsIssued a \<le> cs_StreamsIssued b"

lemma stats_le_refl [simp]: "stats_le a a"
  by (simp add: stats_le_def)

lemma stats_le_trans: "stats_le a b \<Longrightarrow> stats_le b c \<Longrightarrow> stats_le a c"
  by (auto simp: stats_le_def)

locale protocol_client =
  fixes Do :: "'env \<Rightarrow> 's \<Rightarrow> (int \<times> transport_error option) \<times> 's"
    and Stats :: "'s \<Rightarrow> ClientStats"
  assumes error_status: "Do env s = ((status, Some e), s') \<Longrightarrow> status = 0"
    and stats_grow: "stats_le (Stats s) (Stats (snd (Do env s)))"
begin

lemma run_grows: "stats_le (Stats s) (Stats (snd (do_all Do envs s)))"
proof (induction envs arbitrary: s)
  case (Cons env envs)
  then show ?case
    by (auto simp: split_beta intro: stats_le_trans[OF stats_grow])
qed simp

lemma run_errors: "(status, Some e) \<in> set (fst (do_all Do envs s)) \<Longrightarrow> status = 0"
proof (induction envs arbitrary: s)
  case (Cons env envs)
  then show ?case using error_status[of env s status e "snd (Do env s)"]
    by (auto simp: split_beta prod_eq_iff)
qed simp

lemma run_length [simp]: "length (fst (do_all Do envs s)) = length envs"
  by (induction envs arbitrary: s) (auto simp: split_beta)

end

lemma GotConn_grow:
  "h2_conns s \<le> h2_conns (foldl GotConn s rs) \<and> h2_streams s \<le> h2_streams (foldl GotConn s rs)
   \<and> h2_goAway (foldl GotConn s rs) = h2_goAway s"
  by (induction rs rule: rev_induct) (auto simp: GotConn_def Let_def)

interpretation h1: protocol_client "h1_Do cfg" h1_Stats for cfg
  by unfold_locales (auto simp: h1_Do_def split: sum.splits)

interpretation h2: protocol_client "h2_Do cfg" h2_Stats for cfg
  using GotConn_grow
  by unfold_locales (auto simp: h2_Do_def h2_Stats_def stats_le_def Let_def le_SucI split: sum.splits option.splits)

interpretation grpc: protocol_client "grpc_Do cfg" grpc_Stats for cfg
  by unfold_locales (auto simp: grpc_Do_def grpc_Stats_def grpc_check_status_def stats_le_def Let_def
      split: sum.splits option.splits if_splits prod.splits check_result.splits)

lemma GotConn_conns_le: "h2_conns s \<le> h2_streams s \<Longrightarrow> h2_conns (foldl GotConn s rs) \<le> h2_streams (foldl GotConn s rs)"
  by (induction rs rule: rev_induct) (auto simp: GotConn_def Let_def)

lemma h2_conns_le_streams:
  "h2_conns s \<le> h2_streams s \<Longrightarrow> h2_conns (snd (do_all (h2_Do cfg) envs s)) \<le> h2_streams (snd (do_all (h2_Do cfg) envs s))"
proof (induction envs arbitrary: s)
  case (Cons env envs)
  have "h2_conns (snd (h2_Do cfg env s)) \<le> h2_streams (snd (h2_Do cfg env s))"
    using Cons.prems GotConn_conns_le[OF Cons.prems, of "h2_got_conns env"]
    by (auto simp: h2_Do_def Let_def split: option.split sum.split)
  then show ?case using Cons.IH by (simp add: split_beta)
qed simp

section \<open>Properties\<close>



text \<open>A gRPC probe succeeds exactly when the server answered SERVING: every non-OK status code,
  known or not, and every OK answer that is not SERVING maps to a status of 400 or more, or to a
  transport error, both of which the collector counts as failures.\<close>

theorem grpc_success_iff:
  "(let (status, err) = grpc_check_status r in err = None \<and> status < 400)
     \<longleftrightarrow> r = CheckStatus Code_OK \<or> r = CheckResponse True"
proof (cases r)
  case (CheckStatus c)
  then show ?thesis by (cases c) (simp_all add: grpc_check_status_def)
qed (auto simp: grpc_check_status_def)

text \<open>The classification of transport errors is total and ordered: a timeout is Timeout whatever
  its text says, a GOAWAY is a server error even when its text also mentions a stream error, and the
  remaining categories are decided by the text alone, in the order reset stream, reset connection,
  TLS, dial.\<close>

lemma classify_cases:
  "(classify (Some e) = ErrTimeout \<longleftrightarrow> te_fasthttp_timeout e \<or> te_deadline_exceeded e)
   \<and> (classify (Some e) = ErrServer \<longleftrightarrow>
        \<not> (te_fasthttp_timeout e \<or> te_deadline_exceeded e) \<and> Contains (te_msg e) ''GOAWAY'')
   \<and> classify (Some e) \<noteq> ErrClient
   \<and> classify (Some e) \<in> {ErrTimeout, ErrServer, ErrStreamReset, ErrConnReset, ErrTLS, ErrDial, ErrOther}"
  by (simp add: classify_def)

end
