(* ===== verification/Loadgen_Collector.thy ===== *)
theory Loadgen_Collector
  imports Correlation Go_Float Loadgen_Client
begin

text \<open>
  The generator's run and its collector: \<^verbatim>\<open>internal/loadgen/generator.go\<close> and
  \<^verbatim>\<open>result.go\<close>. Workers record outcomes under one mutex, so whatever the scheduler does the
  collector sees a sequence of whole \<^verbatim>\<open>record\<close> calls: a run is that sequence. The HDR
  histogram is a library; its operations are the parameter \<open>H\<close>.
\<close>

section \<open>State\<close>

abbreviation (input) latencyHistogramMin :: int where "latencyHistogramMin \<equiv> 1000"
abbreviation (input) latencyHistogramMax :: int where "latencyHistogramMax \<equiv> 60000000000"

definition maxErrorSamples :: nat where "maxErrorSamples = 10000"

record 'h hdr_ops =
  hdr_New :: "'h"
  RecordValue :: "int \<Rightarrow> 'h \<Rightarrow> 'h"
  ValueAtQuantile :: "nat \<Rightarrow> 'h \<Rightarrow> int"
  hdr_Max :: "'h \<Rightarrow> int"
  TotalCount :: "'h \<Rightarrow> nat"

record PhaseSummary =
  psum_Name :: string
  psum_Pattern :: string
  psum_Duration :: duration
  psum_StartRPS :: int
  psum_RecordStats :: bool
  psum_Started :: time
  psum_Ended :: time

record 'h collector =
  c_start :: time
  c_end :: time
  c_sent :: nat
  c_succeeded :: nat
  c_failed :: nat
  c_statusCounts :: "int \<rightharpoonup> nat"
  c_errors :: "string \<rightharpoonup> nat"
  c_latencies :: "'h"
  c_errorSamples :: "ErrorSample list"
  c_phases :: "PhaseSummary list"
  c_clientStats :: ClientStats

record LoadResult =
  res_Started :: time
  res_Ended :: time
  res_Duration :: duration
  res_WarmupDuration :: duration
  res_MeasurementDuration :: duration
  res_Sent :: nat
  res_Succeeded :: nat
  res_Failed :: nat
  res_StatusCounts :: "int \<rightharpoonup> nat"
  res_Errors :: "string \<rightharpoonup> nat"
  res_LatencyP50 :: duration
  res_LatencyP95 :: duration
  res_LatencyP99 :: duration
  res_LatencyMax :: duration
  res_Labels :: "(string \<times> string) list"
  res_ErrorSamples :: "ErrorSample list"
  res_Phases :: "PhaseSummary list"

definition FailureRate :: "LoadResult \<Rightarrow> float64" where
  "FailureRate r = (if res_Sent r = 0 then 0
     else fl_div (fl_of_int (int (res_Failed r))) (fl_of_int (int (res_Sent r))))"

section \<open>The collector\<close>

text \<open>\<^verbatim>\<open>m[k]++\<close>: an absent key counts as 0.\<close>

definition map_inc :: "('k \<rightharpoonup> nat) \<Rightarrow> 'k \<Rightarrow> 'k \<rightharpoonup> nat" where
  "map_inc m k = m(k \<mapsto> Suc (case m k of None \<Rightarrow> 0 | Some n \<Rightarrow> n))"

definition newCollector :: "'h hdr_ops \<Rightarrow> 'h collector" where
  "newCollector H = \<lparr>c_start = 0, c_end = 0, c_sent = 0, c_succeeded = 0, c_failed = 0,
     c_statusCounts = Map.empty, c_errors = Map.empty, c_latencies = hdr_New H, c_errorSamples = [],
     c_phases = [], c_clientStats = \<lparr>cs_GoAwayCount = 0, cs_ConnsOpened = 0, cs_StreamsIssued = 0\<rparr>\<rparr>"

definition beginPhase :: "LoadPhase \<Rightarrow> time \<Rightarrow> 'h collector \<Rightarrow> 'h collector" where
  "beginPhase p now c = c\<lparr>c_phases := c_phases c @
     [\<lparr>psum_Name = ph_Name p, psum_Pattern = ph_Pattern p, psum_Duration = ph_Duration p,
       psum_StartRPS = ph_StartRPS p, psum_RecordStats = ph_RecordStats p, psum_Started = now, psum_Ended = 0\<rparr>]\<rparr>"

definition endPhase :: "time \<Rightarrow> 'h collector \<Rightarrow> 'h collector" where
  "endPhase now c =
     (if c_phases c = [] then c
      else c\<lparr>c_phases := butlast (c_phases c) @ [(last (c_phases c))\<lparr>psum_Ended := now\<rparr>]\<rparr>)"

definition recordLatency :: "'h hdr_ops \<Rightarrow> duration \<Rightarrow> 'h collector \<Rightarrow> 'h collector" where
  "recordLatency H latency c =
     (let v = latency;
          v = (if v < latencyHistogramMin then latencyHistogramMin else v);
          v = (if v > latencyHistogramMax then latencyHistogramMax else v)
      in c\<lparr>c_latencies := RecordValue H v (c_latencies c)\<rparr>)"

definition addSample :: "string \<Rightarrow> int \<Rightarrow> time \<Rightarrow> 'h collector \<Rightarrow> 'h collector" where
  "addSample cat status t c =
     (if length (c_errorSamples c) \<ge> maxErrorSamples then c
      else c\<lparr>c_errorSamples := c_errorSamples c @ [\<lparr>es_At = t, es_Category = cat, es_Status = status\<rparr>]\<rparr>)"

definition recordStatus :: "'h hdr_ops \<Rightarrow> int \<Rightarrow> duration \<Rightarrow> time \<Rightarrow> 'h collector \<Rightarrow> 'h collector" where
  "recordStatus H code latency t c =
     (let c = c\<lparr>c_sent := c_sent c + 1\<rparr>;
          c = c\<lparr>c_statusCounts := map_inc (c_statusCounts c) code\<rparr>;
          c = recordLatency H latency c
      in if code \<ge> 500 then
           addSample ErrServer code t (c\<lparr>c_errors := map_inc (c_errors c) ErrServer, c_failed := c_failed c + 1\<rparr>)
         else if code \<ge> 400 then
           addSample ErrClient code t (c\<lparr>c_errors := map_inc (c_errors c) ErrClient, c_failed := c_failed c + 1\<rparr>)
         else c\<lparr>c_succeeded := c_succeeded c + 1\<rparr>)"

definition recordError :: "'h hdr_ops \<Rightarrow> string \<Rightarrow> duration \<Rightarrow> time \<Rightarrow> 'h collector \<Rightarrow> 'h collector" where
  "recordError H cat latency t c =
     (let c = c\<lparr>c_sent := c_sent c + 1, c_failed := c_failed c + 1\<rparr>;
          c = c\<lparr>c_errors := map_inc (c_errors c) cat\<rparr>;
          c = recordLatency H latency c
      in addSample cat 0 t c)"

definition phase_time :: "bool \<Rightarrow> PhaseSummary list \<Rightarrow> duration" where
  "phase_time rec ps =
     foldl (\<lambda>acc p. if psum_RecordStats p = rec then dur_add acc (time_Sub (psum_Ended p) (psum_Started p)) else acc) 0 ps"

definition result_labels :: "LoadgenConfig \<Rightarrow> ClientStats \<Rightarrow> (string \<times> string) list" where
  "result_labels cfg st =
     [(''connectionMode'', lc_ConnectionMode cfg), (''protocol'', lc_Protocol cfg)]
     @ (if lc_TargetMode cfg \<noteq> [] then [(''targetMode'', lc_TargetMode cfg)] else [])
     @ (if lc_NetworkPath cfg \<noteq> [] then [(''networkPath'', lc_NetworkPath cfg)] else [])
     @ (if lc_Protocol cfg = ProtocolHTTP2 then
          [(''goAwayCount'', itoa (int (cs_GoAwayCount st))), (''connsOpened'', itoa (int (cs_ConnsOpened st))),
           (''streamsIssued'', itoa (int (cs_StreamsIssued st)))]
        else if lc_Protocol cfg = ProtocolGRPC then
          [(''connsOpened'', itoa (int (cs_ConnsOpened st))), (''streamsIssued'', itoa (int (cs_StreamsIssued st)))]
          @ (if lc_GRPCService cfg \<noteq> [] then [(''grpcService'', lc_GRPCService cfg)] else [])
        else [])"

definition finalize :: "'h hdr_ops \<Rightarrow> LoadgenConfig \<Rightarrow> 'h collector \<Rightarrow> LoadResult" where
  "finalize H cfg c =
     (let q = (\<lambda>n. if TotalCount H (c_latencies c) = 0 then 0 else ValueAtQuantile H n (c_latencies c));
          mx = (if TotalCount H (c_latencies c) = 0 then 0 else hdr_Max H (c_latencies c))
      in \<lparr>res_Started = c_start c, res_Ended = c_end c, res_Duration = time_Sub (c_end c) (c_start c),
          res_WarmupDuration = phase_time False (c_phases c), res_MeasurementDuration = phase_time True (c_phases c),
          res_Sent = c_sent c, res_Succeeded = c_succeeded c, res_Failed = c_failed c,
          res_StatusCounts = c_statusCounts c, res_Errors = c_errors c,
          res_LatencyP50 = q 50, res_LatencyP95 = q 95, res_LatencyP99 = q 99, res_LatencyMax = mx,
          res_Labels = result_labels cfg (c_clientStats c),
          res_ErrorSamples = c_errorSamples c, res_Phases = c_phases c\<rparr>)"

section \<open>The run\<close>

text \<open>One request as the clock and the network play it: whether the context ended while the worker
  waited for the slot, what the client answered, when, and whether the context had ended by then.\<close>

record request =
  req_slot :: time
  req_cancelled_waiting :: bool
  req_answer :: "int \<times> transport_error option"
  req_completion :: time
  req_ctx_done :: bool

definition gen_do :: "'h hdr_ops \<Rightarrow> LoadPhase \<Rightarrow> request \<Rightarrow> 'h collector \<Rightarrow> 'h collector" where
  "gen_do H phase r c =
     (if req_cancelled_waiting r then c
      else
        let (status, err) = req_answer r; completion = req_completion r;
            latency = time_Sub completion (req_slot r);
            latency = (if latency < 0 then 0 else latency)
        in if req_ctx_done r then c
           else if \<not> ph_RecordStats phase then c
           else if err \<noteq> None then recordError H (classify err) latency completion c
           else recordStatus H status latency completion c)"

text \<open>One phase: its clock readings and the requests of all its workers in the order in which they
  took the mutex. Without a worker there is no request.\<close>

record phase_env =
  pe_ctx_done :: bool
  pe_started :: time
  pe_ended :: time
  pe_requests :: "request list"

definition runPhase :: "'h hdr_ops \<Rightarrow> LoadgenConfig \<Rightarrow> LoadPhase \<Rightarrow> phase_env \<Rightarrow> 'h collector \<Rightarrow> 'h collector" where
  "runPhase H cfg p env c =
     (let c = beginPhase p (pe_started env) c;
          c = foldl (\<lambda>c r. gen_do H p r c) c (if lc_Concurrency cfg > 0 then pe_requests env else [])
      in endPhase (pe_ended env) c)"

fun run_phases :: "'h hdr_ops \<Rightarrow> LoadgenConfig \<Rightarrow> (LoadPhase \<times> phase_env) list \<Rightarrow> 'h collector \<Rightarrow> 'h collector" where
  "run_phases H cfg [] c = c"
| "run_phases H cfg ((p, env) # ps) c =
     (if pe_ctx_done env then c else run_phases H cfg ps (runPhase H cfg p env c))"

definition gen_Run :: "'h hdr_ops \<Rightarrow> LoadgenConfig \<Rightarrow> time \<Rightarrow> time \<Rightarrow> phase_env list \<Rightarrow> ClientStats \<Rightarrow> LoadResult" where
  "gen_Run H cfg t0 t1 envs stats =
     (let c = (newCollector H)\<lparr>c_start := t0\<rparr>;
          c = run_phases H cfg (zip (lc_Phases cfg) envs) c;
          c = c\<lparr>c_end := t1, c_clientStats := stats\<rparr>
      in finalize H cfg c)"

section \<open>Specification: counting outcomes\<close>

text \<open>An outcome that is recorded: its answer and completion time.\<close>

type_synonym outcome = "(int \<times> transport_error option) \<times> time"

definition outcome_error :: "outcome \<Rightarrow> (string \<times> int) option" where
  "outcome_error out =
     (case out of ((status, err), t) \<Rightarrow>
        if err \<noteq> None then Some (classify err, 0)
        else if status \<ge> 500 then Some (ErrServer, status)
        else if status \<ge> 400 then Some (ErrClient, status) else None)"

abbreviation failed_outcome :: "outcome \<Rightarrow> bool" where
  "failed_outcome out \<equiv> outcome_error out \<noteq> None"

definition outcome_sample :: "outcome \<Rightarrow> ErrorSample" where
  "outcome_sample out = \<lparr>es_At = snd out, es_Category = fst (the (outcome_error out)), es_Status = snd (the (outcome_error out))\<rparr>"

definition recorded :: "LoadPhase \<Rightarrow> request \<Rightarrow> bool" where
  "recorded p r \<longleftrightarrow> \<not> req_cancelled_waiting r \<and> \<not> req_ctx_done r \<and> ph_RecordStats p"

definition outcome_of :: "request \<Rightarrow> outcome" where
  "outcome_of r = (req_answer r, req_completion r)"

text \<open>The outcomes the collector of a run sees: those of the phases begun before the context ended.\<close>

fun run_outcomes :: "LoadgenConfig \<Rightarrow> (LoadPhase \<times> phase_env) list \<Rightarrow> outcome list" where
  "run_outcomes cfg [] = []"
| "run_outcomes cfg ((p, env) # ps) =
     (if pe_ctx_done env then []
      else (if lc_Concurrency cfg > 0 then map outcome_of (filter (recorded p) (pe_requests env)) else [])
           @ run_outcomes cfg ps)"

definition cnt :: "('k \<rightharpoonup> nat) \<Rightarrow> 'k \<Rightarrow> nat" where
  "cnt m k = (case m k of None \<Rightarrow> 0 | Some n \<Rightarrow> n)"

text \<open>The collector agrees with a list of outcomes.\<close>

definition counts :: "'h collector \<Rightarrow> outcome list \<Rightarrow> bool" where
  "counts c os \<longleftrightarrow>
     c_sent c = length os
     \<and> c_failed c = length (filter failed_outcome os)
     \<and> c_succeeded c = length (filter (\<lambda>out. \<not> failed_outcome out) os)
     \<and> (\<forall>code. cnt (c_statusCounts c) code = length (filter (\<lambda>out. snd (fst out) = None \<and> fst (fst out) = code) os))
     \<and> (\<forall>cat. cnt (c_errors c) cat = length (filter (\<lambda>out. map_option fst (outcome_error out) = Some cat) os))
     \<and> c_errorSamples c = take maxErrorSamples (map outcome_sample (filter failed_outcome os))"

section \<open>Lemmas\<close>

lemma cnt_map_inc [simp]: "cnt (map_inc m k) j = cnt m j + (if j = k then 1 else 0)"
  by (simp add: cnt_def map_inc_def)

lemma cnt_empty [simp]: "cnt Map.empty k = 0"
  by (simp add: cnt_def)

lemma recordLatency_simps [simp]:
  "c_sent (recordLatency H l c) = c_sent c" "c_failed (recordLatency H l c) = c_failed c"
  "c_succeeded (recordLatency H l c) = c_succeeded c" "c_errors (recordLatency H l c) = c_errors c"
  "c_statusCounts (recordLatency H l c) = c_statusCounts c"
  "c_errorSamples (recordLatency H l c) = c_errorSamples c" "c_phases (recordLatency H l c) = c_phases c"
  by (simp_all add: recordLatency_def Let_def)

lemma addSample_simps [simp]:
  "c_sent (addSample cat st t c) = c_sent c" "c_failed (addSample cat st t c) = c_failed c"
  "c_succeeded (addSample cat st t c) = c_succeeded c" "c_errors (addSample cat st t c) = c_errors c"
  "c_statusCounts (addSample cat st t c) = c_statusCounts c" "c_latencies (addSample cat st t c) = c_latencies c"
  "c_phases (addSample cat st t c) = c_phases c"
  by (simp_all add: addSample_def)

lemma addSample_take:
  "c_errorSamples c = take maxErrorSamples xs \<Longrightarrow>
   c_errorSamples (addSample cat st t c) =
     take maxErrorSamples (xs @ [\<lparr>es_At = t, es_Category = cat, es_Status = st\<rparr>])"
  by (auto simp: addSample_def not_le)

lemma recordStatus_counts:
  assumes "counts c os"
  shows "counts (recordStatus H code l t c) (os @ [((code, None), t)])"
  using assms
  by (auto simp: counts_def recordStatus_def Let_def outcome_error_def outcome_sample_def addSample_take
      cong: if_cong)

lemma recordError_counts:
  assumes "counts c os" "err \<noteq> None"
  shows "counts (recordError H (classify err) l t c) (os @ [((status, err), t)])"
  using assms by (auto simp: counts_def recordError_def Let_def outcome_error_def outcome_sample_def addSample_take)

lemma gen_do_counts:
  assumes "counts c os"
  shows "counts (gen_do H p r c) (os @ (if recorded p r then [outcome_of r] else []))"
proof (cases "req_answer r")
  case (Pair status err)
  show ?thesis
    using assms recordStatus_counts[OF assms, of H status _ "req_completion r"]
      recordError_counts[OF assms, of err H _ "req_completion r" status] Pair
    by (cases err) (auto simp: gen_do_def recorded_def outcome_of_def Let_def)
qed

lemma phase_counts:
  "counts c os \<Longrightarrow> counts (foldl (\<lambda>c r. gen_do H p r c) c rs) (os @ map outcome_of (filter (recorded p) rs))"
proof (induction rs arbitrary: c os)
  case (Cons r rs)
  from Cons.IH[OF gen_do_counts[OF Cons.prems, of H p r]] show ?case by (cases "recorded p r") auto
qed simp

lemma counts_phases_irrelevant [simp]:
  "counts (beginPhase p t c) os \<longleftrightarrow> counts c os" "counts (endPhase t c) os \<longleftrightarrow> counts c os"
  by (simp_all add: counts_def beginPhase_def endPhase_def)

lemma runPhase_counts:
  assumes "counts c os"
  shows "counts (runPhase H cfg p env c)
    (os @ (if lc_Concurrency cfg > 0 then map outcome_of (filter (recorded p) (pe_requests env)) else []))"
  using phase_counts[of "beginPhase p (pe_started env) c" os H p] assms by (simp add: runPhase_def Let_def)

lemma run_phases_counts: "counts c os \<Longrightarrow> counts (run_phases H cfg ps c) (os @ run_outcomes cfg ps)"
proof (induction ps arbitrary: c os)
  case (Cons pe ps)
  obtain p env where pe: "pe = (p, env)" by fastforce
  show ?case
  proof (cases "pe_ctx_done env")
    case False
    from Cons.IH[OF runPhase_counts[OF Cons.prems, of H cfg p env]] show ?thesis using False by (simp add: pe)
  qed (use Cons.prems pe in simp)
qed simp

lemma newCollector_counts: "counts (newCollector H) []"
  by (simp add: newCollector_def counts_def)

lemma gen_Run_counts:
  obtains c where "counts c (run_outcomes cfg (zip (lc_Phases cfg) envs))"
    and "gen_Run H cfg t0 t1 envs st = finalize H cfg (c\<lparr>c_end := t1, c_clientStats := st\<rparr>)"
proof
  have "counts ((newCollector H)\<lparr>c_start := t0\<rparr>) []" using newCollector_counts by (simp add: counts_def)
  from run_phases_counts[OF this]
  show "counts (run_phases H cfg (zip (lc_Phases cfg) envs) ((newCollector H)\<lparr>c_start := t0\<rparr>))
      (run_outcomes cfg (zip (lc_Phases cfg) envs))" by simp
qed (simp add: gen_Run_def Let_def)

lemma finalize_counts [simp]:
  "res_Sent (finalize H cfg c) = c_sent c" "res_Failed (finalize H cfg c) = c_failed c"
  "res_Succeeded (finalize H cfg c) = c_succeeded c" "res_StatusCounts (finalize H cfg c) = c_statusCounts c"
  "res_Errors (finalize H cfg c) = c_errors c" "res_ErrorSamples (finalize H cfg c) = c_errorSamples c"
  "res_Phases (finalize H cfg c) = c_phases c"
  by (simp_all add: finalize_def Let_def)

section \<open>Properties\<close>

text \<open>C26. The result of a run accounts for every measured request exactly once: warmup requests and
  requests that finish after cancellation leave no trace, sent is the number of the others, failed is
  the number of them that had a transport error or a status of 400 or more, every status and every
  error category is counted exactly, and the samples are the first ten thousand failures in order.\<close>

theorem gen_Run_accounts:
  "let os = run_outcomes cfg (zip (lc_Phases cfg) envs); r = gen_Run H cfg t0 t1 envs st in
     res_Sent r = length os
     \<and> res_Failed r = length (filter failed_outcome os)
     \<and> res_Sent r = res_Succeeded r + res_Failed r
     \<and> cnt (res_StatusCounts r) code = length (filter (\<lambda>out. snd (fst out) = None \<and> fst (fst out) = code) os)
     \<and> cnt (res_Errors r) cat = length (filter (\<lambda>out. map_option fst (outcome_error out) = Some cat) os)
     \<and> res_ErrorSamples r = take maxErrorSamples (map outcome_sample (filter failed_outcome os))"
proof -
  let ?os = "run_outcomes cfg (zip (lc_Phases cfg) envs)"
  obtain c where "counts c ?os" "gen_Run H cfg t0 t1 envs st = finalize H cfg (c\<lparr>c_end := t1, c_clientStats := st\<rparr>)"
    using gen_Run_counts[of cfg envs H t0 t1 st] .
  then show ?thesis using length_filter_compl[of failed_outcome ?os] by (simp add: counts_def Let_def)
qed

text \<open>Worker interleaving does not matter: two executions of a phase list whose phases saw the
  same requests, in whatever order their workers took the mutex, agree on every counter of the
  result.\<close>

theorem gen_Run_interleaving:
  assumes "list_all2 (\<lambda>e f. pe_ctx_done e = pe_ctx_done f \<and> mset (pe_requests e) = mset (pe_requests f)) envs envs'"
  shows "res_Sent (gen_Run H cfg t0 t1 envs st) = res_Sent (gen_Run H cfg t0' t1' envs' st')
    \<and> res_Failed (gen_Run H cfg t0 t1 envs st) = res_Failed (gen_Run H cfg t0' t1' envs' st')
    \<and> cnt (res_StatusCounts (gen_Run H cfg t0 t1 envs st)) = cnt (res_StatusCounts (gen_Run H cfg t0' t1' envs' st'))
    \<and> cnt (res_Errors (gen_Run H cfg t0 t1 envs st)) = cnt (res_Errors (gen_Run H cfg t0' t1' envs' st'))
    \<and> length (res_ErrorSamples (gen_Run H cfg t0 t1 envs st)) = length (res_ErrorSamples (gen_Run H cfg t0' t1' envs' st'))"
proof -
  have "mset (run_outcomes cfg (zip ps envs)) = mset (run_outcomes cfg (zip ps envs'))" for ps
    using assms
  proof (induction envs envs' arbitrary: ps rule: list_all2_induct)
    case (Cons e es f fs)
    then show ?case by (cases ps) (auto simp: mset_map mset_filter)
  qed simp
  then have ms: "mset (run_outcomes cfg (zip (lc_Phases cfg) envs)) = mset (run_outcomes cfg (zip (lc_Phases cfg) envs'))" .
  obtain c where c: "counts c (run_outcomes cfg (zip (lc_Phases cfg) envs))"
    "gen_Run H cfg t0 t1 envs st = finalize H cfg (c\<lparr>c_end := t1, c_clientStats := st\<rparr>)"
    using gen_Run_counts[of cfg envs H t0 t1 st] .
  obtain c' where c': "counts c' (run_outcomes cfg (zip (lc_Phases cfg) envs'))"
    "gen_Run H cfg t0' t1' envs' st' = finalize H cfg (c'\<lparr>c_end := t1', c_clientStats := st'\<rparr>)"
    using gen_Run_counts[of cfg envs' H t0' t1' st'] .
  have "length (run_outcomes cfg (zip (lc_Phases cfg) envs)) = length (run_outcomes cfg (zip (lc_Phases cfg) envs'))"
    using ms by (rule mset_eq_length)
  then show ?thesis using c c' length_filter_mset[OF ms] by (auto simp: counts_def fun_eq_iff)
qed

definition demo_request :: "int \<Rightarrow> time \<Rightarrow> request" where
  "demo_request code t = \<lparr>req_slot = t, req_cancelled_waiting = False, req_answer = (code, None),
     req_completion = t + 1000, req_ctx_done = False\<rparr>"

definition demo_hdr :: "int list hdr_ops" where
  "demo_hdr = \<lparr>hdr_New = [], RecordValue = (#), ValueAtQuantile = (\<lambda>q h. 0), hdr_Max = (\<lambda>h. 0), TotalCount = length\<rparr>"

theorem gen_Run_interleaving_witness:
  "let env = (\<lambda>rs. \<lparr>pe_ctx_done = False, pe_started = 0, pe_ended = 9, pe_requests = rs\<rparr>);
       run = (\<lambda>rs. gen_Run demo_hdr (withDefaults demo_config) 0 9 [env rs]
                 \<lparr>cs_GoAwayCount = 0, cs_ConnsOpened = 0, cs_StreamsIssued = 0\<rparr>)
   in res_Failed (run [demo_request 200 1, demo_request 503 2]) = res_Failed (run [demo_request 503 2, demo_request 200 1])"
proof -
  let ?env = "\<lambda>rs. \<lparr>pe_ctx_done = False, pe_started = 0, pe_ended = 9, pe_requests = rs\<rparr>"
  have "list_all2 (\<lambda>e f. pe_ctx_done e = pe_ctx_done f \<and> mset (pe_requests e) = mset (pe_requests f))
      [?env [demo_request 200 1, demo_request 503 2]] [?env [demo_request 503 2, demo_request 200 1]]"
    by (simp add: add_mset_commute)
  from gen_Run_interleaving[OF this] show ?thesis unfolding Let_def by blast
qed

text \<open>A negative pool size passes validation and defaulting unchanged, and the run then has no
  worker: whatever its length, it reports zero requests, zero failures and a failure rate of zero,
  which reads as a clean run.\<close>

theorem negative_concurrency_vacuous:
  assumes "config_Validate url_Parse http_NewRequest cfg = None" "c < 0"
  shows "config_Validate url_Parse http_NewRequest (cfg\<lparr>lc_Concurrency := c\<rparr>) = None
    \<and> (let r = gen_Run H (withDefaults (cfg\<lparr>lc_Concurrency := c\<rparr>)) t0 t1 envs st
       in res_Sent r = 0 \<and> res_Failed r = 0 \<and> FailureRate r = 0)"
proof -
  let ?cfg = "withDefaults (cfg\<lparr>lc_Concurrency := c\<rparr>)"
  have neg: "lc_Concurrency ?cfg = c" using concurrency_unvalidated[of url_Parse http_NewRequest c cfg] assms(2) by simp
  have "run_outcomes ?cfg ps = []" for ps using neg assms(2) by (induction ps) auto
  moreover obtain k where "counts k (run_outcomes ?cfg (zip (lc_Phases ?cfg) envs))"
    "gen_Run H ?cfg t0 t1 envs st = finalize H ?cfg (k\<lparr>c_end := t1, c_clientStats := st\<rparr>)"
    using gen_Run_counts[of ?cfg envs H t0 t1 st] .
  ultimately show ?thesis
    using concurrency_unvalidated[of url_Parse http_NewRequest c cfg] assms(1)
    by (simp add: counts_def FailureRate_def)
qed

theorem negative_concurrency_vacuous_witness:
  "res_Sent (gen_Run demo_hdr (withDefaults (demo_config\<lparr>lc_Concurrency := -1\<rparr>)) 0 (60 * Second)
     [\<lparr>pe_ctx_done = False, pe_started = 0, pe_ended = 60 * Second, pe_requests = []\<rparr>]
     \<lparr>cs_GoAwayCount = 0, cs_ConnsOpened = 0, cs_StreamsIssued = 0\<rparr>) = 0"
proof -
  have "config_Validate (\<lambda>u. Some (''http'', ''web'')) (\<lambda>m u. True) demo_config = None"
    by (simp add: config_Validate_def demo_config_def)
  from negative_concurrency_vacuous[OF this, of "-1" demo_hdr] show ?thesis unfolding Let_def by simp
qed

end
