(* ===== verification/Observer.thy ===== *)
theory Observer
  imports Leakage Drain Hpa_Watcher Cgroup Chaos Endpoint_Watch Loadgen_Collector
begin

text \<open>
  The observation sidecar: \<^verbatim>\<open>internal/observer/observer.go\<close>, \<^verbatim>\<open>target.go\<close> and
  \<^verbatim>\<open>kubelet.go\<close>. What the API server, the kubelet and the clock answer during a session is
  the record \<open>obs_env\<close>; a failed call is \<^const>\<open>None\<close>. Log lines (\<^verbatim>\<open>warn\<close>) are not
  modelled. JSON encoding is the pair of parameters \<open>marshal\<close> and \<open>unmarshal\<close>.
\<close>

section \<open>Configuration and report\<close>

record ObsConfig =
  ob_TargetName :: string
  ob_Namespace :: string
  ob_TargetKind :: string
  ob_TargetGroup :: string
  ob_TargetVersion :: string
  ob_TargetResource :: string
  ob_ServiceName :: string
  ob_SLA :: duration
  ob_PollInterval :: duration
  ob_ResultFile :: string

record ObsReport =
  rep_Diagnostics :: "DiagnosticAlert list"
  rep_ScaleUpDuration :: "duration option"
  rep_SLAStatus :: Verdict
  rep_TrafficIntegrity :: Verdict
  rep_TotalRequests :: nat
  rep_FailedRequests :: nat
  rep_FailureRate :: float64

definition applyTargetDefaults :: "ObsConfig \<Rightarrow> ObsConfig" where
  "applyTargetDefaults c =
     (let c = (if ob_TargetKind c = [] then c\<lparr>ob_TargetKind := ''Deployment''\<rparr> else c);
          c = (if ob_TargetResource c = []
               then c\<lparr>ob_TargetGroup := ''apps'', ob_TargetVersion := ''v1'', ob_TargetResource := ''deployments''\<rparr> else c)
      in if ob_TargetVersion c = [] then c\<lparr>ob_TargetVersion := ''v1''\<rparr> else c)"

definition session_config :: "ObsConfig \<Rightarrow> ObsConfig" where
  "session_config c =
     (let c = (if ob_PollInterval c \<le> 0 then c\<lparr>ob_PollInterval := 5 * Second\<rparr> else c);
          c = (if ob_ServiceName c = [] then c\<lparr>ob_ServiceName := ob_TargetName c\<rparr> else c)
      in applyTargetDefaults c)"

text \<open>\<^verbatim>\<open>NewSession\<close>: whether the two clients can be built from the rest config are its first arguments; the
  session is its completed configuration, the buffer of events starting empty.\<close>

datatype session_error = BuildClientset | BuildDynamicClient

definition NewSession :: "bool \<Rightarrow> bool \<Rightarrow> ObsConfig \<Rightarrow> session_error + ObsConfig" where
  "NewSession clientset_ok dyn_ok cfg =
     (if \<not> clientset_ok then Inl BuildClientset
      else if \<not> dyn_ok then Inl BuildDynamicClient
      else Inr (session_config cfg))"

section \<open>The environment\<close>

record HPAObject =
  hpa_Name :: string
  hpa_RefKind :: string
  hpa_RefName :: string
  hpa_MinReplicas :: "int option"
  hpa_MaxReplicas :: int
  hpa_CurrentReplicas :: int
  hpa_DesiredReplicas :: int
  hpa_Conditions :: "HPACondition list"

text \<open>The scale subresource: \<^verbatim>\<open>status.selector\<close> (\<^const>\<open>None\<close> when it is not a string, empty
  when it is missing) and \<^verbatim>\<open>status.replicas\<close> (\<^const>\<open>None\<close> when missing or not a number).\<close>

record ScaleObject =
  so_Selector :: "string option"
  so_Replicas :: "int option"

text \<open>The API server's proxy to a kubelet: the request is refused, or a stream is opened whose body can
  be read or not.\<close>

datatype proxy_answer = ProxyRefused | ProxyStream "exposition option"

record 'sel obs_env =
  oe_start :: time
  oe_end :: time
  oe_scale :: "ScaleObject option"
  oe_pods :: "string \<Rightarrow> Pod list option"
  oe_hpas :: "HPAObject list option"
  oe_cadvisor_before :: "string list \<Rightarrow> proxy_answer"
  oe_polls :: "(time \<times> HPAObject option) list"
  oe_watch :: "watch_attempt list"
  oe_cadvisor_after :: "string list \<Rightarrow> proxy_answer"
  oe_final_pods :: "string \<Rightarrow> Pod list option"
  oe_final_scale :: "ScaleObject option"
  oe_pdbs :: "'sel PDB list option"
  oe_result :: "LoadResult option"  \<comment> \<open>the decoded result file\<close>

section \<open>Target resolution\<close>

record target =
  t_samplePod :: Pod
  t_selector :: string
  t_hpa :: "HPAObject option"

definition findHPA :: "ObsConfig \<Rightarrow> HPAObject list option \<Rightarrow> HPAObject option" where
  "findHPA cfg hpas =
     (case hpas of None \<Rightarrow> None
      | Some hs \<Rightarrow> List.find (\<lambda>h. hpa_RefKind h = ob_TargetKind cfg \<and> hpa_RefName h = ob_TargetName cfg) hs)"

datatype resolve_error = GetScale | ScaleSelectorType | EmptySelector | ListPods | NoPods

definition resolveTarget :: "ObsConfig \<Rightarrow> 'sel obs_env \<Rightarrow> resolve_error + target" where
  "resolveTarget cfg env =
     (case oe_scale env of
        None \<Rightarrow> Inl GetScale
      | Some so \<Rightarrow>
          (case so_Selector so of
             None \<Rightarrow> Inl ScaleSelectorType
           | Some selector \<Rightarrow>
               if selector = [] then Inl EmptySelector
               else case oe_pods env selector of
                 None \<Rightarrow> Inl ListPods
               | Some [] \<Rightarrow> Inl NoPods
               | Some (p # ps) \<Rightarrow>
                   Inr \<lparr>t_samplePod = p, t_selector = selector, t_hpa = findHPA cfg (oe_hpas env)\<rparr>))"

fun pick_newest :: "time \<Rightarrow> Pod list \<Rightarrow> Pod option \<Rightarrow> Pod option" where
  "pick_newest runStart [] newest = newest"
| "pick_newest runStart (p # ps) newest =
     (let ct = pod_CreationTimestamp p in
      if \<not> time_After ct runStart then pick_newest runStart ps newest
      else case newest of
        None \<Rightarrow> pick_newest runStart ps (Some p)
      | Some n \<Rightarrow> pick_newest runStart ps (if time_After ct (pod_CreationTimestamp n) then Some p else newest))"

definition pickColdStartPod :: "Pod list \<Rightarrow> time \<Rightarrow> Pod option" where
  "pickColdStartPod pods runStart = pick_newest runStart pods None"

definition snapshotHPA :: "HPAObject \<Rightarrow> time \<Rightarrow> Snapshot" where
  "snapshotHPA h at_t = \<lparr>sn_At = at_t, sn_CurrentReplicas = hpa_CurrentReplicas h,
     sn_DesiredReplicas = hpa_DesiredReplicas h,
     sn_MinReplicas = (case hpa_MinReplicas h of None \<Rightarrow> 0 | Some m \<Rightarrow> m),
     sn_MaxReplicas = hpa_MaxReplicas h, sn_Conditions = hpa_Conditions h\<rparr>"

text \<open>The ticker loop: a failed read is skipped.\<close>

fun pollHPA :: "(time \<times> HPAObject option) list \<Rightarrow> Watcher \<Rightarrow> Watcher" where
  "pollHPA [] w = w"
| "pollHPA ((now, None) # ps) w = pollHPA ps w"
| "pollHPA ((now, Some h) # ps) w = pollHPA ps (hpa_Record w (snapshotHPA h now))"

fun readinessPeriodSeconds_of :: "Container list \<Rightarrow> int" where
  "readinessPeriodSeconds_of [] = 0"
| "readinessPeriodSeconds_of (c # cs) =
     (if ct_ReadinessProbe c \<noteq> None then ct_PeriodSeconds c else readinessPeriodSeconds_of cs)"

definition readinessPeriodSeconds :: "Pod \<Rightarrow> int" where
  "readinessPeriodSeconds pod = readinessPeriodSeconds_of (pod_Containers pod)"

definition collectProbeLag :: "'sel obs_env \<Rightarrow> target \<Rightarrow> ProbelagReport option" where
  "collectProbeLag env t =
     (if t_selector t = [] then None
      else case oe_final_pods env (t_selector t) of
        None \<Rightarrow> None
      | Some pods \<Rightarrow>
          map_option (\<lambda>pod. FromPodConditions (pod_Conditions pod) (readinessPeriodSeconds pod))
            (pickColdStartPod pods (oe_start env)))"

definition currentReplicas :: "'sel obs_env \<Rightarrow> target \<Rightarrow> int" where
  "currentReplicas env t =
     (case (case oe_final_scale env of None \<Rightarrow> None | Some so \<Rightarrow> so_Replicas so) of
        Some n \<Rightarrow> wrap32 n
      | None \<Rightarrow>
          (case t_hpa t of
             Some h \<Rightarrow>
               if hpa_CurrentReplicas h > 0 then hpa_CurrentReplicas h
               else (case oe_final_pods env (t_selector t) of None \<Rightarrow> 0 | Some ps \<Rightarrow> wrap32 (int (length ps)))
           | None \<Rightarrow> (case oe_final_pods env (t_selector t) of None \<Rightarrow> 0 | Some ps \<Rightarrow> wrap32 (int (length ps)))))"

record resilience =
  rs_dns :: "DnsReport option"
  rs_pdb :: "PdbReport option"

text \<open>\<open>asSelector\<close> and \<open>scaled\<close> are the library functions the PDB audit takes.\<close>

definition collectResilience ::
  "('sel \<Rightarrow> ((string \<times> string) list \<Rightarrow> bool) option) \<Rightarrow> scaler \<Rightarrow> 'sel obs_env \<Rightarrow> target \<Rightarrow> resilience" where
  "collectResilience asSelector scaled env t =
     (let d = (case dns_Audit (pod_DNSConfig (t_samplePod t)) of Inl e \<Rightarrow> None | Inr r \<Rightarrow> Some r) in
      if t_selector t = [] then \<lparr>rs_dns = d, rs_pdb = None\<rparr>
      else case oe_pdbs env of
        None \<Rightarrow> \<lparr>rs_dns = d, rs_pdb = None\<rparr>
      | Some pdbs \<Rightarrow>
          (case pdb_Audit asSelector scaled (pod_Labels (t_samplePod t)) (currentReplicas env t) pdbs of
             Inl e \<Rightarrow> \<lparr>rs_dns = d, rs_pdb = None\<rparr>
           | Inr r \<Rightarrow> \<lparr>rs_dns = d, rs_pdb = Some r\<rparr>))"

definition defaultCAdvisorOpen :: "(string list \<Rightarrow> proxy_answer) \<Rightarrow> string \<Rightarrow> exposition option option" where
  "defaultCAdvisorOpen proxy node =
     (case proxy [''api'', ''v1'', ''nodes'', node, ''proxy'', ''metrics'', ''cadvisor''] of
        ProxyRefused \<Rightarrow> None | ProxyStream body \<Rightarrow> Some body)"

definition fetchCAdvisor :: "(string list \<Rightarrow> proxy_answer) \<Rightarrow> string \<Rightarrow> exposition option" where
  "fetchCAdvisor proxy node = (case defaultCAdvisorOpen proxy node of None \<Rightarrow> None | Some body \<Rightarrow> body)"

text \<open>The sample pod was listed in the configured namespace, which is therefore its own.\<close>

definition scrapeCgroup :: "ObsConfig \<Rightarrow> (string list \<Rightarrow> proxy_answer) \<Rightarrow> Pod \<Rightarrow> Stat option" where
  "scrapeCgroup cfg proxy pod =
     (case pod_Containers pod of
        [] \<Rightarrow> None
      | c # cs \<Rightarrow>
          if pod_NodeName pod = [] then None
          else case fetchCAdvisor proxy (pod_NodeName pod) of
            None \<Rightarrow> None
          | Some body \<Rightarrow>
              (case ParseCAdvisor body (pod_Name pod) (ob_Namespace cfg) (ct_Name c) of
                 Inl e \<Rightarrow> None | Inr s \<Rightarrow> Some s))"

section \<open>Verdicts and the report\<close>

definition trafficFailThreshold :: float64 where "trafficFailThreshold = fl64 (1 / 100)"

definition slaVerdict :: "HpaReport \<Rightarrow> Verdict" where
  "slaVerdict r = (if hr_SLABreached r then VerdictFail else VerdictPass)"

definition trafficVerdict :: "LoadResult option \<Rightarrow> Verdict" where
  "trafficVerdict r =
     (case r of None \<Rightarrow> VerdictUnknown
      | Some r \<Rightarrow> if FailureRate r > trafficFailThreshold then VerdictFail else VerdictPass)"

definition toLeakageSamples :: "ErrorSample list \<Rightarrow> ErrorSample list" where
  "toLeakageSamples ss =
     map (\<lambda>s. \<lparr>es_At = es_At s, es_Category = es_Category s, es_Status = es_Status s\<rparr>) ss"

record observed =
  obs_cgroup :: "CgroupReport option"
  obs_probelag :: "ProbelagReport option"
  obs_resilience :: resilience

definition skew_alert :: DiagnosticAlert where
  "skew_alert = \<lparr>alert_Type = ''MetricsLikelySkewed'', alert_Severity = ''Info'',
     alert_Message = [L ''endpoint event timestamps reflect informer-watch receive time, not kubelet/apiserver decision time; leakage and drain counts can be off by tens to hundreds of milliseconds''],
     alert_Recommendation = [L ''treat the leakage / drain counts as directional; cross-check with kubelet logs or audit events when the failure count looks borderline'']\<rparr>"

definition opt_diags :: "('r \<Rightarrow> DiagnosticAlert list) \<Rightarrow> 'r option \<Rightarrow> DiagnosticAlert list" where
  "opt_diags f r = (case r of None \<Rightarrow> [] | Some x \<Rightarrow> f x)"

definition obs_report ::
  "EndpointEvent list \<Rightarrow> HpaReport option \<Rightarrow> observed option \<Rightarrow> LoadResult option \<Rightarrow> ObsReport" where
  "obs_report events hpaReport obs load =
     (let diags = opt_diags hpa_Diagnostics hpaReport
            @ opt_diags (\<lambda>ob. opt_diags cgroup_Diagnostics (obs_cgroup ob)
                @ opt_diags probelag_Diagnostics (obs_probelag ob)
                @ opt_diags dns_Diagnostics (rs_dns (obs_resilience ob))
                @ opt_diags pdb_Diagnostics (rs_pdb (obs_resilience ob))) obs;
          rep = \<lparr>rep_Diagnostics = [],
                 rep_ScaleUpDuration = (case hpaReport of None \<Rightarrow> None
                    | Some h \<Rightarrow> if hr_Settled h then Some (hr_SettleLatency h) else None),
                 rep_SLAStatus = (case hpaReport of None \<Rightarrow> VerdictUnknown | Some h \<Rightarrow> slaVerdict h),
                 rep_TrafficIntegrity = VerdictUnknown, rep_TotalRequests = 0, rep_FailedRequests = 0,
                 rep_FailureRate = 0\<rparr>
      in case load of
           None \<Rightarrow> rep\<lparr>rep_Diagnostics := diags\<rparr>
         | Some r \<Rightarrow>
             let errs = toLeakageSamples (res_ErrorSamples r);
                 corr = leakage_Diagnostics (leakage_Correlate events errs 0)
                      @ drain_Diagnostics (drain_Correlate events errs 0);
                 corr = (if corr \<noteq> [] then corr @ [skew_alert] else corr)
             in rep\<lparr>rep_TotalRequests := res_Sent r, rep_FailedRequests := res_Failed r,
                    rep_FailureRate := FailureRate r, rep_TrafficIntegrity := trafficVerdict (Some r),
                    rep_Diagnostics := diags @ corr\<rparr>)"

section \<open>The session\<close>

definition obs_loadResult :: "ObsConfig \<Rightarrow> 'sel obs_env \<Rightarrow> LoadResult option" where
  "obs_loadResult cfg env = (if ob_ResultFile cfg = [] then None else oe_result env)"

definition Session_Run ::
  "('sel \<Rightarrow> ((string \<times> string) list \<Rightarrow> bool) option) \<Rightarrow> scaler \<Rightarrow> ObsConfig \<Rightarrow> 'sel obs_env \<Rightarrow> ObsReport" where
  "Session_Run asSelector scaled cfg env =
     (case resolveTarget cfg env of
        Inl e \<Rightarrow> obs_report [] None None (obs_loadResult cfg env)
      | Inr t \<Rightarrow>
          let watcher = map_option (\<lambda>h. hpa_New (snapshotHPA h (oe_start env)) (ob_SLA cfg)) (t_hpa t);
              cgBefore = (case scrapeCgroup cfg (oe_cadvisor_before env) (t_samplePod t) of
                            None \<Rightarrow> zero_Stat | Some s \<Rightarrow> s);
              events = snapshotEvents (snd (watchEndpoints (oe_watch env)));
              watcher = map_option (pollHPA (oe_polls env)) watcher;
              cgReport = map_option
                (\<lambda>cgAfter. cgroup_Compare cgBefore cgAfter (time_Sub (oe_end env) (oe_start env)))
                (scrapeCgroup cfg (oe_cadvisor_after env) (t_samplePod t))
          in obs_report events (map_option hpa_Report watcher)
               (Some \<lparr>obs_cgroup = cgReport, obs_probelag = collectProbeLag env t,
                      obs_resilience = collectResilience asSelector scaled env t\<rparr>)
               (obs_loadResult cfg env))"

section \<open>The report line\<close>

abbreviation "ReportLogPrefix \<equiv> ''SCALE_SENTRY_REPORT ''"

definition MarshalReportLine :: "('r \<Rightarrow> string option) \<Rightarrow> 'r \<Rightarrow> string option" where
  "MarshalReportLine marshal r = map_option (\<lambda>b. ReportLogPrefix @ b) (marshal r)"

datatype report_log_error = DecodeReport | NoReportLine

fun parse_report_lines :: "(string \<Rightarrow> 'r option) \<Rightarrow> string list \<Rightarrow> report_log_error + 'r" where
  "parse_report_lines unmarshal [] = Inl NoReportLine"
| "parse_report_lines unmarshal (l # ls) =
     (case CutPrefix (TrimSpace l) ReportLogPrefix of
        None \<Rightarrow> parse_report_lines unmarshal ls
      | Some rest \<Rightarrow> (case unmarshal rest of None \<Rightarrow> Inl DecodeReport | Some r \<Rightarrow> Inr r))"

definition ParseReportLog :: "(string \<Rightarrow> 'r option) \<Rightarrow> string \<Rightarrow> report_log_error + 'r" where
  "ParseReportLog unmarshal out = parse_report_lines unmarshal (Split out CHR 0x0A)"

section \<open>Lemmas\<close>

lemma pick_newest_spec:
  "case pick_newest t ps n0 of
     None \<Rightarrow> n0 = None \<and> (\<forall>p\<in>set ps. pod_CreationTimestamp p \<le> t)
   | Some q \<Rightarrow> (Some q = n0 \<or> q \<in> set ps \<and> t < pod_CreationTimestamp q)
       \<and> (\<forall>p\<in>set ps. t < pod_CreationTimestamp p \<longrightarrow> pod_CreationTimestamp p \<le> pod_CreationTimestamp q)
       \<and> (\<forall>n. n0 = Some n \<longrightarrow> pod_CreationTimestamp n \<le> pod_CreationTimestamp q)"
proof (induction ps arbitrary: n0)
  case (Cons p ps)
  show ?case
    using Cons[of n0] Cons[of "Some p"]
    by (cases n0) (fastforce simp: time_defs Let_def split: option.splits if_splits)+
qed (simp split: option.split)

lemma pollHPA_foldl:
  "pollHPA ps w = foldl hpa_Record w (map (\<lambda>(t, h). snapshotHPA (the h) t) (filter (\<lambda>(t, h). h \<noteq> None) ps))"
  by (induction ps w rule: pollHPA.induct) auto

lemma pollHPA_new:
  "pollHPA ps (hpa_New i sla) = hpa_run i sla (map (\<lambda>(t, h). snapshotHPA (the h) t) (filter (\<lambda>(t, h). h \<noteq> None) ps))"
  by (simp add: pollHPA_foldl hpa_run_def)

lemma obs_report_fields [simp]:
  "rep_SLAStatus (obs_report evs h ob l) = (case h of None \<Rightarrow> VerdictUnknown | Some h \<Rightarrow> slaVerdict h)"
  "rep_TrafficIntegrity (obs_report evs h ob l) = trafficVerdict l"
  "rep_ScaleUpDuration (obs_report evs h ob l) =
     (case h of None \<Rightarrow> None | Some h \<Rightarrow> if hr_Settled h then Some (hr_SettleLatency h) else None)"
  "set (opt_diags (\<lambda>ob. opt_diags cgroup_Diagnostics (obs_cgroup ob)) ob) \<subseteq> set (rep_Diagnostics (obs_report evs h ob l))"
  by (auto simp: obs_report_def Let_def trafficVerdict_def opt_diags_def split: option.splits)

lemma obs_report_counts:
  "rep_TotalRequests (obs_report evs h ob (Some r)) = res_Sent r"
  "rep_FailedRequests (obs_report evs h ob (Some r)) = res_Failed r"
  "rep_FailureRate (obs_report evs h ob (Some r)) = FailureRate r"
  by (simp_all add: obs_report_def Let_def)

lemma FailureRate_threshold:
  assumes "0 < s" "s \<le> 2 ^ 50" "f \<le> s"
  shows "fl_div (fl_of_int (int f)) (fl_of_int (int s)) > trafficFailThreshold \<longleftrightarrow> s < 100 * f"
proof -
  define q where "q = (of_nat f / of_nat s :: rat)"
  have b: "int f \<le> 2 ^ 53" "int s \<le> 2 ^ 53" using assms by simp_all
  have ex: "fl_div (fl_of_int (int f)) (fl_of_int (int s)) = fl64 q"
    using b by (simp add: fl_div_def fl_of_int_exact q_def)
  show ?thesis
  proof (cases "s < 100 * f")
    case True
    then have f: "of_nat s + 1 \<le> (100 * of_nat f :: rat)"
      by (metis Suc_leI of_nat_Suc of_nat_le_iff of_nat_mult of_nat_numeral add.commute)
    have s0: "(0::rat) < of_nat s" using assms(1) by simp
    have big: "(1 / 2 ^ 50 :: rat) \<le> 1 / of_nat s"
      using assms(1,2) by (intro divide_left_mono) (simp_all add: of_nat_le_iff[where 'a = rat, of s "2 ^ 50", simplified])
    have "1 / 100 + 1 / 100 * (1 / of_nat s) \<le> q"
    proof -
      have "(of_nat s + 1) / (100 * of_nat s) \<le> (100 * of_nat f) / (100 * of_nat s :: rat)"
        using f by (rule divide_right_mono) simp
      then show ?thesis using s0 by (simp add: q_def add_divide_distrib)
    qed
    then have q: "1 / 100 * (1 + 1 / 2 ^ 50) \<le> q" using big by (simp add: algebra_simps)
    have "fl64 (1 / 100) \<le> 1 / 100 * (1 + 1 / 2 ^ 53)" by (rule fl64_upper) simp
    also have "\<dots> < 1 / 100 * (1 + 1 / 2 ^ 50) * (1 - 1 / 2 ^ 53)" by simp
    also have "\<dots> \<le> q * (1 - 1 / 2 ^ 53)" using q by (intro mult_right_mono) simp_all
    also have "\<dots> \<le> fl64 q" by (rule fl64_lower) (simp add: q_def)
    finally show ?thesis using True by (simp add: ex trafficFailThreshold_def)
  next
    case False
    then have "(100 * of_nat f :: rat) \<le> of_nat s" by (metis not_less of_nat_le_iff of_nat_mult of_nat_numeral)
    then have "q \<le> 1 / 100" using assms(1) by (simp add: q_def field_simps)
    then have "fl64 q \<le> fl64 (1 / 100)" by (intro fl64_mono) (simp add: q_def)
    then show ?thesis using False by (simp add: ex trafficFailThreshold_def)
  qed
qed

lemma parse_report_lines_skip:
  "(\<And>l. l \<in> set pre \<Longrightarrow> CutPrefix (TrimSpace l) ReportLogPrefix = None) \<Longrightarrow>
   parse_report_lines unmarshal (pre @ ls) = parse_report_lines unmarshal ls"
  by (induction pre) auto

lemma Split_joined:
  "(\<And>l. l \<in> set pre \<Longrightarrow> c \<notin> set l) \<Longrightarrow> Split (concat (map (\<lambda>l. l @ [c]) pre) @ s) c = pre @ Split s c"
  by (induction pre) (auto simp: Split_append)

section \<open>Properties\<close>

text \<open>The traffic verdict, computed in floating point against the constant 0.01, is the exact
  integer rule up to a quadrillion requests: a run fails exactly when more than one request in a
  hundred failed, so exactly one per cent still passes; no result at all is Unknown.\<close>

lemma trafficVerdict_exact:
  assumes "res_Failed r \<le> res_Sent r" "res_Sent r \<le> 2 ^ 50"
  shows "trafficVerdict (Some r) = (if res_Sent r < 100 * res_Failed r then VerdictFail else VerdictPass)"
  using assms FailureRate_threshold[of "res_Sent r" "res_Failed r"]
  by (auto simp: trafficVerdict_def FailureRate_def trafficFailThreshold_def fl64_nonneg not_less)

definition demo_result :: "nat \<Rightarrow> nat \<Rightarrow> LoadResult" where
  "demo_result sent failed = \<lparr>res_Started = 0, res_Ended = 0, res_Duration = 0, res_WarmupDuration = 0,
     res_MeasurementDuration = 0, res_Sent = sent, res_Succeeded = sent - failed, res_Failed = failed,
     res_StatusCounts = Map.empty, res_Errors = Map.empty, res_LatencyP50 = 0, res_LatencyP95 = 0,
     res_LatencyP99 = 0, res_LatencyMax = 0, res_Labels = [], res_ErrorSamples = [], res_Phases = []\<rparr>"

text \<open>The cold-start subject is a newest pod created strictly after the run began, and there is
  none exactly when no listed pod was created after the run began.\<close>

theorem pickColdStartPod_newest:
  "case pickColdStartPod pods runStart of
     None \<Rightarrow> list_all (\<lambda>p. pod_CreationTimestamp p \<le> runStart) pods
   | Some q \<Rightarrow> q \<in> set pods \<and> runStart < pod_CreationTimestamp q
       \<and> list_all (\<lambda>p. pod_CreationTimestamp p \<le> pod_CreationTimestamp q) pods"
  using pick_newest_spec[where t = runStart and ps = pods and ?n0.0 = None]
  by (fastforce simp: pickColdStartPod_def list_all_iff split: option.splits)

text \<open>The snapshots a session could read, and the SLA rule over them: the autoscaler is late when the
  first converged snapshot comes after the SLA, or when none has converged and the last one comes no
  earlier than the SLA.\<close>

definition snapshots :: "(time \<times> HPAObject option) list \<Rightarrow> Snapshot list" where
  "snapshots polls = map (\<lambda>(t, h). snapshotHPA (the h) t) (filter (\<lambda>(t, h). h \<noteq> None) polls)"

definition autoscaler_late :: "duration \<Rightarrow> Snapshot \<Rightarrow> Snapshot list \<Rightarrow> bool" where
  "autoscaler_late sla initial ss \<longleftrightarrow> 0 < sla \<and>
     (case List.find (converged initial) ss of
        Some s \<Rightarrow> sla < time_Sub (sn_At s) (sn_At initial)
      | None \<Rightarrow> sla \<le> time_Sub (sn_At (last (initial # ss))) (sn_At initial))"

text \<open>The SLA verdict of a whole session: Unknown when the target cannot be resolved or has no autoscaler,
  and otherwise the rule above.\<close>

definition sla_spec :: "ObsConfig \<Rightarrow> 'sel obs_env \<Rightarrow> Verdict" where
  "sla_spec cfg env =
     (case resolveTarget cfg env of
        Inl e \<Rightarrow> VerdictUnknown
      | Inr t \<Rightarrow>
          (case t_hpa t of
             None \<Rightarrow> VerdictUnknown
           | Some h \<Rightarrow>
               if autoscaler_late (ob_SLA cfg) (snapshotHPA h (oe_start env)) (snapshots (oe_polls env))
               then VerdictFail else VerdictPass))"

lemma Session_Run_sla: "rep_SLAStatus (Session_Run asSelector scaled cfg env) = sla_spec cfg env"
  by (simp add: Session_Run_def sla_spec_def autoscaler_late_def snapshots_def Let_def slaVerdict_def pollHPA_new SLABreached_spec
      split: sum.split option.split)

lemma Session_Run_load:
  "rep_TrafficIntegrity (Session_Run asSelector scaled cfg env) = trafficVerdict (obs_loadResult cfg env)"
  "obs_loadResult cfg env = Some r \<Longrightarrow> rep_TotalRequests (Session_Run asSelector scaled cfg env) = res_Sent r"
  "obs_loadResult cfg env = Some r \<Longrightarrow> rep_FailedRequests (Session_Run asSelector scaled cfg env) = res_Failed r"
  "obs_loadResult cfg env = Some r \<Longrightarrow> rep_FailureRate (Session_Run asSelector scaled cfg env) = FailureRate r"
  by (simp_all add: Session_Run_def Let_def obs_report_counts split: sum.split)

lemma ParseReportLog_line:
  assumes "unmarshal b = Some r" "b \<noteq> []" "CHR 0x0A \<notin> set b" "graphic (last b)"
    and "list_all (\<lambda>l. CHR 0x0A \<notin> set l \<and> CutPrefix (TrimSpace l) ReportLogPrefix = None) pre"
  shows "ParseReportLog unmarshal (concat (map (\<lambda>l. l @ [CHR 0x0A]) pre) @ (ReportLogPrefix @ b) @ CHR 0x0A # rest) = Inr r"
proof -
  have trim: "TrimSpace (ReportLogPrefix @ b) = ReportLogPrefix @ b"
    using assms(2,4) by (intro TrimSpace_graphic) (simp_all add: graphic_def)
  have nl: "CHR 0x0A \<notin> set (ReportLogPrefix @ b)" using assms(3) by simp
  have "Split (concat (map (\<lambda>l. l @ [CHR 0x0A]) pre) @ (ReportLogPrefix @ b) @ CHR 0x0A # rest) CHR 0x0A
      = pre @ (ReportLogPrefix @ b) # Split rest CHR 0x0A"
    using assms(5) Split_append[OF nl, of rest] by (subst Split_joined) (auto simp: list_all_iff)
  then have "ParseReportLog unmarshal (concat (map (\<lambda>l. l @ [CHR 0x0A]) pre) @ (ReportLogPrefix @ b) @ CHR 0x0A # rest)
      = parse_report_lines unmarshal ((ReportLogPrefix @ b) # Split rest CHR 0x0A)"
    unfolding ParseReportLog_def using assms(5) by (subst parse_report_lines_skip[symmetric, of pre]) (auto simp: list_all_iff)
  also have "\<dots> = Inr r" unfolding parse_report_lines.simps trim CutPrefix_append using assms(1) by simp
  finally show ?thesis .
qed

text \<open>C32. The report line survives the log: whatever lines precede it (none of them starting with the
  marker) and whatever follows it, the controller reads back exactly the report the observer printed.
  The encoder is assumed to emit a line that ends in a visible character and to be inverted by the
  decoder.\<close>

theorem report_line_roundtrip:
  assumes "marshal r = Some b" "unmarshal b = Some r"
    and "b \<noteq> []" "CHR 0x0A \<notin> set b" "graphic (last b)"
    and "list_all (\<lambda>l. CHR 0x0A \<notin> set l \<and> CutPrefix (TrimSpace l) ReportLogPrefix = None) pre"
  shows "\<exists>line. MarshalReportLine marshal r = Some line
    \<and> ParseReportLog unmarshal (concat (map (\<lambda>l. l @ [CHR 0x0A]) pre) @ line @ CHR 0x0A # rest) = Inr r"
  using ParseReportLog_line[of unmarshal b r pre rest] assms by (simp add: MarshalReportLine_def)

theorem report_line_roundtrip_witness:
  "\<exists>line. MarshalReportLine (\<lambda>n. Some (utoa n)) 42 = Some line
    \<and> ParseReportLog (\<lambda>s. digits_value 0 s) (concat (map (\<lambda>l. l @ [CHR 0x0A]) [''noise'']) @ line @ CHR 0x0A # ''tail'') = Inr 42"
proof (rule report_line_roundtrip[where b = "utoa 42"])
  show "CHR 0x0A \<notin> set (utoa 42)" using utoa_graphic[of "CHR 0x0A" 42] by (auto simp: graphic_def)
  show "graphic (last (utoa 42))" by (rule utoa_graphic[of _ 42]) simp
  have "TrimSpace ''noise'' = ''noise''" by (rule TrimSpace_graphic) (simp_all add: graphic_def)
  then show "list_all (\<lambda>l. CHR 0x0A \<notin> set l \<and> CutPrefix (TrimSpace l) ReportLogPrefix = None) [''noise'']"
    by (simp add: CutPrefix_def HasPrefix_def)
qed (simp_all add: digits_value_utoa)

text \<open>A failed baseline scrape is not treated as missing data: the session compares the final
  counters with zero, so throttling from the container's whole life is reported as having happened
  during the stress window.\<close>

theorem missing_baseline_reports_lifetime:
  assumes "resolveTarget cfg env = Inr t"
    and "scrapeCgroup cfg (oe_cadvisor_before env) (t_samplePod t) = None"
    and "scrapeCgroup cfg (oe_cadvisor_after env) (t_samplePod t) = Some after"
    and "0 < NRThrottled after" "0 < NRPeriods after"
  shows "\<exists>a \<in> set (rep_Diagnostics (Session_Run asSelector scaled cfg env)).
    alert_Type a = ''CPUThrottling''
    \<and> take 4 (alert_Message a) = [L ''container throttled '', D (int (NRThrottled after)), L '' of '', D (int (NRPeriods after))]"
  using assms
  by (auto simp: Session_Run_def obs_report_def opt_diags_def Let_def cgroup_Diagnostics_def cgroup_Compare_def
      saturatingSub_def zero_Stat_def split: option.split)

definition demo_families :: "string \<Rightarrow> Metric list option" where
  "demo_families nm = (if nm \<in> {''container_cpu_cfs_periods_total'', ''container_cpu_cfs_throttled_periods_total''}
     then Some [\<lparr>m_Label = [(''pod'', ''a''), (''container'', ''app'')], m_Counter = Some 7, m_Untyped = None\<rparr>] else None)"

definition demo_env :: "unit obs_env" where
  "demo_env = \<lparr>oe_start = 0, oe_end = 60 * Second, oe_scale = Some \<lparr>so_Selector = Some ''app=web'', so_Replicas = Some 1\<rparr>,
     oe_pods = (\<lambda>s. Some [(demo_pod ''a'' ''True'')\<lparr>pod_Containers := [\<lparr>ct_Name = ''app'', ct_ReadinessProbe = None,
        ct_PeriodSeconds = 0, ct_Ports = []\<rparr>]\<rparr>]),
     oe_hpas = None, oe_cadvisor_before = (\<lambda>path. ProxyRefused), oe_polls = [], oe_watch = [],
     oe_cadvisor_after = (\<lambda>path. ProxyStream (Some (Families demo_families))),
     oe_final_pods = (\<lambda>s. None), oe_final_scale = None, oe_pdbs = None, oe_result = None\<rparr>"

definition demo_obs_config :: ObsConfig where
  "demo_obs_config = \<lparr>ob_TargetName = ''web'', ob_Namespace = ''ns'', ob_TargetKind = ''Deployment'', ob_TargetGroup = ''apps'',
     ob_TargetVersion = ''v1'', ob_TargetResource = ''deployments'', ob_ServiceName = ''web'', ob_SLA = 60 * Second,
     ob_PollInterval = 5 * Second, ob_ResultFile = []\<rparr>"

theorem missing_baseline_reports_lifetime_witness:
  "\<exists>a \<in> set (rep_Diagnostics (Session_Run (\<lambda>s. None) (\<lambda>v t u. None) demo_obs_config demo_env)).
    alert_Type a = ''CPUThrottling''"
proof -
  obtain t where t: "resolveTarget demo_obs_config demo_env = Inr t"
    and pod: "t_samplePod t = (demo_pod ''a'' ''True'')\<lparr>pod_Containers := [\<lparr>ct_Name = ''app'', ct_ReadinessProbe = None,
        ct_PeriodSeconds = 0, ct_Ports = []\<rparr>]\<rparr>"
    by (simp add: resolveTarget_def demo_env_def)
  have b: "scrapeCgroup demo_obs_config (oe_cadvisor_before demo_env) (t_samplePod t) = None"
    by (simp add: scrapeCgroup_def fetchCAdvisor_def defaultCAdvisorOpen_def demo_env_def pod demo_pod_def)
  have "pick demo_families nm ''a'' ''ns'' ''app'' =
      (if nm \<in> {''container_cpu_cfs_periods_total'', ''container_cpu_cfs_throttled_periods_total''} then Some 7 else None)" for nm
    using math_Round_of_int[of 7]
    by (simp add: pick_def demo_families_def cadvisor_matches_def counterValue_def to_uint64_def)
  then have a: "scrapeCgroup demo_obs_config (oe_cadvisor_after demo_env) (t_samplePod t) =
      Some (zero_Stat\<lparr>NRPeriods := 7, NRThrottled := 7\<rparr>)"
    by (simp add: scrapeCgroup_def fetchCAdvisor_def defaultCAdvisorOpen_def demo_env_def pod demo_pod_def ParseCAdvisor_def demo_obs_config_def)
  show ?thesis using missing_baseline_reports_lifetime[OF t b a, of "\<lambda>s. None" "\<lambda>v t u. None"]
    by (auto simp: zero_Stat_def)
qed

end
