(* ===== verification/Load_Profile.thy ===== *)
theory Load_Profile
  imports Api_Types Loadgen_Config
begin

text \<open>
  The translation of \<^verbatim>\<open>spec.load\<close> into the load generator's phase list,
  \<^verbatim>\<open>internal/controller/loadprofile.go\<close>. Durations are 64-bit, so the sums wrap as they do
  in Go; the theorems say under which conditions they do not.
\<close>

section \<open>Spikes\<close>

datatype profile_error =
    SLANotPositive
  | WarmupNegative duration
  | WarmupFillsSLA duration duration
  | EndRPSRequired
  | StepKnobsRequired
  | SpikesRequired
  | SpikeOverlaps nat duration
  | SpikePastWindow nat duration
  | SpikeNotAboveBase nat int int
  | UnknownProfilePattern string

definition constant_phase :: "string \<Rightarrow> duration \<Rightarrow> int \<Rightarrow> bool \<Rightarrow> LoadPhase" where
  "constant_phase nm d rps rec =
     \<lparr>ph_Name = nm, ph_Pattern = PatternConstant, ph_Duration = d, ph_StartRPS = rps, ph_EndRPS = 0,
      ph_StepRPS = 0, ph_StepEvery = 0, ph_RecordStats = rec\<rparr>"

text \<open>The loop over the spike windows from index \<open>i\<close> with the cursor where the previous phase
  ended, and the tail after the loop.\<close>

fun spike_loop :: "int \<Rightarrow> duration \<Rightarrow> nat \<Rightarrow> duration \<Rightarrow> SpikeWindow list \<Rightarrow> profile_error + LoadPhase list" where
  "spike_loop baseRPS total_d i cursor [] =
     (let tail = dur_sub total_d cursor in
      Inr (if tail > 0 then [constant_phase (MeasurePhaseName @ ''-base-tail'') tail baseRPS True] else []))"
| "spike_loop baseRPS total_d i cursor (sw # sws) =
     (if sw_At sw < cursor then Inl (SpikeOverlaps i (sw_At sw))
      else if dur_add (sw_At sw) (sw_Duration sw) > total_d then Inl (SpikePastWindow i total_d)
      else if sw_RPS sw \<le> wrap32 baseRPS then Inl (SpikeNotAboveBase i (sw_RPS sw) baseRPS)
      else
        let pre = dur_sub (sw_At sw) cursor;
            pre_phases = (if pre > 0
              then [constant_phase (MeasurePhaseName @ ''-base-'' @ itoa (int i)) pre baseRPS True] else []);
            spike = constant_phase (MeasurePhaseName @ ''-spike-'' @ itoa (int i)) (sw_Duration sw) (sw_RPS sw) True
        in case spike_loop baseRPS total_d (Suc i) (dur_add (sw_At sw) (sw_Duration sw)) sws of
             Inl e \<Rightarrow> Inl e
           | Inr rest \<Rightarrow> Inr (pre_phases @ spike # rest))"

definition decomposeSpike :: "int \<Rightarrow> duration \<Rightarrow> SpikeWindow list \<Rightarrow> profile_error + LoadPhase list" where
  "decomposeSpike baseRPS total_d spikes =
     (if spikes = [] then Inl SpikesRequired else spike_loop baseRPS total_d 0 0 spikes)"

section \<open>The phase list\<close>

definition measure_phases :: "int \<Rightarrow> duration \<Rightarrow> LoadProfile option \<Rightarrow> profile_error + LoadPhase list" where
  "measure_phases base measureDuration profile =
     (let pattern = (case profile of None \<Rightarrow> PatternConstant | Some p \<Rightarrow> lp_Pattern p);
          phase = (constant_phase MeasurePhaseName measureDuration base True)\<lparr>ph_Pattern := pattern\<rparr>
      in if pattern = PatternConstant \<or> pattern = PatternPoisson then Inr [phase]
         else case profile of
           None \<Rightarrow> Inr []  \<comment> \<open>not reached: without a profile the pattern is Constant\<close>
         | Some p \<Rightarrow>
             if pattern = PatternRamp then
               (case lp_EndRPS p of
                  None \<Rightarrow> Inl EndRPSRequired
                | Some e \<Rightarrow>
                    let dur = (case lp_RampDuration p of None \<Rightarrow> measureDuration
                               | Some d \<Rightarrow> if d > 0 then d else measureDuration)
                    in Inr [phase\<lparr>ph_Duration := dur, ph_EndRPS := e\<rparr>])
             else if pattern = PatternStep then
               (case (lp_StepRPS p, lp_StepDuration p) of
                  (Some s, Some d) \<Rightarrow> Inr [phase\<lparr>ph_StepRPS := s, ph_StepEvery := d\<rparr>]
                | _ \<Rightarrow> Inl StepKnobsRequired)
             else if pattern = LoadPatternSpike then decomposeSpike base measureDuration (lp_Spikes p)
             else Inl (UnknownProfilePattern (lp_Pattern p)))"

text \<open>The empty list is Go's \<^verbatim>\<open>nil\<close>: the caller falls back to the single-shot flags.\<close>

definition buildPhases :: "ScaleValidationSpec \<Rightarrow> profile_error + LoadPhase list" where
  "buildPhases spec =
     (let load = spec_Load spec in
      if load_Profile load = None \<and> (load_WarmupDuration load = None \<or> load_WarmupDuration load = Some 0)
      then Inr []
      else
        let base = load_BaseRPS load; sla = spec_SLA spec in
        if sla \<le> 0 then Inl SLANotPositive
        else
          let warm = (case load_WarmupDuration load of None \<Rightarrow> 0 | Some w \<Rightarrow> w) in
          if warm < 0 then Inl (WarmupNegative warm)
          else if warm \<ge> sla then Inl (WarmupFillsSLA warm sla)
          else
            let warmup = (if warm > 0 then [constant_phase WarmupPhaseName warm base False] else []);
                measureDuration = dur_sub sla warm
            in case measure_phases base measureDuration (load_Profile load) of
                 Inl e \<Rightarrow> Inl e
               | Inr ps \<Rightarrow> Inr (warmup @ ps))"

section \<open>Specification: the rate at an instant\<close>

fun rate_at :: "LoadPhase list \<Rightarrow> duration \<Rightarrow> int option" where
  "rate_at [] t = None"
| "rate_at (p # ps) t = (if t < ph_Duration p then Some (ph_StartRPS p) else rate_at ps (t - ph_Duration p))"

definition spike_covers :: "duration \<Rightarrow> SpikeWindow \<Rightarrow> bool" where
  "spike_covers t sw \<longleftrightarrow> sw_At sw \<le> t \<and> t < sw_At sw + sw_Duration sw"

definition spike_rate :: "int \<Rightarrow> SpikeWindow list \<Rightarrow> duration \<Rightarrow> int" where
  "spike_rate base sws t =
     (case List.find (spike_covers t) sws of None \<Rightarrow> base | Some sw \<Rightarrow> sw_RPS sw)"

definition total_duration :: "LoadPhase list \<Rightarrow> duration" where
  "total_duration ps = sum_list (map ph_Duration ps)"

definition spike_in_range :: "SpikeWindow \<Rightarrow> bool" where
  "spike_in_range sw \<longleftrightarrow> 0 \<le> sw_Duration sw \<and> in_int64 (sw_At sw + sw_Duration sw)"

section \<open>Lemmas\<close>

lemma constant_phase_simps [simp]:
  "ph_Name (constant_phase nm d r rec) = nm" "ph_Pattern (constant_phase nm d r rec) = PatternConstant"
  "ph_Duration (constant_phase nm d r rec) = d" "ph_StartRPS (constant_phase nm d r rec) = r"
  "ph_RecordStats (constant_phase nm d r rec) = rec"
  by (simp_all add: constant_phase_def)

lemma valid_constant_phase [simp]:
  "valid_phase (constant_phase nm d r rec) \<longleftrightarrow> nm \<noteq> [] \<and> 0 < d \<and> 0 < r"
  by (simp add: valid_phase_def)

lemma total_duration_simps [simp]:
  "total_duration [] = 0" "total_duration (p # ps) = ph_Duration p + total_duration ps"
  "total_duration (ps @ qs) = total_duration ps + total_duration qs"
  by (simp_all add: total_duration_def)

lemma dur_sub_between [go_arith]:
  "0 \<le> c \<Longrightarrow> c \<le> x \<Longrightarrow> in_int64 x \<Longrightarrow> dur_sub x c = x - c"
  by (simp add: dur_sub_def wrap64_def in_int64_def int_bounds)

lemma dur_add_range [go_arith]: "in_int64 (a + b) \<Longrightarrow> dur_add a b = a + b"
  by (simp add: dur_add_def wrap64_id)

text \<open>One accepted window: it starts no earlier than the cursor, ends no later than the measurement,
  and contributes the gap before it at the base rate and itself at its own rate.\<close>

definition window_phases :: "int \<Rightarrow> nat \<Rightarrow> int \<Rightarrow> SpikeWindow \<Rightarrow> LoadPhase list" where
  "window_phases base i cursor sw =
     (if cursor < sw_At sw
      then [constant_phase (MeasurePhaseName @ ''-base-'' @ itoa (int i)) (sw_At sw - cursor) base True] else [])
     @ [constant_phase (MeasurePhaseName @ ''-spike-'' @ itoa (int i)) (sw_Duration sw) (sw_RPS sw) True]"

lemma spike_loop_ConsE:
  assumes "spike_loop base total_d i cursor (sw # sws) = Inr ps" "0 \<le> cursor" "spike_in_range sw"
  obtains rest where "spike_loop base total_d (Suc i) (sw_At sw + sw_Duration sw) sws = Inr rest"
    and "ps = window_phases base i cursor sw @ rest"
    and "cursor \<le> sw_At sw" "0 \<le> sw_Duration sw" "sw_At sw + sw_Duration sw \<le> total_d"
proof -
  have r: "in_int64 (sw_At sw + sw_Duration sw)" "0 \<le> sw_Duration sw"
    using assms(3) by (auto simp: spike_in_range_def)
  have at: "cursor \<le> sw_At sw" using assms(1) by (auto split: if_splits)
  then have "in_int64 (sw_At sw)" using r assms(2) by (auto simp: in_int64_def int_bounds)
  then show ?thesis using assms at r that
    by (auto simp: window_phases_def dur_add_range dur_sub_between Let_def split: if_splits sum.splits)
qed

lemma window_phases_total: "cursor \<le> sw_At sw \<Longrightarrow>
    total_duration (window_phases base i cursor sw) = sw_At sw + sw_Duration sw - cursor"
  by (simp add: window_phases_def)

lemma rate_at_window: "cursor \<le> sw_At sw \<Longrightarrow> 0 \<le> sw_Duration sw \<Longrightarrow> cursor \<le> t \<Longrightarrow>
    rate_at (window_phases base i cursor sw @ rest) (t - cursor) =
      (if t < sw_At sw then Some base else if spike_covers t sw then Some (sw_RPS sw)
       else rate_at rest (t - (sw_At sw + sw_Duration sw)))"
  by (auto simp: window_phases_def spike_covers_def algebra_simps)

lemma spike_loop_total:
  "spike_loop base total_d i cursor sws = Inr ps \<Longrightarrow> 0 \<le> cursor \<Longrightarrow> cursor \<le> total_d \<Longrightarrow>
   in_int64 total_d \<Longrightarrow> list_all spike_in_range sws \<Longrightarrow> total_duration ps = total_d - cursor"
proof (induction sws arbitrary: i cursor ps)
  case (Cons sw sws)
  from Cons.prems(5) have "spike_in_range sw" by simp
  with Cons.prems(1,2) show ?case
    by (rule spike_loop_ConsE) (use Cons in \<open>simp add: window_phases_total\<close>)
qed (auto simp: dur_sub_between split: if_splits)

lemma spike_loop_ordered:
  "spike_loop base total_d i cursor sws = Inr ps \<Longrightarrow> 0 \<le> cursor \<Longrightarrow>
   list_all spike_in_range sws \<Longrightarrow> list_all (\<lambda>sw. cursor \<le> sw_At sw) sws"
proof (induction sws arbitrary: i cursor ps)
  case (Cons sw sws)
  from Cons.prems(3) have "spike_in_range sw" by simp
  with Cons.prems(1,2) show ?case
  proof (rule spike_loop_ConsE)
    fix rest
    assume rest: "spike_loop base total_d (Suc i) (sw_At sw + sw_Duration sw) sws = Inr rest"
      and ord: "cursor \<le> sw_At sw" "0 \<le> sw_Duration sw"
    have "list_all (\<lambda>sw'. sw_At sw + sw_Duration sw \<le> sw_At sw') sws"
      using Cons.IH[OF rest] Cons.prems ord by simp
    then have "list_all (\<lambda>sw'. cursor \<le> sw_At sw') sws"
      by (rule list.pred_mono_strong) (use ord in linarith)
    then show ?case using ord by simp
  qed
qed simp

lemma spike_loop_rate:
  "spike_loop base total_d i cursor sws = Inr ps \<Longrightarrow> 0 \<le> cursor \<Longrightarrow> cursor \<le> t \<Longrightarrow> t < total_d \<Longrightarrow>
   in_int64 total_d \<Longrightarrow> list_all spike_in_range sws \<Longrightarrow>
   rate_at ps (t - cursor) = Some (spike_rate base sws t)"
proof (induction sws arbitrary: i cursor ps)
  case Nil
  then show ?case by (auto simp: dur_sub_between spike_rate_def split: if_splits)
next
  case (Cons sw sws)
  from Cons.prems(6) have "spike_in_range sw" by simp
  with Cons.prems(1,2) show ?case
  proof (rule spike_loop_ConsE)
    fix rest
    assume rest: "spike_loop base total_d (Suc i) (sw_At sw + sw_Duration sw) sws = Inr rest"
      and ps: "ps = window_phases base i cursor sw @ rest"
      and ord: "cursor \<le> sw_At sw" "0 \<le> sw_Duration sw"
    have later: "list_all (\<lambda>sw'. sw_At sw + sw_Duration sw \<le> sw_At sw') sws"
      using spike_loop_ordered[OF rest] Cons.prems ord by simp
    have "t < sw_At sw \<Longrightarrow> List.find (spike_covers t) sws = None"
      using later ord by (auto simp: find_None_iff spike_covers_def list_all_iff)
    moreover have "sw_At sw \<le> t \<Longrightarrow> \<not> spike_covers t sw \<Longrightarrow>
        rate_at rest (t - (sw_At sw + sw_Duration sw)) = Some (spike_rate base sws t)"
      using Cons.IH[OF rest] Cons.prems ord by (simp add: spike_covers_def)
    ultimately show ?case
      using ord Cons.prems(3) by (auto simp: ps rate_at_window spike_rate_def spike_covers_def)
  qed
qed

lemma spike_loop_valid:
  assumes "spike_loop base total_d i cursor sws = Inr ps" "0 < base" "in_int32 base"
    and "list_all (\<lambda>sw. 0 < sw_Duration sw) sws"
  shows "list_all valid_phase ps \<and> list_all ph_RecordStats ps \<and> (sws \<noteq> [] \<longrightarrow> ps \<noteq> [])"
  using assms
proof (induction sws arbitrary: i cursor ps)
  case (Cons sw sws)
  then obtain rest where "spike_loop base total_d (Suc i) (dur_add (sw_At sw) (sw_Duration sw)) sws = Inr rest"
    and "\<exists>pre. ps = pre @ constant_phase (MeasurePhaseName @ ''-spike-'' @ itoa (int i)) (sw_Duration sw) (sw_RPS sw) True # rest
       \<and> list_all valid_phase pre \<and> list_all ph_RecordStats pre" and "base < sw_RPS sw"
    by (auto simp: Let_def wrap32_id split: if_splits sum.splits)
  with Cons show ?case by auto
qed (auto simp: Let_def)

text \<open>The parameters a pattern uses are positive. The CRD schema does not demand it; the load
  generator's own validation does.\<close>

definition sane_profile :: "LoadProfile \<Rightarrow> bool" where
  "sane_profile p \<longleftrightarrow>
     (lp_Pattern p = LoadPatternRamp \<longrightarrow> (case lp_EndRPS p of None \<Rightarrow> True | Some e \<Rightarrow> 0 < e))
     \<and> (lp_Pattern p = LoadPatternStep \<longrightarrow>
          (case lp_StepRPS p of None \<Rightarrow> True | Some s \<Rightarrow> 0 < s)
          \<and> (case lp_StepDuration p of None \<Rightarrow> True | Some d \<Rightarrow> 0 < d))
     \<and> list_all (\<lambda>sw. 0 < sw_Duration sw \<and> in_int64 (sw_At sw + sw_Duration sw)) (lp_Spikes p)"

definition sane_load :: "ScaleValidationSpec \<Rightarrow> bool" where
  "sane_load spec \<longleftrightarrow>
     0 < load_BaseRPS (spec_Load spec) \<and> in_int32 (load_BaseRPS (spec_Load spec)) \<and> in_int64 (spec_SLA spec)
     \<and> (case load_Profile (spec_Load spec) of None \<Rightarrow> True | Some p \<Rightarrow> sane_profile p)"

definition overrides_ramp_duration :: "ScaleValidationSpec \<Rightarrow> bool" where
  "overrides_ramp_duration spec \<longleftrightarrow>
     (case load_Profile (spec_Load spec) of None \<Rightarrow> False
      | Some p \<Rightarrow> lp_Pattern p = LoadPatternRamp
          \<and> (case lp_RampDuration p of None \<Rightarrow> False | Some d \<Rightarrow> 0 < d))"

definition warmup_of :: "ScaleValidationSpec \<Rightarrow> duration" where
  "warmup_of spec = (case load_WarmupDuration (spec_Load spec) of None \<Rightarrow> 0 | Some w \<Rightarrow> w)"

lemma decomposeSpike_total:
  assumes "decomposeSpike base total_d sws = Inr ps" "0 < total_d" "in_int64 total_d"
    and "list_all spike_in_range sws"
  shows "total_duration ps = total_d"
  using assms spike_loop_total[of base total_d 0 0 sws ps] by (simp add: decomposeSpike_def split: if_splits)

lemma measure_phases_correct:
  assumes "measure_phases base d profile = Inr ps" "0 < base" "in_int32 base" "0 < d" "in_int64 d"
    and "case profile of None \<Rightarrow> True | Some p \<Rightarrow> sane_profile p"
  shows "list_all valid_phase ps" "list_all ph_RecordStats ps" "ps \<noteq> []"
    "\<not> (case profile of None \<Rightarrow> False | Some p \<Rightarrow> lp_Pattern p = LoadPatternRamp
          \<and> (case lp_RampDuration p of None \<Rightarrow> False | Some d \<Rightarrow> 0 < d)) \<Longrightarrow> total_duration ps = d"
proof -
  have "list_all valid_phase ps \<and> list_all ph_RecordStats ps \<and> ps \<noteq> [] \<and>
    (\<not> (case profile of None \<Rightarrow> False | Some p \<Rightarrow> lp_Pattern p = LoadPatternRamp
          \<and> (case lp_RampDuration p of None \<Rightarrow> False | Some d \<Rightarrow> 0 < d)) \<longrightarrow> total_duration ps = d)"
  proof (cases profile)
    case None
    then show ?thesis using assms by (auto simp: measure_phases_def Let_def valid_phase_def)
  next
    case (Some p)
    show ?thesis
    proof (cases "lp_Pattern p = LoadPatternSpike")
      case True
      then have "decomposeSpike base d (lp_Spikes p) = Inr ps"
        using assms(1) Some by (simp add: measure_phases_def)
      moreover have "list_all spike_in_range (lp_Spikes p)" "list_all (\<lambda>sw. 0 < sw_Duration sw) (lp_Spikes p)"
        using assms(6) Some by (auto simp: sane_profile_def spike_in_range_def list_all_iff)
      ultimately show ?thesis
        using decomposeSpike_total[of base d "lp_Spikes p" ps] assms
          spike_loop_valid[of base d 0 0 "lp_Spikes p" ps] Some True
        by (auto simp: decomposeSpike_def split: if_splits)
    next
      case False
      with assms Some show ?thesis
        by (auto simp: measure_phases_def Let_def valid_phase_def sane_profile_def constant_phase_def
            split: option.splits if_splits)
    qed
  qed
  then show "list_all valid_phase ps" "list_all ph_RecordStats ps" "ps \<noteq> []"
    "\<not> (case profile of None \<Rightarrow> False | Some p \<Rightarrow> lp_Pattern p = LoadPatternRamp
          \<and> (case lp_RampDuration p of None \<Rightarrow> False | Some d \<Rightarrow> 0 < d)) \<Longrightarrow> total_duration ps = d"
    by simp_all
qed

lemma buildPhases_split:
  assumes "buildPhases spec = Inr ps" "ps \<noteq> []" "in_int64 (spec_SLA spec)"
  obtains ms where "measure_phases (load_BaseRPS (spec_Load spec)) (spec_SLA spec - warmup_of spec)
        (load_Profile (spec_Load spec)) = Inr ms"
    and "ps = (if 0 < warmup_of spec
               then [constant_phase WarmupPhaseName (warmup_of spec) (load_BaseRPS (spec_Load spec)) False] else []) @ ms"
    and "0 \<le> warmup_of spec" "warmup_of spec < spec_SLA spec"
  using assms by (auto simp: buildPhases_def warmup_of_def Let_def dur_sub_between
      split: if_splits option.splits sum.splits)

lemma buildPhases_phases:
  assumes "sane_load spec" "buildPhases spec = Inr ps" "ps \<noteq> []"
  shows "\<forall>p \<in> set ps. valid_phase p"
    "total_duration (filter (\<lambda>p. \<not> ph_RecordStats p) ps) = warmup_of spec"
    "\<not> overrides_ramp_duration spec \<Longrightarrow> total_duration (filter ph_RecordStats ps) = spec_SLA spec - warmup_of spec
       \<and> total_duration ps = spec_SLA spec"
proof -
  have sane: "0 < load_BaseRPS (spec_Load spec)" "in_int32 (load_BaseRPS (spec_Load spec))"
    "in_int64 (spec_SLA spec)"
    "case load_Profile (spec_Load spec) of None \<Rightarrow> True | Some p \<Rightarrow> sane_profile p"
    using assms(1) by (auto simp: sane_load_def)
  obtain ms where ms: "measure_phases (load_BaseRPS (spec_Load spec)) (spec_SLA spec - warmup_of spec)
        (load_Profile (spec_Load spec)) = Inr ms"
    and ps: "ps = (if 0 < warmup_of spec
               then [constant_phase WarmupPhaseName (warmup_of spec) (load_BaseRPS (spec_Load spec)) False] else []) @ ms"
    and w: "0 \<le> warmup_of spec" "warmup_of spec < spec_SLA spec"
    using buildPhases_split[OF assms(2,3) sane(3)] .
  have "in_int64 (spec_SLA spec - warmup_of spec)"
    using w by (intro in_int64_nonneg[OF _ _ sane(3)]) auto
  note m = measure_phases_correct[OF ms sane(1,2) _ this sane(4)]
  have "filter (\<lambda>p. \<not> ph_RecordStats p) ms = []" "filter ph_RecordStats ms = ms"
    using m(2) w by (simp_all add: filter_empty_conv filter_id_conv list_all_iff)
  then show "\<forall>p \<in> set ps. valid_phase p" "total_duration (filter (\<lambda>p. \<not> ph_RecordStats p) ps) = warmup_of spec"
    "\<not> overrides_ramp_duration spec \<Longrightarrow> total_duration (filter ph_RecordStats ps) = spec_SLA spec - warmup_of spec
       \<and> total_duration ps = spec_SLA spec"
    using m w sane by (auto simp: ps list_all_iff valid_phase_def overrides_ramp_duration_def)
qed

section \<open>Properties\<close>

text \<open>C24. The spike decomposition plays the requested profile: the constant phases it returns fill
  the measurement window exactly, and at every instant of the window the scheduled rate is that of
  the spike covering the instant, or the base rate when none does.\<close>

theorem decomposeSpike_rate:
  assumes "decomposeSpike base total_d spikes = Inr ps" "0 < total_d" "in_int64 total_d"
    and "list_all spike_in_range spikes"
  shows "total_duration ps = total_d
    \<and> (\<forall>t. 0 \<le> t \<and> t < total_d \<longrightarrow> rate_at ps t = Some (spike_rate base spikes t))"
  using assms decomposeSpike_total[OF assms] spike_loop_rate[of base total_d 0 0 spikes ps]
  by (auto simp: decomposeSpike_def split: if_splits)

theorem decomposeSpike_rate_witness:
  "\<exists>ps. decomposeSpike 10 (60 * Second) [\<lparr>sw_At = 20 * Second, sw_Duration = 5 * Second, sw_RPS = 90\<rparr>] = Inr ps
     \<and> rate_at ps (22 * Second) = Some 90 \<and> rate_at ps (30 * Second) = Some 10"
proof -
  let ?sw = "\<lparr>sw_At = 20 * Second, sw_Duration = 5 * Second, sw_RPS = 90\<rparr>"
  obtain ps where ps: "decomposeSpike 10 (60 * Second) [?sw] = Inr ps"
    by (simp add: decomposeSpike_def dur_defs wrap64_def wrap32_def)
  have "list_all spike_in_range [?sw]" "in_int64 (60 * Second)"
    by (simp_all add: spike_in_range_def in_int64_def int_bounds)
  from decomposeSpike_rate[OF ps _ this(2,1)] have
    "rate_at ps t = Some (spike_rate 10 [?sw] t)" if "0 \<le> t" "t < 60 * Second" for t using that by simp
  from this[of "22 * Second"] this[of "30 * Second"] ps show ?thesis
    by (simp add: spike_rate_def spike_covers_def)
qed


definition demo_spec :: ScaleValidationSpec where
  "demo_spec = \<lparr>spec_TargetRef = \<lparr>ref_APIVersion = ''apps/v1'', ref_Kind = ''Deployment'', ref_Name = ''web''\<rparr>,
     spec_SLA = 60 * Second,
     spec_Target = \<lparr>tgt_Mode = TargetModeServiceDefault, tgt_CustomPath = [], tgt_Port = 80,
        tgt_NetworkPath = ''ClusterIP'', tgt_Host = [], tgt_Protocol = [], tgt_GRPC = None, tgt_TLS = None\<rparr>,
     spec_Load = \<lparr>load_BaseRPS = 10, load_ConcurrencyFactor = 0, load_Concurrency = 0,
        load_WarmupDuration = Some (5 * Second),
        load_Profile = Some \<lparr>lp_Pattern = LoadPatternSpike, lp_EndRPS = None, lp_RampDuration = None,
          lp_StepRPS = None, lp_StepDuration = None,
          lp_Spikes = [\<lparr>sw_At = 20 * Second, sw_Duration = 5 * Second, sw_RPS = 90\<rparr>]\<rparr>\<rparr>,
     spec_Disruption = None, spec_Schedule = [], spec_Suspend = False\<rparr>"


text \<open>The two validators disagree on an empty spike: the controller accepts a spike window of
  length zero anywhere in the measurement window, and the load generator then rejects the phase
  list, so the run fails after it has started.\<close>

theorem empty_spike_rejected_late:
  assumes "0 \<le> a" "a \<le> total_d" "in_int64 total_d" "base < rps" "in_int32 base"
  shows "\<exists>ps. decomposeSpike base total_d [\<lparr>sw_At = a, sw_Duration = 0, sw_RPS = rps\<rparr>] = Inr ps
    \<and> phases_Validate 0 ps \<noteq> None"
proof -
  have "in_int64 a" using assms by (auto intro: in_int64_nonneg)
  then show ?thesis using assms
    by (auto simp: decomposeSpike_def dur_add_range dur_sub_between wrap32_id valid_phase_def Let_def
        simp del: phases_Validate.simps)
qed

theorem empty_spike_rejected_late_witness:
  "\<exists>ps. decomposeSpike 10 (60 * Second) [\<lparr>sw_At = 0, sw_Duration = 0, sw_RPS = 20\<rparr>] = Inr ps
    \<and> phases_Validate 0 ps \<noteq> None"
  by (rule empty_spike_rejected_late) (simp_all add: in_int64_def in_int32_def int_bounds)

end
