(* ===== verification/K8s.thy ===== *)
theory K8s
  imports Observer Load_Profile
begin

text \<open>
  What the controllers see of Kubernetes. Errors keep what the code tells apart (not found,
  forbidden, no match, the sentinel of an unresolvable target) through any number of
  \<^verbatim>\<open>fmt.Errorf\<close> wrappings. The library functions the reconcilers call on conditions,
  finalizers, cron expressions and API names are the fields of the record \<open>k8s\<close>; the predicate
  \<open>k8s_laws\<close> states what their documentation promises and is a hypothesis of the theorems that
  need it.
\<close>

section \<open>Errors\<close>

datatype api_reason = NotFound | Forbidden | NoMatch | OtherReason

datatype goerror =
    Api api_reason string               \<comment> \<open>an error of the API machinery with its text\<close>
  | Plain message                       \<comment> \<open>\<^verbatim>\<open>fmt.Errorf\<close> without a wrapped error\<close>
  | Wrap message goerror                \<comment> \<open>\<^verbatim>\<open>fmt.Errorf("...: %w", err)\<close>\<close>
  | Unresolvable message "goerror option"  \<comment> \<open>wraps \<^verbatim>\<open>errTargetUnresolvable\<close> and maybe a cause\<close>

text \<open>\<^verbatim>\<open>errors.Is(err, errTargetUnresolvable)\<close>, \<^verbatim>\<open>apierrors.IsNotFound\<close> and so on look
  through wrapping.\<close>

fun is_unresolvable :: "goerror \<Rightarrow> bool" where
  "is_unresolvable (Api r s) = False"
| "is_unresolvable (Plain m) = False"
| "is_unresolvable (Wrap m e) = is_unresolvable e"
| "is_unresolvable (Unresolvable m c) = True"

fun has_reason :: "api_reason \<Rightarrow> goerror \<Rightarrow> bool" where
  "has_reason r (Api r' s) = (r = r')"
| "has_reason r (Plain m) = False"
| "has_reason r (Wrap m e) = has_reason r e"
| "has_reason r (Unresolvable m None) = False"
| "has_reason r (Unresolvable m (Some e)) = has_reason r e"

abbreviation "IsNotFound \<equiv> has_reason NotFound"

fun err_text :: "goerror \<Rightarrow> message" where
  "err_text (Api r s) = [L s]"
| "err_text (Plain m) = m"
| "err_text (Wrap m e) = m @ L '': '' # err_text e"
| "err_text (Unresolvable m None) = L ''targetRef is unresolvable: '' # m"
| "err_text (Unresolvable m (Some e)) = L ''targetRef is unresolvable: '' # m @ L '': '' # err_text e"

section \<open>Library functions\<close>

text \<open>A cron schedule is its \<^verbatim>\<open>Next\<close> function. A REST mapping is group, version and resource.\<close>

record k8s =
  SetStatusCondition :: "Condition list \<Rightarrow> Condition \<Rightarrow> Condition list"
  RemoveStatusCondition :: "Condition list \<Rightarrow> string \<Rightarrow> Condition list"
  FindStatusCondition :: "Condition list \<Rightarrow> string \<Rightarrow> Condition option"
  ContainsFinalizer :: "string list \<Rightarrow> string \<Rightarrow> bool"
  AddFinalizer :: "string list \<Rightarrow> string \<Rightarrow> string list"
  RemoveFinalizer :: "string list \<Rightarrow> string \<Rightarrow> string list"
  cron_Parse :: "string \<Rightarrow> goerror + (time \<Rightarrow> time)"
  ParseGroupVersion :: "string \<Rightarrow> goerror + string \<times> string"
  labels_Parse :: "string \<Rightarrow> goerror option"
  rand_pick :: "nat \<Rightarrow> int"
  report_Unmarshal :: "string \<Rightarrow> ObsReport option"

definition k8s_laws :: "k8s \<Rightarrow> bool" where
  "k8s_laws K \<longleftrightarrow>
     (\<forall>cs c t. FindStatusCondition K (SetStatusCondition K cs c) t =
        (if t = cond_Type c then Some c else FindStatusCondition K cs t))
     \<and> (\<forall>cs t u. FindStatusCondition K (RemoveStatusCondition K cs t) u =
        (if u = t then None else FindStatusCondition K cs u))
     \<and> (\<forall>t. FindStatusCondition K [] t = None)
     \<and> (\<forall>fs f g. ContainsFinalizer K (AddFinalizer K fs f) g \<longleftrightarrow> g = f \<or> ContainsFinalizer K fs g)
     \<and> (\<forall>fs f g. ContainsFinalizer K (RemoveFinalizer K fs f) g \<longleftrightarrow> g \<noteq> f \<and> ContainsFinalizer K fs g)"

lemma k8s_lawsD:
  assumes "k8s_laws K"
  shows "FindStatusCondition K (SetStatusCondition K cs c) t = (if t = cond_Type c then Some c else FindStatusCondition K cs t)"
    and "FindStatusCondition K (RemoveStatusCondition K cs t') t = (if t = t' then None else FindStatusCondition K cs t)"
    and "FindStatusCondition K [] t = None"
    and "ContainsFinalizer K (AddFinalizer K fs f) g \<longleftrightarrow> g = f \<or> ContainsFinalizer K fs g"
    and "ContainsFinalizer K (RemoveFinalizer K fs f) g \<longleftrightarrow> g \<noteq> f \<and> ContainsFinalizer K fs g"
  using assms unfolding k8s_laws_def by metis+

section \<open>Objects the reconcilers read\<close>

record JobObject =
  jb_Name :: string
  jb_DeletionTimestamp :: "time option"
  jb_Conditions :: "(string \<times> string) list"  \<comment> \<open>type and status\<close>

record JobPod =
  jp_Name :: string
  jp_InitContainerStatuses :: "(string \<times> bool) list"  \<comment> \<open>name and whether it terminated\<close>

text \<open>The pod template's containers of an unstructured workload: \<^const>\<open>Inl\<close> when the field has
  the wrong type, otherwise the containers (none when the field is absent), each a map that decodes
  to a container, a map that does not, or no map at all.\<close>

datatype raw_container = Decoded Container | Undecodable goerror | NotAMap

type_synonym template_containers = "goerror + raw_container list"

text \<open>
  What the API server and the clock answer during one reconcile call. A call site reads each object
  at most once, and every write has its own error: \<^const>\<open>None\<close> when the write succeeded. The
  clock has three readers: \<^verbatim>\<open>r.now()\<close> for schedules, \<^verbatim>\<open>time.Now\<close> for waits and
  \<^verbatim>\<open>metav1.Now\<close> for the stamps written to status.
\<close>

record env =
  e_now :: time
  e_wall :: time
  e_stamp :: time
  e_job :: "goerror + JobObject"
  e_scale :: "goerror + ScaleObject"
  e_target_pods :: "string \<Rightarrow> goerror + Pod list"  \<comment> \<open>by selector\<close>
  e_object :: "goerror + template_containers"
  e_configmap :: "goerror + string list"  \<comment> \<open>the keys of its data\<close>
  e_rest_mapping :: "goerror + string \<times> string \<times> string"
  e_owner_err :: "goerror option"
  e_deployment :: "goerror + goerror option"  \<comment> \<open>the error of converting its selector\<close>
  e_deploy_pods :: "goerror + Pod list"
  e_job_pods :: "goerror + JobPod list"
  e_log :: "string \<Rightarrow> goerror + string"  \<comment> \<open>of the observer container, by pod\<close>
  e_update_err :: "goerror option"
  e_status_err :: "goerror option"
  e_create_err :: "goerror option"
  e_delete_job_err :: "goerror option"
  e_delete_pod_err :: "goerror option"

section \<open>A reference instance\<close>

text \<open>List implementations of the documented behaviour, for the witnesses.\<close>

fun ref_set :: "Condition list \<Rightarrow> Condition \<Rightarrow> Condition list" where
  "ref_set [] c = [c]"
| "ref_set (d # ds) c = (if cond_Type d = cond_Type c then c # ds else d # ref_set ds c)"

definition ref_find :: "Condition list \<Rightarrow> string \<Rightarrow> Condition option" where
  "ref_find cs t = List.find (\<lambda>c. cond_Type c = t) cs"

definition ref_k8s :: "(string \<Rightarrow> ObsReport option) \<Rightarrow> (string \<Rightarrow> goerror + (time \<Rightarrow> time)) \<Rightarrow> k8s" where
  "ref_k8s parse cron = \<lparr>SetStatusCondition = ref_set,
     RemoveStatusCondition = (\<lambda>cs t. filter (\<lambda>c. cond_Type c \<noteq> t) cs),
     FindStatusCondition = ref_find,
     ContainsFinalizer = (\<lambda>fs f. f \<in> set fs), AddFinalizer = (\<lambda>fs f. if f \<in> set fs then fs else fs @ [f]),
     RemoveFinalizer = (\<lambda>fs f. filter (\<lambda>g. g \<noteq> f) fs),
     cron_Parse = cron, ParseGroupVersion = (\<lambda>s. Inr (''apps'', ''v1'')), labels_Parse = (\<lambda>s. None),
     rand_pick = (\<lambda>n. 0), report_Unmarshal = parse\<rparr>"

lemma ref_find_set: "ref_find (ref_set cs c) t = (if t = cond_Type c then Some c else ref_find cs t)"
  by (induction cs) (auto simp: ref_find_def)

lemma ref_find_remove: "ref_find (filter (\<lambda>c. cond_Type c \<noteq> t) cs) u = (if u = t then None else ref_find cs u)"
  by (induction cs) (auto simp: ref_find_def)

lemma ref_k8s_laws: "k8s_laws (ref_k8s parse cron)"
  unfolding k8s_laws_def ref_k8s_def
  by (simp add: ref_find_set ref_find_remove) (auto simp: ref_find_def)

end
