(* ===== verification/Job_Builder.thy ===== *)
theory Job_Builder
  imports K8s
begin

text \<open>
  Target resolution and the loadgen Job: \<^verbatim>\<open>internal/controller/target.go\<close> and
  \<^verbatim>\<open>job.go\<close>, and the flag handling of \<^verbatim>\<open>cmd/loadgen/main.go\<close> on the other side.
  A flag value is a string, a duration (rendered by \<^verbatim>\<open>Duration.String\<close>) or the phase list
  (rendered as JSON); the two renderings are kept symbolic.
\<close>

section \<open>Resolving the target\<close>

definition targetGVK :: "k8s \<Rightarrow> ScaleValidation \<Rightarrow> goerror + string \<times> string \<times> string" where
  "targetGVK K cr =
     (let ref = spec_TargetRef (sv_Spec cr);
          apiVersion = (if ref_APIVersion ref = [] then ''apps/v1'' else ref_APIVersion ref)
      in case ParseGroupVersion K apiVersion of
           Inl err \<Rightarrow> Inl (Unresolvable [L ''parse apiVersion '', Q apiVersion] (Some err))
         | Inr (grp, version) \<Rightarrow>
             if ref_Kind ref = [] then Inl (Unresolvable [L ''kind is empty''] None)
             else Inr (grp, version, ref_Kind ref))"

definition classifyTargetError :: "ScaleValidation \<Rightarrow> goerror \<Rightarrow> goerror" where
  "classifyTargetError cr err =
     (let ref = spec_TargetRef (sv_Spec cr) in
      if has_reason NoMatch err then
        Unresolvable [L ''cluster serves no '', L (ref_Kind ref), L '' in '', L (ref_APIVersion ref)] (Some err)
      else if has_reason Forbidden err then
        Unresolvable [L ''not permitted to read '', L (ref_Kind ref), L '' '', L (ref_Name ref),
          L '' or its scale subresource, extend the manager ClusterRole''] (Some err)
      else err)"

definition targetObject :: "k8s \<Rightarrow> env \<Rightarrow> ScaleValidation \<Rightarrow> goerror + template_containers" where
  "targetObject K e cr =
     (case targetGVK K cr of
        Inl err \<Rightarrow> Inl err
      | Inr gvk \<Rightarrow> (case e_object e of Inl err \<Rightarrow> Inl (classifyTargetError cr err) | Inr obj \<Rightarrow> Inr obj))"

definition targetSelector :: "k8s \<Rightarrow> env \<Rightarrow> ScaleValidation \<Rightarrow> goerror + string" where
  "targetSelector K e cr =
     (let ref = spec_TargetRef (sv_Spec cr) in
      case targetGVK K cr of
        Inl err \<Rightarrow> Inl err
      | Inr gvk \<Rightarrow>
          (case e_scale e of
             Inl err \<Rightarrow> Inl (classifyTargetError cr err)
           | Inr scale \<Rightarrow>
               (case so_Selector scale of
                  None \<Rightarrow> Inl (Plain [L ''read scale status.selector for '', L (ref_Kind ref), L '' '', L (ref_Name ref)])
                | Some selector \<Rightarrow>
                    if selector = [] then
                      Inl (Unresolvable [L (ref_Kind ref), L '' '', L (ref_Name ref),
                        L '' reports an empty scale status.selector, so its pods cannot be identified''] None)
                    else Inr selector)))"

definition ctrl_podReady :: "Pod \<Rightarrow> bool" where
  "ctrl_podReady p = pod_ready_conditions (pod_Conditions p)"

definition targetPodsReady :: "k8s \<Rightarrow> env \<Rightarrow> ScaleValidation \<Rightarrow> goerror + bool \<times> int" where
  "targetPodsReady K e cr =
     (case targetSelector K e cr of
        Inl err \<Rightarrow> if IsNotFound err then Inr (False, 0) else Inl err
      | Inr selector \<Rightarrow>
          (case labels_Parse K selector of
             Some err \<Rightarrow> Inl (Wrap [L ''parse scale status.selector '', Q selector] err)
           | None \<Rightarrow>
               (case e_target_pods e selector of
                  Inl err \<Rightarrow> Inl (Wrap [L ''list target pods''] err)
                | Inr pods \<Rightarrow>
                    let ready = wrap32 (int (length (filter ctrl_podReady pods))) in Inr (ready \<ge> 1, ready))))"

section \<open>The target URL\<close>

definition targetURL :: "string \<Rightarrow> string \<Rightarrow> int \<Rightarrow> string \<Rightarrow> string" where
  "targetURL scheme host port path =
     (let path = (if path = [] then ''/'' else path);
          path = (if \<not> HasPrefix path ''/'' then ''/'' @ path else path)
      in scheme @ ''://'' @ host @ '':'' @ itoa port @ path)"

fun probe_err_text :: "probe_error \<Rightarrow> message" where
  "probe_err_text NoReadinessProbe = [L ''container has no readinessProbe'']"
| "probe_err_text NotHTTPGet = [L ''readinessProbe is not HTTPGet (tcpSocket / exec / grpc probes are not supported by AutoDiscoverProbe)'']"
| "probe_err_text (PortNotPositive n) = [L ''readinessProbe.httpGet.port must be > 0, got '', D n]"
| "probe_err_text PortEmptyString = [L ''readinessProbe.httpGet.port is an empty string'']"
| "probe_err_text (NamedPortNotFound s) = [L ''named port '', Q s, L '' not found in container.ports'']"

definition discoverProbe :: "k8s \<Rightarrow> env \<Rightarrow> ScaleValidation \<Rightarrow> goerror + ProbeSpec" where
  "discoverProbe K e cr =
     (let ref = spec_TargetRef (sv_Spec cr); who = [L (ref_Kind ref), L '' '', L (ref_Name ref)] in
      case targetObject K e cr of
        Inl err \<Rightarrow> Inl err
      | Inr (Inl err) \<Rightarrow> Inl (Wrap (L ''read pod template of '' # who) err)
      | Inr (Inr []) \<Rightarrow> Inl (Plain (who @ [L '' has no pod template containers, AutoDiscoverProbe needs one'']))
      | Inr (Inr (NotAMap # cs)) \<Rightarrow> Inl (Plain (who @ [L '' has a malformed first container'']))
      | Inr (Inr (Undecodable err # cs)) \<Rightarrow> Inl (Wrap (L ''decode first container of '' # who) err)
      | Inr (Inr (Decoded c # cs)) \<Rightarrow>
          (case DiscoverFromContainer c of Inl err \<Rightarrow> Inl (Plain (probe_err_text err)) | Inr spec \<Rightarrow> Inr spec))"

definition resolveTargetURL :: "k8s \<Rightarrow> env \<Rightarrow> ScaleValidation \<Rightarrow> goerror + string" where
  "resolveTargetURL K e cr =
     (let t = spec_Target (sv_Spec cr);
          host = (if tgt_Host t = []
                  then ref_Name (spec_TargetRef (sv_Spec cr)) @ ''.'' @ sv_Namespace cr @ ''.svc.cluster.local''
                  else tgt_Host t);
          port = tgt_Port t; scheme = ''http''
      in if tgt_Mode t = TargetModeCustomPath then Inr (targetURL scheme host port (tgt_CustomPath t))
         else if tgt_Mode t = TargetModeAutoDiscoverProbe then
           (case discoverProbe K e cr of
              Inl err \<Rightarrow> Inl (Wrap [L ''auto-discover probe''] err)
            | Inr spec \<Rightarrow>
                let port = (if ps_Port spec \<noteq> 0 then ps_Port spec else port);
                    scheme = (if EqualFold_ascii (ps_Scheme spec) ''HTTPS'' then ''https'' else scheme)
                in Inr (targetURL scheme host port (ps_Path spec)))
         else Inr (targetURL scheme host port ''/''))"

section \<open>The Job\<close>

datatype arg = A string | ADur duration | APhases "LoadPhase list"

abbreviation "loadgenForLabel \<equiv> ''validation.scale-sentry.ek.co/loadgen-for''"
abbreviation "resultFilePath \<equiv> ''/run/scale-sentry/result.json''"
abbreviation "tlsCAMountPath \<equiv> ''/etc/scale-sentry/tls-ca''"
abbreviation "observerContainerName \<equiv> ''observer''"
abbreviation "loadgenContainerName \<equiv> ''loadgen''"
abbreviation "runVolumeName \<equiv> ''scale-sentry-run''"
abbreviation "tlsCAVolumeName \<equiv> ''scale-sentry-tls-ca''"

definition loadgenJobName :: "ScaleValidation \<Rightarrow> string" where
  "loadgenJobName cr = sv_Name cr @ ''-loadgen''"

definition caBundleRef :: "ScaleValidation \<Rightarrow> ConfigMapKeyRef option" where
  "caBundleRef cr =
     (case tgt_TLS (spec_Target (sv_Spec cr)) of None \<Rightarrow> None | Some tls \<Rightarrow> CABundle tls)"

fun profile_err_text :: "profile_error \<Rightarrow> message" where
  "profile_err_text SLANotPositive = [L ''spec.sla must be > 0 for a phased run'']"
| "profile_err_text (WarmupNegative w) = [L ''spec.load.warmupDuration must be >= 0, got '', Dur w]"
| "profile_err_text (WarmupFillsSLA w s) = [L ''spec.load.warmupDuration ('', Dur w, L '') must be < spec.sla ('', Dur s,
     L '') so a measurement window remains'']"
| "profile_err_text EndRPSRequired = [L ''spec.load.profile.endRps required when pattern=Ramp'']"
| "profile_err_text StepKnobsRequired = [L ''spec.load.profile.stepRps and stepDuration required when pattern=Step'']"
| "profile_err_text SpikesRequired = [L ''spec.load.profile.spikes required when pattern=Spike'']"
| "profile_err_text (SpikeOverlaps i a) = [L ''spec.load.profile.spikes['', D (int i), L ''].at ('', Dur a, L '') overlaps the previous spike'']"
| "profile_err_text (SpikePastWindow i t) = [L ''spec.load.profile.spikes['', D (int i),
     L ''] extends past the measurement window (sla - warmup = '', Dur t, L '')'']"
| "profile_err_text (SpikeNotAboveBase i r b) = [L ''spec.load.profile.spikes['', D (int i), L ''].rps ('', D r,
     L '') must be > baseRps ('', D b, L '') to be a spike'']"
| "profile_err_text (UnknownProfilePattern p) = [L ''unknown spec.load.profile.pattern '', Q p]"

definition loadgenArgs :: "ScaleValidation \<Rightarrow> string \<Rightarrow> string \<Rightarrow> goerror + arg list" where
  "loadgenArgs cr url caBundlePath =
     (let t = spec_Target (sv_Spec cr); load = spec_Load (sv_Spec cr);
          args = [A ''--url'', A url, A ''--connection-mode'', A KeepAlive, A ''--target-mode'', A (tgt_Mode t),
                  A ''--network-path'', A (tgt_NetworkPath t), A ''--result-file'', A resultFilePath];
          args = args @ (if load_Concurrency load > 0 then [A ''--concurrency'', A (itoa (load_Concurrency load))] else []);
          args = args @ (if tgt_Protocol t \<noteq> [] then [A ''--protocol'', A (tgt_Protocol t)] else []);
          args = args @ (case tgt_GRPC t of None \<Rightarrow> [] | Some svc \<Rightarrow> if svc \<noteq> [] then [A ''--grpc-service'', A svc] else [])
      in case buildPhases (sv_Spec cr) of
           Inl err \<Rightarrow> Inl (Plain (profile_err_text err))
         | Inr phases \<Rightarrow>
             let args = args @ (if phases \<noteq> [] then [A ''--phases'', APhases phases]
                    else [A ''--rps'', A (itoa (load_BaseRPS load)), A ''--duration'', ADur (spec_SLA (sv_Spec cr))]);
                 args = args @ (case tgt_TLS t of None \<Rightarrow> []
                    | Some tls \<Rightarrow> if InsecureSkipVerify tls then [A ''--tls-insecure-skip-verify''] else []);
                 args = args @ (if caBundlePath \<noteq> [] then [A ''--tls-ca-bundle'', A caBundlePath] else [])
             in Inr args)"

definition observerArgs :: "k8s \<Rightarrow> env \<Rightarrow> ScaleValidation \<Rightarrow> goerror + arg list" where
  "observerArgs K e cr =
     (case targetGVK K cr of
        Inl err \<Rightarrow> Inl err
      | Inr (grp, version, kind) \<Rightarrow>
          (case e_rest_mapping e of
             Inl err \<Rightarrow> Inl (Unresolvable [L ''no REST mapping for '', L grp, L ''/'', L version, L '', Kind='', L kind] (Some err))
           | Inr (mgroup, mversion, mresource) \<Rightarrow>
               Inr [A ''--target-name'', A (ref_Name (spec_TargetRef (sv_Spec cr))), A ''--namespace'', A (sv_Namespace cr),
                    A ''--target-kind'', A kind, A ''--target-group'', A mgroup, A ''--target-version'', A mversion,
                    A ''--target-resource'', A mresource, A ''--sla'', ADur (spec_SLA (sv_Spec cr)),
                    A ''--result-file'', A resultFilePath]))"

record SecurityContext =
  sc_AllowPrivilegeEscalation :: bool
  sc_RunAsNonRoot :: bool
  sc_ReadOnlyRootFilesystem :: bool
  sc_DropCapabilities :: "string list"
  sc_Seccomp :: string

definition restrictedContainerSecurityContext :: SecurityContext where
  "restrictedContainerSecurityContext = \<lparr>sc_AllowPrivilegeEscalation = False, sc_RunAsNonRoot = True,
     sc_ReadOnlyRootFilesystem = True, sc_DropCapabilities = [''ALL''], sc_Seccomp = ''RuntimeDefault''\<rparr>"

definition restrictedPodSecurityContext :: "bool \<times> string" where
  "restrictedPodSecurityContext = (True, ''RuntimeDefault'')"

datatype volume = EmptyDir string | ConfigMapVolume string string string  \<comment> \<open>name, ConfigMap, key\<close>

record mount =
  vm_Name :: string
  vm_Path :: string
  vm_ReadOnly :: bool

record job_container =
  jc_Name :: string
  jc_Image :: string
  jc_Args :: "arg list"
  jc_RestartAlways :: bool
  jc_SecurityContext :: SecurityContext
  jc_Mounts :: "mount list"

record Job =
  job_Name :: string
  job_Namespace :: string
  job_Labels :: "(string \<times> string) list"
  job_BackoffLimit :: int
  job_PodLabels :: "(string \<times> string) list"
  job_RestartPolicy :: string
  job_ServiceAccountName :: string
  job_GracePeriodSeconds :: int
  job_PodSecurityContext :: "bool \<times> string"
  job_ImagePullSecrets :: "string list"
  job_Volumes :: "volume list"
  job_InitContainers :: "job_container list"
  job_Containers :: "job_container list"

record reconciler =
  r_LoadgenImage :: string
  r_ObserverImage :: string
  r_ObserverServiceAccount :: string
  r_ImagePullSecrets :: "string list"
  r_targetReadyTimeout :: duration

definition imagePullSecretRefs :: "string list \<Rightarrow> string list" where
  "imagePullSecretRefs names = (if length names = 0 then [] else map (\<lambda>n. n) names)"

definition buildLoadgenJob :: "k8s \<Rightarrow> reconciler \<Rightarrow> env \<Rightarrow> ScaleValidation \<Rightarrow> string \<Rightarrow> goerror + Job" where
  "buildLoadgenJob K R e cr url =
     (let labels = [(loadgenForLabel, sv_Name cr)];
          run_mount = \<lparr>vm_Name = runVolumeName, vm_Path = ''/run/scale-sentry'', vm_ReadOnly = False\<rparr>
      in case observerArgs K e cr of
           Inl err \<Rightarrow> Inl err
         | Inr obsArgs \<Rightarrow>
             let caBundlePath = (case caBundleRef cr of None \<Rightarrow> [] | Some ca \<Rightarrow> tlsCAMountPath @ ''/'' @ cm_Key ca);
                 volumes = EmptyDir runVolumeName #
                   (case caBundleRef cr of None \<Rightarrow> [] | Some ca \<Rightarrow> [ConfigMapVolume tlsCAVolumeName (cm_Name ca) (cm_Key ca)]);
                 loadgenMounts = run_mount #
                   (case caBundleRef cr of None \<Rightarrow> []
                    | Some ca \<Rightarrow> [\<lparr>vm_Name = tlsCAVolumeName, vm_Path = tlsCAMountPath, vm_ReadOnly = True\<rparr>])
             in case loadgenArgs cr url caBundlePath of
                  Inl err \<Rightarrow> Inl err
                | Inr lgArgs \<Rightarrow>
                    Inr \<lparr>job_Name = loadgenJobName cr, job_Namespace = sv_Namespace cr, job_Labels = labels,
                         job_BackoffLimit = 0, job_PodLabels = labels, job_RestartPolicy = ''Never'',
                         job_ServiceAccountName = r_ObserverServiceAccount R, job_GracePeriodSeconds = 45,
                         job_PodSecurityContext = restrictedPodSecurityContext,
                         job_ImagePullSecrets = imagePullSecretRefs (r_ImagePullSecrets R),
                         job_Volumes = volumes,
                         job_InitContainers = [\<lparr>jc_Name = observerContainerName, jc_Image = r_ObserverImage R,
                            jc_Args = obsArgs, jc_RestartAlways = True,
                            jc_SecurityContext = restrictedContainerSecurityContext, jc_Mounts = [run_mount]\<rparr>],
                         job_Containers = [\<lparr>jc_Name = loadgenContainerName, jc_Image = r_LoadgenImage R,
                            jc_Args = lgArgs, jc_RestartAlways = False,
                            jc_SecurityContext = restrictedContainerSecurityContext, jc_Mounts = loadgenMounts\<rparr>]\<rparr>)"

end
