(* ===== verification/Reconciler.thy ===== *)
theory Reconciler
  imports Job_Builder
begin

text \<open>
  The ScaleValidation reconciler: \<^verbatim>\<open>scalevalidation_controller.go\<close>, \<^verbatim>\<open>conditions.go\<close>,
  \<^verbatim>\<open>schedule.go\<close> and \<^verbatim>\<open>disruption.go\<close> of \<^verbatim>\<open>internal/controller\<close>, with the
  metric labels of \<^verbatim>\<open>internal/metrics\<close>. A reconcile call is a function of the object it read,
  the library and the environment; its value is the list of effects it had, in order (a write with
  the error it met), and its result, an error or the requeue delay (0 for none).
\<close>

section \<open>Effects\<close>

datatype effect =
    Update "string list" "goerror option"             \<comment> \<open>of the object, with its new finalizers\<close>
  | StatusUpdate ScaleValidationStatus "goerror option"
  | CreateJob Job "goerror option"
  | DeleteJob string "goerror option"
  | DeletePod string "goerror option"
  | Event string string message                        \<comment> \<open>type, reason, message\<close>
  | RunsTotal string                                   \<comment> \<open>increment, by verdict label\<close>
  | RunDuration duration
  | HPAReact duration
  | AlertsTotal string string                          \<comment> \<open>increment, by type and severity\<close>

type_synonym outcome = "effect list \<times> (goerror + duration)"

definition andthen :: "effect list \<Rightarrow> outcome \<Rightarrow> outcome" where
  "andthen es out = (es @ fst out, snd out)"

abbreviation "Normal \<equiv> ''Normal''"
abbreviation "Warning \<equiv> ''Warning''"
abbreviation "ConditionFinished \<equiv> ''Finished''"
abbreviation "ConditionDisruptionInjected \<equiv> ''DisruptionInjected''"
abbreviation "scaleValidationFinalizer \<equiv> ''validation.scale-sentry.ek.co/finalizer''"
abbreviation (input) childTerminationRequeue :: duration where "childTerminationRequeue \<equiv> 2 * Second"
abbreviation (input) targetReadyPollInterval :: duration where "targetReadyPollInterval \<equiv> 5 * Second"
abbreviation (input) targetReadyWaitTimeout :: duration where "targetReadyWaitTimeout \<equiv> 5 * Minute"

section \<open>Metric labels\<close>

definition VerdictFromStatus :: "string \<Rightarrow> string \<Rightarrow> string" where
  "VerdictFromStatus sla traffic =
     (if sla = VerdictFail \<or> traffic = VerdictFail then ''fail''
      else if sla = VerdictPass \<and> traffic = VerdictPass then ''pass''
      else if sla = [] \<and> traffic = [] then ''unknown''
      else ''warn'')"

section \<open>Phases and conditions\<close>

definition phase_text :: "Phase \<Rightarrow> string" where
  "phase_text p = (case p of PhaseNone \<Rightarrow> [] | PhasePending \<Rightarrow> ''Pending'' | PhaseRunning \<Rightarrow> ''Running''
     | PhaseSucceeded \<Rightarrow> ''Succeeded'' | PhaseFailed \<Rightarrow> ''Failed'' | PhaseError \<Rightarrow> ''Error''
     | PhaseTerminating \<Rightarrow> ''Terminating'')"

text \<open>\<^verbatim>\<open>r.Status().Update\<close> and the error its callers wrap.\<close>

definition write_status :: "env \<Rightarrow> ScaleValidation \<Rightarrow> message \<Rightarrow> duration \<Rightarrow> outcome" where
  "write_status e cr msg requeue =
     ([StatusUpdate (sv_Status cr) (e_status_err e)],
      case e_status_err e of Some err \<Rightarrow> Inl (Wrap msg err) | None \<Rightarrow> Inr requeue)"

definition setPhase :: "env \<Rightarrow> ScaleValidation \<Rightarrow> Phase \<Rightarrow> outcome" where
  "setPhase e cr phase =
     (let cr = cr\<lparr>sv_Status := (sv_Status cr)\<lparr>st_Phase := phase\<rparr>\<rparr>
      in write_status e cr [L ''update status to '', L (phase_text phase)] 0)"

definition markFinished :: "k8s \<Rightarrow> ScaleValidation \<Rightarrow> string \<Rightarrow> message \<Rightarrow> ScaleValidation" where
  "markFinished K cr reason msg =
     cr\<lparr>sv_Status := (sv_Status cr)\<lparr>st_ObservedGeneration := sv_Generation cr,
        st_Conditions := SetStatusCondition K (st_Conditions (sv_Status cr))
          \<lparr>cond_Type = ConditionFinished, cond_Status = ''True'', cond_ObservedGeneration = sv_Generation cr,
           cond_Reason = reason, cond_Message = msg\<rparr>\<rparr>\<rparr>"

definition setTerminalPhase :: "k8s \<Rightarrow> env \<Rightarrow> ScaleValidation \<Rightarrow> Phase \<Rightarrow> string \<Rightarrow> message \<Rightarrow> outcome" where
  "setTerminalPhase K e cr phase reason msg = setPhase e (markFinished K cr reason msg) phase"

definition finishedVerdict :: "Verdict \<Rightarrow> Verdict \<Rightarrow> int \<Rightarrow> int \<Rightarrow> Phase \<times> string \<times> message" where
  "finishedVerdict slaStatus trafficIntegrity totalRequests failedRequests =
     (let summary = [L ''SLA='', L slaStatus, L '' traffic='', L trafficIntegrity, L '' requests='', D totalRequests,
                     L '' failed='', D failedRequests]
      in if slaStatus = VerdictFail \<or> trafficIntegrity = VerdictFail
         then (PhaseFailed, ''VerdictFailed'', summary) else (PhaseSucceeded, ''Succeeded'', summary))"

definition add_diagnostic :: "ScaleValidation \<Rightarrow> DiagnosticAlert \<Rightarrow> ScaleValidation" where
  "add_diagnostic cr a = cr\<lparr>sv_Status := (sv_Status cr)\<lparr>st_Diagnostics := st_Diagnostics (sv_Status cr) @ [a]\<rparr>\<rparr>"

section \<open>Schedules\<close>

text \<open>\<^verbatim>\<open>Inr None\<close>: no schedule.\<close>

definition parseSchedule :: "k8s \<Rightarrow> ScaleValidation \<Rightarrow> goerror + (time \<Rightarrow> time) option" where
  "parseSchedule K cr =
     (if spec_Schedule (sv_Spec cr) = [] then Inr None
      else case cron_Parse K (spec_Schedule (sv_Spec cr)) of
        Inl err \<Rightarrow> Inl (Wrap [L ''parse schedule '', Q (spec_Schedule (sv_Spec cr))] err)
      | Inr nxt \<Rightarrow> Inr (Some nxt))"

definition lastRunAnchor :: "ScaleValidation \<Rightarrow> time" where
  "lastRunAnchor cr =
     (case st_LastRunTime (sv_Status cr) of Some t \<Rightarrow> t | None \<Rightarrow> sv_CreationTimestamp cr)"

definition failScheduleInvalid :: "k8s \<Rightarrow> env \<Rightarrow> ScaleValidation \<Rightarrow> goerror \<Rightarrow> outcome" where
  "failScheduleInvalid K e cr cause =
     (let msg = [L ''spec.schedule '', Q (spec_Schedule (sv_Spec cr)), L '' is not a valid cron expression: ''] @ err_text cause;
          cr = add_diagnostic cr \<lparr>alert_Type = ''ScheduleInvalid'', alert_Severity = SeverityCritical, alert_Message = msg,
                 alert_Recommendation = [L ''use standard five-field cron (\"0 2 * * *\") or a descriptor (@daily, @every 30m)'']\<rparr>
      in andthen [Event Warning ''ScheduleInvalid'' msg, RunsTotal ''unknown'', AlertsTotal ''ScheduleInvalid'' ''Critical'']
           (setTerminalPhase K e cr PhaseError ''ScheduleInvalid'' msg))"

definition resetForNextRun :: "k8s \<Rightarrow> ScaleValidation \<Rightarrow> ScaleValidation" where
  "resetForNextRun K cr =
     (let st = (sv_Status cr)\<lparr>st_Diagnostics := [], st_ScaleUpDuration := None, st_SLAStatus := [],
                 st_TrafficIntegrity := [], st_TotalRequests := 0, st_FailedRequests := 0,
                 st_FailureRateBasisPoints := 0, st_NextRunTime := None\<rparr>;
          conds = RemoveStatusCondition K (st_Conditions st) ConditionDisruptionInjected;
          conds = SetStatusCondition K conds
            \<lparr>cond_Type = ConditionFinished, cond_Status = ''False'', cond_ObservedGeneration = sv_Generation cr,
             cond_Reason = ''Rescheduled'',
             cond_Message = [L ''a new run started on schedule '', Q (spec_Schedule (sv_Spec cr))]\<rparr>
      in cr\<lparr>sv_Status := st\<lparr>st_Conditions := conds\<rparr>\<rparr>)"

definition startNextRun :: "k8s \<Rightarrow> env \<Rightarrow> ScaleValidation \<Rightarrow> outcome" where
  "startNextRun K e cr =
     (case e_job e of
        Inr job \<Rightarrow>
          if jb_DeletionTimestamp job = None then
            (case e_delete_job_err e of
               Some err \<Rightarrow>
                 ([DeleteJob (loadgenJobName cr) (Some err)],
                  if IsNotFound err then Inr childTerminationRequeue
                  else Inl (Wrap [L ''delete finished loadgen job''] err))
             | None \<Rightarrow> ([DeleteJob (loadgenJobName cr) None], Inr childTerminationRequeue))
          else ([], Inr childTerminationRequeue)
      | Inl err \<Rightarrow>
          if \<not> IsNotFound err then ([], Inl (Wrap [L ''get loadgen job''] err))
          else andthen [Event Normal ''RunScheduled'' [L ''starting the next run on schedule '', Q (spec_Schedule (sv_Spec cr))]]
                 (setPhase e (resetForNextRun K cr) PhasePending))"

definition parkSuspended :: "env \<Rightarrow> ScaleValidation \<Rightarrow> outcome" where
  "parkSuspended e cr =
     (let changed = (st_NextRunTime (sv_Status cr) \<noteq> None \<or> st_ObservedGeneration (sv_Status cr) \<noteq> sv_Generation cr);
          cr = cr\<lparr>sv_Status := (sv_Status cr)\<lparr>st_NextRunTime := None, st_ObservedGeneration := sv_Generation cr\<rparr>\<rparr>
      in if \<not> changed then ([], Inr 0)
         else write_status e cr [L ''park suspended validation''] 0)"

definition restartForSpecChange :: "k8s \<Rightarrow> env \<Rightarrow> ScaleValidation \<Rightarrow> outcome" where
  "restartForSpecChange K e cr =
     (case parseSchedule K cr of
        Inl err \<Rightarrow>
          failScheduleInvalid K e (cr\<lparr>sv_Status := (sv_Status cr)\<lparr>st_Diagnostics := []\<rparr>\<rparr>) err
      | Inr s \<Rightarrow>
          andthen [Event Normal ''SpecChanged'' [L ''spec changed (generation '', D (sv_Generation cr), L '' supersedes '',
                     D (st_ObservedGeneration (sv_Status cr)), L ''), starting a new run'']]
            (startNextRun K e cr))"

definition reconcileTerminal :: "k8s \<Rightarrow> env \<Rightarrow> ScaleValidation \<Rightarrow> outcome" where
  "reconcileTerminal K e cr =
     (if st_ObservedGeneration (sv_Status cr) = 0 then
        write_status e (cr\<lparr>sv_Status := (sv_Status cr)\<lparr>st_ObservedGeneration := sv_Generation cr\<rparr>\<rparr>)
          [L ''adopt observed generation''] 0
      else if spec_Suspend (sv_Spec cr) then parkSuspended e cr
      else if sv_Generation cr \<noteq> st_ObservedGeneration (sv_Status cr) then restartForSpecChange K e cr
      else case parseSchedule K cr of
        Inl err \<Rightarrow> ([], Inr 0)
      | Inr None \<Rightarrow> ([], Inr 0)
      | Inr (Some next_of) \<Rightarrow>
          let next_t = next_of (lastRunAnchor cr); remaining = time_Sub next_t (e_now e) in
          if remaining > 0 then
            (if st_NextRunTime (sv_Status cr) \<noteq> Some next_t
             then write_status e (cr\<lparr>sv_Status := (sv_Status cr)\<lparr>st_NextRunTime := Some next_t\<rparr>\<rparr>)
                    [L ''publish next run time''] remaining
             else ([], Inr remaining))
          else startNextRun K e cr)"

section \<open>Disruption\<close>

definition recordDisruption :: "k8s \<Rightarrow> env \<Rightarrow> ScaleValidation \<Rightarrow> string \<Rightarrow> string \<Rightarrow> message \<Rightarrow> outcome" where
  "recordDisruption K e cr status reason msg =
     (let cr = cr\<lparr>sv_Status := (sv_Status cr)\<lparr>st_Conditions :=
                 SetStatusCondition K (st_Conditions (sv_Status cr))
                   \<lparr>cond_Type = ConditionDisruptionInjected, cond_Status = status,
                    cond_ObservedGeneration = sv_Generation cr, cond_Reason = reason, cond_Message = msg\<rparr>\<rparr>\<rparr>
      in write_status e cr [L ''record disruption decision''] 0)"

definition targetPods :: "env \<Rightarrow> ScaleValidation \<Rightarrow> goerror + Pod list" where
  "targetPods e cr =
     (case e_deployment e of
        Inl err \<Rightarrow> Inl (Wrap [L ''get target deployment '', L (ref_Name (spec_TargetRef (sv_Spec cr)))] err)
      | Inr (Some err) \<Rightarrow> Inl (Wrap [L ''target deployment selector''] err)
      | Inr None \<Rightarrow>
          (case e_deploy_pods e of Inl err \<Rightarrow> Inl (Wrap [L ''list target pods''] err) | Inr pods \<Rightarrow> Inr pods))"

definition maybeInjectDisruption :: "k8s \<Rightarrow> env \<Rightarrow> ScaleValidation \<Rightarrow> outcome" where
  "maybeInjectDisruption K e cr =
     (case spec_Disruption (sv_Spec cr) of
        None \<Rightarrow> ([], Inr 0)
      | Some d \<Rightarrow>
          if \<not> dis_InjectPodDeletion d \<or> st_Phase (sv_Status cr) \<noteq> PhaseRunning then ([], Inr 0)
          else if FindStatusCondition K (st_Conditions (sv_Status cr)) ConditionDisruptionInjected \<noteq> None then ([], Inr 0)
          else
            let loadStart = (case st_LastRunTime (sv_Status cr) of Some t \<Rightarrow> t | None \<Rightarrow> sv_CreationTimestamp cr);
                delay = (case dis_TriggerDelay d of None \<Rightarrow> 0 | Some x \<Rightarrow> x);
                wait = time_Sub (time_Add loadStart delay) (e_wall e)
            in if wait > 0 then ([], Inr wait)
               else case targetPods e cr of
                 Inl err \<Rightarrow> ([], Inl err)
               | Inr pods \<Rightarrow>
                   let decision = Plan \<lparr>cc_InjectPodDeletion = dis_InjectPodDeletion d,
                                        cc_MinReplicasForChaos = dis_MinReplicasForChaos d, cc_TriggerDelay = delay\<rparr>
                                    loadStart pods (rand_pick K)
                   in if \<not> dec_Inject decision then
                        andthen [Event Warning ''ChaosSkipped'' (dec_SkipReason decision)]
                          (recordDisruption K e cr ''False'' ''Skipped'' (dec_SkipReason decision))
                      else case dec_Victim decision of
                        None \<Rightarrow> ([], Inr 0)  \<comment> \<open>not reached: an injection has a victim\<close>
                      | Some victim \<Rightarrow>
                          let msg = [L ''deleted pod '', L (pod_Name victim), L '' during load ('',
                                     D (int (dec_HealthyCount decision)), L '' healthy replicas)''] in
                          (case e_delete_pod_err e of
                             Some err \<Rightarrow>
                               if \<not> IsNotFound err then
                                 ([DeletePod (pod_Name victim) (Some err)],
                                  Inl (Wrap [L ''delete disruption victim '', L (pod_Name victim)] err))
                               else andthen [DeletePod (pod_Name victim) (Some err), Event Normal ''ChaosInjected'' msg]
                                      (recordDisruption K e cr ''True'' ''PodDeleted'' msg)
                           | None \<Rightarrow>
                               andthen [DeletePod (pod_Name victim) None, Event Normal ''ChaosInjected'' msg]
                                 (recordDisruption K e cr ''True'' ''PodDeleted'' msg)))"

section \<open>Finishing a run\<close>

definition failureRateBasisPoints :: "float64 \<Rightarrow> int" where
  "failureRateBasisPoints rate =
     (if rate \<le> 0 then 0
      else let bp = math_Round (fl_mul rate (of_int FailureRateScale)) in
        if bp > MaxInt32 then MaxInt32 else bp)"

definition applyReport :: "ScaleValidation \<Rightarrow> ObsReport \<Rightarrow> ScaleValidation" where
  "applyReport cr report =
     cr\<lparr>sv_Status := (sv_Status cr)\<lparr>st_Diagnostics := rep_Diagnostics report,
        st_ScaleUpDuration := rep_ScaleUpDuration report, st_SLAStatus := rep_SLAStatus report,
        st_TrafficIntegrity := rep_TrafficIntegrity report, st_TotalRequests := int (rep_TotalRequests report),
        st_FailedRequests := int (rep_FailedRequests report),
        st_FailureRateBasisPoints := failureRateBasisPoints (rep_FailureRate report)\<rparr>\<rparr>"

definition appendRunHistory :: "time \<Rightarrow> ScaleValidation \<Rightarrow> ScaleValidation" where
  "appendRunHistory now cr =
     (let st = sv_Status cr;
          entry = \<lparr>run_FinishedAt = now, run_Phase = st_Phase st, run_SLAStatus = st_SLAStatus st,
                   run_TrafficIntegrity = st_TrafficIntegrity st,
                   run_FailureRateBasisPoints = st_FailureRateBasisPoints st\<rparr>;
          hist = entry # st_History st;
          hist = (if length hist > RunHistoryLimit then take RunHistoryLimit hist else hist)
      in cr\<lparr>sv_Status := st\<lparr>st_History := hist\<rparr>\<rparr>)"

definition severity_weight :: "Severity \<Rightarrow> nat" where
  "severity_weight s = (if s = SeverityCritical then 3 else if s = SeverityWarning then 2
     else if s = SeverityInfo then 1 else 0)"

fun best_diagnostic :: "DiagnosticAlert \<Rightarrow> DiagnosticAlert list \<Rightarrow> DiagnosticAlert" where
  "best_diagnostic best [] = best"
| "best_diagnostic best (d # ds) =
     best_diagnostic (if severity_weight (alert_Severity d) > severity_weight (alert_Severity best) then d else best) ds"

definition topDiagnostic :: "DiagnosticAlert list \<Rightarrow> message" where
  "topDiagnostic diags =
     (case diags of [] \<Rightarrow> [L ''<none>'']
      | d # ds \<Rightarrow> let best = best_diagnostic d ds
                  in [L (alert_Type best), L '' ('', L (alert_Severity best), L '')''])"

definition recordRunMetrics :: "env \<Rightarrow> ScaleValidation \<Rightarrow> ObsReport \<Rightarrow> effect list" where
  "recordRunMetrics e cr report =
     RunsTotal (VerdictFromStatus (rep_SLAStatus report) (rep_TrafficIntegrity report))
     # (case st_LastRunTime (sv_Status cr) of None \<Rightarrow> [] | Some t \<Rightarrow> [RunDuration (time_Sub (e_wall e) t)])
     @ (case rep_ScaleUpDuration report of None \<Rightarrow> [] | Some d \<Rightarrow> [HPAReact d])
     @ map (\<lambda>d. AlertsTotal (alert_Type d) (alert_Severity d)) (rep_Diagnostics report)"

definition emitVerdictEvent :: "ScaleValidation \<Rightarrow> ObsReport \<Rightarrow> effect" where
  "emitVerdictEvent cr report =
     (if st_Phase (sv_Status cr) = PhaseSucceeded then
        Event Normal ''VerdictPass'' [L ''SLA='', L (rep_SLAStatus report), L '' traffic='', L (rep_TrafficIntegrity report),
          L '' requests='', D (int (rep_TotalRequests report)), L '' failed='', D (int (rep_FailedRequests report))]
      else
        Event Warning ''VerdictFail'' ([L ''SLA='', L (rep_SLAStatus report), L '' traffic='', L (rep_TrafficIntegrity report),
          L '' failed='', D (int (rep_FailedRequests report)), L '' top diagnostic: ''] @ topDiagnostic (rep_Diagnostics report)))"

fun observerTerminated_in :: "(string \<times> bool) list \<Rightarrow> bool" where
  "observerTerminated_in [] = False"
| "observerTerminated_in ((n, terminated) # cs) =
     (if n = observerContainerName then terminated else observerTerminated_in cs)"

definition observerTerminated :: "JobPod \<Rightarrow> bool" where
  "observerTerminated pod = observerTerminated_in (jp_InitContainerStatuses pod)"

definition findJobPod :: "env \<Rightarrow> goerror + JobPod option" where
  "findJobPod e =
     (case e_job_pods e of
        Inl err \<Rightarrow> Inl (Wrap [L ''list job pods''] err)
      | Inr [] \<Rightarrow> Inr None
      | Inr (p # ps) \<Rightarrow> Inr (Some p))"

definition observerLog :: "env \<Rightarrow> JobPod \<Rightarrow> goerror + string" where
  "observerLog e pod =
     (case e_log e (jp_Name pod) of Inl err \<Rightarrow> Inl (Wrap [L ''get observer log''] err) | Inr raw \<Rightarrow> Inr raw)"

fun report_log_text :: "report_log_error \<Rightarrow> message" where
  "report_log_text DecodeReport = [L ''decode observer report'']"
| "report_log_text NoReportLine = [L ''no observer report line found in log'']"

text \<open>The status of a run whose report was read.\<close>

definition finished_cr :: "k8s \<Rightarrow> env \<Rightarrow> ScaleValidation \<Rightarrow> ObsReport \<Rightarrow> ScaleValidation" where
  "finished_cr K e cr report =
     (let cr = applyReport cr report;
          (phase, reason, msg) = finishedVerdict (rep_SLAStatus report) (rep_TrafficIntegrity report)
             (int (rep_TotalRequests report)) (int (rep_FailedRequests report));
          cr = cr\<lparr>sv_Status := (sv_Status cr)\<lparr>st_Phase := phase\<rparr>\<rparr>;
          cr = markFinished K cr reason msg
      in appendRunHistory (e_stamp e) cr)"

definition finishRun :: "k8s \<Rightarrow> env \<Rightarrow> ScaleValidation \<Rightarrow> outcome" where
  "finishRun K e cr =
     (let unreadable = (\<lambda>event msg. andthen [Event Warning ''RunErrored'' event]
                          (setTerminalPhase K e cr PhaseError ''ObserverReportUnreadable'' msg))
      in case findJobPod e of
           Inl err \<Rightarrow> ([], Inl err)
         | Inr None \<Rightarrow>
             unreadable [L ''loadgen Job '', L (loadgenJobName cr), L '' completed but no pod found to read observer report from'']
               [L ''loadgen Job '', L (loadgenJobName cr), L '' completed but no pod was found to read the observer report from'']
         | Inr (Some pod) \<Rightarrow>
             if \<not> observerTerminated pod then ([], Inr (5 * Second))
             else case observerLog e pod of
               Inl err \<Rightarrow>
                 unreadable ([L ''reading observer log from pod '', L (jp_Name pod), L '' failed: ''] @ err_text err)
                   ([L ''reading the observer log from pod '', L (jp_Name pod), L '' failed: ''] @ err_text err)
             | Inr raw \<Rightarrow>
                 (case ParseReportLog (report_Unmarshal K) raw of
                    Inl err \<Rightarrow>
                      unreadable ([L ''parsing observer report from pod '', L (jp_Name pod), L '' failed: ''] @ report_log_text err)
                        ([L ''parsing the observer report from pod '', L (jp_Name pod), L '' failed: ''] @ report_log_text err)
                  | Inr report \<Rightarrow>
                      let cr' = finished_cr K e cr report;
                          (effs, res) = write_status e cr' [L ''write run results''] 0
                      in case res of
                           Inl err \<Rightarrow> (effs, Inl err)
                         | Inr d \<Rightarrow> (effs @ recordRunMetrics e cr' report @ [emitVerdictEvent cr' report], Inr 0)))"

section \<open>Starting a run\<close>

definition failTargetUnresolvable :: "k8s \<Rightarrow> env \<Rightarrow> ScaleValidation \<Rightarrow> goerror \<Rightarrow> outcome" where
  "failTargetUnresolvable K e cr cause =
     (let ref = spec_TargetRef (sv_Spec cr);
          msg = [L ''cannot resolve targetRef '', L (ref_APIVersion ref), L ''/'', L (ref_Kind ref), L '' '', L (ref_Name ref), L '': '']
                @ err_text cause;
          cr = add_diagnostic cr \<lparr>alert_Type = ''TargetUnsupported'', alert_Severity = SeverityCritical, alert_Message = msg,
                 alert_Recommendation = [L ''check spec.targetRef.apiVersion and .kind name a scalable workload that exists in this cluster, and that the manager ClusterRole grants read access to it and its scale subresource'']\<rparr>
      in andthen [Event Warning ''TargetUnresolvable'' msg, RunsTotal ''unknown'', AlertsTotal ''TargetUnsupported'' ''Critical'']
           (setTerminalPhase K e cr PhaseError ''TargetUnsupported'' msg))"

definition failTargetNotReady :: "k8s \<Rightarrow> env \<Rightarrow> ScaleValidation \<Rightarrow> int \<Rightarrow> duration \<Rightarrow> outcome" where
  "failTargetNotReady K e cr readyReplicas timeout =
     (let ref = spec_TargetRef (sv_Spec cr);
          tail = [L '' had '', D readyReplicas, L '' ready replicas after waiting '', Dur timeout];
          cr = add_diagnostic cr \<lparr>alert_Type = ''TargetNotReady'', alert_Severity = SeverityCritical,
                 alert_Message = [L ''target deployment '', L (sv_Namespace cr), L ''/'', L (ref_Name ref)] @ tail,
                 alert_Recommendation = [L ''ensure the target Deployment is healthy before applying the ScaleValidation'']\<rparr>
      in andthen [Event Warning ''TargetReadyTimeout'' ([L ''target Deployment '', L (sv_Namespace cr), L ''/'', L (ref_Name ref)] @ tail),
                  RunsTotal ''unknown'', AlertsTotal ''TargetNotReady'' ''Critical'']
           (setTerminalPhase K e cr PhaseError ''TargetNotReady''
              ([L ''target '', L (ref_Kind ref), L '' '', L (ref_Name ref)] @ tail)))"

definition failTLSCABundle :: "k8s \<Rightarrow> env \<Rightarrow> ScaleValidation \<Rightarrow> message \<Rightarrow> message \<Rightarrow> outcome" where
  "failTLSCABundle K e cr msg rec =
     (let cr = add_diagnostic cr \<lparr>alert_Type = ''TLSCABundleMissing'', alert_Severity = SeverityCritical,
                 alert_Message = msg, alert_Recommendation = rec\<rparr>
      in andthen [Event Warning ''TLSCABundleMissing'' msg, RunsTotal ''unknown'', AlertsTotal ''TLSCABundleMissing'' ''Critical'']
           (setTerminalPhase K e cr PhaseError ''TLSCABundleMissing'' msg))"

text \<open>\<^const>\<open>None\<close>: no bundle is configured or it is there; otherwise the reconcile call ends.\<close>

definition validateTLSCABundle :: "k8s \<Rightarrow> env \<Rightarrow> ScaleValidation \<Rightarrow> outcome option" where
  "validateTLSCABundle K e cr =
     (case caBundleRef cr of
        None \<Rightarrow> None
      | Some ref \<Rightarrow>
          (case e_configmap e of
             Inl err \<Rightarrow>
               Some (if IsNotFound err then
                       failTLSCABundle K e cr
                         [L ''CA bundle ConfigMap '', L (sv_Namespace cr), L ''/'', L (cm_Name ref), L '' not found'']
                         [L ''create the ConfigMap referenced by spec.target.tls.caBundle.configMapRef before applying the ScaleValidation'']
                     else ([], Inl (Wrap [L ''get CA bundle configmap''] err)))
           | Inr keys \<Rightarrow>
               if cm_Key ref \<notin> set keys then
                 Some (failTLSCABundle K e cr
                   [L ''CA bundle ConfigMap '', L (sv_Namespace cr), L ''/'', L (cm_Name ref), L '' missing key '', Q (cm_Key ref)]
                   [L ''set the configured key in the ConfigMap, or update spec.target.tls.caBundle.configMapRef.key''])
               else None))"

definition spawnJob :: "k8s \<Rightarrow> reconciler \<Rightarrow> env \<Rightarrow> ScaleValidation \<Rightarrow> outcome" where
  "spawnJob K R e cr =
     (case resolveTargetURL K e cr of
        Inl err \<Rightarrow>
          if is_unresolvable err then failTargetUnresolvable K e cr err
          else setTerminalPhase K e cr PhaseError ''TargetURLUnresolved'' (L ''could not resolve the target URL: '' # err_text err)
      | Inr url \<Rightarrow>
          (case validateTLSCABundle K e cr of
             Some out \<Rightarrow> out
           | None \<Rightarrow>
               (case buildLoadgenJob K R e cr url of
                  Inl err \<Rightarrow>
                    if is_unresolvable err then failTargetUnresolvable K e cr err
                    else setTerminalPhase K e cr PhaseError ''JobBuildFailed'' (L ''could not build the loadgen Job: '' # err_text err)
                | Inr job \<Rightarrow>
                    (case e_owner_err e of
                       Some err \<Rightarrow> ([], Inl (Wrap [L ''set owner reference''] err))
                     | None \<Rightarrow>
                         (case e_create_err e of
                            Some err \<Rightarrow> ([CreateJob job (Some err)], Inl (Wrap [L ''create loadgen job''] err))
                          | None \<Rightarrow>
                              andthen [CreateJob job None,
                                       Event Normal ''LoadgenJobCreated'' [L ''loadgen Job '', L (job_Name job), L '' created against '', L url]]
                                (setPhase e (cr\<lparr>sv_Status := (sv_Status cr)\<lparr>st_LastRunTime := Some (e_stamp e)\<rparr>\<rparr>) PhaseRunning))))))"

section \<open>Deletion\<close>

definition cr_finalize :: "k8s \<Rightarrow> env \<Rightarrow> ScaleValidation \<Rightarrow> outcome" where
  "cr_finalize K e cr =
     (if \<not> ContainsFinalizer K (sv_Finalizers cr) scaleValidationFinalizer then ([], Inr 0)
      else case e_job e of
        Inl err \<Rightarrow>
          if \<not> IsNotFound err then ([], Inl (Wrap [L ''get loadgen job during finalize''] err))
          else
            let fs = RemoveFinalizer K (sv_Finalizers cr) scaleValidationFinalizer in
            ([Update fs (e_update_err e)],
             case e_update_err e of Some err \<Rightarrow> Inl (Wrap [L ''remove finalizer''] err) | None \<Rightarrow> Inr 0)
      | Inr job \<Rightarrow>
          let (effs, res) =
                (if st_Phase (sv_Status cr) \<noteq> PhaseTerminating
                 then write_status e (cr\<lparr>sv_Status := (sv_Status cr)\<lparr>st_Phase := PhaseTerminating\<rparr>\<rparr>) [L ''set Terminating phase''] 0
                 else ([], Inr 0))
          in case res of
               Inl err \<Rightarrow> (effs, Inl err)
             | Inr d \<Rightarrow>
                 if jb_DeletionTimestamp job = None then
                   (case e_delete_job_err e of
                      Some err \<Rightarrow>
                        if \<not> IsNotFound err
                        then (effs @ [DeleteJob (jb_Name job) (Some err)], Inl (Wrap [L ''delete loadgen job''] err))
                        else (effs @ [DeleteJob (jb_Name job) (Some err),
                                Event Normal ''FinalizerDraining'' [L ''requested deletion of loadgen Job '', L (jb_Name job), L '' during CR finalize'']],
                              Inr childTerminationRequeue)
                    | None \<Rightarrow>
                        (effs @ [DeleteJob (jb_Name job) None,
                           Event Normal ''FinalizerDraining'' [L ''requested deletion of loadgen Job '', L (jb_Name job), L '' during CR finalize'']],
                         Inr childTerminationRequeue))
                 else (effs, Inr childTerminationRequeue))"

section \<open>Reconcile\<close>

definition jobConditionTrue :: "JobObject \<Rightarrow> string \<Rightarrow> bool" where
  "jobConditionTrue job t = list_ex (\<lambda>(ty, st). ty = t \<and> st = ''True'') (jb_Conditions job)"

definition targetReady :: "k8s \<Rightarrow> env \<Rightarrow> ScaleValidation \<Rightarrow> goerror + bool \<times> int" where
  "targetReady K e cr = targetPodsReady K e cr"

definition awaitTarget :: "k8s \<Rightarrow> reconciler \<Rightarrow> env \<Rightarrow> ScaleValidation \<Rightarrow> outcome" where
  "awaitTarget K R e cr =
     (case targetReady K e cr of
        Inl err \<Rightarrow> if is_unresolvable err then failTargetUnresolvable K e cr err else ([], Inl err)
      | Inr (ready, readyReplicas) \<Rightarrow>
          if \<not> ready then
            (let timeout = (if r_targetReadyTimeout R = 0 then targetReadyWaitTimeout else r_targetReadyTimeout R) in
             if time_Sub (e_wall e) (sv_CreationTimestamp cr) > timeout
             then failTargetNotReady K e cr readyReplicas timeout
             else ([], Inr targetReadyPollInterval))
          else spawnJob K R e cr)"

definition reconcileActive :: "k8s \<Rightarrow> reconciler \<Rightarrow> env \<Rightarrow> ScaleValidation \<Rightarrow> outcome" where
  "reconcileActive K R e cr =
     (case e_job e of
        Inl err \<Rightarrow>
          if IsNotFound err then
            (if st_Phase (sv_Status cr) = PhaseRunning then
               (let msg = [L ''loadgen Job '', L (loadgenJobName cr), L '' disappeared while phase=Running''] in
                andthen [Event Warning ''LoadgenJobVanished'' msg]
                  (setTerminalPhase K e cr PhaseError ''LoadgenJobVanished'' msg))
             else awaitTarget K R e cr)
          else ([], Inl (Wrap [L ''get loadgen job''] err))
      | Inr job \<Rightarrow>
          if jobConditionTrue job ''Failed'' then
            (let msg = [L ''loadgen Job '', L (jb_Name job), L '' reached condition Failed=True''] in
             andthen [Event Warning ''LoadgenJobFailed'' msg, RunsTotal ''unknown'']
               (setTerminalPhase K e cr PhaseError ''LoadgenJobFailed'' msg))
          else if jobConditionTrue job ''Complete'' then finishRun K e cr
          else maybeInjectDisruption K e cr)"

definition reconcilePhase :: "k8s \<Rightarrow> reconciler \<Rightarrow> env \<Rightarrow> ScaleValidation \<Rightarrow> outcome" where
  "reconcilePhase K R e cr =
     (if terminal_phase (st_Phase (sv_Status cr)) then reconcileTerminal K e cr
      else if st_Phase (sv_Status cr) = PhaseNone then
        (case parseSchedule K cr of
           Inl err \<Rightarrow> failScheduleInvalid K e cr err
         | Inr s \<Rightarrow> setPhase e cr PhasePending)
      else reconcileActive K R e cr)"

definition reconcile_cr :: "k8s \<Rightarrow> reconciler \<Rightarrow> env \<Rightarrow> ScaleValidation \<Rightarrow> outcome" where
  "reconcile_cr K R e cr =
     (if sv_DeletionTimestamp cr \<noteq> None then cr_finalize K e cr
      else if ContainsFinalizer K (sv_Finalizers cr) scaleValidationFinalizer then reconcilePhase K R e cr
      else
        let fs = AddFinalizer K (sv_Finalizers cr) scaleValidationFinalizer in
        case e_update_err e of
          Some err \<Rightarrow> ([Update fs (Some err)], Inl (Wrap [L ''add finalizer''] err))
        | None \<Rightarrow> andthen [Update fs None] (reconcilePhase K R e (cr\<lparr>sv_Finalizers := fs\<rparr>)))"

definition Reconcile :: "k8s \<Rightarrow> reconciler \<Rightarrow> env \<Rightarrow> goerror + ScaleValidation \<Rightarrow> outcome" where
  "Reconcile K R e got =
     (case got of
        Inl err \<Rightarrow> ([], if IsNotFound err then Inr 0 else Inl err)
      | Inr cr \<Rightarrow> reconcile_cr K R e cr)"

end
