(* ===== verification/Handlers.thy ===== *)
theory Handlers
  imports Reconciler
begin

text \<open>
  The contract the handlers of the reconciler share, as the locale \<open>handler\<close>: at most one write
  of the status in a call, a failed write is returned as an error, and every status written keeps
  the status invariant. What follows from the contract for the stored object is proved once in the
  locale; the interpretations discharge it for each handler of \<^verbatim>\<open>Reconcile\<close>.
\<close>

section \<open>What a call wrote\<close>

definition status_writes :: "effect list \<Rightarrow> (ScaleValidationStatus \<times> goerror option) list" where
  "status_writes es = concat (map (\<lambda>x. case x of StatusUpdate st err \<Rightarrow> [(st, err)] | _ \<Rightarrow> []) es)"

lemma status_writes_simps [simp]:
  "status_writes [] = []"
  "status_writes (StatusUpdate st err # es) = (st, err) # status_writes es"
  "status_writes (Update fs err # es) = status_writes es"
  "status_writes (CreateJob j err # es) = status_writes es"
  "status_writes (DeleteJob n err # es) = status_writes es"
  "status_writes (DeletePod n err # es) = status_writes es"
  "status_writes (Event t r m # es) = status_writes es"
  "status_writes (RunsTotal v # es) = status_writes es"
  "status_writes (RunDuration d # es) = status_writes es"
  "status_writes (HPAReact d # es) = status_writes es"
  "status_writes (AlertsTotal t v # es) = status_writes es"
  "status_writes (es @ es') = status_writes es @ status_writes es'"
  by (simp_all add: status_writes_def)

lemma status_writes_mem: "(st, err) \<in> set (status_writes es) \<longleftrightarrow> StatusUpdate st err \<in> set es"
  by (auto simp: status_writes_def split: effect.splits)

text \<open>What a call leaves in the API server: successful writes replace the stored status and the
  finalizers.\<close>

fun apply_effect :: "effect \<Rightarrow> ScaleValidation \<Rightarrow> ScaleValidation" where
  "apply_effect (Update fs None) cr = cr\<lparr>sv_Finalizers := fs\<rparr>"
| "apply_effect (StatusUpdate st None) cr = cr\<lparr>sv_Status := st\<rparr>"
| "apply_effect _ cr = cr"

definition apply_effects :: "effect list \<Rightarrow> ScaleValidation \<Rightarrow> ScaleValidation" where
  "apply_effects es cr = fold apply_effect es cr"

lemma apply_effects_simps [simp]:
  "apply_effects [] cr = cr"
  "apply_effects (x # es) cr = apply_effects es (apply_effect x cr)"
  "apply_effects (es @ es') cr = apply_effects es' (apply_effects es cr)"
  by (simp_all add: apply_effects_def)

lemma apply_effect_frame [simp]:
  "sv_Spec (apply_effect x cr) = sv_Spec cr" "sv_Generation (apply_effect x cr) = sv_Generation cr"
  "sv_Name (apply_effect x cr) = sv_Name cr" "sv_Namespace (apply_effect x cr) = sv_Namespace cr"
  "sv_DeletionTimestamp (apply_effect x cr) = sv_DeletionTimestamp cr"
  "sv_CreationTimestamp (apply_effect x cr) = sv_CreationTimestamp cr"
  by (induction x cr rule: apply_effect.induct) simp_all

lemma apply_effects_frame [simp]:
  "sv_Spec (apply_effects es cr) = sv_Spec cr" "sv_Generation (apply_effects es cr) = sv_Generation cr"
  "sv_Name (apply_effects es cr) = sv_Name cr" "sv_Namespace (apply_effects es cr) = sv_Namespace cr"
  "sv_DeletionTimestamp (apply_effects es cr) = sv_DeletionTimestamp cr"
  "sv_CreationTimestamp (apply_effects es cr) = sv_CreationTimestamp cr"
  by (induction es arbitrary: cr) simp_all

lemma apply_effect_status: "sv_Status (apply_effect x cr) = sv_Status cr \<or> x = StatusUpdate (sv_Status (apply_effect x cr)) None"
  by (induction x cr rule: apply_effect.induct) simp_all

lemma apply_effects_status:
  "sv_Status (apply_effects es cr) = sv_Status cr
   \<or> (sv_Status (apply_effects es cr), None) \<in> set (status_writes es)"
proof (induction es arbitrary: cr)
  case (Cons x es)
  show ?case
    using Cons[of "apply_effect x cr"] apply_effect_status[of x cr] by (auto simp: status_writes_mem)
qed simp

section \<open>The status invariant\<close>

definition condition_true :: "k8s \<Rightarrow> ScaleValidationStatus \<Rightarrow> string \<Rightarrow> bool" where
  "condition_true K st t =
     (case FindStatusCondition K (st_Conditions st) t of None \<Rightarrow> False | Some c \<Rightarrow> cond_Status c = ''True'')"

text \<open>Which facts about a status hold in each phase: the \<^verbatim>\<open>Finished\<close> condition agrees with
  the phase, the verdicts agree with Succeeded and Failed, a run in progress has no next run
  time and, before its Job exists, no disruption; a running one knows when it started.\<close>

definition phase_inv :: "k8s \<Rightarrow> ScaleValidationStatus \<Rightarrow> bool" where
  "phase_inv K st \<longleftrightarrow>
     (terminal_phase (st_Phase st) \<longrightarrow> condition_true K st ConditionFinished \<and> st_ObservedGeneration st \<noteq> 0)
     \<and> (st_Phase st \<in> {PhaseNone, PhasePending, PhaseRunning} \<longrightarrow>
          \<not> condition_true K st ConditionFinished \<and> st_NextRunTime st = None)
     \<and> (st_Phase st \<in> {PhaseNone, PhasePending} \<longrightarrow>
          FindStatusCondition K (st_Conditions st) ConditionDisruptionInjected = None)
     \<and> (st_Phase st = PhaseRunning \<longrightarrow> st_LastRunTime st \<noteq> None)
     \<and> (st_Phase st = PhaseSucceeded \<longrightarrow> st_SLAStatus st \<noteq> VerdictFail \<and> st_TrafficIntegrity st \<noteq> VerdictFail)
     \<and> (st_Phase st = PhaseFailed \<longrightarrow> st_SLAStatus st = VerdictFail \<or> st_TrafficIntegrity st = VerdictFail)"

definition basis_points_ok :: "int \<Rightarrow> bool" where
  "basis_points_ok bp \<longleftrightarrow> 0 \<le> bp \<and> bp \<le> MaxInt32"

definition history_inv :: "ScaleValidationStatus \<Rightarrow> bool" where
  "history_inv st \<longleftrightarrow> length (st_History st) \<le> RunHistoryLimit
     \<and> list_all (\<lambda>r. run_Phase r \<in> {PhaseSucceeded, PhaseFailed}
          \<and> (run_Phase r = PhaseFailed \<longleftrightarrow> run_SLAStatus r = VerdictFail \<or> run_TrafficIntegrity r = VerdictFail)
          \<and> basis_points_ok (run_FailureRateBasisPoints r)) (st_History st)
     \<and> basis_points_ok (st_FailureRateBasisPoints st)"

definition status_inv :: "k8s \<Rightarrow> ScaleValidationStatus \<Rightarrow> bool" where
  "status_inv K st \<longleftrightarrow> phase_inv K st \<and> history_inv st"

text \<open>How one write may change the status: the phase follows an edge of the lifecycle, the record of
  a disruption stays until the run is reset, the start time changes only when a run starts, and
  the history only grows at its head.\<close>

definition phase_edge :: "Phase \<Rightarrow> Phase \<Rightarrow> bool" where
  "phase_edge p q \<longleftrightarrow> q = PhaseTerminating \<or>
     (case p of
        PhaseNone \<Rightarrow> q \<in> {PhasePending, PhaseError}
      | PhasePending \<Rightarrow> q \<in> {PhaseRunning, PhaseSucceeded, PhaseFailed, PhaseError}
      | PhaseRunning \<Rightarrow> q \<in> {PhaseRunning, PhaseSucceeded, PhaseFailed, PhaseError}
      | PhaseSucceeded \<Rightarrow> q \<in> {PhaseSucceeded, PhasePending, PhaseError}
      | PhaseFailed \<Rightarrow> q \<in> {PhaseFailed, PhasePending, PhaseError}
      | PhaseError \<Rightarrow> q \<in> {PhaseError, PhasePending}
      | PhaseTerminating \<Rightarrow> False)"

definition disrupted :: "k8s \<Rightarrow> ScaleValidationStatus \<Rightarrow> bool" where
  "disrupted K st \<longleftrightarrow> FindStatusCondition K (st_Conditions st) ConditionDisruptionInjected \<noteq> None"

definition status_step :: "k8s \<Rightarrow> ScaleValidationStatus \<Rightarrow> ScaleValidationStatus \<Rightarrow> bool" where
  "status_step K st st' \<longleftrightarrow> status_inv K st' \<and> phase_edge (st_Phase st) (st_Phase st')
     \<and> (disrupted K st \<longrightarrow> disrupted K st' \<or> st_Phase st' = PhasePending)
     \<and> (st_LastRunTime st' = st_LastRunTime st \<or> st_Phase st = PhasePending \<and> st_Phase st' = PhaseRunning)
     \<and> (st_History st' = st_History st
        \<or> (\<exists>r. st_History st' = take RunHistoryLimit (r # st_History st) \<and> run_Phase r = st_Phase st'))"

text \<open>And the phase Terminating is only written to an object that is being deleted.\<close>

definition cr_step :: "k8s \<Rightarrow> ScaleValidation \<Rightarrow> ScaleValidationStatus \<Rightarrow> bool" where
  "cr_step K cr st \<longleftrightarrow> status_step K (sv_Status cr) st
     \<and> (st_Phase st = PhaseTerminating \<longrightarrow> sv_DeletionTimestamp cr \<noteq> None)"

lemma written_is_stored:
  assumes one: "length (status_writes es) \<le> 1" and wr: "(st, None) \<in> set (status_writes es)"
  shows "sv_Status (apply_effects es cr) = st"
proof -
  obtain xs ys where split: "es = xs @ StatusUpdate st None # ys"
    using wr by (auto simp: status_writes_mem dest: split_list)
  have "status_writes ys = []" using one split by simp
  then have "sv_Status (apply_effects ys (apply_effect (StatusUpdate st None) (apply_effects xs cr))) = st"
    using apply_effects_status[of ys "apply_effect (StatusUpdate st None) (apply_effects xs cr)"] by auto
  then show ?thesis by (simp add: split)
qed

section \<open>The handler contract\<close>

locale handler =
  fixes h :: "k8s \<Rightarrow> reconciler \<Rightarrow> env \<Rightarrow> ScaleValidation \<Rightarrow> outcome"
    and pre :: "ScaleValidation \<Rightarrow> bool"
  assumes single_write: "length (status_writes (fst (h K R e cr))) \<le> 1"
    and failed_write: "(st, Some cause) \<in> set (status_writes (fst (h K R e cr))) \<Longrightarrow> isl (snd (h K R e cr))"
    and steps: "\<lbrakk>k8s_laws K; pre cr; status_inv K (sv_Status cr); 0 < sv_Generation cr;
                     (st, err) \<in> set (status_writes (fst (h K R e cr)))\<rbrakk> \<Longrightarrow> cr_step K cr st"
begin

lemma stored_inv:
  assumes "k8s_laws K" "pre cr" "status_inv K (sv_Status cr)" "0 < sv_Generation cr"
  shows "status_inv K (sv_Status (apply_effects (fst (h K R e cr)) cr))"
  using apply_effects_status[of "fst (h K R e cr)" cr] steps[OF assms] assms(3) by (auto simp: cr_step_def status_step_def)

text \<open>A call that reports success has written what it meant to.\<close>

lemma success_is_stored:
  assumes ok: "snd (h K R e cr) = Inr d" and wr: "(st, err) \<in> set (status_writes (fst (h K R e cr)))"
  shows "sv_Status (apply_effects (fst (h K R e cr)) cr) = st"
proof (cases err)
  case None
  then show ?thesis using written_is_stored[OF single_write] wr by simp
next
  case (Some x)
  then show ?thesis using failed_write[of st x K R e cr] wr ok by auto
qed

end

section \<open>Discharging the contract\<close>

text \<open>The three laws as one predicate on outcomes, with a rule for every way a handler ends.\<close>

definition contract :: "(ScaleValidationStatus \<Rightarrow> bool) \<Rightarrow> outcome \<Rightarrow> bool" where
  "contract P out \<longleftrightarrow> length (status_writes (fst out)) \<le> 1
     \<and> (\<forall>(st, err) \<in> set (status_writes (fst out)). P st \<and> (err \<noteq> None \<longrightarrow> isl (snd out)))"

lemma contract_quiet [simp]: "contract P ([], r)"
  by (simp add: contract_def)

lemma contract_no_status:
  "status_writes es = [] \<Longrightarrow> contract P (es, r)"
  by (simp add: contract_def)

lemma contract_andthen: "status_writes es = [] \<Longrightarrow> contract P out \<Longrightarrow> contract P (andthen es out)"
  by (simp add: contract_def andthen_def)

lemma contract_write_status: "P (sv_Status cr) \<Longrightarrow> contract P (write_status e cr msg d)"
  by (simp add: contract_def write_status_def split: option.splits)

lemma contract_setPhase: "P ((sv_Status cr)\<lparr>st_Phase := p\<rparr>) \<Longrightarrow> contract P (setPhase e cr p)"
  by (simp add: setPhase_def contract_write_status)

lemmas contract_rules = contract_quiet contract_no_status contract_andthen contract_write_status contract_setPhase

text \<open>The hypotheses of the last law as one predicate on the object a handler gets.\<close>

definition inv_pre :: "(Phase \<Rightarrow> bool) \<Rightarrow> k8s \<Rightarrow> ScaleValidation \<Rightarrow> bool" where
  "inv_pre pre K cr \<longleftrightarrow> k8s_laws K \<and> pre (st_Phase (sv_Status cr)) \<and> status_inv K (sv_Status cr) \<and> 0 < sv_Generation cr"

lemma handlerI:
  assumes "\<And>K R e cr. contract (\<lambda>st. k8s_laws K \<and> pre cr \<and> status_inv K (sv_Status cr) \<and> 0 < sv_Generation cr
             \<longrightarrow> cr_step K cr st) (h K R e cr)"
  shows "handler h pre"
proof
  fix K R e cr st cause
  show "length (status_writes (fst (h K R e cr))) \<le> 1" using assms by (simp add: contract_def)
  show "(st, Some cause) \<in> set (status_writes (fst (h K R e cr))) \<Longrightarrow> isl (snd (h K R e cr))"
    using assms[of K cr R e] by (auto simp: contract_def)
next
  fix K cr st err R e
  assume "k8s_laws K" "pre cr" "status_inv K (sv_Status cr)" "0 < sv_Generation cr"
    and "(st, err) \<in> set (status_writes (fst (h K R e cr)))"
  then show "cr_step K cr st" using assms[of K cr R e] by (auto simp: contract_def)
qed

subsection \<open>Statuses the handlers write\<close>

definition live_phase :: "Phase \<Rightarrow> bool" where
  "live_phase p \<longleftrightarrow> p \<noteq> PhaseTerminating"

definition before_run :: "Phase \<Rightarrow> bool" where
  "before_run p \<longleftrightarrow> p = PhasePending"

definition in_progress :: "Phase \<Rightarrow> bool" where
  "in_progress p \<longleftrightarrow> p = PhasePending \<or> p = PhaseRunning"

lemma phase_live [simp]: "before_run p \<Longrightarrow> live_phase p" "in_progress p \<Longrightarrow> live_phase p" "terminal_phase p \<Longrightarrow> live_phase p"
  by (auto simp: before_run_def in_progress_def live_phase_def)

lemma phase_edge_Error: "live_phase p \<Longrightarrow> phase_edge p PhaseError"
  by (cases p) (simp_all add: phase_edge_def live_phase_def)

lemma inv_preD:
  assumes "inv_pre pre K cr"
  shows "k8s_laws K" "pre (st_Phase (sv_Status cr))" "status_inv K (sv_Status cr)" "0 < sv_Generation cr"
    "history_inv (sv_Status cr)" "phase_inv K (sv_Status cr)"
  using assms by (simp_all add: inv_pre_def status_inv_def)

lemma error_status_step:
  assumes pre: "inv_pre pre K cr" and live: "live_phase (st_Phase (sv_Status cr))"
    and frame: "sv_Status cr' = (sv_Status cr)\<lparr>st_Diagnostics := ds\<rparr>" "sv_Generation cr' = sv_Generation cr"
  shows "cr_step K cr ((sv_Status (markFinished K cr' reason msg))\<lparr>st_Phase := PhaseError\<rparr>)"
  using inv_preD[OF pre] frame phase_edge_Error[OF live]
  by (simp add: cr_step_def status_step_def status_inv_def phase_inv_def history_inv_def markFinished_def condition_true_def
      disrupted_def k8s_lawsD[OF inv_preD(1)[OF pre]])

lemma failureRateBasisPoints_ok: "basis_points_ok (failureRateBasisPoints rate)"
proof (cases "rate \<le> 0")
  case False
  have "0 \<le> fl_mul rate (of_int FailureRateScale)"
    using False by (simp add: fl_mul_def fl64_nonneg FailureRateScale_def)
  then show ?thesis
    using False math_Round_nonneg by (simp add: failureRateBasisPoints_def basis_points_ok_def Let_def MaxInt32_def)
qed (simp add: failureRateBasisPoints_def basis_points_ok_def MaxInt32_def)

text \<open>The fields of the status of a finished run, and its history entry.\<close>

abbreviation report_failed :: "ObsReport \<Rightarrow> bool" where
  "report_failed report \<equiv> rep_SLAStatus report = VerdictFail \<or> rep_TrafficIntegrity report = VerdictFail"

definition run_entry :: "env \<Rightarrow> ObsReport \<Rightarrow> RunSummary" where
  "run_entry e report = \<lparr>run_FinishedAt = e_stamp e, run_Phase = (if report_failed report then PhaseFailed else PhaseSucceeded),
     run_SLAStatus = rep_SLAStatus report, run_TrafficIntegrity = rep_TrafficIntegrity report,
     run_FailureRateBasisPoints = failureRateBasisPoints (rep_FailureRate report)\<rparr>"

lemma finished_cr_fields:
  "st_Phase (sv_Status (finished_cr K e cr report)) = (if report_failed report then PhaseFailed else PhaseSucceeded)"
  "st_SLAStatus (sv_Status (finished_cr K e cr report)) = rep_SLAStatus report"
  "st_TrafficIntegrity (sv_Status (finished_cr K e cr report)) = rep_TrafficIntegrity report"
  "st_ObservedGeneration (sv_Status (finished_cr K e cr report)) = sv_Generation cr"
  "st_LastRunTime (sv_Status (finished_cr K e cr report)) = st_LastRunTime (sv_Status cr)"
  "st_FailureRateBasisPoints (sv_Status (finished_cr K e cr report)) = failureRateBasisPoints (rep_FailureRate report)"
  "st_History (sv_Status (finished_cr K e cr report)) = take RunHistoryLimit (run_entry e report # st_History (sv_Status cr))"
  by (simp_all add: finished_cr_def finishedVerdict_def markFinished_def applyReport_def appendRunHistory_def run_entry_def Let_def)

lemma finished_cr_counts:
  "st_TotalRequests (sv_Status (finished_cr K e cr report)) = int (rep_TotalRequests report)"
  "st_FailedRequests (sv_Status (finished_cr K e cr report)) = int (rep_FailedRequests report)"
  by (simp_all add: finished_cr_def finishedVerdict_def markFinished_def applyReport_def appendRunHistory_def Let_def)

lemma finished_cr_conditions:
  assumes "k8s_laws K"
  shows "condition_true K (sv_Status (finished_cr K e cr report)) ConditionFinished"
    "disrupted K (sv_Status (finished_cr K e cr report)) = disrupted K (sv_Status cr)"
  by (simp_all add: finished_cr_def finishedVerdict_def markFinished_def applyReport_def appendRunHistory_def Let_def
      condition_true_def disrupted_def k8s_lawsD[OF assms])

lemma finished_history_inv:
  assumes "history_inv (sv_Status cr)"
  shows "history_inv (sv_Status (finished_cr K e cr report))"
  using assms
  by (auto simp: history_inv_def finished_cr_fields list_all_iff failureRateBasisPoints_ok run_entry_def dest!: in_set_takeD)

lemma finished_status_step:
  assumes pre: "inv_pre in_progress K cr"
  shows "cr_step K cr (sv_Status (finished_cr K e cr report))"
proof -
  have "phase_edge (st_Phase (sv_Status cr)) (st_Phase (sv_Status (finished_cr K e cr report)))"
    using inv_preD(2)[OF pre] by (auto simp: phase_edge_def in_progress_def finished_cr_fields)
  moreover have "phase_inv K (sv_Status (finished_cr K e cr report))"
    using inv_preD(4)[OF pre] finished_cr_conditions(1)[OF inv_preD(1)[OF pre], of e cr report]
    by (simp add: phase_inv_def finished_cr_fields)
  moreover have "run_Phase (run_entry e report) = st_Phase (sv_Status (finished_cr K e cr report))"
    by (simp add: run_entry_def finished_cr_fields)
  ultimately show ?thesis
    using finished_cr_conditions(2)[OF inv_preD(1)[OF pre], of e cr report] finished_history_inv[OF inv_preD(5)[OF pre]]
    finished_cr_fields(1)[of K e cr report]
    unfolding cr_step_def status_step_def status_inv_def finished_cr_fields(5,7) by (auto split: if_splits)
qed

text \<open>Every error path of the reconciler ends in \<^verbatim>\<open>setTerminalPhase\<close> with the Error phase,
  maybe after a diagnostic and an event.\<close>

abbreviation (input) keeps :: "(Phase \<Rightarrow> bool) \<Rightarrow> k8s \<Rightarrow> ScaleValidation \<Rightarrow> ScaleValidationStatus \<Rightarrow> bool" where
  "keeps pre K cr \<equiv> \<lambda>st. inv_pre pre K cr \<longrightarrow> cr_step K cr st"

lemma contract_fail:
  assumes "\<And>p. pre p \<Longrightarrow> live_phase p" "sv_Status cr' = (sv_Status cr)\<lparr>st_Diagnostics := ds\<rparr>" "sv_Generation cr' = sv_Generation cr"
  shows "contract (keeps pre K cr) (setTerminalPhase K e cr' PhaseError reason msg)"
  unfolding setTerminalPhase_def
  by (rule contract_setPhase) (use assms error_status_step inv_preD(2) in blast)

lemma contract_fail0:
  assumes "\<And>p. pre p \<Longrightarrow> live_phase p"
  shows "contract (keeps pre K cr) (setTerminalPhase K e cr PhaseError reason msg)"
  by (rule contract_fail[OF assms, where ds = "st_Diagnostics (sv_Status cr)"]) simp_all

lemma contract_fails:
  assumes "\<And>p. pre p \<Longrightarrow> live_phase p" "sv_Status cr' = (sv_Status cr)\<lparr>st_Diagnostics := ds\<rparr>" "sv_Generation cr' = sv_Generation cr"
  shows "contract (keeps pre K cr) (failScheduleInvalid K e cr' err)"
    "contract (keeps pre K cr) (failTargetUnresolvable K e cr' err)"
    "contract (keeps pre K cr) (failTargetNotReady K e cr' n d)"
    "contract (keeps pre K cr) (failTLSCABundle K e cr' msg rec)"
  unfolding failScheduleInvalid_def failTargetUnresolvable_def failTargetNotReady_def failTLSCABundle_def Let_def
  by (rule contract_andthen, simp, rule contract_fail[OF assms(1)], assumption, simp add: add_diagnostic_def assms,
      simp add: add_diagnostic_def assms)+

lemmas contract_fails0 = contract_fails[where cr' = cr and cr = cr and ds = "st_Diagnostics (sv_Status cr)" for cr, simplified]

section \<open>The handlers\<close>

lemma contract_finishRun: "contract (keeps in_progress K cr) (finishRun K e cr)"
proof -
  have fin: "contract (keeps in_progress K cr)
      ((case write_status e (finished_cr K e cr report) msg 0 of (effs, res) \<Rightarrow>
         case res of Inl err \<Rightarrow> (effs, Inl err)
         | Inr d \<Rightarrow> (effs @ recordRunMetrics e (finished_cr K e cr report) report @ [emitVerdictEvent (finished_cr K e cr report) report], Inr 0)))"
    for report msg
    by (auto simp: contract_def write_status_def recordRunMetrics_def emitVerdictEvent_def status_writes_def
        split: option.splits intro: finished_status_step)
  have unreadable: "contract (keeps in_progress K cr) (andthen [Event t r m] (setTerminalPhase K e cr PhaseError reason msg))"
    for t r m reason msg
    by (intro contract_andthen contract_fail0) simp_all
  show ?thesis
    unfolding finishRun_def Let_def
    by (auto split: sum.splits option.splits simp: fin unreadable)
qed

text \<open>A run starts only from a phase in which nothing has been disrupted yet.\<close>

lemma running_status_step:
  assumes "inv_pre before_run K cr"
  shows "cr_step K cr ((sv_Status cr)\<lparr>st_LastRunTime := Some t, st_Phase := PhaseRunning\<rparr>)"
  using inv_preD[OF assms]
  by (auto simp: before_run_def cr_step_def status_step_def phase_edge_def disrupted_def status_inv_def phase_inv_def history_inv_def
      condition_true_def)

lemma contract_spawnJob: "contract (keeps before_run K cr) (spawnJob K R e cr)"
proof -
  have tls: "contract (keeps before_run K cr) out" if "validateTLSCABundle K e cr = Some out" for out
    using that by (auto simp: validateTLSCABundle_def contract_fails0 split: option.splits sum.splits if_splits)
  show ?thesis
    unfolding spawnJob_def
    by (auto split: sum.splits option.splits
        simp: tls contract_fails0 contract_fail0 contract_no_status running_status_step
        intro!: contract_andthen contract_setPhase)
qed

lemma contract_awaitTarget: "contract (keeps before_run K cr) (awaitTarget K R e cr)"
  unfolding awaitTarget_def Let_def
  by (auto split: sum.splits simp: contract_fails0 contract_spawnJob)

lemma contract_maybeInjectDisruption: "contract (keeps live_phase K cr) (maybeInjectDisruption K e cr)"
proof (cases "st_Phase (sv_Status cr) = PhaseRunning")
  case True
  have rec: "contract (keeps live_phase K cr) (recordDisruption K e cr s r m)" for s r m
    unfolding recordDisruption_def Let_def
  proof (rule contract_write_status, rule impI)
    assume pre: "inv_pre live_phase K cr"
    show "cr_step K cr (sv_Status (cr\<lparr>sv_Status := (sv_Status cr)\<lparr>st_Conditions :=
            SetStatusCondition K (st_Conditions (sv_Status cr))
              \<lparr>cond_Type = ConditionDisruptionInjected, cond_Status = s, cond_ObservedGeneration = sv_Generation cr,
               cond_Reason = r, cond_Message = m\<rparr>\<rparr>\<rparr>))"
      using True inv_preD[OF pre]
      by (simp add: cr_step_def status_step_def phase_edge_def disrupted_def status_inv_def phase_inv_def history_inv_def
          condition_true_def k8s_lawsD[OF inv_preD(1)[OF pre]])
  qed
  show ?thesis
    unfolding maybeInjectDisruption_def Let_def
    by (auto split: sum.splits option.splits simp: rec contract_no_status intro!: contract_andthen)
qed (simp add: maybeInjectDisruption_def split: option.split)

lemma contract_startNextRun: "contract (keeps terminal_phase K cr) (startNextRun K e cr)"
proof -
  have "cr_step K cr ((sv_Status (resetForNextRun K cr))\<lparr>st_Phase := PhasePending\<rparr>)" if "inv_pre terminal_phase K cr"
    using inv_preD[OF that]
    by (auto simp: resetForNextRun_def Let_def cr_step_def status_step_def phase_edge_def disrupted_def status_inv_def phase_inv_def
        history_inv_def condition_true_def basis_points_ok_def MaxInt32_def terminal_phase_def
        k8s_lawsD[OF inv_preD(1)[OF that]])
  then show ?thesis
    unfolding startNextRun_def
    by (auto split: sum.splits option.splits simp: contract_no_status intro!: contract_andthen contract_setPhase)
qed

lemma terminal_frame:
  assumes "inv_pre terminal_phase K cr" "g \<noteq> 0"
  shows "cr_step K cr ((sv_Status cr)\<lparr>st_NextRunTime := t, st_ObservedGeneration := g\<rparr>)"
    "cr_step K cr ((sv_Status cr)\<lparr>st_NextRunTime := t\<rparr>)"
    "cr_step K cr ((sv_Status cr)\<lparr>st_ObservedGeneration := g\<rparr>)"
  using inv_preD[OF assms(1)] assms(2)
  by (auto simp: cr_step_def status_step_def phase_edge_def disrupted_def status_inv_def phase_inv_def history_inv_def condition_true_def
      terminal_phase_def)

lemma contract_reconcileTerminal: "contract (keeps terminal_phase K cr) (reconcileTerminal K e cr)"
proof -
  have frame: "contract (keeps terminal_phase K cr) (write_status e (cr\<lparr>sv_Status := (sv_Status cr)\<lparr>st_NextRunTime := t, st_ObservedGeneration := sv_Generation cr\<rparr>\<rparr>) m d)"
      "contract (keeps terminal_phase K cr) (write_status e (cr\<lparr>sv_Status := (sv_Status cr)\<lparr>st_NextRunTime := t\<rparr>\<rparr>) m d)"
      "contract (keeps terminal_phase K cr) (write_status e (cr\<lparr>sv_Status := (sv_Status cr)\<lparr>st_ObservedGeneration := sv_Generation cr\<rparr>\<rparr>) m d)"
    for t m d
    by (rule contract_write_status, use terminal_frame[of K cr "sv_Generation cr"] in \<open>auto simp: inv_pre_def\<close>)+
  have bad: "contract (keeps terminal_phase K cr)
      (failScheduleInvalid K e (cr\<lparr>sv_Status := (sv_Status cr)\<lparr>st_Diagnostics := []\<rparr>\<rparr>) err)" for err
    by (rule contract_fails) simp_all
  show ?thesis
    unfolding reconcileTerminal_def parkSuspended_def restartForSpecChange_def Let_def
    by (auto split: sum.splits option.splits simp: frame bad contract_startNextRun intro!: contract_andthen)
qed

lemma contract_weaken: "contract P out \<Longrightarrow> (\<And>st. P st \<Longrightarrow> P' st) \<Longrightarrow> contract P' out"
  by (auto simp: contract_def)

lemma contract_pre:
  assumes "contract (keeps p K cr) out" and "q (st_Phase (sv_Status cr)) \<Longrightarrow> p (st_Phase (sv_Status cr))"
  shows "contract (keeps q K cr) out"
  by (rule contract_weaken[OF assms(1)]) (use assms(2) in \<open>auto simp: inv_pre_def\<close>)

lemma contract_cr_finalize:
  "contract (\<lambda>st. sv_DeletionTimestamp cr \<noteq> None \<and> inv_pre (\<lambda>p. True) K cr \<longrightarrow> cr_step K cr st) (cr_finalize K e cr)"
proof -
  have "cr_step K cr ((sv_Status cr)\<lparr>st_Phase := PhaseTerminating\<rparr>)"
    if "inv_pre (\<lambda>p. True) K cr" "sv_DeletionTimestamp cr \<noteq> None"
    using inv_preD[OF that(1)] that(2) by (simp add: cr_step_def status_step_def phase_edge_def disrupted_def status_inv_def phase_inv_def history_inv_def)
  then show ?thesis
    by (auto simp: cr_finalize_def contract_def write_status_def Let_def split: sum.splits option.splits)
qed

lemma contract_reconcileActive: "contract (keeps in_progress K cr) (reconcileActive K R e cr)"
proof -
  have await: "contract (keeps in_progress K cr) (awaitTarget K R e cr)" if "st_Phase (sv_Status cr) \<noteq> PhaseRunning"
    by (rule contract_pre[OF contract_awaitTarget]) (use that in \<open>auto simp: before_run_def in_progress_def\<close>)
  have dis: "contract (keeps in_progress K cr) (maybeInjectDisruption K e cr)"
    by (rule contract_pre[OF contract_maybeInjectDisruption]) simp
  have bad: "contract (keeps in_progress K cr) (andthen es (setTerminalPhase K e cr PhaseError reason msg))"
    if "status_writes es = []" for es reason msg
    by (intro contract_andthen contract_fail0 that) simp
  show ?thesis
    unfolding reconcileActive_def Let_def
    by (auto split: sum.splits simp: await dis bad contract_finishRun)
qed

lemma contract_reconcilePhase: "contract (keeps live_phase K cr) (reconcilePhase K R e cr)"
proof -
  have done_phase: "contract (keeps live_phase K cr) (reconcileTerminal K e cr)" if "terminal_phase (st_Phase (sv_Status cr))"
    by (rule contract_pre[OF contract_reconcileTerminal]) (use that in simp)
  have act: "contract (keeps live_phase K cr) (reconcileActive K R e cr)"
    if "\<not> terminal_phase (st_Phase (sv_Status cr))" "st_Phase (sv_Status cr) \<noteq> PhaseNone"
    by (rule contract_pre[OF contract_reconcileActive])
      (use that in \<open>cases "st_Phase (sv_Status cr)"; simp add: in_progress_def live_phase_def\<close>)
  have pend: "contract (keeps live_phase K cr) (setPhase e cr PhasePending)" if "st_Phase (sv_Status cr) = PhaseNone"
    by (rule contract_setPhase)
      (use that in \<open>auto simp: inv_pre_def cr_step_def status_step_def phase_edge_def disrupted_def status_inv_def phase_inv_def
         history_inv_def condition_true_def\<close>)
  show ?thesis
    unfolding reconcilePhase_def
    by (auto split: sum.splits simp: done_phase act pend contract_fails0)
qed

interpretation terminal: handler "\<lambda>K R. reconcileTerminal K" "\<lambda>cr. terminal_phase (st_Phase (sv_Status cr))"
  by (rule handlerI) (rule contract_reconcileTerminal[unfolded inv_pre_def])

interpretation finishing: handler "\<lambda>K R. finishRun K" "\<lambda>cr. in_progress (st_Phase (sv_Status cr))"
  by (rule handlerI) (rule contract_finishRun[unfolded inv_pre_def])

interpretation disrupting: handler "\<lambda>K R. maybeInjectDisruption K" "\<lambda>cr. live_phase (st_Phase (sv_Status cr))"
  by (rule handlerI) (rule contract_maybeInjectDisruption[unfolded inv_pre_def])

interpretation spawning: handler spawnJob "\<lambda>cr. before_run (st_Phase (sv_Status cr))"
  by (rule handlerI) (rule contract_spawnJob[unfolded inv_pre_def])

interpretation finalizing: handler "\<lambda>K R. cr_finalize K" "\<lambda>cr. sv_DeletionTimestamp cr \<noteq> None"
  by (rule handlerI) (rule contract_weaken[OF contract_cr_finalize], simp add: inv_pre_def)

interpretation phases: handler reconcilePhase "\<lambda>cr. live_phase (st_Phase (sv_Status cr))"
  by (rule handlerI) (rule contract_reconcilePhase[unfolded inv_pre_def])

text \<open>The whole call, which may add the finalizer first. The phase Terminating is only met on an
  object that is being deleted.\<close>

definition deletion_ok :: "ScaleValidation \<Rightarrow> bool" where
  "deletion_ok cr \<longleftrightarrow> (st_Phase (sv_Status cr) = PhaseTerminating \<longrightarrow> sv_DeletionTimestamp cr \<noteq> None)"

definition cr_inv :: "k8s \<Rightarrow> ScaleValidation \<Rightarrow> bool" where
  "cr_inv K cr \<longleftrightarrow> k8s_laws K \<and> deletion_ok cr \<and> status_inv K (sv_Status cr) \<and> 0 < sv_Generation cr"

lemma contract_reconcile_cr: "contract (\<lambda>st. cr_inv K cr \<longrightarrow> cr_step K cr st) (reconcile_cr K R e cr)"
proof (cases "sv_DeletionTimestamp cr")
  case None
  have "contract (\<lambda>st. cr_inv K cr \<longrightarrow> cr_step K cr st) (reconcilePhase K R e cr)"
    by (rule contract_weaken[OF contract_reconcilePhase])
      (use None in \<open>auto simp: inv_pre_def cr_inv_def deletion_ok_def live_phase_def\<close>)
  moreover have "contract (\<lambda>st. cr_inv K cr \<longrightarrow> cr_step K cr st) (reconcilePhase K R e (cr\<lparr>sv_Finalizers := fs\<rparr>))" for fs
    by (rule contract_weaken[OF contract_reconcilePhase])
      (use None in \<open>auto simp: inv_pre_def cr_inv_def deletion_ok_def live_phase_def cr_step_def\<close>)
  ultimately show ?thesis
    using None by (auto simp: reconcile_cr_def Let_def contract_no_status split: option.splits intro!: contract_andthen)
next
  case (Some t)
  have "contract (\<lambda>st. cr_inv K cr \<longrightarrow> cr_step K cr st) (cr_finalize K e cr)"
    by (rule contract_weaken[OF contract_cr_finalize]) (use Some in \<open>auto simp: inv_pre_def cr_inv_def\<close>)
  then show ?thesis using Some by (simp add: reconcile_cr_def)
qed

interpretation reconciling: handler reconcile_cr deletion_ok
  by (rule handlerI) (rule contract_reconcile_cr[unfolded cr_inv_def])

end
