(* ===== verification/Effects.thy ===== *)
theory Effects
  imports Handlers
begin

text \<open>
  Which call has which effect on other objects: only \<^verbatim>\<open>spawnJob\<close> creates the Job, only
  \<^verbatim>\<open>maybeInjectDisruption\<close> deletes a pod, the finalizer is removed only by \<^verbatim>\<open>finalize\<close>, and
  the conditions under which each does so.
\<close>

section \<open>Quiet outcomes\<close>

text \<open>A quiet effect touches nothing but the status, the events and the metrics.\<close>

fun quiet :: "effect \<Rightarrow> bool" where
  "quiet (Update fs err) = False"
| "quiet (CreateJob j err) = False"
| "quiet (DeleteJob n err) = False"
| "quiet (DeletePod n err) = False"
| "quiet _ = True"

abbreviation quiet_out :: "outcome \<Rightarrow> bool" where
  "quiet_out out \<equiv> list_all quiet (fst out)"

lemma quiet_write_status [simp]: "quiet_out (write_status e cr m d)"
  by (simp add: write_status_def)

lemma quiet_setPhase [simp]: "quiet_out (setPhase e cr p)"
  by (simp add: setPhase_def)

lemma quiet_andthen [simp]: "quiet_out (andthen es out) \<longleftrightarrow> list_all quiet es \<and> quiet_out out"
  by (simp add: andthen_def)

lemma quiet_terminal [simp]: "quiet_out (setTerminalPhase K e cr p r m)"
  by (simp add: setTerminalPhase_def)

lemma quiet_fails [simp]:
  "quiet_out (failScheduleInvalid K e cr err)" "quiet_out (failTargetUnresolvable K e cr err)"
  "quiet_out (failTargetNotReady K e cr n d)" "quiet_out (failTLSCABundle K e cr m r)"
  by (simp_all add: failScheduleInvalid_def failTargetUnresolvable_def failTargetNotReady_def failTLSCABundle_def Let_def)

lemma quiet_metrics [simp]: "list_all quiet (recordRunMetrics e cr report)" "quiet (emitVerdictEvent cr report)"
  by (auto simp: recordRunMetrics_def emitVerdictEvent_def list_all_iff split: option.splits)

lemma metrics_no_status [simp]:
  "status_writes (recordRunMetrics e cr report) = []" "status_writes [emitVerdictEvent cr report] = []"
  by (auto simp: recordRunMetrics_def emitVerdictEvent_def status_writes_def split: option.splits)

lemma quiet_stored:
  assumes "list_all quiet es" "status_writes es = []"
  shows "apply_effects es cr = cr"
  using assms
proof (induction es arbitrary: cr)
  case (Cons x es)
  then show ?case by (cases x) auto
qed simp

lemma quiet_finishRun [simp]: "quiet_out (finishRun K e cr)"
  by (simp add: finishRun_def Let_def write_status_def split: sum.split option.split)

text \<open>A run whose report is read: one status write, then metrics and an event.\<close>

lemma finishRun_success:
  assumes "e_job_pods e = Inr (pod # pods)" "observerTerminated pod" "e_log e (jp_Name pod) = Inr raw"
    "ParseReportLog (report_Unmarshal K) raw = Inr report" "e_status_err e = None"
  shows "snd (finishRun K e cr) = Inr 0"
    "apply_effects (fst (finishRun K e cr)) cr = cr\<lparr>sv_Status := sv_Status (finished_cr K e cr report)\<rparr>"
  using assms quiet_stored[OF quiet_metrics(1) metrics_no_status(1)] quiet_stored[OF _ metrics_no_status(2)]
  by (simp_all add: finishRun_def Let_def findJobPod_def observerLog_def write_status_def)

lemma quiet_recordDisruption [simp]: "quiet_out (recordDisruption K e cr s r m)"
  by (simp add: recordDisruption_def Let_def)

lemma quiet_no:
  assumes "list_all quiet es"
  shows "Update fs err \<notin> set es" "CreateJob j err \<notin> set es" "DeleteJob n err \<notin> set es" "DeletePod n err \<notin> set es"
  using assms by (auto simp: list_all_iff)

section \<open>Creating the Job\<close>

lemma spawnJob_CreateJob:
  assumes "CreateJob job err \<in> set (fst (spawnJob K R e cr))"
  shows "\<exists>url. resolveTargetURL K e cr = Inr url \<and> validateTLSCABundle K e cr = None
           \<and> buildLoadgenJob K R e cr url = Inr job \<and> e_owner_err e = None \<and> err = e_create_err e"
proof -
  have tls: "CreateJob job err \<notin> set (fst out)" if "validateTLSCABundle K e cr = Some out" for out
    using that quiet_fails(4) by (auto simp: validateTLSCABundle_def quiet_no(2) split: option.splits sum.splits if_splits)
  show ?thesis
    using assms
    by (auto simp: spawnJob_def andthen_def quiet_no(2)[OF quiet_fails(2)] quiet_no(2)[OF quiet_terminal]
        quiet_no(2)[OF quiet_setPhase] dest: tls split: sum.splits option.splits if_splits)
qed

lemma startNextRun_no: "CreateJob job err \<notin> set (fst (startNextRun K e cr))" "DeletePod n err \<notin> set (fst (startNextRun K e cr))"
    "Update fs err \<notin> set (fst (startNextRun K e cr))"
  by (auto simp: startNextRun_def andthen_def quiet_no[OF quiet_setPhase] split: sum.splits option.splits)

lemma reconcileTerminal_no:
  "CreateJob job err \<notin> set (fst (reconcileTerminal K e cr))" "DeletePod n err \<notin> set (fst (reconcileTerminal K e cr))"
  "Update fs err \<notin> set (fst (reconcileTerminal K e cr))"
  by (auto simp: reconcileTerminal_def parkSuspended_def restartForSpecChange_def Let_def andthen_def startNextRun_no
      quiet_no[OF quiet_write_status] quiet_no[OF quiet_fails(1)] split: sum.splits option.splits)

lemma maybeInjectDisruption_no:
  "CreateJob job err \<notin> set (fst (maybeInjectDisruption K e cr))" "Update fs err \<notin> set (fst (maybeInjectDisruption K e cr))"
  by (auto simp: maybeInjectDisruption_def Let_def andthen_def quiet_no[OF quiet_recordDisruption]
      split: sum.splits option.splits)

lemma spawnJob_no: "DeletePod n err \<notin> set (fst (spawnJob K R e cr))" "Update fs err \<notin> set (fst (spawnJob K R e cr))"
  by (auto simp: spawnJob_def andthen_def validateTLSCABundle_def quiet_no[OF quiet_fails(2)] quiet_no[OF quiet_fails(4)]
      quiet_no[OF quiet_terminal] quiet_no[OF quiet_setPhase] split: sum.splits option.splits if_splits)

lemma awaitTarget_no: "DeletePod n err \<notin> set (fst (awaitTarget K R e cr))" "Update fs err \<notin> set (fst (awaitTarget K R e cr))"
  by (auto simp: awaitTarget_def targetReady_def Let_def spawnJob_no quiet_no[OF quiet_fails(2)] quiet_no[OF quiet_fails(3)] split: sum.splits)

lemma awaitTarget_CreateJob:
  assumes "CreateJob job err \<in> set (fst (awaitTarget K R e cr))"
  shows "(\<exists>n. targetPodsReady K e cr = Inr (True, n)) \<and> CreateJob job err \<in> set (fst (spawnJob K R e cr))"
  using assms
  by (auto simp: awaitTarget_def targetReady_def Let_def quiet_no[OF quiet_fails(2)] quiet_no[OF quiet_fails(3)] split: sum.splits if_splits)

lemma reconcilePhase_CreateJob:
  assumes "CreateJob job err \<in> set (fst (reconcilePhase K R e cr))"
  shows "st_Phase (sv_Status cr) \<in> {PhasePending, PhaseTerminating} \<and> (\<exists>gone. e_job e = Inl gone \<and> IsNotFound gone)
         \<and> CreateJob job err \<in> set (fst (awaitTarget K R e cr))"
  using assms
  by (cases "st_Phase (sv_Status cr)")
    (auto simp: reconcilePhase_def reconcileActive_def andthen_def reconcileTerminal_no maybeInjectDisruption_no Let_def
      quiet_no[OF quiet_fails(1)] quiet_no[OF quiet_terminal] quiet_no[OF quiet_finishRun] quiet_no[OF quiet_setPhase]
      split: sum.splits if_splits)

lemma cr_finalize_no: "CreateJob job err \<notin> set (fst (cr_finalize K e cr))" "DeletePod n err \<notin> set (fst (cr_finalize K e cr))"
  by (auto simp: cr_finalize_def Let_def write_status_def split: sum.splits option.splits)

lemma reconcilePhase_no_Update: "Update fs err \<notin> set (fst (reconcilePhase K R e cr))"
  by (auto simp: reconcilePhase_def reconcileActive_def andthen_def reconcileTerminal_no maybeInjectDisruption_no
      awaitTarget_no quiet_no[OF quiet_fails(1)] quiet_no[OF quiet_terminal] quiet_no[OF quiet_finishRun]
      quiet_no[OF quiet_setPhase] Let_def split: sum.splits)

lemma targetPodsReady_frame [simp]: "targetPodsReady K e (cr\<lparr>sv_Finalizers := fs\<rparr>) = targetPodsReady K e cr"
  by (simp add: targetPodsReady_def targetSelector_def targetGVK_def classifyTargetError_def Let_def split: sum.split option.split)

lemma loadgenJobName_frame [simp]: "loadgenJobName (cr\<lparr>sv_Finalizers := fs\<rparr>) = loadgenJobName cr"
  by (simp add: loadgenJobName_def)

lemma buildLoadgenJob_name: "buildLoadgenJob K R e cr url = Inr job \<Longrightarrow> job_Name job = loadgenJobName cr"
  by (auto simp: buildLoadgenJob_def Let_def split: sum.splits)

lemma targetPodsReady_count: "targetPodsReady K e cr = Inr (b, n) \<Longrightarrow> b \<longleftrightarrow> 1 \<le> n"
  by (auto simp: targetPodsReady_def Let_def split: sum.splits option.splits if_splits)

section \<open>Deleting a pod\<close>

definition disruption_due :: "ScaleValidation \<Rightarrow> DisruptionConfig \<Rightarrow> time" where
  "disruption_due cr d = time_Add (case st_LastRunTime (sv_Status cr) of Some t \<Rightarrow> t | None \<Rightarrow> sv_CreationTimestamp cr)
     (case dis_TriggerDelay d of None \<Rightarrow> 0 | Some x \<Rightarrow> x)"

lemma maybeInjectDisruption_DeletePod:
  assumes "DeletePod n err \<in> set (fst (maybeInjectDisruption K e cr))"
  shows "\<exists>d pods v. spec_Disruption (sv_Spec cr) = Some d \<and> dis_InjectPodDeletion d
    \<and> st_Phase (sv_Status cr) = PhaseRunning \<and> \<not> disrupted K (sv_Status cr)
    \<and> disruption_due cr d \<le> e_wall e \<and> targetPods e cr = Inr pods
    \<and> v \<in> set pods \<and> pod_Name v = n \<and> healthy_pod v
    \<and> max 1 (dis_MinReplicasForChaos d) \<le> int (length (filter healthy_pod pods))"
proof -
  obtain d where d: "spec_Disruption (sv_Spec cr) = Some d"
    using assms by (cases "spec_Disruption (sv_Spec cr)") (auto simp: maybeInjectDisruption_def)
  obtain pods where pods: "targetPods e cr = Inr pods"
    using assms d by (cases "targetPods e cr") (auto simp: maybeInjectDisruption_def Let_def split: if_splits)
  let ?start = "case st_LastRunTime (sv_Status cr) of Some t \<Rightarrow> t | None \<Rightarrow> sv_CreationTimestamp cr"
  let ?plan = "Plan \<lparr>cc_InjectPodDeletion = dis_InjectPodDeletion d, cc_MinReplicasForChaos = dis_MinReplicasForChaos d,
      cc_TriggerDelay = (case dis_TriggerDelay d of None \<Rightarrow> 0 | Some x \<Rightarrow> x)\<rparr> ?start pods (rand_pick K)"
  have guard: "dis_InjectPodDeletion d" "st_Phase (sv_Status cr) = PhaseRunning" "\<not> disrupted K (sv_Status cr)"
      "disruption_due cr d \<le> e_wall e" "dec_Inject ?plan"
    using assms d pods
    by (auto simp: maybeInjectDisruption_def Let_def disrupted_def disruption_due_def andthen_def
        quiet_no[OF quiet_recordDisruption] split: if_splits)
  moreover have "\<exists>v. dec_Victim ?plan = Some v \<and> pod_Name v = n"
    using assms d pods
    by (auto simp: maybeInjectDisruption_def Let_def andthen_def quiet_no[OF quiet_recordDisruption] split: if_splits option.splits)
  ultimately show ?thesis
    using d pods Plan_Victim(2) Plan_Inject_iff by fastforce
qed

lemma reconcilePhase_DeletePod:
  assumes "DeletePod n err \<in> set (fst (reconcilePhase K R e cr))"
  shows "DeletePod n err \<in> set (fst (maybeInjectDisruption K e cr))"
  using assms
  by (auto simp: reconcilePhase_def reconcileActive_def andthen_def reconcileTerminal_no awaitTarget_no
      quiet_no[OF quiet_fails(1)] quiet_no[OF quiet_terminal] quiet_no[OF quiet_finishRun] quiet_no[OF quiet_setPhase]
      Let_def split: sum.splits if_splits)

end
