(* ===== verification/Lifecycle.thy ===== *)
theory Lifecycle
  imports Effects
begin

text \<open>
  The life of a ScaleValidation object as a step relation: reconcile calls with arbitrary answers
  of the API server and the clock, edits of the spec and deletion requests, in any order. The
  invariants of reachable states are proved by rule induction from the handler contract.
\<close>

section \<open>States and steps\<close>

definition pods_deleted :: "effect list \<Rightarrow> nat" where
  "pods_deleted es = length (filter (\<lambda>x. case x of DeletePod n None \<Rightarrow> True | _ \<Rightarrow> False) es)"

text \<open>The stored object, the pods deleted in its current run, and whether every write of its status
  has succeeded so far.\<close>

record world =
  w_cr :: ScaleValidation
  w_kills :: nat
  w_clean :: bool

definition new_status :: ScaleValidationStatus where
  "new_status = \<lparr>st_Phase = PhaseNone, st_ScaleUpDuration = None, st_SLAStatus = [], st_TrafficIntegrity = [],
     st_TotalRequests = 0, st_FailedRequests = 0, st_FailureRateBasisPoints = 0, st_Diagnostics = [],
     st_LastRunTime = None, st_History = [], st_NextRunTime = None, st_ObservedGeneration = 0, st_Conditions = []\<rparr>"

definition after_reconcile :: "k8s \<Rightarrow> reconciler \<Rightarrow> env \<Rightarrow> world \<Rightarrow> world" where
  "after_reconcile K R e w =
     (let es = fst (reconcile_cr K R e (w_cr w)); cr = apply_effects es (w_cr w)
      in \<lparr>w_cr = cr,
          w_kills = (if st_Phase (sv_Status cr) = PhasePending then 0 else w_kills w) + pods_deleted es,
          w_clean = (w_clean w \<and> list_all (\<lambda>(st, err). err = None) (status_writes es))\<rparr>)"

inductive step :: "k8s \<Rightarrow> reconciler \<Rightarrow> world \<Rightarrow> world \<Rightarrow> bool" for K R where
  reconcile: "step K R w (after_reconcile K R e w)"
| edit: "step K R w (w\<lparr>w_cr := (w_cr w)\<lparr>sv_Spec := spec, sv_Generation := sv_Generation (w_cr w) + 1\<rparr>\<rparr>)"
| delete: "sv_DeletionTimestamp (w_cr w) = None \<Longrightarrow>
     step K R w (w\<lparr>w_cr := (w_cr w)\<lparr>sv_DeletionTimestamp := Some t, sv_Generation := sv_Generation (w_cr w) + 1\<rparr>\<rparr>)"

inductive_cases stepE: "step K R w w'"

definition initial :: "world \<Rightarrow> bool" where
  "initial w \<longleftrightarrow> sv_Status (w_cr w) = new_status \<and> sv_Generation (w_cr w) = 1
     \<and> sv_DeletionTimestamp (w_cr w) = None \<and> w_kills w = 0 \<and> w_clean w"

inductive reachable :: "k8s \<Rightarrow> reconciler \<Rightarrow> world \<Rightarrow> bool" for K R where
  init: "initial w \<Longrightarrow> reachable K R w"
| step: "reachable K R w \<Longrightarrow> step K R w w' \<Longrightarrow> reachable K R w'"

section \<open>Pods deleted by a call\<close>

lemma pods_deleted_simps [simp]:
  "pods_deleted [] = 0"
  "pods_deleted (es @ es') = pods_deleted es + pods_deleted es'"
  "pods_deleted (DeletePod n err # es) = (if err = None then 1 else 0) + pods_deleted es"
  "pods_deleted (Event t r m # es) = pods_deleted es"
  "pods_deleted (StatusUpdate st err # es) = pods_deleted es"
  "pods_deleted (Update fs err # es) = pods_deleted es"
  by (simp_all add: pods_deleted_def split: option.split)

lemma pods_deleted_none: "(\<And>n. DeletePod n None \<notin> set es) \<Longrightarrow> pods_deleted es = 0"
  by (auto simp: pods_deleted_def filter_empty_conv split: effect.splits option.splits)

lemma pods_deleted_disruption:
  assumes "0 < pods_deleted (fst (maybeInjectDisruption K e cr))"
  shows "pods_deleted (fst (maybeInjectDisruption K e cr)) = 1 \<and> st_Phase (sv_Status cr) = PhaseRunning
    \<and> \<not> disrupted K (sv_Status cr)
    \<and> (\<exists>st. status_writes (fst (maybeInjectDisruption K e cr)) = [(st, e_status_err e)] \<and> (k8s_laws K \<longrightarrow> disrupted K st))"
proof -
  have q: "pods_deleted (fst (recordDisruption K e cr s r m)) = 0" for s r m
    by (simp add: recordDisruption_def write_status_def Let_def)
  show ?thesis
    using assms
    by (auto simp: maybeInjectDisruption_def Let_def andthen_def q disrupted_def recordDisruption_def write_status_def
        k8s_lawsD split: sum.splits option.splits if_splits)
qed

lemma DeletePod_reconcilePhase:
  assumes "0 < pods_deleted (fst (reconcilePhase K R e cr))"
  shows "reconcilePhase K R e cr = maybeInjectDisruption K e cr"
proof -
  have "\<exists>n err. DeletePod n err \<in> set (fst (reconcilePhase K R e cr))"
    using assms pods_deleted_none[of "fst (reconcilePhase K R e cr)"] by (metis less_numeral_extra(3))
  then show ?thesis
    by (auto simp: reconcilePhase_def reconcileActive_def andthen_def reconcileTerminal_no awaitTarget_no
        quiet_no[OF quiet_fails(1)] quiet_no[OF quiet_terminal] quiet_no[OF quiet_finishRun] quiet_no[OF quiet_setPhase]
        Let_def split: sum.splits if_splits)
qed

lemma reconcile_cr_cases:
  obtains "reconcile_cr K R e cr = cr_finalize K e cr"
  | es fs where "reconcile_cr K R e cr = andthen es (reconcilePhase K R e (cr\<lparr>sv_Finalizers := fs\<rparr>))"
      "sv_DeletionTimestamp cr = None" "es = [] \<and> fs = sv_Finalizers cr \<and> ContainsFinalizer K fs scaleValidationFinalizer
        \<or> es = [Update fs None] \<and> fs = AddFinalizer K (sv_Finalizers cr) scaleValidationFinalizer"
  | fs err where "reconcile_cr K R e cr = ([Update fs (Some err)], Inl (Wrap [L ''add finalizer''] err))"
      "sv_DeletionTimestamp cr = None"
proof (cases "sv_DeletionTimestamp cr")
  case None
  show ?thesis
  proof (cases "ContainsFinalizer K (sv_Finalizers cr) scaleValidationFinalizer")
    case True
    then have "reconcile_cr K R e cr = andthen [] (reconcilePhase K R e (cr\<lparr>sv_Finalizers := sv_Finalizers cr\<rparr>))"
      using None by (simp add: reconcile_cr_def andthen_def)
    from that(2)[OF this None] True show ?thesis by simp
  next
    case False
    then show ?thesis
      using None that(2,3) by (cases "e_update_err e") (simp_all add: reconcile_cr_def Let_def)
  qed
next
  case (Some t)
  then show ?thesis using that(1) by (simp add: reconcile_cr_def)
qed

text \<open>A call deletes at most one pod, only in a run that records no disruption yet, and then its one
  status write records it.\<close>

lemma reconcile_kills:
  assumes "0 < pods_deleted (fst (reconcile_cr K R e cr))"
  shows "pods_deleted (fst (reconcile_cr K R e cr)) = 1 \<and> st_Phase (sv_Status cr) = PhaseRunning
    \<and> \<not> disrupted K (sv_Status cr)
    \<and> (\<exists>st. status_writes (fst (reconcile_cr K R e cr)) = [(st, e_status_err e)] \<and> (k8s_laws K \<longrightarrow> disrupted K st))"
proof (cases rule: reconcile_cr_cases[of K R e cr])
  case 1
  then show ?thesis using assms pods_deleted_none[OF cr_finalize_no(2)] by (metis less_numeral_extra(3))
next
  case (2 es fs)
  have es: "pods_deleted es = 0" "status_writes es = []" using 2(3) by auto
  then have "0 < pods_deleted (fst (reconcilePhase K R e (cr\<lparr>sv_Finalizers := fs\<rparr>)))"
    using assms 2(1) by (simp add: andthen_def)
  from DeletePod_reconcilePhase[OF this] pods_deleted_disruption[of K e "cr\<lparr>sv_Finalizers := fs\<rparr>"] this es 2(1)
  show ?thesis by (simp add: andthen_def)
next
  case (3 fs err)
  then show ?thesis using assms by simp
qed

section \<open>Invariants\<close>

definition kills_inv :: "k8s \<Rightarrow> world \<Rightarrow> bool" where
  "kills_inv K w \<longleftrightarrow> (w_clean w \<longrightarrow> w_kills w \<le> (if disrupted K (sv_Status (w_cr w)) then 1 else 0))"

definition world_inv :: "k8s \<Rightarrow> world \<Rightarrow> bool" where
  "world_inv K w \<longleftrightarrow> cr_inv K (w_cr w) \<and> kills_inv K w"

lemma reconcile_cr_step:
  assumes "cr_inv K cr" "(st, err) \<in> set (status_writes (fst (reconcile_cr K R e cr)))"
  shows "cr_step K cr st"
  using reconciling.steps[of K cr st err R e] assms by (simp add: cr_inv_def)

lemma reconcile_stored:
  assumes "cr_inv K cr" "cr' = apply_effects (fst (reconcile_cr K R e cr)) cr"
  shows "sv_Status cr' = sv_Status cr \<or> cr_step K cr (sv_Status cr')"
  using apply_effects_status[of "fst (reconcile_cr K R e cr)" cr] reconcile_cr_step[OF assms(1)] assms(2) by auto

lemma cr_inv_reconcile: "cr_inv K cr \<Longrightarrow> cr_inv K (apply_effects (fst (reconcile_cr K R e cr)) cr)"
  using reconcile_stored[of K cr _ R e, OF _ refl] by (auto simp: cr_inv_def deletion_ok_def cr_step_def status_step_def)

lemma kills_inv_reconcile:
  assumes inv: "cr_inv K (w_cr w)" and kills: "kills_inv K w"
  shows "kills_inv K (after_reconcile K R e w)"
proof (cases "w_clean (after_reconcile K R e w)")
  case clean: True
  let ?es = "fst (reconcile_cr K R e (w_cr w))"
  let ?st' = "sv_Status (apply_effects ?es (w_cr w))"
  have wc: "w_clean w" and all_ok: "list_all (\<lambda>(st, err). err = None) (status_writes ?es)"
    using clean by (simp_all add: after_reconcile_def Let_def)
  have K: "k8s_laws K" using inv by (simp add: cr_inv_def)
  show ?thesis
  proof (cases "pods_deleted ?es = 0")
    case True
    have "w_kills w = 0 \<or> disrupted K (sv_Status (w_cr w)) \<and> w_kills w = 1"
      using kills wc by (auto simp: kills_inv_def split: if_splits)
    moreover have "disrupted K ?st' \<or> st_Phase ?st' = PhasePending" if "disrupted K (sv_Status (w_cr w))"
      using reconcile_stored[OF inv refl, of R e] that by (auto simp: cr_step_def status_step_def)
    ultimately show ?thesis using True by (auto simp: kills_inv_def after_reconcile_def Let_def)
  next
    case False
    then obtain st where one: "pods_deleted ?es = 1" and nodis: "\<not> disrupted K (sv_Status (w_cr w))"
      and wr: "status_writes ?es = [(st, e_status_err e)]" "disrupted K st"
      using reconcile_kills[of K R e "w_cr w"] K by auto
    have "w_kills w = 0" using kills wc nodis by (simp add: kills_inv_def)
    moreover have "sv_Status (apply_effects ?es (w_cr w)) = st"
      by (rule written_is_stored) (use all_ok wr in auto)
    ultimately show ?thesis using one wr(2) by (simp add: kills_inv_def after_reconcile_def Let_def)
  qed
qed (simp add: kills_inv_def)

lemma new_status_inv: "k8s_laws K \<Longrightarrow> status_inv K new_status"
  by (simp add: status_inv_def phase_inv_def history_inv_def new_status_def condition_true_def k8s_lawsD basis_points_ok_def
      int_bounds)

lemma reachable_inv:
  assumes "reachable K R w" "k8s_laws K"
  shows "world_inv K w"
  using assms(1)
proof (induction rule: reachable.induct)
  case (init w)
  then show ?case
    using assms(2) new_status_inv
    by (auto simp: initial_def world_inv_def cr_inv_def kills_inv_def deletion_ok_def new_status_def)
next
  case (step w w')
  from step(2,3) show ?case
  proof (cases rule: step.cases)
    case (reconcile e)
    then show ?thesis
      using step(3) cr_inv_reconcile kills_inv_reconcile
      by (simp add: world_inv_def) (simp add: after_reconcile_def Let_def)
  qed (auto simp: world_inv_def cr_inv_def kills_inv_def deletion_ok_def)
qed

end
