(* ===== verification/Lifecycle_Props.thy ===== *)
theory Lifecycle_Props
  imports Lifecycle
begin

text \<open>
  The properties of the reconciler's lifecycle, over the reachable states of \<open>Lifecycle\<close>, and the
  concrete objects their witnesses use.
\<close>

section \<open>A concrete object and environment\<close>

definition demo_k8s :: k8s where
  "demo_k8s = ref_k8s (\<lambda>s. None) (\<lambda>s. Inr (\<lambda>t. t + 3600 * Second))"

definition demo_cr :: ScaleValidation where
  "demo_cr = \<lparr>sv_Name = ''demo'', sv_Namespace = ''ns'', sv_Generation = 1, sv_CreationTimestamp = 0,
     sv_DeletionTimestamp = None, sv_Finalizers = [], sv_Spec = demo_spec, sv_Status = new_status\<rparr>"

definition demo_reconciler :: reconciler where
  "demo_reconciler = \<lparr>r_LoadgenImage = ''loadgen'', r_ObserverImage = ''observer'', r_ObserverServiceAccount = ''sa'',
     r_ImagePullSecrets = [], r_targetReadyTimeout = 0\<rparr>"

definition demo_env :: env where
  "demo_env = \<lparr>e_now = 60 * Second, e_wall = 60 * Second, e_stamp = 60 * Second, e_job = Inl (Api NotFound ''gone''),
     e_scale = Inr \<lparr>so_Selector = Some ''app=web'', so_Replicas = Some 2\<rparr>,
     e_target_pods = (\<lambda>s. Inr [demo_pod ''a'' ''True'', demo_pod ''b'' ''True'']),
     e_object = Inr (Inr []), e_configmap = Inr [], e_rest_mapping = Inr (''apps'', ''v1'', ''deployments''),
     e_owner_err = None, e_deployment = Inr None,
     e_deploy_pods = Inr [demo_pod ''a'' ''True'', demo_pod ''b'' ''True''], e_job_pods = Inr [], e_log = (\<lambda>n. Inr []),
     e_update_err = None, e_status_err = None, e_create_err = None, e_delete_job_err = None, e_delete_pod_err = None\<rparr>"

definition demo_world :: world where
  "demo_world = \<lparr>w_cr = demo_cr, w_kills = 0, w_clean = True\<rparr>"

lemma demo_laws: "k8s_laws demo_k8s"
  by (simp add: demo_k8s_def ref_k8s_laws)

lemma demo_reachable: "reachable K R demo_world"
  by (rule reachable.init) (simp add: initial_def demo_world_def demo_cr_def)

lemmas demo_defs = demo_k8s_def ref_k8s_def demo_cr_def demo_env_def demo_world_def demo_reconciler_def new_status_def

lemma demo_first_step:
  "after_reconcile demo_k8s demo_reconciler demo_env demo_world =
     \<lparr>w_cr = demo_cr\<lparr>sv_Finalizers := [scaleValidationFinalizer], sv_Status := new_status\<lparr>st_Phase := PhasePending\<rparr>\<rparr>,
      w_kills = 0, w_clean = True\<rparr>"
  by (simp add: after_reconcile_def reconcile_cr_def reconcilePhase_def parseSchedule_def setPhase_def write_status_def
      andthen_def demo_defs demo_spec_def)

section \<open>Properties\<close>

lemma apply_effects_finalizers:
  "(\<And>fs err. Update fs err \<notin> set es) \<Longrightarrow> sv_Finalizers (apply_effects es cr) = sv_Finalizers cr"
proof (induction es arbitrary: cr)
  case (Cons x es)
  then show ?case by (cases "(x, cr)" rule: apply_effect.cases) auto
qed simp

text \<open>C13. A reconcile call writes the status at most once, whatever the API server answers, and when
  that write fails the call returns an error, so the work queue retries it and no decision is
  silently lost.\<close>

theorem Reconcile_single_status_write:
  "length (status_writes (fst (Reconcile K R e got))) \<le> 1
   \<and> list_all (\<lambda>(st, err). err = None \<or> isl (snd (Reconcile K R e got))) (status_writes (fst (Reconcile K R e got)))"
proof (cases got)
  case (Inr cr)
  have "err = None \<or> isl (snd (reconcile_cr K R e cr))" if "(st, err) \<in> set (status_writes (fst (reconcile_cr K R e cr)))" for st err
    using reconciling.failed_write[of st _ K R e cr] that by (cases err) auto
  then show ?thesis
    using reconciling.single_write[of K R e cr] Inr by (auto simp: Reconcile_def list_all_iff)
qed (simp add: Reconcile_def)

text \<open>C1. The lifecycle invariant: in every state reachable from a newly created object by reconcile
  calls (with any answers of the API server and any clock), spec edits and a deletion request, a
  terminal phase has the condition Finished=True and a recorded generation, a run not yet
  finished has neither that condition nor a next run time, a running one has a start time and a
  pending one no record of a disruption; Succeeded and Failed agree with the two verdicts, the
  history holds at most ten finished runs, each consistent with its verdicts, and the phase
  Terminating is only seen on an object being deleted.\<close>

theorem lifecycle_invariant:
  assumes "k8s_laws K" "reachable K R w"
  shows "status_inv K (sv_Status (w_cr w)) \<and> deletion_ok (w_cr w)"
  using reachable_inv[OF assms(2,1)] by (simp add: world_inv_def cr_inv_def)

theorem lifecycle_invariant_witness:
  "status_inv demo_k8s (new_status\<lparr>st_Phase := PhasePending\<rparr>)"
proof -
  have "reachable demo_k8s demo_reconciler (after_reconcile demo_k8s demo_reconciler demo_env demo_world)"
    by (rule reachable.step[OF demo_reachable step.reconcile])
  from lifecycle_invariant[OF demo_laws this] show ?thesis by (simp add: demo_first_step)
qed

text \<open>C11. The phase machine: from a reachable state, a reconcile call leaves the status as it was or
  takes one edge of the lifecycle, keeps the record of a disruption unless it resets the run to
  Pending, changes the start time of the run only on the edge from Pending to Running, and extends the
  history only at its head, with the phase just reached, dropping what exceeds the limit.\<close>

theorem lifecycle_edges:
  assumes "k8s_laws K" "reachable K R w" "st = sv_Status (w_cr w)" "st' = sv_Status (w_cr (after_reconcile K R e w))"
  shows "st' = st
    \<or> phase_edge (st_Phase st) (st_Phase st')
      \<and> (disrupted K st' \<or> \<not> disrupted K st \<or> st_Phase st' = PhasePending)
      \<and> (st_LastRunTime st' = st_LastRunTime st \<or> st_Phase st = PhasePending \<and> st_Phase st' = PhaseRunning)
      \<and> (st_History st' = st_History st
         \<or> (\<exists>r. st_History st' = take RunHistoryLimit (r # st_History st) \<and> run_Phase r = st_Phase st'))"
  using reachable_inv[OF assms(2,1)] reconcile_stored[of K "w_cr w" _ R e, OF _ refl] assms(3,4)
  by (auto simp: world_inv_def after_reconcile_def Let_def cr_step_def status_step_def)

theorem lifecycle_edges_witness:
  "phase_edge PhaseNone PhasePending"
  using lifecycle_edges[OF demo_laws demo_reachable refl refl, of demo_reconciler demo_env]
  by (simp add: demo_first_step) (simp add: demo_world_def demo_cr_def new_status_def)

text \<open>C4. At most one disruption per run: as long as the writes of the status succeed, no run of a
  reachable object has deleted more than one pod.\<close>

theorem one_disruption_per_run:
  assumes "k8s_laws K" "reachable K R w" "w_clean w"
  shows "w_kills w \<le> 1"
  using reachable_inv[OF assms(2,1)] assms(3) by (auto simp: world_inv_def kills_inv_def split: if_splits)

text \<open>The same object with a disruption configured, and a run of it in which the write that records
  the disruption fails.\<close>

definition dis_spec :: ScaleValidationSpec where
  "dis_spec = demo_spec\<lparr>spec_Load := (spec_Load demo_spec)\<lparr>load_WarmupDuration := None, load_Profile := None\<rparr>,
     spec_Disruption := Some \<lparr>dis_InjectPodDeletion = True, dis_MinReplicasForChaos = 2, dis_TriggerDelay = None\<rparr>\<rparr>"

definition dis_cr :: ScaleValidation where
  "dis_cr = demo_cr\<lparr>sv_Finalizers := [scaleValidationFinalizer], sv_Spec := dis_spec\<rparr>"

definition run_env :: "goerror option \<Rightarrow> env" where
  "run_env err = demo_env\<lparr>e_job := Inr \<lparr>jb_Name = ''demo-loadgen'', jb_DeletionTimestamp = None, jb_Conditions = []\<rparr>,
     e_status_err := err\<rparr>"

abbreviation dis_running :: "world" where
  "dis_running \<equiv> \<lparr>w_cr = dis_cr\<lparr>sv_Status := new_status\<lparr>st_Phase := PhaseRunning, st_LastRunTime := Some (60 * Second)\<rparr>\<rparr>,
     w_kills = 0, w_clean = True\<rparr>"

lemma dis_pending:
  "after_reconcile demo_k8s demo_reconciler demo_env \<lparr>w_cr = dis_cr, w_kills = 0, w_clean = True\<rparr> =
     \<lparr>w_cr = dis_cr\<lparr>sv_Status := new_status\<lparr>st_Phase := PhasePending\<rparr>\<rparr>, w_kills = 0, w_clean = True\<rparr>"
  by (simp add: after_reconcile_def reconcile_cr_def reconcilePhase_def parseSchedule_def setPhase_def write_status_def
      andthen_def demo_defs dis_cr_def dis_spec_def demo_spec_def)

lemma dis_started:
  "after_reconcile demo_k8s demo_reconciler demo_env
     \<lparr>w_cr = dis_cr\<lparr>sv_Status := new_status\<lparr>st_Phase := PhasePending\<rparr>\<rparr>, w_kills = 0, w_clean = True\<rparr> = dis_running"
  by (simp add: after_reconcile_def reconcile_cr_def reconcilePhase_def reconcileActive_def awaitTarget_def targetReady_def spawnJob_def
      targetPodsReady_def targetSelector_def targetGVK_def resolveTargetURL_def validateTLSCABundle_def caBundleRef_def
      buildLoadgenJob_def observerArgs_def loadgenArgs_def buildPhases_def setPhase_def write_status_def andthen_def Let_def
      ctrl_podReady_def demo_pod_def wrap32_def demo_defs dis_cr_def dis_spec_def demo_spec_def pods_deleted_def)

lemma dis_kill:
  "after_reconcile demo_k8s demo_reconciler (run_env (Some err)) \<lparr>w_cr = w_cr dis_running, w_kills = k, w_clean = c\<rparr> =
     \<lparr>w_cr = w_cr dis_running, w_kills = k + 1, w_clean = False\<rparr>"
  by (simp add: after_reconcile_def reconcile_cr_def reconcilePhase_def reconcileActive_def jobConditionTrue_def
      maybeInjectDisruption_def targetPods_def Plan_def no_decision_def recordDisruption_def write_status_def andthen_def Let_def
      time_Sub_def time_Add_def healthy_pod_def podReady_def demo_pod_def ref_find_def run_env_def demo_defs dis_cr_def dis_spec_def
      demo_spec_def int_bounds)

lemma dis_running_reachable: "reachable demo_k8s demo_reconciler dis_running"
proof -
  have "reachable demo_k8s demo_reconciler \<lparr>w_cr = dis_cr, w_kills = 0, w_clean = True\<rparr>"
    by (rule reachable.init) (simp add: initial_def dis_cr_def demo_cr_def)
  from reachable.step[OF reachable.step[OF this step.reconcile[where e = demo_env]] step.reconcile[where e = demo_env]]
  show ?thesis unfolding dis_pending dis_started .
qed

text \<open>A healthy step of the same run.\<close>

lemma dis_kill_once:
  "after_reconcile demo_k8s demo_reconciler (run_env None) dis_running =
     \<lparr>w_cr = w_cr dis_running\<lparr>sv_Status := sv_Status (w_cr (after_reconcile demo_k8s demo_reconciler (run_env None) dis_running))\<rparr>,
      w_kills = 1, w_clean = True\<rparr>"
  by (simp add: after_reconcile_def reconcile_cr_def reconcilePhase_def reconcileActive_def jobConditionTrue_def
      maybeInjectDisruption_def targetPods_def Plan_def no_decision_def recordDisruption_def write_status_def andthen_def Let_def
      time_Sub_def time_Add_def healthy_pod_def podReady_def demo_pod_def ref_find_def run_env_def demo_defs dis_cr_def dis_spec_def
      demo_spec_def int_bounds)

theorem one_disruption_per_run_witness:
  "w_kills (after_reconcile demo_k8s demo_reconciler (run_env None) dis_running) = 1
   \<and> w_kills (after_reconcile demo_k8s demo_reconciler (run_env None) dis_running) \<le> 1"
proof
  have r: "reachable demo_k8s demo_reconciler (after_reconcile demo_k8s demo_reconciler (run_env None) dis_running)"
    by (rule reachable.step[OF dis_running_reachable step.reconcile])
  show "w_kills (after_reconcile demo_k8s demo_reconciler (run_env None) dis_running) = 1"
    by (subst dis_kill_once) simp
  show "w_kills (after_reconcile demo_k8s demo_reconciler (run_env None) dis_running) \<le> 1"
    by (rule one_disruption_per_run[OF demo_laws r]) (subst dis_kill_once, simp)
qed

text \<open>The condition on the writes cannot be dropped: when the write that records the disruption
  fails, for instance on a conflict, the pod is already gone and nothing remembers it, so the retried
  call deletes another one; a reachable run has deleted any number of pods.\<close>

theorem disruption_repeats_after_failed_write:
  "\<exists>w. reachable demo_k8s demo_reconciler w \<and> w_kills w = k \<and> st_Phase (sv_Status (w_cr w)) = PhaseRunning"
proof -
  have "reachable demo_k8s demo_reconciler \<lparr>w_cr = w_cr dis_running, w_kills = k, w_clean = (k = 0)\<rparr>"
  proof (induction k)
    case 0
    then show ?case using dis_running_reachable by simp
  next
    case (Suc k)
    from reachable.step[OF Suc step.reconcile[where e = "run_env (Some (Api OtherReason ''conflict''))"]]
    show ?case unfolding dis_kill by simp
  qed
  then show ?thesis by (intro exI) auto
qed

lemma dis_running_deletes:
  "DeletePod ''a'' None \<in> set (fst (reconcile_cr demo_k8s demo_reconciler (run_env None) (w_cr dis_running)))"
  by (simp add: reconcile_cr_def reconcilePhase_def reconcileActive_def jobConditionTrue_def
      maybeInjectDisruption_def targetPods_def Plan_def no_decision_def andthen_def Let_def
      time_Sub_def time_Add_def healthy_pod_def podReady_def demo_pod_def ref_find_def run_env_def demo_defs dis_cr_def dis_spec_def
      demo_spec_def int_bounds)

lemma reconcile_DeletePod:
  assumes "DeletePod n err \<in> set (fst (reconcile_cr K R e cr))"
  shows "sv_DeletionTimestamp cr = None \<and> st_Phase (sv_Status cr) = PhaseRunning \<and> \<not> disrupted K (sv_Status cr)
    \<and> (\<exists>d pods v. spec_Disruption (sv_Spec cr) = Some d \<and> dis_InjectPodDeletion d \<and> disruption_due cr d \<le> e_wall e
         \<and> targetPods e cr = Inr pods \<and> v \<in> set pods \<and> pod_Name v = n \<and> healthy_pod v
         \<and> max 1 (dis_MinReplicasForChaos d) \<le> int (length (filter healthy_pod pods)))"
proof (cases rule: reconcile_cr_cases[of K R e cr])
  case (2 es fs)
  then have "DeletePod n err \<in> set (fst (reconcilePhase K R e (cr\<lparr>sv_Finalizers := fs\<rparr>)))"
    using assms by (auto simp: andthen_def)
  moreover have "disruption_due (cr\<lparr>sv_Finalizers := fs\<rparr>) = disruption_due cr" "targetPods e (cr\<lparr>sv_Finalizers := fs\<rparr>) = targetPods e cr"
    by (simp_all add: disruption_due_def targetPods_def fun_eq_iff split: option.split sum.split)
  ultimately show ?thesis
    using maybeInjectDisruption_DeletePod[OF reconcilePhase_DeletePod, of n err K R e "cr\<lparr>sv_Finalizers := fs\<rparr>"] 2(2)
    by (simp del: max.bounded_iff) blast
qed (use assms cr_finalize_no in auto)

text \<open>C12. What a disruption needs: whenever a reconcile call asks for the deletion of a pod, the
  object is not being deleted, the disruption is enabled, the run is in the phase Running and records
  no disruption, the trigger delay after the start of the load has passed, and the pod is a
  healthy pod of the target, one of at least as many as the configured minimum.\<close>

theorem disruption_guard:
  assumes "DeletePod n err \<in> set (fst (reconcile_cr K R e cr))"
  shows "sv_DeletionTimestamp cr = None \<and> st_Phase (sv_Status cr) = PhaseRunning \<and> \<not> disrupted K (sv_Status cr)
    \<and> (\<exists>d pods v. spec_Disruption (sv_Spec cr) = Some d \<and> dis_InjectPodDeletion d \<and> disruption_due cr d \<le> e_wall e
         \<and> targetPods e cr = Inr pods \<and> v \<in> set pods \<and> pod_Name v = n \<and> healthy_pod v
         \<and> max 1 (dis_MinReplicasForChaos d) \<le> int (length (filter healthy_pod pods)))"
  by (rule reconcile_DeletePod[OF assms])

theorem disruption_guard_witness:
  "\<exists>n pods v. DeletePod n None \<in> set (fst (reconcile_cr demo_k8s demo_reconciler (run_env None) (w_cr dis_running)))
     \<and> \<not> disrupted demo_k8s (sv_Status (w_cr dis_running))
     \<and> targetPods (run_env None) (w_cr dis_running) = Inr pods \<and> v \<in> set pods \<and> pod_Name v = n \<and> healthy_pod v"
  using disruption_guard[OF dis_running_deletes] dis_running_deletes by blast

text \<open>C5. When the load is started: a reconcile call creates the Job only for a pending object that is
  not being deleted, when the API server has just said that the Job of that name does not exist and
  the target has at least one ready pod; the object then carries the finalizer, so the Job cannot
  be orphaned by a deletion.\<close>

theorem job_created_guard:
  assumes job: "CreateJob job err \<in> set (fst (reconcile_cr K R e cr))" and K: "k8s_laws K" and del: "deletion_ok cr"
  shows "sv_DeletionTimestamp cr = None \<and> st_Phase (sv_Status cr) = PhasePending
    \<and> (\<exists>gone. e_job e = Inl gone \<and> IsNotFound gone) \<and> (\<exists>n \<ge> 1. targetPodsReady K e cr = Inr (True, n))
    \<and> job_Name job = loadgenJobName cr
    \<and> ContainsFinalizer K (sv_Finalizers (apply_effects (fst (reconcile_cr K R e cr)) cr)) scaleValidationFinalizer"
proof (cases rule: reconcile_cr_cases[of K R e cr])
  case (2 es fs)
  let ?cr = "cr\<lparr>sv_Finalizers := fs\<rparr>"
  have "CreateJob job err \<in> set (fst (reconcilePhase K R e ?cr))"
    using job 2(1,3) by (auto simp: andthen_def)
  note phase = reconcilePhase_CreateJob[OF this]
  note await = awaitTarget_CreateJob[OF conjunct2[OF conjunct2[OF phase]]]
  have fin: "ContainsFinalizer K (sv_Finalizers (apply_effects (fst (reconcile_cr K R e cr)) cr)) scaleValidationFinalizer"
    using 2(1,3) apply_effects_finalizers[OF reconcilePhase_no_Update]
    by (auto simp: andthen_def k8s_lawsD[OF K])
  show ?thesis
    using phase await fin 2(2) del targetPodsReady_count[of K e cr True] buildLoadgenJob_name
      spawnJob_CreateJob[OF conjunct2[OF await]]
    by (auto simp: deletion_ok_def)
qed (use job cr_finalize_no in auto)

theorem job_created_guard_witness:
  "sv_Finalizers (apply_effects (fst (reconcile_cr demo_k8s demo_reconciler demo_env
      (dis_cr\<lparr>sv_Status := new_status\<lparr>st_Phase := PhasePending\<rparr>\<rparr>))) (dis_cr\<lparr>sv_Status := new_status\<lparr>st_Phase := PhasePending\<rparr>\<rparr>)) \<noteq> []"
proof -
  let ?cr = "dis_cr\<lparr>sv_Status := new_status\<lparr>st_Phase := PhasePending\<rparr>\<rparr>"
  have "\<exists>job. CreateJob job None \<in> set (fst (reconcile_cr demo_k8s demo_reconciler demo_env ?cr))"
    by (simp add: reconcile_cr_def reconcilePhase_def reconcileActive_def awaitTarget_def targetReady_def spawnJob_def
      targetPodsReady_def targetSelector_def targetGVK_def resolveTargetURL_def validateTLSCABundle_def caBundleRef_def
      buildLoadgenJob_def observerArgs_def loadgenArgs_def buildPhases_def setPhase_def write_status_def andthen_def Let_def
      ctrl_podReady_def demo_pod_def wrap32_def demo_defs dis_cr_def dis_spec_def demo_spec_def)
  moreover have "deletion_ok ?cr" by (simp add: deletion_ok_def new_status_def)
  ultimately obtain job where "CreateJob job None \<in> set (fst (reconcile_cr demo_k8s demo_reconciler demo_env ?cr))" "deletion_ok ?cr"
    by blast
  from job_created_guard[OF this(1) demo_laws this(2)] show ?thesis
    by (auto simp: demo_k8s_def ref_k8s_def)
qed

text \<open>C6. The deletion protocol of an object that carries the finalizer: while its Job exists the
  finalizer stays, the Job's deletion is requested once the phase is Terminating (and only if it
  is not already going away) and the call comes back after two seconds; when the API server says
  that the Job is gone, and only then, the finalizer is taken off, and the other finalizers stay.\<close>

theorem finalizer_protocol:
  assumes K: "k8s_laws K" and del: "sv_DeletionTimestamp cr = Some t"
    and fin: "ContainsFinalizer K (sv_Finalizers cr) scaleValidationFinalizer" and out: "reconcile_cr K R e cr = (es, res)"
  shows "((\<exists>fs err. Update fs err \<in> set es) \<longleftrightarrow> (\<exists>gone. e_job e = Inl gone \<and> IsNotFound gone))
    \<and> (\<forall>fs err f. Update fs err \<in> set es \<longrightarrow>
         (ContainsFinalizer K fs f \<longleftrightarrow> f \<noteq> scaleValidationFinalizer \<and> ContainsFinalizer K (sv_Finalizers cr) f))
    \<and> (\<forall>job d. e_job e = Inr job \<and> res = Inr d \<longrightarrow>
         d = 2 * Second \<and> ((\<exists>err. DeleteJob (jb_Name job) err \<in> set es) \<longleftrightarrow> jb_DeletionTimestamp job = None)
         \<and> st_Phase (sv_Status (apply_effects es cr)) = PhaseTerminating)"
proof -
  have out': "cr_finalize K e cr = (es, res)" using out del by (simp add: reconcile_cr_def)
  show ?thesis
  proof (cases "e_job e")
    case (Inl err)
    then show ?thesis using out' fin by (auto simp: cr_finalize_def Let_def k8s_lawsD[OF K] split: if_splits)
  next
    case (Inr job)
    then show ?thesis
      using out' fin
      by (auto simp: cr_finalize_def Let_def write_status_def split: if_splits option.splits)
  qed
qed

theorem finalizer_protocol_witness:
  "fst (reconcile_cr demo_k8s demo_reconciler demo_env (dis_cr\<lparr>sv_DeletionTimestamp := Some 5\<rparr>)) = [Update [] None]
   \<and> \<not> ContainsFinalizer demo_k8s [] scaleValidationFinalizer"
proof -
  let ?cr = "dis_cr\<lparr>sv_DeletionTimestamp := Some 5\<rparr>"
  have out: "reconcile_cr demo_k8s demo_reconciler demo_env ?cr = ([Update [] None], Inr 0)"
    by (simp add: reconcile_cr_def cr_finalize_def demo_defs dis_cr_def)
  have fin: "ContainsFinalizer demo_k8s (sv_Finalizers ?cr) scaleValidationFinalizer"
    by (simp add: dis_cr_def demo_k8s_def ref_k8s_def)
  have "sv_DeletionTimestamp ?cr = Some 5" by simp
  from finalizer_protocol[OF demo_laws this fin out] out show ?thesis by auto
qed

end
