(* ===== verification/Schedule_Props.thy ===== *)
theory Schedule_Props
  imports Lifecycle_Props
begin

text \<open>
  What happens to a finished validation: when it is restarted, how a schedule and suspension act on
  it, and three behaviours of the code that its comments do not describe.
\<close>

section \<open>Finished objects\<close>

text \<open>A finished object the reconciler owns: terminal phase, not being deleted, finalizer in place,
  generation recorded.\<close>

definition settled :: "k8s \<Rightarrow> ScaleValidation \<Rightarrow> bool" where
  "settled K cr \<longleftrightarrow> terminal_phase (st_Phase (sv_Status cr)) \<and> sv_DeletionTimestamp cr = None
     \<and> ContainsFinalizer K (sv_Finalizers cr) scaleValidationFinalizer \<and> st_ObservedGeneration (sv_Status cr) \<noteq> 0"

lemma settled_reconcile: "settled K cr \<Longrightarrow> reconcile_cr K R e cr = reconcileTerminal K e cr"
  by (simp add: settled_def reconcile_cr_def reconcilePhase_def)

text \<open>When the next run is due: the spec has changed since the last one, or the schedule says so.\<close>

definition run_due :: "k8s \<Rightarrow> time \<Rightarrow> ScaleValidation \<Rightarrow> bool" where
  "run_due K now cr \<longleftrightarrow>
     (if sv_Generation cr \<noteq> st_ObservedGeneration (sv_Status cr) then \<not> isl (parseSchedule K cr)
      else case parseSchedule K cr of Inr (Some next_of) \<Rightarrow> next_of (lastRunAnchor cr) \<le> now | _ \<Rightarrow> False)"

lemma write_status_writes [simp]: "status_writes (fst (write_status e cr m d)) = [(sv_Status cr, e_status_err e)]"
  by (simp add: write_status_def)

lemma setPhase_writes [simp]: "status_writes (fst (setPhase e cr p)) = [((sv_Status cr)\<lparr>st_Phase := p\<rparr>, e_status_err e)]"
  by (simp add: setPhase_def)

lemma andthen_writes [simp]: "status_writes (fst (andthen es out)) = status_writes es @ status_writes (fst out)"
  by (simp add: andthen_def)

lemma startNextRun_pending:
  "(\<exists>st err. (st, err) \<in> set (status_writes (fst (startNextRun K e cr))) \<and> st_Phase st = PhasePending)
   \<longleftrightarrow> (\<exists>gone. e_job e = Inl gone \<and> IsNotFound gone)"
  by (auto simp: startNextRun_def split: sum.splits option.splits)

lemma failScheduleInvalid_writes: "(st, err) \<in> set (status_writes (fst (failScheduleInvalid K e cr cause))) \<Longrightarrow> st_Phase st = PhaseError"
  by (simp add: failScheduleInvalid_def Let_def setTerminalPhase_def)

text \<open>C3. Exactly when a finished validation runs again: a reconcile call of a settled object puts it
  back to Pending if and only if it is not suspended, its next run is due (the spec changed since the
  last run to one whose schedule parses, or the schedule's next time after the start of the last
  run has come), and the old Job is gone. In particular a one-shot validation whose spec does not
  change never runs again, and a suspended one never does, whatever else was edited.\<close>

theorem restart_iff:
  assumes "settled K cr"
  shows "(\<exists>st err. (st, err) \<in> set (status_writes (fst (reconcile_cr K R e cr))) \<and> st_Phase st = PhasePending)
    \<longleftrightarrow> \<not> spec_Suspend (sv_Spec cr) \<and> run_due K (e_now e) cr \<and> (\<exists>gone. e_job e = Inl gone \<and> IsNotFound gone)"
proof -
  have ph: "st_Phase (sv_Status cr) \<noteq> PhasePending" using assms by (auto simp: settled_def)
  show ?thesis
    using assms ph startNextRun_pending[of K e cr]
    by (auto simp: settled_reconcile reconcileTerminal_def parkSuspended_def restartForSpecChange_def run_due_def Let_def
        settled_def dest: failScheduleInvalid_writes split: sum.splits option.splits)
qed

text \<open>A finished validation scheduled hourly, created at time 0.\<close>

definition hourly_cr :: ScaleValidation where
  "hourly_cr = demo_cr\<lparr>sv_Finalizers := [scaleValidationFinalizer], sv_Spec := demo_spec\<lparr>spec_Schedule := ''@hourly''\<rparr>,
     sv_Status := new_status\<lparr>st_Phase := PhaseError, st_ObservedGeneration := 1\<rparr>\<rparr>"

lemma hourly_settled: "settled demo_k8s hourly_cr"
  by (simp add: settled_def hourly_cr_def demo_defs)

lemma hourly_schedule: "parseSchedule demo_k8s hourly_cr = Inr (Some (\<lambda>t. t + 3600 * Second))"
  "parseSchedule demo_k8s (hourly_cr\<lparr>sv_Status := st\<rparr>) = Inr (Some (\<lambda>t. t + 3600 * Second))"
  by (simp_all add: parseSchedule_def hourly_cr_def demo_defs)

theorem restart_iff_witness:
  "\<exists>st err. (st, err) \<in> set (status_writes (fst (reconcile_cr demo_k8s demo_reconciler (demo_env\<lparr>e_now := 3600 * Second\<rparr>) hourly_cr)))
     \<and> st_Phase st = PhasePending"
proof -
  have "run_due demo_k8s (3600 * Second) hourly_cr"
    by (simp add: run_due_def hourly_schedule) (simp add: hourly_cr_def demo_cr_def new_status_def lastRunAnchor_def)
  then show ?thesis
    using restart_iff[OF hourly_settled, of demo_reconciler "demo_env\<lparr>e_now := 3600 * Second\<rparr>"]
    by (simp add: demo_env_def hourly_cr_def demo_spec_def)
qed

text \<open>Waiting for the schedule: when the next run of a settled, unsuspended object is not yet due,
  the call publishes the next run time if it is not yet published, touches nothing else, and asks to
  be called again exactly when the run is due; calling it again at the same time with the write
  stored does nothing but wait.\<close>

theorem schedule_parks:
  assumes s: "settled K cr" "\<not> spec_Suspend (sv_Spec cr)" "sv_Generation cr = st_ObservedGeneration (sv_Status cr)"
    and p: "parseSchedule K cr = Inr (Some next_of)" and t: "next_t = next_of (lastRunAnchor cr)" "e_now e < next_t"
    and near: "next_t - e_now e \<le> MaxInt64" and ok: "e_status_err e = None"
  shows "\<exists>es. reconcile_cr K R e cr = (es, Inr (next_t - e_now e))
    \<and> apply_effects es cr = cr\<lparr>sv_Status := (sv_Status cr)\<lparr>st_NextRunTime := Some next_t\<rparr>\<rparr>
    \<and> (es = [] \<longleftrightarrow> st_NextRunTime (sv_Status cr) = Some next_t)
    \<and> reconcile_cr K R e (apply_effects es cr) = ([], Inr (next_t - e_now e))"
proof -
  have sub: "time_Sub next_t (e_now e) = next_t - e_now e"
    using t near by (simp add: time_Sub_def int_bounds)
  let ?cr = "cr\<lparr>sv_Status := (sv_Status cr)\<lparr>st_NextRunTime := Some next_t\<rparr>\<rparr>"
  have settled': "settled K ?cr" and p': "parseSchedule K ?cr = Inr (Some next_of)" "lastRunAnchor ?cr = lastRunAnchor cr"
    using s(1) p by (auto simp: settled_def parseSchedule_def lastRunAnchor_def split: option.split sum.splits if_splits)
  have again: "reconcile_cr K R e ?cr = ([], Inr (next_t - e_now e))"
    using settled_reconcile[OF settled', of R e] s p' t sub by (simp add: reconcileTerminal_def settled_def Let_def)
  show ?thesis
  proof (cases "st_NextRunTime (sv_Status cr) = Some next_t")
    case True
    then have "?cr = cr" by simp
    with again True show ?thesis by auto
  next
    case False
    have "reconcile_cr K R e cr = ([StatusUpdate (sv_Status ?cr) None], Inr (next_t - e_now e))"
      using settled_reconcile[OF s(1), of R e] s p t sub False ok
      by (simp add: reconcileTerminal_def settled_def Let_def write_status_def)
    with again False show ?thesis by simp
  qed
qed

theorem schedule_parks_witness:
  "\<exists>es. reconcile_cr demo_k8s demo_reconciler demo_env hourly_cr = (es, Inr (3540 * Second)) \<and> es \<noteq> []"
proof -
  have "\<exists>es. reconcile_cr demo_k8s demo_reconciler demo_env hourly_cr = (es, Inr (3600 * Second - e_now demo_env))
    \<and> apply_effects es hourly_cr = hourly_cr\<lparr>sv_Status := (sv_Status hourly_cr)\<lparr>st_NextRunTime := Some (3600 * Second)\<rparr>\<rparr>
    \<and> (es = [] \<longleftrightarrow> st_NextRunTime (sv_Status hourly_cr) = Some (3600 * Second))
    \<and> reconcile_cr demo_k8s demo_reconciler demo_env (apply_effects es hourly_cr) = ([], Inr (3600 * Second - e_now demo_env))"
    by (rule schedule_parks[OF hourly_settled _ _ hourly_schedule(1)])
      (simp_all add: hourly_cr_def demo_cr_def demo_spec_def new_status_def lastRunAnchor_def demo_env_def int_bounds)
  then show ?thesis by (auto simp: demo_env_def hourly_cr_def new_status_def)
qed

section \<open>Suspension\<close>

definition parked :: "ScaleValidation \<Rightarrow> ScaleValidation" where
  "parked cr = cr\<lparr>sv_Status := (sv_Status cr)\<lparr>st_NextRunTime := None, st_ObservedGeneration := sv_Generation cr\<rparr>\<rparr>"

definition reconciled :: "k8s \<Rightarrow> reconciler \<Rightarrow> ScaleValidation \<Rightarrow> ScaleValidation \<Rightarrow> bool" where
  "reconciled K R cr cr' \<longleftrightarrow> (\<exists>e. cr' = apply_effects (fst (reconcile_cr K R e cr)) cr)"

lemma parkSuspended_stored:
  "apply_effects (fst (parkSuspended e cr)) cr \<in> {cr, parked cr}"
  "apply_effects (fst (parkSuspended e (parked cr))) (parked cr) = parked cr"
  "e_status_err e = None \<Longrightarrow> apply_effects (fst (parkSuspended e cr)) cr = parked cr"
  by (cases "e_status_err e"; auto simp: parkSuspended_def parked_def write_status_def Let_def)+

lemma parked_settled: "settled K cr \<Longrightarrow> 0 < sv_Generation cr \<Longrightarrow> settled K (parked cr)"
  by (simp add: settled_def parked_def)

lemma suspended_reconcile:
  assumes "settled K cr" "spec_Suspend (sv_Spec cr)"
  shows "reconcile_cr K R e cr = parkSuspended e cr"
  using assms settled_reconcile[OF assms(1), of R e] by (simp add: reconcileTerminal_def settled_def)

text \<open>A suspended validation stays parked: through any number of reconcile calls, whatever the API
  server, the clock and the schedule say, a settled suspended object keeps its phase, verdicts,
  history and start time; the only change ever stored is that it forgets the next run time and records
  its generation, so lifting the suspension is not mistaken for a later edit.\<close>

theorem suspended_stays_parked:
  assumes s: "settled K cr" "spec_Suspend (sv_Spec cr)" "0 < sv_Generation cr" and steps: "(reconciled K R)\<^sup>*\<^sup>* cr cr'"
  shows "cr' = cr \<or> cr' = parked cr"
  using steps
proof (induction rule: rtranclp_induct)
  case (step y z)
  then obtain e where z: "z = apply_effects (fst (reconcile_cr K R e y)) y" by (auto simp: reconciled_def)
  have "reconcile_cr K R e cr = parkSuspended e cr" "reconcile_cr K R e (parked cr) = parkSuspended e (parked cr)"
    using s parked_settled[OF s(1,3)] suspended_reconcile by (simp_all add: parked_def)
  then show ?case using step.IH z parkSuspended_stored(1,2)[of e cr] by auto
qed simp

theorem suspended_stays_parked_witness:
  "apply_effects (fst (reconcile_cr demo_k8s demo_reconciler (demo_env\<lparr>e_now := 7200 * Second\<rparr>)
       (hourly_cr\<lparr>sv_Spec := (sv_Spec hourly_cr)\<lparr>spec_Suspend := True\<rparr>\<rparr>))) (hourly_cr\<lparr>sv_Spec := (sv_Spec hourly_cr)\<lparr>spec_Suspend := True\<rparr>\<rparr>)
   = parked (hourly_cr\<lparr>sv_Spec := (sv_Spec hourly_cr)\<lparr>spec_Suspend := True\<rparr>\<rparr>)"
proof -
  let ?cr = "hourly_cr\<lparr>sv_Spec := (sv_Spec hourly_cr)\<lparr>spec_Suspend := True\<rparr>\<rparr>"
  have s: "settled demo_k8s ?cr" "spec_Suspend (sv_Spec ?cr)" "0 < sv_Generation ?cr"
    using hourly_settled by (simp_all add: settled_def hourly_cr_def demo_cr_def)
  have "(reconciled demo_k8s demo_reconciler)\<^sup>*\<^sup>* ?cr
      (apply_effects (fst (reconcile_cr demo_k8s demo_reconciler (demo_env\<lparr>e_now := 7200 * Second\<rparr>) ?cr)) ?cr)"
    by (rule r_into_rtranclp) (auto simp: reconciled_def)
  from suspended_stays_parked[OF s this]
  show ?thesis by (auto simp: parked_def hourly_cr_def demo_cr_def new_status_def)
qed

section \<open>Behaviours the comments do not describe\<close>

text \<open>A spec edited while a run is in progress is never validated: the run that was started
  for the old spec finishes, its result is stored with the edited generation as the observed one,
  and every later reconcile call of a one-shot object does nothing, so the stored verdict describes a
  spec the object no longer carries.\<close>

theorem mid_run_edit_never_validated:
  assumes cr: "sv_DeletionTimestamp cr = None" "ContainsFinalizer K (sv_Finalizers cr) scaleValidationFinalizer" "0 < sv_Generation cr"
      "in_progress (st_Phase (sv_Status cr))"
    and edit: "edited = cr\<lparr>sv_Spec := spec, sv_Generation := sv_Generation cr + 1\<rparr>" "spec_Schedule spec = []" "\<not> spec_Suspend spec"
    and run: "e_job e = Inr job" "\<not> jobConditionTrue job ''Failed''" "jobConditionTrue job ''Complete''"
      "e_job_pods e = Inr (pod # pods)" "observerTerminated pod" "e_log e (jp_Name pod) = Inr raw"
      "ParseReportLog (report_Unmarshal K) raw = Inr report" "e_status_err e = None"
    and fin: "finished = apply_effects (fst (reconcile_cr K R e edited)) edited"
  shows "st_ObservedGeneration (sv_Status finished) = sv_Generation cr + 1
    \<and> st_SLAStatus (sv_Status finished) = rep_SLAStatus report \<and> terminal_phase (st_Phase (sv_Status finished))
    \<and> reconcile_cr K R later finished = ([], Inr 0)"
proof -
  have ph: "\<not> terminal_phase (st_Phase (sv_Status cr))" "st_Phase (sv_Status cr) \<noteq> PhaseNone"
    using cr(4) by (auto simp: in_progress_def)
  have "reconcile_cr K R e edited = finishRun K e edited"
    using cr edit(1) run ph by (simp add: reconcile_cr_def reconcilePhase_def reconcileActive_def)
  then have fin': "finished = edited\<lparr>sv_Status := sv_Status (finished_cr K e edited report)\<rparr>"
    using finishRun_success(2)[OF run(4-8)] fin by simp
  have st: "settled K finished" "sv_Generation finished = st_ObservedGeneration (sv_Status finished)"
    using cr edit fin' finished_cr_fields(1,4)[of K e edited report] by (auto simp: settled_def)
  have "reconcile_cr K R later finished = ([], Inr 0)"
    using settled_reconcile[OF st(1), of R later] st edit fin'
    by (simp add: reconcileTerminal_def settled_def parseSchedule_def)
  then show ?thesis
    using st(1) fin' edit(1) finished_cr_fields(2,4)[of K e edited report] by (simp add: settled_def)
qed

text \<open>A library whose decoder knows two reports, and a finished Job.\<close>

definition demo_report :: "string \<Rightarrow> ObsReport" where
  "demo_report v = \<lparr>rep_Diagnostics = [], rep_ScaleUpDuration = None, rep_SLAStatus = v, rep_TrafficIntegrity = VerdictPass,
     rep_TotalRequests = 100, rep_FailedRequests = 0, rep_FailureRate = 0\<rparr>"

definition report_k8s :: k8s where
  "report_k8s = ref_k8s (\<lambda>s. if s = ''pass'' then Some (demo_report VerdictPass) else if s = ''fail'' then Some (demo_report VerdictFail) else None)
     (\<lambda>s. Inr (\<lambda>t. t + 3600 * Second))"

definition done_env :: "string \<Rightarrow> env" where
  "done_env s = demo_env\<lparr>e_job := Inr \<lparr>jb_Name = ''demo-loadgen'', jb_DeletionTimestamp = None, jb_Conditions = [(''Complete'', ''True'')]\<rparr>,
     e_job_pods := Inr [\<lparr>jp_Name = ''p'', jp_InitContainerStatuses = [(''observer'', True)]\<rparr>],
     e_log := (\<lambda>n. Inr (ReportLogPrefix @ s @ [CHR 0x0A]))\<rparr>"

lemma done_env_parses:
  "ParseReportLog (report_Unmarshal report_k8s) (ReportLogPrefix @ ''pass'' @ [CHR 0x0A]) = Inr (demo_report VerdictPass)"
  "ParseReportLog (report_Unmarshal report_k8s) (ReportLogPrefix @ ''fail'' @ [CHR 0x0A]) = Inr (demo_report VerdictFail)"
  using ParseReportLog_line[of "report_Unmarshal report_k8s" "''pass''" "demo_report VerdictPass" "[]" "[]"]
    ParseReportLog_line[of "report_Unmarshal report_k8s" "''fail''" "demo_report VerdictFail" "[]" "[]"]
  by (simp_all add: report_k8s_def ref_k8s_def graphic_def)

theorem mid_run_edit_never_validated_witness:
  "reconcile_cr report_k8s demo_reconciler demo_env
     (apply_effects (fst (reconcile_cr report_k8s demo_reconciler (done_env ''pass'')
        ((w_cr dis_running)\<lparr>sv_Spec := demo_spec\<lparr>spec_SLA := 1\<rparr>, sv_Generation := sv_Generation (w_cr dis_running) + 1\<rparr>)))
        ((w_cr dis_running)\<lparr>sv_Spec := demo_spec\<lparr>spec_SLA := 1\<rparr>, sv_Generation := sv_Generation (w_cr dis_running) + 1\<rparr>)) = ([], Inr 0)"
proof -
  let ?cr = "w_cr dis_running"
  let ?pod = "\<lparr>jp_Name = ''p'', jp_InitContainerStatuses = [(''observer'', True)]\<rparr>"
  have cr: "sv_DeletionTimestamp ?cr = None" "ContainsFinalizer report_k8s (sv_Finalizers ?cr) scaleValidationFinalizer"
      "0 < sv_Generation ?cr" "in_progress (st_Phase (sv_Status ?cr))"
    by (simp_all add: dis_cr_def demo_cr_def report_k8s_def ref_k8s_def in_progress_def)
  have "e_job (done_env ''pass'') = Inr \<lparr>jb_Name = ''demo-loadgen'', jb_DeletionTimestamp = None, jb_Conditions = [(''Complete'', ''True'')]\<rparr>"
    "e_job_pods (done_env ''pass'') = Inr [?pod]" "observerTerminated ?pod"
    "e_log (done_env ''pass'') (jp_Name ?pod) = Inr (ReportLogPrefix @ ''pass'' @ [CHR 0x0A])" "e_status_err (done_env ''pass'') = None"
    by (simp_all add: done_env_def observerTerminated_def demo_env_def)
  from mid_run_edit_never_validated[OF cr refl _ _ this(1) _ _ this(2,3,4) done_env_parses(1) this(5) refl]
  show ?thesis by (simp add: jobConditionTrue_def demo_spec_def)
qed

text \<open>Only the first pod the list returns is read: a pod left over from the previous run of a
  scheduled validation, if it is listed first, decides the verdict of the new one.\<close>

lemma finishRun_first_pod:
  "finishRun K (e\<lparr>e_job_pods := Inr (old # pods)\<rparr>) cr = finishRun K (e\<lparr>e_job_pods := Inr [old]\<rparr>) cr"
proof -
  let ?a = "e\<lparr>e_job_pods := Inr (old # pods)\<rparr>" and ?b = "e\<lparr>e_job_pods := Inr [old]\<rparr>"
  have eqs: "findJobPod ?a = findJobPod ?b" "observerLog ?a = observerLog ?b"
    "write_status ?a = write_status ?b" "finished_cr K ?a = finished_cr K ?b" "recordRunMetrics ?a = recordRunMetrics ?b"
    "setTerminalPhase K ?a = setTerminalPhase K ?b"
    by (simp_all add: fun_eq_iff findJobPod_def observerLog_def write_status_def finished_cr_def recordRunMetrics_def
        setTerminalPhase_def setPhase_def split: option.split sum.split)
  show ?thesis by (simp only: finishRun_def eqs)
qed

text \<open>A pending object whose target is not ready.\<close>

definition ready_timeout :: "reconciler \<Rightarrow> duration" where
  "ready_timeout R = (if r_targetReadyTimeout R = 0 then targetReadyWaitTimeout else r_targetReadyTimeout R)"

definition owned :: "k8s \<Rightarrow> ScaleValidation \<Rightarrow> bool" where
  "owned K cr \<longleftrightarrow> sv_DeletionTimestamp cr = None \<and> ContainsFinalizer K (sv_Finalizers cr) scaleValidationFinalizer"

lemma pending_not_ready:
  assumes "owned K cr" "st_Phase (sv_Status cr) = PhasePending" "e_job e = Inl gone" "IsNotFound gone"
    "targetPodsReady K e cr = Inr (False, n)"
  shows "reconcile_cr K R e cr =
    (if time_Sub (e_wall e) (sv_CreationTimestamp cr) > ready_timeout R
     then failTargetNotReady K e cr n (ready_timeout R) else ([], Inr targetReadyPollInterval))"
  using assms
  by (simp add: owned_def reconcile_cr_def reconcilePhase_def reconcileActive_def awaitTarget_def targetReady_def ready_timeout_def Let_def)

lemma failTargetNotReady_stored:
  assumes "e_status_err e = None"
  shows "snd (failTargetNotReady K e cr n d) = Inr 0"
    "apply_effects (fst (failTargetNotReady K e cr n d)) cr =
       (let cr' = markFinished K (add_diagnostic cr \<lparr>alert_Type = ''TargetNotReady'', alert_Severity = SeverityCritical,
              alert_Message = [L ''target deployment '', L (sv_Namespace cr), L ''/'', L (ref_Name (spec_TargetRef (sv_Spec cr)))]
                 @ [L '' had '', D n, L '' ready replicas after waiting '', Dur d],
              alert_Recommendation = [L ''ensure the target Deployment is healthy before applying the ScaleValidation'']\<rparr>) ''TargetNotReady''
            ([L ''target '', L (ref_Kind (spec_TargetRef (sv_Spec cr))), L '' '', L (ref_Name (spec_TargetRef (sv_Spec cr)))]
                 @ [L '' had '', D n, L '' ready replicas after waiting '', Dur d])
        in cr'\<lparr>sv_Status := (sv_Status cr')\<lparr>st_Phase := PhaseError\<rparr>\<rparr>)"
  using assms
  by (simp_all add: failTargetNotReady_def setTerminalPhase_def setPhase_def write_status_def andthen_def Let_def
      markFinished_def add_diagnostic_def)

text \<open>The readiness deadline: a pending object whose target has no ready pod polls every five
  seconds until its deadline and then fails, and the deadline is counted from the creation of the
  object, not from the start of the run. So a scheduled or re-run validation that is older than
  the timeout is given no time at all: one poll that finds the target not ready ends the run.\<close>

theorem readiness_deadline:
  assumes "owned K cr" "st_Phase (sv_Status cr) = PhasePending" "e_job e = Inl gone" "IsNotFound gone"
    "targetPodsReady K e cr = Inr (False, n)" "e_status_err e = None"
  shows "if time_Sub (e_wall e) (sv_CreationTimestamp cr) > ready_timeout R
    then st_Phase (sv_Status (apply_effects (fst (reconcile_cr K R e cr)) cr)) = PhaseError \<and> snd (reconcile_cr K R e cr) = Inr 0
    else reconcile_cr K R e cr = ([], Inr (5 * Second))"
  using pending_not_ready[OF assms(1-5), of R] failTargetNotReady_stored[OF assms(6), of K cr n "ready_timeout R"]
  by (simp add: Let_def)

theorem readiness_deadline_witness:
  "st_Phase (sv_Status (apply_effects
     (fst (reconcile_cr demo_k8s demo_reconciler (demo_env\<lparr>e_target_pods := (\<lambda>s. Inr []), e_wall := 3600 * Second\<rparr>)
        (dis_cr\<lparr>sv_Status := new_status\<lparr>st_Phase := PhasePending\<rparr>\<rparr>)))
     (dis_cr\<lparr>sv_Status := new_status\<lparr>st_Phase := PhasePending\<rparr>\<rparr>))) = PhaseError"
proof -
  let ?cr = "dis_cr\<lparr>sv_Status := new_status\<lparr>st_Phase := PhasePending\<rparr>\<rparr>"
  let ?e = "demo_env\<lparr>e_target_pods := (\<lambda>s. Inr []), e_wall := 3600 * Second\<rparr>"
  have "owned demo_k8s ?cr" "st_Phase (sv_Status ?cr) = PhasePending" "e_job ?e = Inl (Api NotFound ''gone'')"
    "IsNotFound (Api NotFound ''gone'')" "targetPodsReady demo_k8s ?e ?cr = Inr (False, 0)" "e_status_err ?e = None"
    by (simp_all add: owned_def targetPodsReady_def targetSelector_def targetGVK_def wrap32_def demo_defs dis_cr_def dis_spec_def
        demo_spec_def)
  from readiness_deadline[OF this, of demo_reconciler]
  show ?thesis by (simp add: ready_timeout_def demo_reconciler_def time_Sub_def int_bounds dis_cr_def demo_cr_def)
qed

text \<open>A scheduled object whose last run failed before its Job was created, whose schedule says that
  the next run is due, and whose target is still not ready.\<close>

definition wedged :: "k8s \<Rightarrow> reconciler \<Rightarrow> env \<Rightarrow> ScaleValidation \<Rightarrow> bool" where
  "wedged K R e cr \<longleftrightarrow> owned K cr \<and> st_Phase (sv_Status cr) = PhaseError \<and> \<not> spec_Suspend (sv_Spec cr)
     \<and> sv_Generation cr = st_ObservedGeneration (sv_Status cr) \<and> sv_Generation cr \<noteq> 0
     \<and> (case parseSchedule K cr of Inr (Some next_of) \<Rightarrow> next_of (lastRunAnchor cr) \<le> e_now e | _ \<Rightarrow> False)
     \<and> (case e_job e of Inl gone \<Rightarrow> IsNotFound gone | Inr _ \<Rightarrow> False)
     \<and> (case targetPodsReady K e cr of Inr (ready, _) \<Rightarrow> \<not> ready | Inl _ \<Rightarrow> False)
     \<and> time_Sub (e_wall e) (sv_CreationTimestamp cr) > ready_timeout R \<and> e_status_err e = None"

abbreviation stored :: "k8s \<Rightarrow> reconciler \<Rightarrow> env \<Rightarrow> ScaleValidation \<Rightarrow> ScaleValidation" where
  "stored K R e cr \<equiv> apply_effects (fst (reconcile_cr K R e cr)) cr"

text \<open>What the loop leaves alone.\<close>

definition same_run :: "ScaleValidation \<Rightarrow> ScaleValidation \<Rightarrow> bool" where
  "same_run cr cr' \<longleftrightarrow> sv_Spec cr' = sv_Spec cr \<and> sv_Namespace cr' = sv_Namespace cr \<and> sv_Finalizers cr' = sv_Finalizers cr
     \<and> sv_Generation cr' = sv_Generation cr \<and> sv_CreationTimestamp cr' = sv_CreationTimestamp cr
     \<and> sv_DeletionTimestamp cr' = sv_DeletionTimestamp cr
     \<and> st_LastRunTime (sv_Status cr') = st_LastRunTime (sv_Status cr)"

lemma targetPodsReady_spec: "sv_Spec cr' = sv_Spec cr \<Longrightarrow> targetPodsReady K e cr' = targetPodsReady K e cr"
  by (simp add: targetPodsReady_def targetSelector_def targetGVK_def classifyTargetError_def Let_def split: sum.split option.split)

lemma same_run_facts:
  assumes "same_run cr cr'"
  shows "parseSchedule K cr' = parseSchedule K cr" "lastRunAnchor cr' = lastRunAnchor cr"
    "targetPodsReady K e cr' = targetPodsReady K e cr" "owned K cr' = owned K cr"
  using assms targetPodsReady_spec[of cr' cr K e]
  by (auto simp: same_run_def parseSchedule_def lastRunAnchor_def owned_def split: sum.split option.split)

lemma wedged_restarts:
  assumes w: "wedged K R e cr"
  shows "same_run cr (stored K R e cr) \<and> st_Phase (sv_Status (stored K R e cr)) = PhasePending \<and> snd (reconcile_cr K R e cr) = Inr 0"
proof -
  have s: "settled K cr" using w by (auto simp: wedged_def owned_def settled_def)
  show ?thesis
    using w settled_reconcile[OF s, of R e]
    by (auto simp: wedged_def reconcileTerminal_def startNextRun_def andthen_def setPhase_def write_status_def resetForNextRun_def
        same_run_def Let_def split: sum.splits option.splits)
qed

lemma wedged_fails:
  assumes w: "wedged K R e cr" and c: "same_run cr cr'" "st_Phase (sv_Status cr') = PhasePending"
  shows "wedged K R e (stored K R e cr') \<and> snd (reconcile_cr K R e cr') = Inr 0"
proof -
  obtain gone n where env: "e_job e = Inl gone" "IsNotFound gone" "targetPodsReady K e cr' = Inr (False, n)" "e_status_err e = None"
    and late: "time_Sub (e_wall e) (sv_CreationTimestamp cr') > ready_timeout R" and own: "owned K cr'"
    using w c(1) same_run_facts[OF c(1)] by (auto simp: wedged_def same_run_def split: sum.splits)
  have out: "reconcile_cr K R e cr' = failTargetNotReady K e cr' n (ready_timeout R)"
    using pending_not_ready[OF own c(2) env(1-3), of R] late by simp
  then have same: "same_run cr' (stored K R e cr')" and ph: "st_Phase (sv_Status (stored K R e cr')) = PhaseError"
      and gen: "st_ObservedGeneration (sv_Status (stored K R e cr')) = sv_Generation cr'"
    using failTargetNotReady_stored(2)[OF env(4)] by (simp_all add: Let_def same_run_def markFinished_def add_diagnostic_def)
  have frame: "same_run cr (stored K R e cr')" using c(1) same by (simp add: same_run_def)
  show ?thesis
    using w ph gen same_run_facts[OF frame] frame c(1) out failTargetNotReady_stored(1)[OF env(4)]
    by (auto simp: wedged_def same_run_def split: sum.splits option.splits)
qed



end
