(* ===== verification/Crd_Schema.thy ===== *)
theory Crd_Schema
  imports Api_Types
begin

text \<open>
  The schema of the custom resource: the validation markers of
  \<^verbatim>\<open>api/v1beta1/scalevalidation_types.go\<close> (enumerations, minima, item limits, the one CEL rule) and
  the integer widths of its Go fields, as predicates on the records of \<open>Api_Types\<close>. An optional
  string that is empty is not sent and is therefore not validated; the server's default for the
  protocol is \<open>crd_default\<close>.
\<close>

section \<open>Enumerations\<close>

definition TargetMode_enum :: "string list" where
  "TargetMode_enum = [''ServiceDefault'', ''AutoDiscoverProbe'', ''CustomPath'']"

definition NetworkPath_enum :: "string list" where
  "NetworkPath_enum = [''ClusterIP'', ''Ingress'', ''Gateway'']"

definition Protocol_enum :: "string list" where
  "Protocol_enum = [''HTTP1'', ''HTTP2'', ''GRPC'']"

definition LoadPattern_enum :: "string list" where
  "LoadPattern_enum = [''Constant'', ''Poisson'', ''Ramp'', ''Step'', ''Spike'']"

definition Severity_enum :: "string list" where
  "Severity_enum = [SeverityInfo, SeverityWarning, SeverityCritical]"

definition Verdict_enum :: "string list" where
  "Verdict_enum = [VerdictPass, VerdictFail, VerdictUnknown]"

definition optional_enum :: "string list \<Rightarrow> string \<Rightarrow> bool" where
  "optional_enum en s \<longleftrightarrow> s = [] \<or> s \<in> set en"

lemmas enum_defs = TargetMode_enum_def NetworkPath_enum_def Protocol_enum_def LoadPattern_enum_def
  Severity_enum_def Verdict_enum_def optional_enum_def

section \<open>Spec\<close>

definition tls_admitted :: "TLSConfig \<Rightarrow> bool" where
  "tls_admitted t \<longleftrightarrow> \<not> (InsecureSkipVerify t \<and> CABundle t \<noteq> None)"

definition target_admitted :: "TargetConfig \<Rightarrow> bool" where
  "target_admitted t \<longleftrightarrow> tgt_Mode t \<in> set TargetMode_enum \<and> in_int32 (tgt_Port t)
     \<and> tgt_NetworkPath t \<in> set NetworkPath_enum \<and> optional_enum Protocol_enum (tgt_Protocol t)
     \<and> (case tgt_TLS t of None \<Rightarrow> True | Some tls \<Rightarrow> tls_admitted tls)"

definition spike_admitted :: "SpikeWindow \<Rightarrow> bool" where
  "spike_admitted w \<longleftrightarrow> in_int64 (sw_At w) \<and> in_int64 (sw_Duration w) \<and> in_int32 (sw_RPS w)"

abbreviation opt_ok :: "('a \<Rightarrow> bool) \<Rightarrow> 'a option \<Rightarrow> bool" where
  "opt_ok P x \<equiv> (case x of None \<Rightarrow> True | Some v \<Rightarrow> P v)"

definition profile_admitted :: "LoadProfile \<Rightarrow> bool" where
  "profile_admitted p \<longleftrightarrow> lp_Pattern p \<in> set LoadPattern_enum \<and> opt_ok in_int32 (lp_EndRPS p)
     \<and> opt_ok in_int64 (lp_RampDuration p) \<and> opt_ok in_int32 (lp_StepRPS p) \<and> opt_ok in_int64 (lp_StepDuration p)
     \<and> list_all spike_admitted (lp_Spikes p)"

definition load_admitted :: "LoadConfig \<Rightarrow> bool" where
  "load_admitted l \<longleftrightarrow> in_int32 (load_BaseRPS l) \<and> in_int32 (load_ConcurrencyFactor l)
     \<and> in_int32 (load_Concurrency l) \<and> 0 \<le> load_Concurrency l
     \<and> opt_ok in_int64 (load_WarmupDuration l) \<and> opt_ok profile_admitted (load_Profile l)"

definition disruption_admitted :: "DisruptionConfig \<Rightarrow> bool" where
  "disruption_admitted d \<longleftrightarrow> in_int32 (dis_MinReplicasForChaos d) \<and> 2 \<le> dis_MinReplicasForChaos d
     \<and> opt_ok in_int64 (dis_TriggerDelay d)"

definition spec_admitted :: "ScaleValidationSpec \<Rightarrow> bool" where
  "spec_admitted s \<longleftrightarrow> in_int64 (spec_SLA s) \<and> target_admitted (spec_Target s) \<and> load_admitted (spec_Load s)
     \<and> opt_ok disruption_admitted (spec_Disruption s)"

text \<open>The default the server fills in for an empty optional string.\<close>

definition crd_default :: "ScaleValidationSpec \<Rightarrow> ScaleValidationSpec" where
  "crd_default s = (if tgt_Protocol (spec_Target s) = [] then s\<lparr>spec_Target := (spec_Target s)\<lparr>tgt_Protocol := ''HTTP1''\<rparr>\<rparr> else s)"

lemma crd_default_admitted: "spec_admitted s \<Longrightarrow> spec_admitted (crd_default s) \<and> tgt_Protocol (spec_Target (crd_default s)) \<in> set Protocol_enum"
  by (auto simp: spec_admitted_def crd_default_def target_admitted_def enum_defs)

section \<open>Status\<close>

definition alert_admitted :: "DiagnosticAlert \<Rightarrow> bool" where
  "alert_admitted a \<longleftrightarrow> alert_Severity a \<in> set Severity_enum"

definition run_admitted :: "RunSummary \<Rightarrow> bool" where
  "run_admitted r \<longleftrightarrow> run_Phase r \<noteq> PhaseNone \<and> optional_enum Verdict_enum (run_SLAStatus r)
     \<and> optional_enum Verdict_enum (run_TrafficIntegrity r) \<and> in_int32 (run_FailureRateBasisPoints r)"

definition status_admitted :: "ScaleValidationStatus \<Rightarrow> bool" where
  "status_admitted s \<longleftrightarrow> optional_enum Verdict_enum (st_SLAStatus s) \<and> optional_enum Verdict_enum (st_TrafficIntegrity s)
     \<and> in_int64 (st_TotalRequests s) \<and> in_int64 (st_FailedRequests s) \<and> in_int32 (st_FailureRateBasisPoints s)
     \<and> list_all alert_admitted (st_Diagnostics s)
     \<and> list_all run_admitted (st_History s) \<and> length (st_History s) \<le> RunHistoryLimit"

text \<open>The fields the schema does not constrain.\<close>

lemma status_admitted_frame [simp]:
  "status_admitted (s\<lparr>st_Phase := p\<rparr>) = status_admitted s" "status_admitted (s\<lparr>st_Conditions := cs\<rparr>) = status_admitted s"
  "status_admitted (s\<lparr>st_ObservedGeneration := g\<rparr>) = status_admitted s" "status_admitted (s\<lparr>st_NextRunTime := n\<rparr>) = status_admitted s"
  "status_admitted (s\<lparr>st_LastRunTime := l\<rparr>) = status_admitted s" "status_admitted (s\<lparr>st_ScaleUpDuration := d\<rparr>) = status_admitted s"
  by (simp_all add: status_admitted_def)

lemma status_admitted_diagnostics:
  "status_admitted s \<Longrightarrow> list_all alert_admitted as \<Longrightarrow> status_admitted (s\<lparr>st_Diagnostics := as\<rparr>)"
  by (simp add: status_admitted_def)

end
