(* ===== verification/Shadow.thy ===== *)
theory Shadow
  imports Reconciler
begin

text \<open>
  The shadow controller, \<^verbatim>\<open>internal/controller/shadow_controller.go\<close>: an annotated Deployment
  gets a ScaleValidation of its own. Its SLA annotation is read by \<^verbatim>\<open>time.ParseDuration\<close>, which is
  modelled after the standard library, unsigned wrap-around and floating-point fractions included.
\<close>

section \<open>time.ParseDuration\<close>

definition is_digit :: "char \<Rightarrow> bool" where
  "is_digit c \<longleftrightarrow> char_digit c \<noteq> None"

text \<open>\<^verbatim>\<open>leadingInt\<close>: the digits at the front; \<^const>\<open>None\<close> on overflow.\<close>

fun leadingInt :: "nat \<Rightarrow> string \<Rightarrow> (nat \<times> string) option" where
  "leadingInt x [] = Some (x, [])"
| "leadingInt x (c # cs) =
     (case char_digit c of
        None \<Rightarrow> Some (x, c # cs)
      | Some d \<Rightarrow>
          if x > 2 ^ 63 div 10 then None
          else let x = x * 10 + d in if x > 2 ^ 63 then None else leadingInt x cs)"

text \<open>\<^verbatim>\<open>leadingFraction\<close>: digits that no longer fit are dropped.\<close>

fun leadingFraction :: "nat \<Rightarrow> nat \<Rightarrow> bool \<Rightarrow> string \<Rightarrow> nat \<times> nat \<times> string" where
  "leadingFraction x scale overflow [] = (x, scale, [])"
| "leadingFraction x scale overflow (c # cs) =
     (case char_digit c of
        None \<Rightarrow> (x, scale, c # cs)
      | Some d \<Rightarrow>
          if overflow then leadingFraction x scale True cs
          else if x > (2 ^ 63 - 1) div 10 then leadingFraction x scale True cs
          else let y = x * 10 + d in
            if y > 2 ^ 63 then leadingFraction x scale True cs else leadingFraction y (scale * 10) False cs)"

definition duration_unit :: "string \<Rightarrow> nat option" where
  "duration_unit u = map_of
     [(''ns'', 1), (''us'', 10 ^ 3), ([CHR 0xC2, CHR 0xB5, CHR ''s''], 10 ^ 3), ([CHR 0xCE, CHR 0xBC, CHR ''s''], 10 ^ 3),
      (''ms'', 10 ^ 6), (''s'', 10 ^ 9), (''m'', 60 * 10 ^ 9), (''h'', 3600 * 10 ^ 9)] u"

definition unit_char :: "char \<Rightarrow> bool" where
  "unit_char c \<longleftrightarrow> \<not> (c = CHR ''.'' \<or> is_digit c)"

definition fraction_part :: "string \<Rightarrow> nat \<times> nat \<times> string" where
  "fraction_part s = (if s \<noteq> [] \<and> hd s = CHR ''.'' then leadingFraction 0 1 False (tl s) else (0, 1, s))"

text \<open>One round of the loop: a number, a unit, and what is left.\<close>

definition duration_token :: "string \<Rightarrow> (nat \<times> string) option" where
  "duration_token s =
     (if s = [] \<or> \<not> (hd s = CHR ''.'' \<or> is_digit (hd s)) then None
      else case leadingInt 0 s of None \<Rightarrow> None
        | Some (v, s1) \<Rightarrow>
            let pre = length s1 \<noteq> length s;
                dot = (s1 \<noteq> [] \<and> hd s1 = CHR ''.'');
                (f, scale, s2) = fraction_part s1;
                post = (dot \<and> length s2 \<noteq> length (tl s1));
                u = takeWhile unit_char s2; s3 = dropWhile unit_char s2
            in if \<not> pre \<and> \<not> post then None
               else if u = [] then None
               else case duration_unit u of None \<Rightarrow> None
                 | Some unit \<Rightarrow>
                     if v > 2 ^ 63 div unit then None
                     else
                       let v = v * unit;
                           v = (if f > 0 then v + nat (fl_trunc (fl_mul (fl_of_int (int f)) (fl_div (fl_of_int (int unit)) (fl_of_int (int scale))))) else v)
                       in if f > 0 \<and> v > 2 ^ 63 then None else Some (v, s3))"

fun duration_loop :: "nat \<Rightarrow> nat \<Rightarrow> string \<Rightarrow> nat option" where
  "duration_loop fuel d [] = Some d"
| "duration_loop 0 d s = None"
| "duration_loop (Suc fuel) d s =
     (case duration_token s of None \<Rightarrow> None
      | Some (v, rest) \<Rightarrow>
          let d = (d + v) mod 2 ^ 64 in if d > 2 ^ 63 then None else duration_loop fuel d rest)"

text \<open>Every round consumes a unit, so the length of the string is fuel enough.\<close>

definition ParseDuration :: "string \<Rightarrow> duration option" where
  "ParseDuration s =
     (let neg = (s \<noteq> [] \<and> hd s = CHR ''-'');
          s = (if s \<noteq> [] \<and> (hd s = CHR ''-'' \<or> hd s = CHR ''+'') then tl s else s)
      in if s = ''0'' then Some 0
         else if s = [] then None
         else case duration_loop (length s) 0 s of None \<Rightarrow> None
           | Some d \<Rightarrow> if neg then Some (wrap64 (- int d)) else if d > 2 ^ 63 - 1 then None else Some (int d))"

section \<open>The controller\<close>

abbreviation "shadowEnableAnnotation \<equiv> ''validation.scale-sentry.ek.co/enabled''"
abbreviation "shadowPortAnnotation \<equiv> ''validation.scale-sentry.ek.co/port''"
abbreviation "shadowSLAAnnotation \<equiv> ''validation.scale-sentry.ek.co/sla''"
abbreviation "shadowRPSAnnotation \<equiv> ''validation.scale-sentry.ek.co/base-rps''"
abbreviation (input) shadowDefaultPort :: int where "shadowDefaultPort \<equiv> 80"
abbreviation (input) shadowDefaultSLA :: duration where "shadowDefaultSLA \<equiv> 5 * Minute"
abbreviation (input) shadowDefaultBaseRPS :: int where "shadowDefaultBaseRPS \<equiv> 50"

record Deployment =
  dep_Name :: string
  dep_Namespace :: string
  dep_Annotations :: "string \<Rightarrow> string option"

text \<open>Name, namespace and specification of the object to create; a malformed annotation is named.\<close>

definition shadowScaleValidation :: "Deployment \<Rightarrow> string \<Rightarrow> string + string \<times> string \<times> ScaleValidationSpec" where
  "shadowScaleValidation deploy name =
     (case (case dep_Annotations deploy shadowPortAnnotation of None \<Rightarrow> Some shadowDefaultPort | Some v \<Rightarrow> ParseInt 32 v) of
        None \<Rightarrow> Inl shadowPortAnnotation
      | Some port \<Rightarrow>
          (case (case dep_Annotations deploy shadowSLAAnnotation of None \<Rightarrow> Some shadowDefaultSLA | Some v \<Rightarrow> ParseDuration v) of
             None \<Rightarrow> Inl shadowSLAAnnotation
           | Some sla \<Rightarrow>
               (case (case dep_Annotations deploy shadowRPSAnnotation of None \<Rightarrow> Some shadowDefaultBaseRPS | Some v \<Rightarrow> ParseInt 32 v) of
                  None \<Rightarrow> Inl shadowRPSAnnotation
                | Some baseRPS \<Rightarrow>
                    Inr (name, dep_Namespace deploy,
                      \<lparr>spec_TargetRef = \<lparr>ref_APIVersion = ''apps/v1'', ref_Kind = ''Deployment'', ref_Name = dep_Name deploy\<rparr>,
                       spec_SLA = sla,
                       spec_Target = \<lparr>tgt_Mode = TargetModeServiceDefault, tgt_CustomPath = [], tgt_Port = port,
                          tgt_NetworkPath = ''ClusterIP'', tgt_Host = [], tgt_Protocol = [], tgt_GRPC = None, tgt_TLS = None\<rparr>,
                       spec_Load = \<lparr>load_BaseRPS = baseRPS, load_ConcurrencyFactor = 0, load_Concurrency = 0,
                          load_WarmupDuration = None, load_Profile = None\<rparr>,
                       spec_Disruption = None, spec_Schedule = [], spec_Suspend = False\<rparr>))))"

text \<open>What the API server answers: the lookup of the shadow object, the owner reference and the creation.\<close>

record shadow_env =
  se_get :: "goerror option"
  se_owner_err :: "goerror option"
  se_create_err :: "goerror option"

type_synonym shadow_effect = "(string \<times> string \<times> ScaleValidationSpec) \<times> goerror option"

definition shadow_Reconcile :: "shadow_env \<Rightarrow> goerror + Deployment \<Rightarrow> shadow_effect list \<times> (goerror option)" where
  "shadow_Reconcile e got =
     (case got of
        Inl err \<Rightarrow> ([], if IsNotFound err then None else Some err)
      | Inr deploy \<Rightarrow>
          if dep_Annotations deploy shadowEnableAnnotation \<noteq> Some ''true'' then ([], None)
          else
            (case se_get e of
               None \<Rightarrow> ([], None)
             | Some err \<Rightarrow>
                 if \<not> IsNotFound err then ([], Some (Wrap [L ''get shadow scalevalidation''] err))
                 else
                   (case shadowScaleValidation deploy (dep_Name deploy @ ''-shadow'') of
                      Inl annotation \<Rightarrow> ([], None)
                    | Inr sv \<Rightarrow>
                        (case se_owner_err e of
                           Some err \<Rightarrow> ([], Some (Wrap [L ''set owner reference''] err))
                         | None \<Rightarrow>
                             ([(sv, se_create_err e)],
                              case se_create_err e of Some err \<Rightarrow> Some (Wrap [L ''create shadow scalevalidation''] err) | None \<Rightarrow> None)))))"

text \<open>The event filter of \<^verbatim>\<open>SetupWithManager\<close>.\<close>

definition shadow_enabled :: "(string \<Rightarrow> string option) \<Rightarrow> bool" where
  "shadow_enabled annotations \<longleftrightarrow> annotations shadowEnableAnnotation = Some ''true''"

section \<open>Lemmas\<close>

lemma leadingInt_length: "leadingInt x s = Some (v, rest) \<Longrightarrow> length rest \<le> length s"
  by (induction s arbitrary: x) (auto simp: Let_def intro: le_SucI split: option.splits if_splits)

lemma leadingFraction_length: "leadingFraction x sc ov s = (f, sc', rest) \<Longrightarrow> length rest \<le> length s"
  by (induction s arbitrary: x sc ov) (auto simp: Let_def intro: le_SucI split: option.splits if_splits)

lemma duration_token_shorter:
  assumes "duration_token s = Some (v, rest)"
  shows "length rest < length s"
proof -
  obtain v0 s1 where li: "leadingInt 0 s = Some (v0, s1)"
    using assms by (auto simp: duration_token_def split: if_splits option.splits)
  obtain f sc s2 where r: "fraction_part s1 = (f, sc, s2)" by (cases "fraction_part s1")
  have "length s2 \<le> length s1"
    using r leadingFraction_length[of 0 1 False "tl s1" f sc s2] by (cases s1) (auto simp: fraction_part_def split: if_splits)
  moreover have "takeWhile unit_char s2 \<noteq> []" "length rest = length (dropWhile unit_char s2)"
    using assms by (auto simp: duration_token_def li r Let_def split: if_splits option.splits)
  moreover have "length s2 = length (takeWhile unit_char s2) + length (dropWhile unit_char s2)"
    by (metis length_append takeWhile_dropWhile_id)
  moreover have "0 < length (takeWhile unit_char s2)" using calculation(2) by (rule length_greater_0_conv[THEN iffD2])
  ultimately show ?thesis using leadingInt_length[OF li] by linarith
qed

text \<open>More fuel than the length of the string changes nothing.\<close>

lemma duration_loop_fuel: "length s \<le> n \<Longrightarrow> length s \<le> m \<Longrightarrow> duration_loop n d s = duration_loop m d s"
proof (induction n arbitrary: m d s)
  case 0
  then show ?case by (cases m) simp_all
next
  case (Suc n)
  show ?case
  proof (cases s)
    case (Cons c cs)
    then obtain m' where m: "m = Suc m'" using Suc.prems by (cases m) auto
    have "duration_loop n d' rest = duration_loop m' d' rest" if "duration_token s = Some (v, rest)" for v rest d'
      using Suc.IH[of rest m' d'] duration_token_shorter[OF that] Suc.prems m by simp
    then show ?thesis using Cons m by (auto simp: Let_def split: option.split)
  qed (cases m; simp)
qed

lemma digits_value_ge: "digits_value x ds = Some n \<Longrightarrow> x \<le> n"
  by (induction x ds rule: digits_value.induct) (auto split: option.splits)

lemma leadingInt_digits:
  assumes "digits_value x ds = Some n" "n \<le> 2 ^ 63" "char_digit c = None"
  shows "leadingInt x (ds @ c # rest) = Some (n, c # rest)"
  using assms
proof (induction x ds rule: digits_value.induct)
  case (2 x c' cs)
  then obtain d where d: "char_digit c' = Some d" "digits_value (10 * x + d) cs = Some n" by (auto split: option.splits)
  have "10 * x + d \<le> 2 ^ 63" using digits_value_ge[OF d(2)] 2(3) by simp
  then show ?case using 2 d by (simp add: Let_def mult.commute)
qed simp

text \<open>A whole number of seconds is read back.\<close>

lemma ParseDuration_seconds:
  assumes "n * 10 ^ 9 < 2 ^ 63"
  shows "ParseDuration (utoa n @ ''s'') = Some (int n * Second)"
proof -
  obtain d cs where u: "utoa n = digit_char d # cs" "d < 10"
    by (induction n rule: utoa.induct) (subst (asm) (2) utoa.simps, force split: if_splits)
  have dig: "char_digit (digit_char d) = Some d" using u by simp
  then have ne: "digit_char d \<noteq> CHR ''-''" "digit_char d \<noteq> CHR ''+''" "is_digit (digit_char d)"
    by (auto simp: char_digit_def is_digit_def split: if_splits)
  have small: "n \<le> 2 ^ 63 div 10 ^ 9" using assms by simp
  have "leadingInt 0 (utoa n @ [CHR ''s'']) = Some (n, [CHR ''s''])"
    by (rule leadingInt_digits[OF digits_value_utoa]) (use small in \<open>simp_all add: char_digit_def\<close>)
  then have "duration_token (utoa n @ ''s'') = Some (n * 10 ^ 9, [])"
    using u ne small by (simp add: duration_token_def fraction_part_def Let_def duration_unit_def unit_char_def is_digit_def char_digit_def)
  then have "duration_loop (length (utoa n @ ''s'')) 0 (utoa n @ ''s'') = Some (n * 10 ^ 9)"
    using assms by (simp add: u)
  then show ?thesis using u ne assms by (simp add: ParseDuration_def Let_def)
qed

section \<open>Properties\<close>


text \<open>The specification of a shadow object with positive numbers is one the load generator runs.\<close>

lemma ParseInt32_range: "ParseInt 32 v = Some r \<Longrightarrow> in_int32 r"
  by (auto simp: ParseInt_def in_int32_def int_bounds Let_def split: list.splits option.splits if_splits)

lemma ParseDuration_range: "ParseDuration v = Some d \<Longrightarrow> in_int64 d"
  by (auto simp: ParseDuration_def in_int64_def int_bounds Let_def wrap64_def split: option.splits if_splits)

text \<open>What an object built from the annotations holds.\<close>

lemma shadowScaleValidationE:
  assumes "shadowScaleValidation deploy name = Inr (n, ns, spec)"
  obtains port sla rps where "in_int32 port" "in_int64 sla" "in_int32 rps" "n = name" "ns = dep_Namespace deploy"
    "spec = \<lparr>spec_TargetRef = \<lparr>ref_APIVersion = ''apps/v1'', ref_Kind = ''Deployment'', ref_Name = dep_Name deploy\<rparr>,
       spec_SLA = sla,
       spec_Target = \<lparr>tgt_Mode = TargetModeServiceDefault, tgt_CustomPath = [], tgt_Port = port,
          tgt_NetworkPath = ''ClusterIP'', tgt_Host = [], tgt_Protocol = [], tgt_GRPC = None, tgt_TLS = None\<rparr>,
       spec_Load = \<lparr>load_BaseRPS = rps, load_ConcurrencyFactor = 0, load_Concurrency = 0,
          load_WarmupDuration = None, load_Profile = None\<rparr>,
       spec_Disruption = None, spec_Schedule = [], spec_Suspend = False\<rparr>"
proof -
  let ?p = "case dep_Annotations deploy shadowPortAnnotation of None \<Rightarrow> Some shadowDefaultPort | Some v \<Rightarrow> ParseInt 32 v"
  let ?s = "case dep_Annotations deploy shadowSLAAnnotation of None \<Rightarrow> Some shadowDefaultSLA | Some v \<Rightarrow> ParseDuration v"
  let ?r = "case dep_Annotations deploy shadowRPSAnnotation of None \<Rightarrow> Some shadowDefaultBaseRPS | Some v \<Rightarrow> ParseInt 32 v"
  obtain port sla rps where v: "?p = Some port" "?s = Some sla" "?r = Some rps"
    using assms unfolding shadowScaleValidation_def by (cases ?p; cases ?s; cases ?r; simp)
  have range: "in_int32 port" "in_int64 sla" "in_int32 rps"
    using v ParseInt32_range ParseDuration_range by (auto simp: in_int32_def in_int64_def int_bounds split: option.splits)
  show thesis
    by (rule that[OF range]) (use assms v in \<open>simp_all add: shadowScaleValidation_def\<close>)
qed

lemma shadow_spec_sane:
  assumes "shadowScaleValidation deploy name = Inr (n, ns, spec)" "0 < load_BaseRPS (spec_Load spec)" "0 < spec_SLA spec"
  shows "sane_load spec \<and> buildPhases spec = Inr [] \<and> tgt_Protocol (spec_Target spec) = [] \<and> n = name \<and> ns = dep_Namespace deploy
    \<and> ref_Name (spec_TargetRef spec) = dep_Name deploy"
  by (rule shadowScaleValidationE[OF assms(1)]) (use assms(2,3) in \<open>simp add: sane_load_def buildPhases_def Let_def\<close>)

end
