(* ===== verification/Status_Schema.thy ===== *)
theory Status_Schema
  imports Schedule_Props Crd_Schema Shadow
begin

text \<open>
  What the program writes to the API server fits the schema of the custom resource: the status of
  every reconcile call, the report of every session, and the object of the shadow reconciler.
\<close>

section \<open>Reports\<close>

lemmas diagnostics_defs = hpa_Diagnostics_def hpa_condition_alerts_def cgroup_Diagnostics_def probelag_Diagnostics_def
  dns_Diagnostics_def pdb_Diagnostics_def leakage_Diagnostics_def drain_Diagnostics_def skew_alert_def

definition graded :: "DiagnosticAlert list \<Rightarrow> bool" where
  "graded as = list_all alert_admitted as"

lemma graded_simps [simp]: "graded []" "graded (as @ bs) \<longleftrightarrow> graded as \<and> graded bs"
  by (simp_all add: graded_def)

lemma graded_diagnostics:
  "graded (hpa_Diagnostics h)" "graded (cgroup_Diagnostics c)" "graded (probelag_Diagnostics p)" "graded (dns_Diagnostics d)"
  "graded (pdb_Diagnostics b)" "graded (leakage_Diagnostics l)" "graded (drain_Diagnostics r)" "graded [skew_alert]"
  by (auto simp: graded_def alert_admitted_def Severity_enum_def diagnostics_defs Let_def list_all_iff split: if_splits)

lemma graded_report: "graded (rep_Diagnostics (obs_report evs h ob l))"
  using graded_diagnostics
  by (simp add: obs_report_def opt_diags_def Let_def split: option.split)

text \<open>A report that fits the schema of the status it ends in.\<close>

definition report_typed :: "ObsReport \<Rightarrow> bool" where
  "report_typed r \<longleftrightarrow> graded (rep_Diagnostics r) \<and> optional_enum Verdict_enum (rep_SLAStatus r)
     \<and> optional_enum Verdict_enum (rep_TrafficIntegrity r)
     \<and> int (rep_TotalRequests r) \<le> MaxInt64 \<and> int (rep_FailedRequests r) \<le> MaxInt64"

lemma Session_Run_typed:
  assumes "\<And>r. oe_result env = Some r \<Longrightarrow> res_Failed r \<le> res_Sent r \<and> int (res_Sent r) \<le> MaxInt64"
  shows "report_typed (Session_Run asSelector scaled cfg env)"
proof -
  let ?report = "Session_Run asSelector scaled cfg env"
  have g: "graded (rep_Diagnostics ?report)"
    by (simp add: Session_Run_def Let_def graded_report split: sum.split)
  have counts: "int (rep_TotalRequests ?report) \<le> MaxInt64 \<and> int (rep_FailedRequests ?report) \<le> MaxInt64"
  proof (cases "obs_loadResult cfg env")
    case None
    then show ?thesis by (simp add: Session_Run_def Let_def obs_report_def int_bounds split: sum.split)
  next
    case (Some r)
    then have "res_Failed r \<le> res_Sent r \<and> int (res_Sent r) \<le> MaxInt64"
      using assms by (auto simp: obs_loadResult_def split: if_splits)
    then show ?thesis using Session_Run_load(2,3)[OF Some, of asSelector scaled] by simp
  qed
  show ?thesis
    using g counts
    by (auto simp: report_typed_def Session_Run_sla Session_Run_load(1) sla_spec_def trafficVerdict_def enum_defs
        split: sum.split option.split)
qed

section \<open>Status writes\<close>

abbreviation writes_admitted :: "outcome \<Rightarrow> bool" where
  "writes_admitted out \<equiv> list_all (\<lambda>(st, err). status_admitted st) (status_writes (fst out))"

lemma markFinished_admitted [simp]: "status_admitted (sv_Status (markFinished K cr r m)) = status_admitted (sv_Status cr)"
  by (simp add: markFinished_def)

lemma setTerminalPhase_admitted [simp]:
  "writes_admitted (setTerminalPhase K e cr p r m) = status_admitted (sv_Status cr)"
  by (simp add: setTerminalPhase_def)

lemma add_diagnostic_admitted:
  "status_admitted (sv_Status cr) \<Longrightarrow> alert_Severity a = SeverityCritical \<Longrightarrow> status_admitted (sv_Status (add_diagnostic cr a))"
  by (simp add: add_diagnostic_def status_admitted_def alert_admitted_def Severity_enum_def)

lemma fails_admitted:
  assumes "status_admitted (sv_Status cr)"
  shows "writes_admitted (failScheduleInvalid K e cr err)" "writes_admitted (failTargetUnresolvable K e cr err)"
    "writes_admitted (failTargetNotReady K e cr n d)" "writes_admitted (failTLSCABundle K e cr m r)"
  using assms
  by (simp_all add: failScheduleInvalid_def failTargetUnresolvable_def failTargetNotReady_def failTLSCABundle_def Let_def
      add_diagnostic_admitted)

lemma resetForNextRun_admitted:
  "status_admitted (sv_Status cr) \<Longrightarrow> status_admitted (sv_Status (resetForNextRun K cr))"
  by (simp add: resetForNextRun_def Let_def status_admitted_def optional_enum_def in_int64_def in_int32_def int_bounds)

lemma startNextRun_admitted: "status_admitted (sv_Status cr) \<Longrightarrow> writes_admitted (startNextRun K e cr)"
  by (simp add: startNextRun_def resetForNextRun_admitted split: sum.split option.split)

lemma reconcileTerminal_admitted:
  assumes "status_admitted (sv_Status cr)"
  shows "writes_admitted (reconcileTerminal K e cr)"
proof -
  have "writes_admitted (restartForSpecChange K e cr)"
    using assms startNextRun_admitted[OF assms] fails_admitted(1)[of "cr\<lparr>sv_Status := (sv_Status cr)\<lparr>st_Diagnostics := []\<rparr>\<rparr>"]
    by (simp add: restartForSpecChange_def status_admitted_diagnostics split: sum.split)
  then show ?thesis
    using assms startNextRun_admitted[OF assms]
    by (simp add: reconcileTerminal_def parkSuspended_def Let_def split: sum.split option.split)
qed

lemma maybeInjectDisruption_admitted:
  "status_admitted (sv_Status cr) \<Longrightarrow> writes_admitted (maybeInjectDisruption K e cr)"
  by (simp add: maybeInjectDisruption_def recordDisruption_def Let_def split: sum.split option.split)

lemma finished_cr_admitted:
  assumes "status_admitted (sv_Status cr)" "report_typed report"
  shows "status_admitted (sv_Status (finished_cr K e cr report))"
proof -
  have bp: "in_int32 (failureRateBasisPoints (rep_FailureRate report))"
    using failureRateBasisPoints_ok[of "rep_FailureRate report"] by (simp add: basis_points_ok_def in_int32_def int_bounds)
  have diags: "st_Diagnostics (sv_Status (finished_cr K e cr report)) = rep_Diagnostics report"
    by (simp add: finished_cr_def finishedVerdict_def markFinished_def applyReport_def appendRunHistory_def Let_def)
  have hist: "list_all run_admitted (take RunHistoryLimit (run_entry e report # st_History (sv_Status cr)))"
    using assms bp by (auto simp: list_all_iff run_entry_def run_admitted_def status_admitted_def report_typed_def dest!: in_set_takeD)
  show ?thesis
    using assms(2) bp diags hist
    unfolding status_admitted_def finished_cr_fields finished_cr_counts
    by (simp add: report_typed_def graded_def in_int64_def int_bounds)
qed

text \<open>The logs a reconcile call may read hold typed reports.\<close>

definition logs_typed :: "k8s \<Rightarrow> env \<Rightarrow> bool" where
  "logs_typed K e \<longleftrightarrow> (\<forall>n raw report. e_log e n = Inr raw \<longrightarrow> ParseReportLog (report_Unmarshal K) raw = Inr report \<longrightarrow> report_typed report)"

lemma finishRun_admitted:
  assumes "status_admitted (sv_Status cr)" "logs_typed K e"
  shows "writes_admitted (finishRun K e cr)"
proof -
  have "status_admitted (sv_Status (finished_cr K e cr report))"
    if "observerLog e pod = Inr raw" "ParseReportLog (report_Unmarshal K) raw = Inr report" for pod raw report
    using that assms finished_cr_admitted[OF assms(1)] by (auto simp: logs_typed_def observerLog_def split: sum.splits)
  then show ?thesis
    using assms(1) by (auto simp: finishRun_def Let_def write_status_def split: sum.split option.split)
qed

lemma spawnJob_admitted:
  assumes "status_admitted (sv_Status cr)"
  shows "writes_admitted (spawnJob K R e cr)"
proof -
  have "writes_admitted out" if "validateTLSCABundle K e cr = Some out" for out
    using that fails_admitted(4)[OF assms] by (auto simp: validateTLSCABundle_def split: option.splits sum.splits if_splits)
  then show ?thesis
    using assms fails_admitted(2)[OF assms] by (simp add: spawnJob_def split: sum.split option.split)
qed

lemma awaitTarget_admitted: "status_admitted (sv_Status cr) \<Longrightarrow> writes_admitted (awaitTarget K R e cr)"
  using fails_admitted(2,3) spawnJob_admitted by (simp add: awaitTarget_def Let_def split: sum.split)

lemma reconcilePhase_admitted:
  assumes "status_admitted (sv_Status cr)" "logs_typed K e"
  shows "writes_admitted (reconcilePhase K R e cr)"
proof -
  have "writes_admitted (reconcileActive K R e cr)"
    using assms(1) finishRun_admitted[OF assms] maybeInjectDisruption_admitted[OF assms(1)] awaitTarget_admitted[OF assms(1)]
    by (simp add: reconcileActive_def Let_def split: sum.split)
  then show ?thesis
    using assms(1) reconcileTerminal_admitted[OF assms(1)] fails_admitted(1)[OF assms(1)]
    by (simp add: reconcilePhase_def split: sum.split)
qed

lemma cr_finalize_admitted: "status_admitted (sv_Status cr) \<Longrightarrow> writes_admitted (cr_finalize K e cr)"
  by (simp add: cr_finalize_def Let_def write_status_def split: sum.split option.split)

lemma reconcile_cr_admitted:
  assumes "status_admitted (sv_Status cr)" "logs_typed K e"
  shows "writes_admitted (reconcile_cr K R e cr)"
  using assms reconcilePhase_admitted[of cr K e R] cr_finalize_admitted[of cr K e]
    reconcilePhase_admitted[of "cr\<lparr>sv_Finalizers := AddFinalizer K (sv_Finalizers cr) scaleValidationFinalizer\<rparr>" K e R]
  by (simp add: reconcile_cr_def Let_def split: option.split)

section \<open>Properties\<close>



text \<open>What the shadow reconciler creates is admitted, whatever the annotations say.\<close>

lemma shadow_admitted: "shadowScaleValidation deploy name = Inr (n, ns, spec) \<Longrightarrow> spec_admitted spec"
  by (erule shadowScaleValidationE)
    (simp add: spec_admitted_def target_admitted_def load_admitted_def enum_defs, simp add: in_int32_def int_bounds)

end
