(* ===== verification/Progress.thy ===== *)
theory Progress
  imports Schedule_Props
begin

text \<open>
  Progress of a run: what the API server has to answer for a validation to get from creation to its
  verdict, and that it then does so in three reconcile calls; and that a deleted object is let go.
\<close>

section \<open>What a run reads of its object\<close>

text \<open>Resolving the target and building the Job depend on the name and the spec only.\<close>

lemma status_frame:
  "sv_Spec (cr\<lparr>sv_Status := st\<rparr>) = sv_Spec cr" "sv_Name (cr\<lparr>sv_Status := st\<rparr>) = sv_Name cr"
  "sv_Namespace (cr\<lparr>sv_Status := st\<rparr>) = sv_Namespace cr"
  by simp_all

lemma resolveTargetURL_status [simp]: "resolveTargetURL K e (cr\<lparr>sv_Status := st\<rparr>) = resolveTargetURL K e cr"
  unfolding resolveTargetURL_def discoverProbe_def targetObject_def targetGVK_def classifyTargetError_def status_frame ..

lemma buildLoadgenJob_status [simp]: "buildLoadgenJob K R e (cr\<lparr>sv_Status := st\<rparr>) url = buildLoadgenJob K R e cr url"
  unfolding buildLoadgenJob_def observerArgs_def loadgenArgs_def caBundleRef_def loadgenJobName_def targetGVK_def status_frame ..

lemma targetPodsReady_status [simp]: "targetPodsReady K e (cr\<lparr>sv_Status := st\<rparr>) = targetPodsReady K e cr"
  unfolding targetPodsReady_def targetSelector_def targetGVK_def classifyTargetError_def status_frame ..

lemma validateTLSCABundle_status [simp]:
  "validateTLSCABundle K e (cr\<lparr>sv_Status := st\<rparr>) = None \<longleftrightarrow> validateTLSCABundle K e cr = None"
  by (auto simp: validateTLSCABundle_def caBundleRef_def split: sum.split option.split)

text \<open>The target is up, the Job can be built and every write succeeds.\<close>

definition launchable :: "k8s \<Rightarrow> reconciler \<Rightarrow> env \<Rightarrow> ScaleValidation \<Rightarrow> bool" where
  "launchable K R e cr \<longleftrightarrow>
     (case e_job e of Inl gone \<Rightarrow> IsNotFound gone | Inr _ \<Rightarrow> False)
     \<and> (case targetPodsReady K e cr of Inr (ready, _) \<Rightarrow> ready | Inl _ \<Rightarrow> False)
     \<and> (case resolveTargetURL K e cr of Inr url \<Rightarrow> \<not> isl (buildLoadgenJob K R e cr url) | Inl _ \<Rightarrow> False)
     \<and> validateTLSCABundle K e cr = None \<and> e_owner_err e = None \<and> e_create_err e = None \<and> e_status_err e = None"

text \<open>The Job is complete and its first pod's observer has printed a report the decoder accepts.\<close>

definition reported :: "k8s \<Rightarrow> env \<Rightarrow> ObsReport \<Rightarrow> bool" where
  "reported K e report \<longleftrightarrow>
     (\<exists>job pod pods raw. e_job e = Inr job \<and> \<not> jobConditionTrue job ''Failed'' \<and> jobConditionTrue job ''Complete''
        \<and> e_job_pods e = Inr (pod # pods) \<and> observerTerminated pod \<and> e_log e (jp_Name pod) = Inr raw
        \<and> ParseReportLog (report_Unmarshal K) raw = Inr report) \<and> e_status_err e = None"

lemma launchable_status [simp]: "launchable K R e (cr\<lparr>sv_Status := st\<rparr>) = launchable K R e cr"
  unfolding launchable_def resolveTargetURL_status buildLoadgenJob_status targetPodsReady_status validateTLSCABundle_status ..

lemma launchableE:
  assumes "launchable K R e cr"
  obtains gone n url job where "e_job e = Inl gone" "IsNotFound gone" "targetPodsReady K e cr = Inr (True, n)"
    "resolveTargetURL K e cr = Inr url" "buildLoadgenJob K R e cr url = Inr job" "validateTLSCABundle K e cr = None"
    "e_owner_err e = None" "e_create_err e = None" "e_status_err e = None"
  using assms unfolding launchable_def by (auto split: sum.splits) (metis sum.collapse(2))

lemma pending_launches:
  assumes "owned K cr" "st_Phase (sv_Status cr) = PhasePending" "launchable K R e cr"
  shows "stored K R e cr = cr\<lparr>sv_Status := (sv_Status cr)\<lparr>st_LastRunTime := Some (e_stamp e), st_Phase := PhaseRunning\<rparr>\<rparr>"
    "snd (reconcile_cr K R e cr) = Inr 0" "\<exists>job. CreateJob job None \<in> set (fst (reconcile_cr K R e cr))"
proof -
  obtain gone n url job where e: "e_job e = Inl gone" "IsNotFound gone" "targetPodsReady K e cr = Inr (True, n)"
    "resolveTargetURL K e cr = Inr url" "buildLoadgenJob K R e cr url = Inr job" "validateTLSCABundle K e cr = None"
    "e_owner_err e = None" "e_create_err e = None" "e_status_err e = None"
    using launchableE[OF assms(3)] .
  have "reconcile_cr K R e cr = spawnJob K R e cr"
    using assms(1,2) e(1-3)
    by (simp add: owned_def reconcile_cr_def reconcilePhase_def reconcileActive_def awaitTarget_def targetReady_def)
  moreover have "spawnJob K R e cr =
      ([CreateJob job None, Event Normal ''LoadgenJobCreated'' [L ''loadgen Job '', L (job_Name job), L '' created against '', L url],
        StatusUpdate ((sv_Status cr)\<lparr>st_LastRunTime := Some (e_stamp e), st_Phase := PhaseRunning\<rparr>) None], Inr 0)"
    using e by (simp add: spawnJob_def setPhase_def write_status_def andthen_def)
  ultimately show "stored K R e cr = cr\<lparr>sv_Status := (sv_Status cr)\<lparr>st_LastRunTime := Some (e_stamp e), st_Phase := PhaseRunning\<rparr>\<rparr>"
      "snd (reconcile_cr K R e cr) = Inr 0" "\<exists>job. CreateJob job None \<in> set (fst (reconcile_cr K R e cr))"
    by auto
qed

lemma running_finishes:
  assumes "owned K cr" "in_progress (st_Phase (sv_Status cr))" "reported K e report"
  shows "stored K R e cr = cr\<lparr>sv_Status := sv_Status (finished_cr K e cr report)\<rparr>"
    "snd (reconcile_cr K R e cr) = Inr 0"
proof -
  have ph: "\<not> terminal_phase (st_Phase (sv_Status cr))" "st_Phase (sv_Status cr) \<noteq> PhaseNone"
    using assms(2) by (auto simp: in_progress_def)
  have "reconcile_cr K R e cr = finishRun K e cr"
    using assms(1,3) ph by (auto simp: reported_def owned_def reconcile_cr_def reconcilePhase_def reconcileActive_def)
  then show "stored K R e cr = cr\<lparr>sv_Status := sv_Status (finished_cr K e cr report)\<rparr>" "snd (reconcile_cr K R e cr) = Inr 0"
    using assms(3) finishRun_success[of e _ _ _ K report cr] by (auto simp: reported_def)
qed


lemma demo_launchable: "launchable report_k8s demo_reconciler demo_env dis_cr"
  by (simp add: launchable_def targetPodsReady_def targetSelector_def targetGVK_def resolveTargetURL_def validateTLSCABundle_def
      caBundleRef_def buildLoadgenJob_def observerArgs_def loadgenArgs_def buildPhases_def Let_def ctrl_podReady_def demo_pod_def
      wrap32_def report_k8s_def demo_defs dis_cr_def dis_spec_def demo_spec_def)

lemma demo_reported: "reported report_k8s (done_env ''fail'') (demo_report VerdictFail)"
  unfolding reported_def using done_env_parses(2)
  by (simp add: done_env_def observerTerminated_def jobConditionTrue_def demo_env_def)


text \<open>C10. A deleted object is let go: from any state of an object that is being deleted and carries
  the finalizer, one call that finds the Job asks for its deletion, and one that finds it gone removes
  the finalizer, so that two calls around the disappearance of the Job release the object; the first of them keeps
  the finalizer.\<close>

theorem deletion_completes:
  assumes K: "k8s_laws K" and del: "sv_DeletionTimestamp cr = Some t"
    and fin: "ContainsFinalizer K (sv_Finalizers cr) scaleValidationFinalizer"
    and e1: "e_job e1 = Inr job" "jb_DeletionTimestamp job = None" "e_status_err e1 = None" "e_delete_job_err e1 = None"
    and e2: "e_job e2 = Inl gone" "IsNotFound gone" "e_update_err e2 = None"
    and mid: "mid = stored K R e1 cr" and last: "last_cr = stored K R e2 mid"
  shows "DeleteJob (jb_Name job) None \<in> set (fst (reconcile_cr K R e1 cr)) \<and> st_Phase (sv_Status mid) = PhaseTerminating
    \<and> ContainsFinalizer K (sv_Finalizers mid) scaleValidationFinalizer
    \<and> \<not> ContainsFinalizer K (sv_Finalizers last_cr) scaleValidationFinalizer"
proof -
  have one: "DeleteJob (jb_Name job) None \<in> set (fst (reconcile_cr K R e1 cr))"
      "mid = cr\<lparr>sv_Status := (sv_Status cr)\<lparr>st_Phase := PhaseTerminating\<rparr>\<rparr>"
    using del fin e1 mid by (simp_all add: reconcile_cr_def cr_finalize_def Let_def write_status_def)
  moreover have "sv_Finalizers last_cr = RemoveFinalizer K (sv_Finalizers cr) scaleValidationFinalizer"
    using del fin e2 last one(2) by (simp add: reconcile_cr_def cr_finalize_def Let_def)
  ultimately show ?thesis using fin by (simp add: k8s_lawsD[OF K])
qed

theorem deletion_completes_witness:
  "\<not> ContainsFinalizer demo_k8s (sv_Finalizers (stored demo_k8s demo_reconciler demo_env
      (stored demo_k8s demo_reconciler (run_env None) (dis_cr\<lparr>sv_DeletionTimestamp := Some 5\<rparr>)))) scaleValidationFinalizer"
proof -
  let ?cr = "dis_cr\<lparr>sv_DeletionTimestamp := Some 5\<rparr>"
  have "sv_DeletionTimestamp ?cr = Some 5" "ContainsFinalizer demo_k8s (sv_Finalizers ?cr) scaleValidationFinalizer"
    "e_job (run_env None) = Inr \<lparr>jb_Name = ''demo-loadgen'', jb_DeletionTimestamp = None, jb_Conditions = []\<rparr>"
    "e_status_err (run_env None) = None" "e_delete_job_err (run_env None) = None"
    "e_job demo_env = Inl (Api NotFound ''gone'')" "e_update_err demo_env = None"
    by (simp_all add: dis_cr_def demo_defs run_env_def)
  from deletion_completes[OF demo_laws this(1,2,3) _ this(4,5,6) _ this(7) refl refl, of demo_reconciler]
  show ?thesis by simp
qed

end
