(* ===== verification/Metrics.thy ===== *)
theory Metrics
  imports Progress "HOL-Library.Sublist"
begin

text \<open>
  \<^verbatim>\<open>internal/metrics\<close>: the collectors and their registration, and the counter of finished runs, which
  label a reconcile call counts and that it agrees with the phase the call stores.
\<close>

section \<open>Counted labels\<close>

fun run_label :: "effect \<Rightarrow> string list" where
  "run_label (RunsTotal l) = [l]"
| "run_label _ = []"

definition run_labels :: "effect list \<Rightarrow> string list" where
  "run_labels es = concat (map run_label es)"

lemma run_labels_simps [simp]:
  "run_labels [] = []" "run_labels (x # es) = run_label x @ run_labels es" "run_labels (es @ fs) = run_labels es @ run_labels fs"
  by (simp_all add: run_labels_def)

text \<open>Outcomes that count nothing, and outcomes that count at most one run, as unknown.\<close>

abbreviation uncounted :: "outcome \<Rightarrow> bool" where
  "uncounted out \<equiv> run_labels (fst out) = []"

abbreviation unknown_at_most :: "outcome \<Rightarrow> bool" where
  "unknown_at_most out \<equiv> run_labels (fst out) \<in> {[], [''unknown'']}"

lemma run_labels_andthen [simp]: "run_labels (fst (andthen es out)) = run_labels es @ run_labels (fst out)"
  by (simp add: andthen_def)

lemma uncounted_writes [simp]:
  "uncounted (write_status e cr m d)" "uncounted (setPhase e cr p)" "uncounted (setTerminalPhase K e cr p r m)"
  "uncounted (recordDisruption K e cr s r m)"
  by (simp_all add: write_status_def setPhase_def setTerminalPhase_def recordDisruption_def Let_def)

lemma labels_fails [simp]:
  "run_labels (fst (failScheduleInvalid K e cr err)) = [''unknown'']"
  "run_labels (fst (failTargetUnresolvable K e cr err)) = [''unknown'']"
  "run_labels (fst (failTargetNotReady K e cr n d)) = [''unknown'']"
  "run_labels (fst (failTLSCABundle K e cr m r)) = [''unknown'']"
  by (simp_all add: failScheduleInvalid_def failTargetUnresolvable_def failTargetNotReady_def failTLSCABundle_def Let_def)

lemma uncounted_startNextRun [simp]: "uncounted (startNextRun K e cr)"
  by (simp add: startNextRun_def split: sum.split option.split)

lemma unknown_reconcileTerminal: "unknown_at_most (reconcileTerminal K e cr)"
  by (simp add: reconcileTerminal_def parkSuspended_def restartForSpecChange_def Let_def split: sum.split option.split)

lemma uncounted_maybeInjectDisruption [simp]: "uncounted (maybeInjectDisruption K e cr)"
  by (simp add: maybeInjectDisruption_def Let_def split: sum.split option.split)

lemma unknown_spawnJob: "unknown_at_most (spawnJob K R e cr)"
proof -
  have tls: "unknown_at_most out" if "validateTLSCABundle K e cr = Some out" for out
    using that by (auto simp: validateTLSCABundle_def split: option.splits sum.splits if_splits)
  show ?thesis using tls by (simp add: spawnJob_def split: sum.split option.split)
qed

lemma unknown_awaitTarget: "unknown_at_most (awaitTarget K R e cr)"
  using unknown_spawnJob[of K R e cr] by (simp add: awaitTarget_def Let_def split: sum.split)

lemma uncounted_cr_finalize [simp]: "uncounted (cr_finalize K e cr)"
  by (simp add: cr_finalize_def write_status_def Let_def split: sum.split option.split)

lemma run_labels_metrics:
  "run_labels (recordRunMetrics e cr report) = [VerdictFromStatus (rep_SLAStatus report) (rep_TrafficIntegrity report)]"
  "run_label (emitVerdictEvent cr report) = []"
  by (auto simp: recordRunMetrics_def emitVerdictEvent_def run_labels_def split: option.split)

lemma reconcileActive_labels:
  "unknown_at_most (reconcileActive K R e cr) \<or> reconcileActive K R e cr = finishRun K e cr"
  using unknown_awaitTarget[of K R e cr] by (auto simp: reconcileActive_def Let_def split: sum.split)

lemma reconcilePhase_labels:
  "unknown_at_most (reconcilePhase K R e cr) \<or> reconcilePhase K R e cr = finishRun K e cr"
proof (cases "terminal_phase (st_Phase (sv_Status cr)) \<or> st_Phase (sv_Status cr) = PhaseNone")
  case True
  then show ?thesis using unknown_reconcileTerminal[of K e cr] by (auto simp: reconcilePhase_def split: sum.split)
next
  case False
  then show ?thesis using reconcileActive_labels[of K R e cr] by (simp add: reconcilePhase_def)
qed

section \<open>Collectors\<close>

text \<open>The four metric vectors of \<^verbatim>\<open>internal/metrics\<close>: name, help text, label names and, for a histogram, the upper
  bounds of its buckets in seconds.\<close>

record metric_vec =
  mv_Name :: string
  mv_Help :: string
  mv_Labels :: "string list"
  mv_Buckets :: "int list"

definition RunsTotal_vec :: metric_vec where
  "RunsTotal_vec = \<lparr>mv_Name = ''scale_sentry_runs_total'',
     mv_Help = ''Number of ScaleValidation runs that reached a terminal phase, by verdict, namespace, and name.'',
     mv_Labels = [''namespace'', ''name'', ''verdict''], mv_Buckets = []\<rparr>"

definition RunDurationSeconds :: metric_vec where
  "RunDurationSeconds = \<lparr>mv_Name = ''scale_sentry_run_duration_seconds'',
     mv_Help = ''Wall-clock duration of a ScaleValidation run, by namespace and name.'',
     mv_Labels = [''namespace'', ''name''], mv_Buckets = [5, 15, 30, 60, 120, 300, 600]\<rparr>"

definition HPAReactSeconds :: metric_vec where
  "HPAReactSeconds = \<lparr>mv_Name = ''scale_sentry_hpa_react_seconds'',
     mv_Help = ''Time from load start to first HPA scale-up action, by namespace and name.'',
     mv_Labels = [''namespace'', ''name''], mv_Buckets = [1, 5, 10, 20, 30, 60, 120, 300]\<rparr>"

definition DiagnosticAlertsTotal :: metric_vec where
  "DiagnosticAlertsTotal = \<lparr>mv_Name = ''scale_sentry_diagnostic_alerts_total'',
     mv_Help = ''Diagnostic alerts emitted by the analyzer pipeline, by type, severity, namespace, and name.'',
     mv_Labels = [''namespace'', ''name'', ''alert'', ''severity''], mv_Buckets = []\<rparr>"

lemmas metric_vec_defs = RunsTotal_vec_def RunDurationSeconds_def HPAReactSeconds_def DiagnosticAlertsTotal_def

text \<open>\<^verbatim>\<open>init\<close> registers them one after the other; \<open>None\<close> is the panic of \<^verbatim>\<open>MustRegister\<close>. Whether the registry
  accepts a collector beside those it has is a parameter.\<close>

fun MustRegister :: "(metric_vec list \<Rightarrow> metric_vec \<Rightarrow> bool) \<Rightarrow> metric_vec list \<Rightarrow> metric_vec list \<Rightarrow> metric_vec list option" where
  "MustRegister accepts reg [] = Some reg"
| "MustRegister accepts reg (v # vs) = (if accepts reg v then MustRegister accepts (reg @ [v]) vs else None)"

definition metrics_init :: "(metric_vec list \<Rightarrow> metric_vec \<Rightarrow> bool) \<Rightarrow> metric_vec list \<Rightarrow> metric_vec list option" where
  "metrics_init accepts reg =
     MustRegister accepts reg [RunsTotal_vec, RunDurationSeconds, HPAReactSeconds, DiagnosticAlertsTotal]"

text \<open>A registry that refuses a name it already has and a histogram whose buckets are not increasing, and
  nothing else, takes all four, if none of its own collectors has one of these names.\<close>

lemma metrics_init_registers:
  assumes "\<And>reg v. accepts reg v \<longleftrightarrow> mv_Name v \<notin> mv_Name ` set reg \<and> sorted_wrt (<) (mv_Buckets v)"
    and "\<forall>v \<in> set reg. \<not> prefix ''scale_sentry_'' (mv_Name v)"
  shows "metrics_init accepts reg = Some (reg @ [RunsTotal_vec, RunDurationSeconds, HPAReactSeconds, DiagnosticAlertsTotal])"
proof -
  have "mv_Name v \<notin> mv_Name ` set reg" if "prefix ''scale_sentry_'' (mv_Name v)" for v
    using assms(2) that by auto
  from this[of RunsTotal_vec] this[of RunDurationSeconds] this[of HPAReactSeconds] this[of DiagnosticAlertsTotal]
  show ?thesis by (simp add: metrics_init_def assms(1) metric_vec_defs)
qed

text \<open>The vector and the label values of the metric call behind an effect. As many values as
  labels are passed, so that \<^verbatim>\<open>WithLabelValues\<close> never panics, and the verdict is one of four.\<close>

fun metric_call :: "ScaleValidation \<Rightarrow> effect \<Rightarrow> (metric_vec \<times> string list) option" where
  "metric_call cr (RunsTotal l) = Some (RunsTotal_vec, [sv_Namespace cr, sv_Name cr, l])"
| "metric_call cr (RunDuration d) = Some (RunDurationSeconds, [sv_Namespace cr, sv_Name cr])"
| "metric_call cr (HPAReact d) = Some (HPAReactSeconds, [sv_Namespace cr, sv_Name cr])"
| "metric_call cr (AlertsTotal t s) = Some (DiagnosticAlertsTotal, [sv_Namespace cr, sv_Name cr, t, s])"
| "metric_call cr _ = None"

lemma metric_call_arity: "metric_call cr x = Some (v, ls) \<Longrightarrow> length ls = length (mv_Labels v)"
  by (cases x) (auto simp: metric_vec_defs)

lemma VerdictFromStatus_values: "VerdictFromStatus sla traffic \<in> {''pass'', ''warn'', ''fail'', ''unknown''}"
  by (simp add: VerdictFromStatus_def)

section \<open>Stored verdicts\<close>

text \<open>The statuses a call stores with a verdict. Only \<open>finishRun\<close> stores one for an object whose phase is
  not terminal.\<close>

fun verdict_of :: "effect \<Rightarrow> ScaleValidationStatus list" where
  "verdict_of (StatusUpdate st None) = (if st_Phase st \<in> {PhaseSucceeded, PhaseFailed} then [st] else [])"
| "verdict_of _ = []"

definition verdicts :: "effect list \<Rightarrow> ScaleValidationStatus list" where
  "verdicts es = concat (map verdict_of es)"

lemma verdicts_simps [simp]:
  "verdicts [] = []" "verdicts (x # es) = verdict_of x @ verdicts es" "verdicts (es @ fs) = verdicts es @ verdicts fs"
  by (simp_all add: verdicts_def)

lemma verdicts_andthen [simp]: "verdicts (fst (andthen es out)) = verdicts es @ verdicts (fst out)"
  by (simp add: andthen_def)

lemma verdicts_write [simp]:
  "st_Phase (sv_Status cr) \<notin> {PhaseSucceeded, PhaseFailed} \<Longrightarrow> verdicts (fst (write_status e cr m d)) = []"
  "p \<notin> {PhaseSucceeded, PhaseFailed} \<Longrightarrow> verdicts (fst (setPhase e cr p)) = []"
  "p \<notin> {PhaseSucceeded, PhaseFailed} \<Longrightarrow> verdicts (fst (setTerminalPhase K e cr p r m)) = []"
  by (cases "e_status_err e"; simp add: write_status_def setPhase_def setTerminalPhase_def Let_def)+

lemma verdicts_fails [simp]:
  "verdicts (fst (failScheduleInvalid K e cr err)) = []"
  "verdicts (fst (failTargetUnresolvable K e cr err)) = []"
  "verdicts (fst (failTargetNotReady K e cr n d)) = []"
  "verdicts (fst (failTLSCABundle K e cr m r)) = []"
  by (simp_all add: failScheduleInvalid_def failTargetUnresolvable_def failTargetNotReady_def failTLSCABundle_def Let_def)

lemma verdicts_spawnJob [simp]: "verdicts (fst (spawnJob K R e cr)) = []"
proof -
  have tls: "verdicts (fst out) = []" if "validateTLSCABundle K e cr = Some out" for out
    using that by (auto simp: validateTLSCABundle_def split: option.splits sum.splits if_splits)
  show ?thesis using tls by (simp add: spawnJob_def split: sum.split option.split)
qed

lemma verdicts_maybeInjectDisruption:
  "st_Phase (sv_Status cr) \<notin> {PhaseSucceeded, PhaseFailed} \<Longrightarrow> verdicts (fst (maybeInjectDisruption K e cr)) = []"
  by (simp add: maybeInjectDisruption_def recordDisruption_def Let_def split: sum.split option.split)

lemma verdicts_cr_finalize [simp]: "verdicts (fst (cr_finalize K e cr)) = []"
  by (cases "e_status_err e") (simp_all add: cr_finalize_def write_status_def Let_def split: sum.split option.split)

lemma verdicts_reconcileActive:
  assumes "st_Phase (sv_Status cr) \<notin> {PhaseSucceeded, PhaseFailed}"
  shows "verdicts (fst (reconcileActive K R e cr)) = [] \<or> reconcileActive K R e cr = finishRun K e cr"
  using verdicts_maybeInjectDisruption[OF assms, of K e]
  by (auto simp: reconcileActive_def awaitTarget_def Let_def split: sum.split)

text \<open>A verdict that \<open>finishRun\<close> stores is counted once, under the label of the stored status.\<close>

lemma verdicts_metrics [simp]: "verdicts (recordRunMetrics e cr report) = []" "verdict_of (emitVerdictEvent cr report) = []"
proof -
  have "verdicts (map (\<lambda>d. AlertsTotal (alert_Type d) (alert_Severity d)) ds) = []" for ds by (induction ds) simp_all
  then show "verdicts (recordRunMetrics e cr report) = []" by (simp add: recordRunMetrics_def split: option.split)
qed (simp add: emitVerdictEvent_def)

lemma verdict_finished [simp]:
  "verdict_of (StatusUpdate (sv_Status (finished_cr K e cr report)) None) = [sv_Status (finished_cr K e cr report)]"
  by (simp add: finished_cr_fields)

lemma finishRun_cases:
  "(uncounted (finishRun K e cr) \<and> verdicts (fst (finishRun K e cr)) = [])
   \<or> (\<exists>report. verdicts (fst (finishRun K e cr)) = [sv_Status (finished_cr K e cr report)]
      \<and> run_labels (fst (finishRun K e cr)) = [VerdictFromStatus (rep_SLAStatus report) (rep_TrafficIntegrity report)])"
  by (simp add: finishRun_def Let_def write_status_def run_labels_metrics del: verdict_of.simps(1) split: sum.split option.split) blast

text \<open>A reconcile call of an object that is not being deleted is the phase handler, after an update of the
  finalizers at most.\<close>

lemma reconcile_cr_handler:
  "(run_labels (fst (reconcile_cr K R e cr)) = [] \<and> verdicts (fst (reconcile_cr K R e cr)) = [])
   \<or> (\<exists>es fs. reconcile_cr K R e cr = andthen es (reconcilePhase K R e (cr\<lparr>sv_Finalizers := fs\<rparr>)) \<and> run_labels es = [] \<and> verdicts es = [])"
proof (cases "sv_DeletionTimestamp cr = None \<and> (ContainsFinalizer K (sv_Finalizers cr) scaleValidationFinalizer \<or> e_update_err e = None)")
  case True
  show ?thesis
  proof (cases "ContainsFinalizer K (sv_Finalizers cr) scaleValidationFinalizer")
    case fin: True
    then show ?thesis using True
      by (intro disjI2 exI[of _ "[]"] exI[of _ "sv_Finalizers cr"]) (simp add: reconcile_cr_def andthen_def)
  next
    case False
    then show ?thesis using True
      by (intro disjI2 exI[of _ "[Update (AddFinalizer K (sv_Finalizers cr) scaleValidationFinalizer) None]"]
          exI[of _ "AddFinalizer K (sv_Finalizers cr) scaleValidationFinalizer"]) (simp add: reconcile_cr_def Let_def)
  qed
qed (auto simp: reconcile_cr_def Let_def)

text \<open>A call that stores a verdict or counts a known one ends with \<open>finishRun\<close>, if the phase was not terminal.\<close>

lemma reconcile_cr_finishRun:
  "(unknown_at_most (reconcile_cr K R e cr)
      \<and> (terminal_phase (st_Phase (sv_Status cr)) \<or> verdicts (fst (reconcile_cr K R e cr)) = []))
   \<or> (\<exists>es fs. reconcile_cr K R e cr = andthen es (finishRun K e (cr\<lparr>sv_Finalizers := fs\<rparr>)) \<and> run_labels es = [] \<and> verdicts es = [])"
proof -
  have phase: "unknown_at_most (reconcilePhase K R e c)
        \<and> (terminal_phase (st_Phase (sv_Status c)) \<or> verdicts (fst (reconcilePhase K R e c)) = [])
      \<or> reconcilePhase K R e c = finishRun K e c" for c
    using unknown_reconcileTerminal[of K e c] reconcileActive_labels[of K R e c] verdicts_reconcileActive[of c K R e]
    by (auto simp: reconcilePhase_def terminal_phase_def split: sum.split)
  from reconcile_cr_handler[of K R e cr] show ?thesis
  proof (elim disjE exE conjE)
    fix es fs
    assume es: "reconcile_cr K R e cr = andthen es (reconcilePhase K R e (cr\<lparr>sv_Finalizers := fs\<rparr>))" "run_labels es = []" "verdicts es = []"
    from phase[of "cr\<lparr>sv_Finalizers := fs\<rparr>"] show ?thesis
    proof (elim disjE)
      assume "reconcilePhase K R e (cr\<lparr>sv_Finalizers := fs\<rparr>) = finishRun K e (cr\<lparr>sv_Finalizers := fs\<rparr>)"
      then show ?thesis using es by auto
    qed (use es in auto)
  qed auto
qed

lemma verdicts_iff: "st \<in> set (verdicts es) \<longleftrightarrow> StatusUpdate st None \<in> set es \<and> st_Phase st \<in> {PhaseSucceeded, PhaseFailed}"
proof -
  have "st \<in> set (verdict_of x) \<longleftrightarrow> x = StatusUpdate st None \<and> st_Phase st \<in> {PhaseSucceeded, PhaseFailed}" for x
    by (cases x rule: verdict_of.cases) auto
  then show ?thesis by (auto simp: verdicts_def)
qed

text \<open>The help text promises a count of the runs that reached a terminal phase. A run that ends
  because its Job vanished is not counted.\<close>

lemma vanished_run_uncounted:
  assumes "sv_DeletionTimestamp cr = None" "ContainsFinalizer K (sv_Finalizers cr) scaleValidationFinalizer"
    and "st_Phase (sv_Status cr) = PhaseRunning" "e_job e = Inl gone" "IsNotFound gone" "e_status_err e = None"
  shows "run_labels (fst (reconcile_cr K R e cr)) = []
    \<and> (\<exists>st. StatusUpdate st None \<in> set (fst (reconcile_cr K R e cr)) \<and> st_Phase st = PhaseError)"
  using assms
  by (simp add: reconcile_cr_def reconcilePhase_def reconcileActive_def setTerminalPhase_def setPhase_def write_status_def andthen_def Let_def)

section \<open>Properties\<close>

text \<open>C33. The counter of finished runs: a reconcile call counts at most one run. If it counts one under a
  label other than unknown it has stored a verdict; and whenever it stores a verdict for an object that
  did not have one, it counts exactly one run, under the label of what it stored: fail exactly when
  the stored phase is Failed, and pass exactly when both stored verdicts are Pass.\<close>

theorem run_metric_agrees:
  "let es = fst (reconcile_cr K R e cr) in
     length (run_labels es) \<le> 1
     \<and> (\<forall>l. RunsTotal l \<in> set es \<and> l \<noteq> ''unknown'' \<longrightarrow>
          (\<exists>st. StatusUpdate st None \<in> set es \<and> st_Phase st \<in> {PhaseSucceeded, PhaseFailed}))
     \<and> (\<forall>st. StatusUpdate st None \<in> set es \<and> st_Phase st \<in> {PhaseSucceeded, PhaseFailed}
            \<and> \<not> terminal_phase (st_Phase (sv_Status cr)) \<longrightarrow>
          (\<exists>l. run_labels es = [l] \<and> (l = ''fail'' \<longleftrightarrow> st_Phase st = PhaseFailed)
             \<and> (l = ''pass'' \<longleftrightarrow> st_SLAStatus st = VerdictPass \<and> st_TrafficIntegrity st = VerdictPass)))"
proof -
  let ?es = "fst (reconcile_cr K R e cr)"
  note agree = finished_cr_fields(1-3) VerdictFromStatus_def
  from reconcile_cr_finishRun[of K R e cr]
  have key: "length (run_labels ?es) \<le> 1 \<and> (\<forall>l \<in> set (run_labels ?es). l \<noteq> ''unknown'' \<longrightarrow> verdicts ?es \<noteq> [])
    \<and> (\<not> terminal_phase (st_Phase (sv_Status cr)) \<longrightarrow> (\<forall>st \<in> set (verdicts ?es). \<exists>l. run_labels ?es = [l]
         \<and> (l = ''fail'' \<longleftrightarrow> st_Phase st = PhaseFailed)
         \<and> (l = ''pass'' \<longleftrightarrow> st_SLAStatus st = VerdictPass \<and> st_TrafficIntegrity st = VerdictPass)))"
  proof (elim disjE exE conjE)
    fix es fs
    assume "reconcile_cr K R e cr = andthen es (finishRun K e (cr\<lparr>sv_Finalizers := fs\<rparr>))" "run_labels es = []" "verdicts es = []"
    then show ?thesis using finishRun_cases[of K e "cr\<lparr>sv_Finalizers := fs\<rparr>"] by (auto simp: agree)
  qed auto
  have stored: "\<exists>st. StatusUpdate st None \<in> set ?es \<and> st_Phase st \<in> {PhaseSucceeded, PhaseFailed}"
    if l: "RunsTotal l \<in> set ?es" "l \<noteq> ''unknown''" for l
  proof -
    have "l \<in> set (run_labels ?es)" using l(1) by (auto simp: run_labels_def intro!: bexI[of _ "RunsTotal l"])
    then obtain st where "st \<in> set (verdicts ?es)" using key l(2) by (meson list.set_sel(1))
    then show ?thesis by (auto simp: verdicts_iff)
  qed
  show ?thesis unfolding Let_def
  proof (intro conjI allI impI)
    fix st
    assume st: "StatusUpdate st None \<in> set ?es \<and> st_Phase st \<in> {PhaseSucceeded, PhaseFailed}
      \<and> \<not> terminal_phase (st_Phase (sv_Status cr))"
    then have "st \<in> set (verdicts ?es)" by (simp add: verdicts_iff)
    with key st show "\<exists>l. run_labels ?es = [l] \<and> (l = ''fail'' \<longleftrightarrow> st_Phase st = PhaseFailed)
        \<and> (l = ''pass'' \<longleftrightarrow> st_SLAStatus st = VerdictPass \<and> st_TrafficIntegrity st = VerdictPass)" by blast
  qed (use key stored in blast)+
qed

theorem run_metric_agrees_witness:
  "run_labels (fst (reconcile_cr report_k8s demo_reconciler (done_env ''fail'') (w_cr dis_running))) = [''fail'']"
proof -
  let ?cr = "w_cr dis_running" and ?e = "done_env ''fail''"
  have "reconcile_cr report_k8s demo_reconciler ?e ?cr = finishRun report_k8s ?e ?cr"
    by (simp add: reconcile_cr_def reconcilePhase_def reconcileActive_def done_env_def jobConditionTrue_def dis_cr_def demo_cr_def
        report_k8s_def ref_k8s_def)
  moreover have "StatusUpdate (sv_Status (finished_cr report_k8s ?e ?cr (demo_report VerdictFail))) None
      \<in> set (fst (finishRun report_k8s ?e ?cr))"
    using done_env_parses(2)
    by (simp add: finishRun_def findJobPod_def observerLog_def observerTerminated_def done_env_def demo_env_def write_status_def Let_def)
  moreover have "st_Phase (sv_Status (finished_cr report_k8s ?e ?cr (demo_report VerdictFail))) = PhaseFailed"
    by (simp add: finished_cr_fields demo_report_def)
  ultimately obtain st where "StatusUpdate st None \<in> set (fst (reconcile_cr report_k8s demo_reconciler ?e ?cr))" "st_Phase st = PhaseFailed"
    by metis
  with run_metric_agrees[of report_k8s demo_reconciler ?e ?cr] show ?thesis by (auto simp: Let_def)
qed

end
