(* ===== verification/Cluster.thy ===== *)
theory Cluster
  imports Metrics
begin

text \<open>
  The object together with its Job: a step relation in which the Job is part of the state, created and
  deleted by the effects of reconcile calls, run by the cluster, and possibly removed by others at any time. What
  a call reads of the Job is what exists, or an error. Every step of it is a step of \<open>Lifecycle\<close> or
  leaves the object as it is, so that the invariants proved there carry over.
\<close>

section \<open>States and steps\<close>

text \<open>The world of the object, whether the object has been removed, the Job with the number of the run it was
  created in, the number of the current run, and the Jobs created in it.\<close>

record cluster =
  cl_world :: world
  cl_gone :: bool
  cl_job :: "(JobObject \<times> nat) option"
  cl_run :: nat
  cl_created :: nat

abbreviation cl_cr :: "cluster \<Rightarrow> ScaleValidation" where
  "cl_cr c \<equiv> w_cr (cl_world c)"

abbreviation cl_phase :: "cluster \<Rightarrow> Phase" where
  "cl_phase c \<equiv> st_Phase (sv_Status (cl_cr c))"

text \<open>The API server's part: a read of the Job returns it, says that there is none, or fails for another
  reason; a name can be taken only once. A successful creation stores a Job without conditions, a
  successful deletion marks it.\<close>

definition consistent :: "env \<Rightarrow> cluster \<Rightarrow> bool" where
  "consistent e c \<longleftrightarrow>
     (case e_job e of
        Inr j \<Rightarrow> (case cl_job c of None \<Rightarrow> False | Some (j', r) \<Rightarrow> j' = j)
      | Inl err \<Rightarrow> IsNotFound err \<longrightarrow> cl_job c = None)
     \<and> (cl_job c \<noteq> None \<longrightarrow> e_create_err e \<noteq> None)"

fun job_effect :: "time \<Rightarrow> nat \<Rightarrow> effect \<Rightarrow> (JobObject \<times> nat) option \<Rightarrow> (JobObject \<times> nat) option" where
  "job_effect now run (CreateJob job None) j = Some (\<lparr>jb_Name = job_Name job, jb_DeletionTimestamp = None, jb_Conditions = []\<rparr>, run)"
| "job_effect now run (DeleteJob n None) (Some (j, r)) = Some (j\<lparr>jb_DeletionTimestamp := Some now\<rparr>, r)"
| "job_effect now run x j = j"

fun creates :: "effect \<Rightarrow> bool" where
  "creates (CreateJob job None) = True"
| "creates _ = False"

definition jobs_created :: "effect list \<Rightarrow> nat" where
  "jobs_created es = length (filter creates es)"

definition restarts :: "Phase \<Rightarrow> Phase \<Rightarrow> bool" where
  "restarts p q \<longleftrightarrow> terminal_phase p \<and> q = PhasePending"

definition after_call :: "k8s \<Rightarrow> reconciler \<Rightarrow> env \<Rightarrow> cluster \<Rightarrow> cluster" where
  "after_call K R e c =
     (let es = fst (reconcile_cr K R e (cl_cr c)); w = after_reconcile K R e (cl_world c);
          again = restarts (cl_phase c) (st_Phase (sv_Status (w_cr w)))
      in c\<lparr>cl_world := w, cl_job := foldl (\<lambda>j x. job_effect (e_stamp e) (cl_run c) x j) (cl_job c) es,
          cl_run := (if again then cl_run c + 1 else cl_run c),
          cl_created := (if again then 0 else cl_created c) + jobs_created es\<rparr>)"

text \<open>Reconcile calls, the users' edits and deletion, the Job's own progress, its removal (by the cluster after a
  deletion, or by anybody), and the removal of an object whose deletion nothing of ours holds up.\<close>

inductive cstep :: "k8s \<Rightarrow> reconciler \<Rightarrow> cluster \<Rightarrow> cluster \<Rightarrow> bool" for K R where
  call: "\<not> cl_gone c \<Longrightarrow> consistent e c \<Longrightarrow> cstep K R c (after_call K R e c)"
| edited: "\<not> cl_gone c \<Longrightarrow> cstep K R c (c\<lparr>cl_world := (cl_world c)\<lparr>w_cr := (cl_cr c)\<lparr>sv_Spec := spec, sv_Generation := sv_Generation (cl_cr c) + 1\<rparr>\<rparr>\<rparr>)"
| deleted: "\<not> cl_gone c \<Longrightarrow> sv_DeletionTimestamp (cl_cr c) = None \<Longrightarrow>
     cstep K R c (c\<lparr>cl_world := (cl_world c)\<lparr>w_cr := (cl_cr c)\<lparr>sv_DeletionTimestamp := Some t, sv_Generation := sv_Generation (cl_cr c) + 1\<rparr>\<rparr>\<rparr>)"
| job_runs: "cl_job c = Some (j, r) \<Longrightarrow> cstep K R c (c\<lparr>cl_job := Some (j\<lparr>jb_Conditions := conds\<rparr>, r)\<rparr>)"
| job_removed: "cstep K R c (c\<lparr>cl_job := None\<rparr>)"
| removed: "sv_DeletionTimestamp (cl_cr c) \<noteq> None \<Longrightarrow> \<not> ContainsFinalizer K (sv_Finalizers (cl_cr c)) scaleValidationFinalizer \<Longrightarrow>
     cstep K R c (c\<lparr>cl_gone := True\<rparr>)"

inductive creachable :: "k8s \<Rightarrow> reconciler \<Rightarrow> cluster \<Rightarrow> bool" for K R where
  cinit: "initial w \<Longrightarrow> creachable K R \<lparr>cl_world = w, cl_gone = False, cl_job = None, cl_run = 0, cl_created = 0\<rparr>"
| cstep: "creachable K R c \<Longrightarrow> cstep K R c c' \<Longrightarrow> creachable K R c'"

section \<open>Refinement of the lifecycle\<close>

lemma after_call_fields [simp]:
  "cl_world (after_call K R e c) = after_reconcile K R e (cl_world c)" "cl_gone (after_call K R e c) = cl_gone c"
  by (simp_all add: after_call_def Let_def)

text \<open>Seen through its object, the cluster takes the steps of the lifecycle or none.\<close>

lemma cstep_refines: "cstep K R c c' \<Longrightarrow> step K R (cl_world c) (cl_world c') \<or> cl_world c' = cl_world c"
  by (induction rule: cstep.induct) (auto intro: step.intros)

lemma creachable_refines: "creachable K R c \<Longrightarrow> reachable K R (cl_world c)"
proof (induction rule: creachable.induct)
  case (cinit w)
  then show ?case by (simp add: reachable.init)
next
  case (cstep c c')
  then show ?case using cstep_refines[OF cstep(2)] reachable.step by metis
qed

section \<open>What a call does to the Job\<close>

lemma jobs_created_simps [simp]:
  "jobs_created [] = 0" "jobs_created (es @ fs) = jobs_created es + jobs_created fs"
  "jobs_created (x # es) = (if creates x then 1 else 0) + jobs_created es"
  by (simp_all add: jobs_created_def)

lemma creates_iff: "creates x \<longleftrightarrow> (\<exists>job. x = CreateJob job None)"
  by (cases x rule: creates.cases) auto

lemma jobs_created_pos: "0 < jobs_created es \<Longrightarrow> \<exists>job. CreateJob job None \<in> set es"
  by (auto simp: jobs_created_def filter_empty_conv creates_iff)

lemma spawnJob_creates:
  assumes "CreateJob job None \<in> set (fst (spawnJob K R e cr))"
  shows "jobs_created (fst (spawnJob K R e cr)) = 1 \<and> e_create_err e = None
    \<and> (\<exists>st. status_writes (fst (spawnJob K R e cr)) = [(st, e_status_err e)] \<and> st_Phase st = PhaseRunning)"
proof -
  obtain url where s: "resolveTargetURL K e cr = Inr url" "validateTLSCABundle K e cr = None"
    "buildLoadgenJob K R e cr url = Inr job" "e_owner_err e = None" "e_create_err e = None"
    using spawnJob_CreateJob[OF assms] by auto
  then show ?thesis by (simp add: spawnJob_def andthen_def setPhase_def write_status_def)
qed

lemma reconcilePhase_creates:
  assumes "CreateJob job None \<in> set (fst (reconcilePhase K R e cr))"
  shows "reconcilePhase K R e cr = spawnJob K R e cr"
proof -
  note phase = reconcilePhase_CreateJob[OF assms]
  note await = awaitTarget_CreateJob[OF conjunct2[OF conjunct2[OF phase]]]
  have "reconcilePhase K R e cr = awaitTarget K R e cr"
    using phase by (auto simp: reconcilePhase_def reconcileActive_def terminal_phase_def)
  also have "\<dots> = spawnJob K R e cr" using await by (auto simp: awaitTarget_def targetReady_def)
  finally show ?thesis .
qed

text \<open>A call that creates the Job creates one, for a pending object that carries the finalizer afterwards, has been told that there
  was none, and its one status write says Running.\<close>

lemma reconcile_creates:
  assumes "0 < jobs_created (fst (reconcile_cr K R e cr))" "k8s_laws K" "deletion_ok cr"
  shows "jobs_created (fst (reconcile_cr K R e cr)) = 1" "st_Phase (sv_Status cr) = PhasePending" "e_create_err e = None"
    "\<exists>gone. e_job e = Inl gone \<and> IsNotFound gone" "sv_DeletionTimestamp cr = None"
    "ContainsFinalizer K (sv_Finalizers (apply_effects (fst (reconcile_cr K R e cr)) cr)) scaleValidationFinalizer"
    "\<exists>st. status_writes (fst (reconcile_cr K R e cr)) = [(st, e_status_err e)] \<and> st_Phase st = PhaseRunning"
proof -
  obtain job where job: "CreateJob job None \<in> set (fst (reconcile_cr K R e cr))" using jobs_created_pos[OF assms(1)] by blast
  obtain es fs where cr: "reconcile_cr K R e cr = andthen es (reconcilePhase K R e (cr\<lparr>sv_Finalizers := fs\<rparr>))"
      "sv_DeletionTimestamp cr = None"
      "es = [] \<and> fs = sv_Finalizers cr \<and> ContainsFinalizer K fs scaleValidationFinalizer
       \<or> es = [Update fs None] \<and> fs = AddFinalizer K (sv_Finalizers cr) scaleValidationFinalizer"
    using job cr_finalize_no(1) by (cases rule: reconcile_cr_cases[of K R e cr]) auto
  let ?cr = "cr\<lparr>sv_Finalizers := fs\<rparr>"
  have phase: "CreateJob job None \<in> set (fst (reconcilePhase K R e ?cr))" using job cr(1,3) by (auto simp: andthen_def)
  have spawn: "reconcilePhase K R e ?cr = spawnJob K R e ?cr" by (rule reconcilePhase_creates[OF phase])
  note made = spawnJob_creates[OF phase[unfolded spawn]]
  show "jobs_created (fst (reconcile_cr K R e cr)) = 1" "e_create_err e = None"
      "\<exists>st. status_writes (fst (reconcile_cr K R e cr)) = [(st, e_status_err e)] \<and> st_Phase st = PhaseRunning"
    using made cr(1,3) spawn by (auto simp: andthen_def)
  show "st_Phase (sv_Status cr) = PhasePending" "\<exists>gone. e_job e = Inl gone \<and> IsNotFound gone" "sv_DeletionTimestamp cr = None"
    using reconcilePhase_CreateJob[OF phase] cr(2) assms(3) by (auto simp: deletion_ok_def)
  show "ContainsFinalizer K (sv_Finalizers (apply_effects (fst (reconcile_cr K R e cr)) cr)) scaleValidationFinalizer"
    using cr(1,3) apply_effects_finalizers[OF reconcilePhase_no_Update] by (auto simp: andthen_def k8s_lawsD[OF assms(2)])
qed

text \<open>The finalizer is taken off only by a call that has been told that there is no Job.\<close>

lemma reconcile_keeps_finalizer:
  assumes "ContainsFinalizer K (sv_Finalizers cr) scaleValidationFinalizer" "k8s_laws K"
  shows "ContainsFinalizer K (sv_Finalizers (apply_effects (fst (reconcile_cr K R e cr)) cr)) scaleValidationFinalizer
    \<or> (\<exists>gone. e_job e = Inl gone \<and> IsNotFound gone)"
proof (cases rule: reconcile_cr_cases[of K R e cr])
  case 1
  show ?thesis
  proof (cases "e_job e")
    case (Inr job)
    then have "Update fs err \<notin> set (fst (cr_finalize K e cr))" for fs err
      by (auto simp: cr_finalize_def Let_def write_status_def split: option.splits)
    from apply_effects_finalizers[OF this] show ?thesis using 1 assms(1) by simp
  next
    case (Inl err)
    then show ?thesis using 1 assms(1) by (cases "IsNotFound err") (auto simp: cr_finalize_def)
  qed
next
  case (2 es fs)
  then show ?thesis
    using apply_effects_finalizers[OF reconcilePhase_no_Update] by (auto simp: andthen_def k8s_lawsD[OF assms(2)])
next
  case (3 fs err)
  then show ?thesis using assms(1) by simp
qed

lemma cr_finalize_writes: "(st, err) \<in> set (status_writes (fst (cr_finalize K e cr))) \<Longrightarrow> st_Phase st = PhaseTerminating"
  by (auto simp: cr_finalize_def Let_def write_status_def split: sum.splits option.splits if_splits)

lemma reconcileTerminal_writes:
  assumes "(st, err) \<in> set (status_writes (fst (reconcileTerminal K e cr)))" "st_Phase st = PhasePending"
    "terminal_phase (st_Phase (sv_Status cr))"
  shows "\<exists>gone. e_job e = Inl gone \<and> IsNotFound gone"
  using assms startNextRun_pending[of K e cr]
  by (auto simp: reconcileTerminal_def parkSuspended_def restartForSpecChange_def Let_def terminal_phase_def
      dest: failScheduleInvalid_writes split: sum.splits option.splits if_splits)

text \<open>And an object goes back to Pending only in such a call.\<close>

lemma reconcile_restarts:
  assumes "restarts (st_Phase (sv_Status cr)) (st_Phase (sv_Status (apply_effects (fst (reconcile_cr K R e cr)) cr)))"
  shows "\<exists>gone. e_job e = Inl gone \<and> IsNotFound gone"
proof -
  let ?st = "sv_Status (apply_effects (fst (reconcile_cr K R e cr)) cr)"
  have t: "terminal_phase (st_Phase (sv_Status cr))" "st_Phase ?st = PhasePending" using assms by (simp_all add: restarts_def)
  then have "?st \<noteq> sv_Status cr" by (auto simp: terminal_phase_def)
  then have w: "(?st, None) \<in> set (status_writes (fst (reconcile_cr K R e cr)))"
    using apply_effects_status[of "fst (reconcile_cr K R e cr)" cr] by auto
  then show ?thesis
  proof (cases rule: reconcile_cr_cases[of K R e cr])
    case 1
    then show ?thesis using cr_finalize_writes[OF w[unfolded 1]] t(2) by (simp add: 1)
  next
    case (2 es fs)
    let ?cr = "cr\<lparr>sv_Finalizers := fs\<rparr>"
    have "reconcilePhase K R e ?cr = reconcileTerminal K e ?cr" using t(1) by (simp add: reconcilePhase_def)
    then have "(?st, None) \<in> set (status_writes (fst (reconcileTerminal K e ?cr)))" using w 2(1,3) by auto
    then show ?thesis using reconcileTerminal_writes t by fastforce
  qed (use w in simp)
qed

section \<open>Invariant\<close>

text \<open>A Job belongs to the current run, and its object carries the finalizer; an object that has been removed did
  not. While the writes of the status succeed, a run has at most one Job, and before it is started there is none.\<close>

definition cluster_inv :: "k8s \<Rightarrow> cluster \<Rightarrow> bool" where
  "cluster_inv K c \<longleftrightarrow>
     (\<forall>j r. cl_job c = Some (j, r) \<longrightarrow> r = cl_run c \<and> ContainsFinalizer K (sv_Finalizers (cl_cr c)) scaleValidationFinalizer)
     \<and> (cl_gone c \<longrightarrow> \<not> ContainsFinalizer K (sv_Finalizers (cl_cr c)) scaleValidationFinalizer)
     \<and> (w_clean (cl_world c) \<longrightarrow> cl_created c \<le> 1
          \<and> (cl_phase c \<in> {PhaseNone, PhasePending} \<longrightarrow> cl_created c = 0 \<and> cl_job c = None))"

lemma job_effect_cases:
  "job_effect t n x j = Some (j', r) \<Longrightarrow> creates x \<and> r = n \<or> (\<exists>j0. j = Some (j0, r))"
  by (cases "(t, n, x, j)" rule: job_effect.cases) auto

lemma jobs_fold:
  "foldl (\<lambda>j x. job_effect t n x j) j es = Some (j', r) \<Longrightarrow> 0 < jobs_created es \<and> r = n \<or> (\<exists>j0. j = Some (j0, r))"
proof (induction es arbitrary: j)
  case (Cons x es)
  then show ?case using job_effect_cases[of t n x j] by fastforce
qed simp

lemma phase_before_start:
  assumes "cr_inv K cr" "st_Phase (sv_Status (apply_effects (fst (reconcile_cr K R e cr)) cr)) \<in> {PhaseNone, PhasePending}"
  shows "st_Phase (sv_Status cr) \<in> {PhaseNone, PhasePending}
    \<or> restarts (st_Phase (sv_Status cr)) (st_Phase (sv_Status (apply_effects (fst (reconcile_cr K R e cr)) cr)))"
  using reconcile_stored[OF assms(1) refl, of R e] assms(2)
  by (cases "st_Phase (sv_Status cr)") (auto simp: restarts_def terminal_phase_def cr_step_def status_step_def phase_edge_def)

lemma cluster_inv_call:
  assumes inv: "cluster_inv K c" and cr: "cr_inv K (cl_cr c)" and live: "\<not> cl_gone c" and e: "consistent e c"
  shows "cluster_inv K (after_call K R e c)"
proof -
  let ?es = "fst (reconcile_cr K R e (cl_cr c))" and ?c = "after_call K R e c"
  let ?fin = "\<lambda>cr. ContainsFinalizer K (sv_Finalizers cr) scaleValidationFinalizer"
  let ?again = "restarts (cl_phase c) (cl_phase ?c)"
  have K: "k8s_laws K" and del: "deletion_ok (cl_cr c)" using cr by (simp_all add: cr_inv_def)
  have cr': "cl_cr ?c = apply_effects ?es (cl_cr c)" by (simp add: after_reconcile_def Let_def)
  have job': "cl_job ?c = foldl (\<lambda>j x. job_effect (e_stamp e) (cl_run c) x j) (cl_job c) ?es"
    and run': "cl_run ?c = (if ?again then cl_run c + 1 else cl_run c)"
    and created': "cl_created ?c = (if ?again then 0 else cl_created c) + jobs_created ?es"
    by (simp_all add: after_call_def Let_def after_reconcile_def)
  have none: "cl_job c = None" if "\<exists>gone. e_job e = Inl gone \<and> IsNotFound gone" using e that by (auto simp: consistent_def)
  have again: "cl_job c = None" if ?again using none reconcile_restarts that cr' by metis
  note made = reconcile_creates[OF _ K del, of R e]
  have not_again: "\<not> ?again" if "0 < jobs_created ?es" using made(2)[OF that] by (simp add: restarts_def)
  have "r = cl_run ?c \<and> ?fin (cl_cr ?c)" if "cl_job ?c = Some (j, r)" for j r
    using jobs_fold[OF that[unfolded job']]
  proof
    assume "0 < jobs_created ?es \<and> r = cl_run c"
    then show ?thesis using made(6) not_again run' cr' by auto
  next
    assume "\<exists>j0. cl_job c = Some (j0, r)"
    then have "r = cl_run c" "?fin (cl_cr c)" "cl_job c \<noteq> None" using inv by (auto simp: cluster_inv_def)
    then show ?thesis using again run' none reconcile_keeps_finalizer[OF _ K, of "cl_cr c" R e] cr' by auto
  qed
  moreover have "cl_created ?c \<le> 1 \<and> (cl_phase ?c \<in> {PhaseNone, PhasePending} \<longrightarrow> cl_created ?c = 0 \<and> cl_job ?c = None)"
    if "w_clean (cl_world ?c)"
  proof -
    have clean: "w_clean (cl_world c)" "list_all (\<lambda>(st, err). err = None) (status_writes ?es)"
      using that by (simp_all add: after_reconcile_def Let_def)
    show ?thesis
    proof (cases "0 < jobs_created ?es")
      case True
      obtain st where "status_writes ?es = [(st, None)]" "st_Phase st = PhaseRunning"
        using made(7)[OF True] clean(2) by auto
      then have "cl_phase ?c = PhaseRunning" using written_is_stored[of ?es st "cl_cr c"] cr' by simp
      moreover have "cl_created c = 0" using made(2)[OF True] inv clean(1) by (simp add: cluster_inv_def)
      ultimately show ?thesis using made(1)[OF True] created' not_again[OF True] by simp
    next
      case False
      then have keep: "cl_job c = None \<Longrightarrow> cl_job ?c = None" using jobs_fold job' by (metis option.exhaust surj_pair option.distinct(1))
      show ?thesis
        using phase_before_start[OF cr, of R e, folded cr'] again keep inv clean(1) False created' by (auto simp: cluster_inv_def)
    qed
  qed
  ultimately show ?thesis using live by (simp add: cluster_inv_def)
qed

lemma creachable_inv:
  assumes "creachable K R c" "k8s_laws K"
  shows "cluster_inv K c"
  using assms(1)
proof (induction rule: creachable.induct)
  case (cinit w)
  then show ?case by (simp add: cluster_inv_def)
next
  case (cstep c c')
  have cr: "cr_inv K (cl_cr c)"
    using reachable_inv[OF creachable_refines[OF cstep(1)] assms(2)] by (simp add: world_inv_def)
  from cstep(2) show ?case
  proof (cases rule: cstep.cases)
    case (call e)
    then show ?thesis using cluster_inv_call[OF cstep(3) cr] by simp
  qed (use cstep(3) in \<open>auto simp: cluster_inv_def\<close>)
qed

text \<open>A verdict is read off a complete Job.\<close>

lemma verdicts_complete:
  assumes "st \<in> set (verdicts (fst (reconcile_cr K R e cr)))" "\<not> terminal_phase (st_Phase (sv_Status cr))"
  shows "\<exists>job. e_job e = Inr job \<and> jobConditionTrue job ''Complete'' \<and> \<not> jobConditionTrue job ''Failed''"
proof -
  have active: ?thesis if "st \<in> set (verdicts (fst (reconcileActive K R e c)))" "\<not> terminal_phase (st_Phase (sv_Status c))" for c
    using that verdicts_maybeInjectDisruption[of c K e]
    by (auto simp: reconcileActive_def awaitTarget_def Let_def terminal_phase_def split: sum.splits if_splits)
  from reconcile_cr_handler[of K R e cr] assms show ?thesis
    by (auto simp: reconcilePhase_def intro: active split: if_splits sum.splits)
qed

text \<open>When the write that should record the start of a run fails, nothing makes up for it: the Job runs while the object says
  Pending, calls that find it in progress do nothing (so no disruption is injected), and the verdict is stored with the
  start time of the run before, from which the next run of a schedule is then computed.\<close>

lemma unrecorded_start:
  assumes own: "owned K cr" and K: "k8s_laws K" "deletion_ok cr"
    and made: "CreateJob job None \<in> set (fst (reconcile_cr K R e cr))" "e_status_err e = Some err"
    and flying: "e_job e1 = Inr j" "\<not> jobConditionTrue j ''Failed''" "\<not> jobConditionTrue j ''Complete''"
    and "done": "reported K e2 report"
  shows "stored K R e cr = cr" "reconcile_cr K R e1 cr = ([], Inr 0)"
    "st_LastRunTime (sv_Status (stored K R e2 cr)) = st_LastRunTime (sv_Status cr)"
proof -
  have n: "0 < jobs_created (fst (reconcile_cr K R e cr))"
    using made(1) by (auto simp: jobs_created_def filter_empty_conv creates_iff)
  note made' = reconcile_creates[OF n K]
  have phase: "reconcile_cr K R e' cr = reconcilePhase K R e' cr" for e' using own by (simp add: owned_def reconcile_cr_def)
  obtain st where "status_writes (fst (reconcile_cr K R e cr)) = [(st, Some err)]" using made'(7) made(2) by auto
  then have "sv_Status (stored K R e cr) = sv_Status cr"
    using apply_effects_status[of "fst (reconcile_cr K R e cr)" cr] by auto
  moreover have "sv_Finalizers (stored K R e cr) = sv_Finalizers cr"
    using apply_effects_finalizers[OF reconcilePhase_no_Update] by (simp add: phase)
  ultimately show "stored K R e cr = cr" by (intro ScaleValidation.equality) simp_all
  show "reconcile_cr K R e1 cr = ([], Inr 0)"
    using flying made'(2) by (simp add: phase reconcilePhase_def reconcileActive_def maybeInjectDisruption_def split: option.split)
  show "st_LastRunTime (sv_Status (stored K R e2 cr)) = st_LastRunTime (sv_Status cr)"
    using running_finishes(1)[OF own _ "done", of R] made'(2) by (simp add: in_progress_def finished_cr_fields)
qed

section \<open>Properties\<close>

text \<open>The object \<open>dis_cr\<close> from its first call to a complete Job: two calls, the second of which creates the Job, and the
  Job's completion.\<close>

definition demo_cluster :: "Phase \<Rightarrow> time option \<Rightarrow> (JobObject \<times> nat) option \<Rightarrow> nat \<Rightarrow> cluster" where
  "demo_cluster p t j n = \<lparr>cl_world = \<lparr>w_cr = dis_cr\<lparr>sv_Status := new_status\<lparr>st_Phase := p, st_LastRunTime := t\<rparr>\<rparr>, w_kills = 0, w_clean = True\<rparr>,
     cl_gone = False, cl_job = j, cl_run = 0, cl_created = n\<rparr>"

definition demo_job :: "(string \<times> string) list \<Rightarrow> JobObject" where
  "demo_job conds = \<lparr>jb_Name = ''demo-loadgen'', jb_DeletionTimestamp = None, jb_Conditions = conds\<rparr>"

lemma report_laws: "k8s_laws report_k8s"
  by (simp add: report_k8s_def ref_k8s_laws)

lemma demo_call_pending:
  "after_call report_k8s demo_reconciler demo_env (demo_cluster PhaseNone None None 0) = demo_cluster PhasePending None None 0"
  by (simp add: after_call_def demo_cluster_def after_reconcile_def reconcile_cr_def reconcilePhase_def parseSchedule_def setPhase_def
      write_status_def restarts_def report_k8s_def demo_defs dis_cr_def dis_spec_def demo_spec_def)

lemma demo_call_running:
  "after_call report_k8s demo_reconciler demo_env (demo_cluster PhasePending None None 0)
   = demo_cluster PhaseRunning (Some (60 * Second)) (Some (demo_job [], 0)) 1"
  by (simp add: after_call_def demo_cluster_def demo_job_def restarts_def
      after_reconcile_def reconcile_cr_def reconcilePhase_def reconcileActive_def awaitTarget_def targetReady_def spawnJob_def
      targetPodsReady_def targetSelector_def targetGVK_def resolveTargetURL_def validateTLSCABundle_def caBundleRef_def
      buildLoadgenJob_def observerArgs_def loadgenArgs_def loadgenJobName_def buildPhases_def setPhase_def write_status_def andthen_def Let_def
      ctrl_podReady_def demo_pod_def wrap32_def report_k8s_def demo_defs dis_cr_def dis_spec_def demo_spec_def pods_deleted_def)

lemma demo_creachable:
  "creachable report_k8s demo_reconciler (demo_cluster PhaseRunning (Some (60 * Second)) (Some (demo_job conds, 0)) 1)"
proof -
  have ok: "\<not> cl_gone (demo_cluster p t j n)" "consistent demo_env (demo_cluster p t None n)" for p t j n
    by (simp_all add: demo_cluster_def consistent_def demo_env_def)
  have "creachable report_k8s demo_reconciler (demo_cluster PhaseNone None None 0)"
    using creachable.cinit[of "cl_world (demo_cluster PhaseNone None None 0)" report_k8s demo_reconciler]
    by (simp add: demo_cluster_def initial_def dis_cr_def demo_cr_def new_status_def)
  from creachable.cstep[OF this cstep.call[OF ok]]
  have "creachable report_k8s demo_reconciler (demo_cluster PhasePending None None 0)" unfolding demo_call_pending .
  from creachable.cstep[OF this cstep.call[OF ok]]
  have "creachable report_k8s demo_reconciler (demo_cluster PhaseRunning (Some (60 * Second)) (Some (demo_job [], 0)) 1)"
    unfolding demo_call_running .
  from creachable.cstep[OF this cstep.job_runs[of _ "demo_job []" 0 _ _ conds]]
  show ?thesis by (simp add: demo_cluster_def demo_job_def)
qed




text \<open>The report's environment, in which the Job's name is taken.\<close>

definition late_env :: env where
  "late_env = (done_env ''fail'')\<lparr>e_create_err := Some (Api OtherReason ''already exists'')\<rparr>"

lemma late_reported: "reported report_k8s late_env (demo_report VerdictFail)"
  using demo_reported by (simp add: reported_def late_env_def)


end
