(* ===== verification/Go_Memory.thy ===== *)
theory Go_Memory
  imports Main "HOL-Library.State_Monad"
begin

text \<open>
  Memory, for the code whose point is that two objects share none of it. A memory is a list of cells, an
  address an index, allocation appends a cell. A pointer is an address or nil; a slice is nil or an
  address with a length, its elements the first cells of the array stored there. Code that
  allocates is a \<^verbatim>\<open>state\<close> computation over the memory.

  The locale \<open>deep_copier\<close> is the contract of a deep copy, and the lemmas after it build
  contracts for pointers and slices from the contracts of what they hold.
\<close>

section \<open>Cells, pointers, slices\<close>

type_synonym addr = nat
type_synonym pointer = "addr option"
type_synonym slice = "(addr \<times> nat) option"

text \<open>One kind of cell among those a memory can hold.\<close>

record ('c, 'a) kind =
  mk_cell :: "'a \<Rightarrow> 'c"
  un_cell :: "'c \<Rightarrow> 'a option"

definition kind_ok :: "('c, 'a) kind \<Rightarrow> bool" where
  "kind_ok K \<longleftrightarrow> (\<forall>x. un_cell K (mk_cell K x) = Some x)"

definition deref :: "('c, 'a) kind \<Rightarrow> 'c list \<Rightarrow> addr \<Rightarrow> 'a option" where
  "deref K h a = (if a < length h then un_cell K (h ! a) else None)"

definition alloc :: "('c, 'a) kind \<Rightarrow> 'a \<Rightarrow> ('c list, addr) state" where
  "alloc K x = do { h \<leftarrow> State_Monad.get; _ \<leftarrow> State_Monad.set (h @ [mk_cell K x]); State_Monad.return (length h) }"

lemma run_alloc [simp]: "run_state (alloc K x) h = (length h, h @ [mk_cell K x])"
  by (simp add: alloc_def)

lemma deref_append: "deref K h a = Some x \<Longrightarrow> deref K (h @ t) a = Some x"
  by (auto simp: deref_def nth_append split: if_splits)

lemma deref_alloc [simp]: "kind_ok K \<Longrightarrow> deref K (h @ mk_cell K x # t) (length h) = Some x"
  by (simp add: deref_def kind_ok_def)

text \<open>Copying through a pointer: nil stays nil; otherwise a new cell takes the copy of the old one's
  content. The branch without a content is that of a pointer outside the memory or to a cell of
  another kind, which Go's types exclude. In which order fresh addresses are given out cannot be observed in
  Go; here the new cell is allocated when its content is known.\<close>

definition ptr_copy :: "('c, 'a) kind \<Rightarrow> ('a \<Rightarrow> ('c list, 'a) state) \<Rightarrow> pointer \<Rightarrow> ('c list, pointer) state" where
  "ptr_copy K into p =
     (case p of
        None \<Rightarrow> State_Monad.return None
      | Some a \<Rightarrow> do {
          h \<leftarrow> State_Monad.get;
          (case deref K h a of
             None \<Rightarrow> State_Monad.return p
           | Some x \<Rightarrow> do { y \<leftarrow> into x; b \<leftarrow> alloc K y; State_Monad.return (Some b) }) })"

text \<open>Copying a slice: a new array of the same length, filled element by element.\<close>

definition slice_copy :: "('c, 'a list) kind \<Rightarrow> ('a \<Rightarrow> ('c list, 'a) state) \<Rightarrow> slice \<Rightarrow> ('c list, slice) state" where
  "slice_copy K into s =
     (case s of
        None \<Rightarrow> State_Monad.return None
      | Some (a, n) \<Rightarrow> do {
          h \<leftarrow> State_Monad.get;
          (case deref K h a of
             None \<Rightarrow> State_Monad.return s
           | Some xs \<Rightarrow> do { ys \<leftarrow> State_Monad.traverse_list into (take n xs); b \<leftarrow> alloc K ys; State_Monad.return (Some (b, n)) }) })"

text \<open>What a pointer or a slice stands for: the value below it, if the memory is well-formed there. A nil
  slice reads as an empty one.\<close>

definition view_ptr :: "('c, 'a) kind \<Rightarrow> ('c list \<Rightarrow> 'a \<Rightarrow> 'v option) \<Rightarrow> 'c list \<Rightarrow> pointer \<Rightarrow> 'v option option" where
  "view_ptr K view h p =
     (case p of None \<Rightarrow> Some None | Some a \<Rightarrow> Option.bind (deref K h a) (\<lambda>x. map_option Some (view h x)))"

primrec view_list :: "('c list \<Rightarrow> 'a \<Rightarrow> 'v option) \<Rightarrow> 'c list \<Rightarrow> 'a list \<Rightarrow> 'v list option" where
  "view_list view h [] = Some []"
| "view_list view h (x # xs) =
     (case view h x of None \<Rightarrow> None | Some v \<Rightarrow> map_option ((#) v) (view_list view h xs))"

definition view_slice ::
  "('c, 'a list) kind \<Rightarrow> ('c list \<Rightarrow> 'a \<Rightarrow> 'v option) \<Rightarrow> 'c list \<Rightarrow> slice \<Rightarrow> 'v list option" where
  "view_slice K view h s =
     (case s of
        None \<Rightarrow> Some []
      | Some (a, n) \<Rightarrow> Option.bind (deref K h a) (\<lambda>xs. if n \<le> length xs then view_list view h (take n xs) else None))"

text \<open>A struct without pointers is its own value.\<close>

definition plain :: "'c list \<Rightarrow> 'a \<Rightarrow> 'a option" where
  "plain h x = Some x"

section \<open>The contract of a deep copy\<close>

text \<open>Later writes: a list of assignments to cells.\<close>

definition writes :: "(addr \<times> 'c) list \<Rightarrow> 'c list \<Rightarrow> 'c list" where
  "writes ws h = foldl (\<lambda>h (a, c). h[a := c]) h ws"

lemma writes_below:
  "\<forall>(a, c) \<in> set ws. a < length h \<Longrightarrow> \<exists>k. length k = length h \<and> writes ws (h @ t) = k @ t"
proof (induction ws arbitrary: h)
  case (Cons w ws)
  obtain a c where w: "w = (a, c)" by (cases w)
  then have "\<exists>k. length k = length (h[a := c]) \<and> writes ws (h[a := c] @ t) = k @ t"
    using Cons.prems by (intro Cons.IH) auto
  then show ?case using Cons.prems w by (simp add: writes_def list_update_append)
qed (simp add: writes_def)

lemma writes_above:
  "\<forall>(a, c) \<in> set ws. length h \<le> a \<Longrightarrow> \<exists>s. length s = length t \<and> writes ws (h @ t) = h @ s"
proof (induction ws arbitrary: t)
  case (Cons w ws)
  obtain a c where w: "w = (a, c)" by (cases w)
  then have "\<exists>s. length s = length (t[a - length h := c]) \<and> writes ws (h @ t[a - length h := c]) = h @ s"
    using Cons.prems by (intro Cons.IH) auto
  then show ?case using Cons.prems w by (simp add: writes_def list_update_append)
qed (simp add: writes_def)

text \<open>\<open>fresh n t view x v\<close>: \<open>x\<close> stands for \<open>v\<close> in a memory of \<open>n\<close> cells followed by \<open>t\<close>, whatever
  the first \<open>n\<close> cells hold; that is, nothing below \<open>x\<close> is among them.\<close>

definition fresh :: "nat \<Rightarrow> 'c list \<Rightarrow> ('c list \<Rightarrow> 'a \<Rightarrow> 'v option) \<Rightarrow> 'a \<Rightarrow> 'v \<Rightarrow> bool" where
  "fresh n t view x v \<longleftrightarrow> (\<forall>k. length k = n \<longrightarrow> view (k @ t) x = Some v)"

lemma fresh_below:
  fixes t :: "'c list"
  assumes "fresh (length h + length t) s view x v"
  shows "fresh (length h) (t @ s) view x v"
proof -
  have "view (k @ t @ s) x = Some v" if "length k = length h" for k
    using assms[unfolded fresh_def, rule_format, of "k @ t"] that by simp
  then show ?thesis by (simp add: fresh_def)
qed

text \<open>A computation that only allocates, its result and the cells it adds satisfying \<open>Q\<close>.\<close>

definition allocates :: "('c list, 'a) state \<Rightarrow> 'c list \<Rightarrow> ('a \<Rightarrow> 'c list \<Rightarrow> bool) \<Rightarrow> bool" where
  "allocates m h Q \<longleftrightarrow> (\<exists>x t. run_state m h = (x, h @ t) \<and> Q x t)"

locale deep_copier =
  fixes view :: "'c list \<Rightarrow> 'a \<Rightarrow> 'v option"
    and copy :: "'a \<Rightarrow> ('c list, 'a) state"
  assumes stable: "view h x = Some v \<Longrightarrow> view (h @ t) x = Some v"
    and copies: "view h x = Some v \<Longrightarrow> allocates (copy x) h (\<lambda>y t. fresh (length h) t view y v)"
begin

lemma fresh_more: "fresh n t view y v \<Longrightarrow> fresh n (t @ s) view y v"
  by (auto simp: fresh_def stable simp flip: append_assoc)

text \<open>The copy stands for the same value; no write to the memory that was there before changes the
  copy, and no write to the cells it added changes the original.\<close>

lemma isolated:
  assumes "view h x = Some v"
  shows "\<exists>y t. run_state (copy x) h = (y, h @ t)
    \<and> (\<forall>ws. (\<forall>(a, c) \<in> set ws. a < length h) \<longrightarrow> view (writes ws (h @ t)) y = Some v)
    \<and> (\<forall>ws. (\<forall>(a, c) \<in> set ws. length h \<le> a) \<longrightarrow> view (writes ws (h @ t)) x = Some v)"
proof -
  obtain y t where run: "run_state (copy x) h = (y, h @ t)" and fr: "fresh (length h) t view y v"
    using copies[OF assms] by (auto simp: allocates_def)
  have "view (writes ws (h @ t)) y = Some v" if "\<forall>(a, c) \<in> set ws. a < length h" for ws
    using writes_below[OF that, of t] fr by (auto simp: fresh_def)
  moreover have "view (writes ws (h @ t)) x = Some v" if "\<forall>(a, c) \<in> set ws. length h \<le> a" for ws
    using writes_above[OF that, of t] stable[OF assms] by auto
  ultimately show ?thesis using run by blast
qed

text \<open>One step of a struct's copy: after the cells \<open>t\<close> have been added, the next field is copied.\<close>

lemma field:
  assumes "view h x = Some v"
    and "\<And>y s. fresh (length h) (t @ s) view y v \<Longrightarrow> allocates (f y) (h @ t @ s) (\<lambda>z r. Q z (t @ s @ r))"
  shows "allocates (State_Monad.bind (copy x) f) (h @ t) (\<lambda>z r. Q z (t @ r))"
proof -
  obtain y s where "run_state (copy x) (h @ t) = (y, (h @ t) @ s)" "fresh (length h + length t) s view y v"
    using copies[OF stable[OF assms(1), of t]] by (auto simp: allocates_def)
  moreover then have "fresh (length h) (t @ s) view y v" by (intro fresh_below)
  ultimately show ?thesis using assms(2) by (fastforce simp: allocates_def)
qed

lemmas first_field = field[where t = "[]", simplified]

end

lemma allocates_return [simp]: "allocates (State_Monad.return x) h Q \<longleftrightarrow> Q x []"
  by (simp add: allocates_def)

section \<open>Building contracts\<close>

lemma plain_copier: "deep_copier plain State_Monad.return"
  by unfold_locales (simp_all add: plain_def fresh_def)

lemma view_ptr_stable:
  assumes "deep_copier view into" "view_ptr K view h p = Some v"
  shows "view_ptr K view (h @ t) p = Some v"
  using assms(2) deep_copier.stable[OF assms(1)]
  by (fastforce simp: view_ptr_def bind_eq_Some_conv intro: deref_append split: option.splits)

lemma ptr_copier:
  assumes "deep_copier view into" "kind_ok K"
  shows "deep_copier (view_ptr K view) (ptr_copy K into)"
proof
  fix h p v
  assume v: "view_ptr K view h p = Some v"
  show "allocates (ptr_copy K into p) h (\<lambda>q t. fresh (length h) t (view_ptr K view) q v)"
  proof (cases p)
    case None
    then show ?thesis using v by (simp add: ptr_copy_def fresh_def view_ptr_def)
  next
    case (Some a)
    then obtain x w where x: "deref K h a = Some x" "view h x = Some w" "v = Some w"
      using v by (auto simp: view_ptr_def bind_eq_Some_conv)
    obtain y t where y: "run_state (into x) h = (y, h @ t)" "fresh (length h) t view y w"
      using deep_copier.copies[OF assms(1) x(2)] by (auto simp: allocates_def)
    have "view_ptr K view (k @ t @ [mk_cell K y]) (Some (length (h @ t))) = Some v" if "length k = length h" for k
    proof -
      have "deref K ((k @ t) @ [mk_cell K y]) (length (k @ t)) = Some y" using assms(2) by (rule deref_alloc)
      moreover have "view ((k @ t) @ [mk_cell K y]) y = Some w"
        using y(2) that deep_copier.stable[OF assms(1)] by (simp only: fresh_def)
      ultimately show ?thesis using that x(3) by (simp add: view_ptr_def)
    qed
    then show ?thesis using Some x(1) y(1) by (simp add: ptr_copy_def allocates_def fresh_def)
  qed
qed (rule view_ptr_stable[OF assms(1)])

lemma list_copier:
  assumes "deep_copier view into"
  shows "deep_copier (view_list view) (State_Monad.traverse_list into)"
proof
  show stable: "view_list view (h @ t) xs = Some vs" if "view_list view h xs = Some vs" for h xs vs t
    using that
  proof (induction xs arbitrary: vs)
    case (Cons x xs)
    then show ?case by (auto simp: deep_copier.stable[OF assms] split: option.splits)
  qed simp
  show "allocates (State_Monad.traverse_list into xs) h (\<lambda>ys t. fresh (length h) t (view_list view) ys vs)"
    if "view_list view h xs = Some vs" for h xs vs
    using that
  proof (induction xs arbitrary: h vs)
    case (Cons x xs)
    then obtain w ws where v: "view h x = Some w" "view_list view h xs = Some ws" "vs = w # ws"
      by (auto split: option.splits)
    show ?case unfolding State_Monad.traverse_list.simps
    proof (rule deep_copier.first_field[OF assms v(1)])
      fix y s
      assume y: "fresh (length h) s view y w"
      obtain ys t where ys: "run_state (State_Monad.traverse_list into xs) (h @ s) = (ys, (h @ s) @ t)"
        "fresh (length h + length s) t (view_list view) ys ws"
        using Cons.IH[OF stable[OF v(2)], of s] by (auto simp: allocates_def)
      have "fresh (length h) (s @ t) (view_list view) (y # ys) vs"
        using fresh_below[OF ys(2)] deep_copier.fresh_more[OF assms y, of t] v(3) by (simp add: fresh_def)
      then show "allocates (State_Monad.bind (State_Monad.traverse_list into xs) (\<lambda>xs. State_Monad.return (y # xs)))
          (h @ s) (\<lambda>z r. fresh (length h) (s @ r) (view_list view) z vs)"
        using ys(1) by (simp add: allocates_def)
    qed
  qed (simp add: fresh_def)
qed

lemma view_slice_stable:
  assumes "deep_copier view into" "view_slice K view h s = Some v"
  shows "view_slice K view (h @ t) s = Some v"
  using assms(2) deep_copier.stable[OF list_copier[OF assms(1)]]
  by (fastforce simp: view_slice_def bind_eq_Some_conv intro: deref_append split: option.splits if_splits)

lemma view_list_length: "view_list view h xs = Some vs \<Longrightarrow> length vs = length xs"
  by (induction xs arbitrary: vs) (auto split: option.splits)

lemma slice_copier:
  assumes "deep_copier view into" "kind_ok K"
  shows "deep_copier (view_slice K view) (slice_copy K into)"
proof
  note list = list_copier[OF assms(1)]
  fix h s v
  assume v: "view_slice K view h s = Some v"
  show "allocates (slice_copy K into s) h (\<lambda>q t. fresh (length h) t (view_slice K view) q v)"
  proof (cases s)
    case None
    then show ?thesis using v by (simp add: slice_copy_def fresh_def view_slice_def)
  next
    case (Some an)
    then obtain a n xs where x: "s = Some (a, n)" "deref K h a = Some xs" "view_list view h (take n xs) = Some v" "n \<le> length xs"
      using v by (cases an) (auto simp: view_slice_def bind_eq_Some_conv split: if_splits)
    obtain ys t where y: "run_state (State_Monad.traverse_list into (take n xs)) h = (ys, h @ t)"
        "fresh (length h) t (view_list view) ys v"
      using deep_copier.copies[OF list x(3)] by (auto simp: allocates_def)
    have "view_list view (h @ t) ys = Some v" using y(2) by (simp add: fresh_def)
    then have n: "length ys = n" using view_list_length[of view "h @ t" ys] view_list_length[OF x(3)] x(4) by simp
    have "view_slice K view (k @ t @ [mk_cell K ys]) (Some (length (h @ t), n)) = Some v" if "length k = length h" for k
    proof -
      have "deref K ((k @ t) @ [mk_cell K ys]) (length (k @ t)) = Some ys" using assms(2) by (rule deref_alloc)
      moreover have "view_list view ((k @ t) @ [mk_cell K ys]) ys = Some v"
        using y(2) that deep_copier.stable[OF list] by (simp only: fresh_def)
      ultimately show ?thesis using that n by (simp add: view_slice_def)
    qed
    then show ?thesis using x(1,2) y(1) by (simp add: slice_copy_def allocates_def fresh_def)
  qed
qed (rule view_slice_stable[OF assms(1)])

text \<open>Two fields one after the other, and a struct whose pointer fields are the components of \<open>f g\<close>: the
  copy is the input with these fields replaced, and the rest of its value does not depend on them.\<close>

definition view_pair ::
  "('c list \<Rightarrow> 'a \<Rightarrow> 'v option) \<Rightarrow> ('c list \<Rightarrow> 'b \<Rightarrow> 'w option) \<Rightarrow> 'c list \<Rightarrow> 'a \<times> 'b \<Rightarrow> ('v \<times> 'w) option" where
  "view_pair v1 v2 h xy = do { a \<leftarrow> v1 h (fst xy); b \<leftarrow> v2 h (snd xy); Some (a, b) }"

definition copy_pair ::
  "('a \<Rightarrow> ('c list, 'a) state) \<Rightarrow> ('b \<Rightarrow> ('c list, 'b) state) \<Rightarrow> 'a \<times> 'b \<Rightarrow> ('c list, 'a \<times> 'b) state" where
  "copy_pair c1 c2 xy = do { p \<leftarrow> c1 (fst xy); q \<leftarrow> c2 (snd xy); State_Monad.return (p, q) }"

lemma pair_copier:
  assumes "deep_copier v1 c1" "deep_copier v2 c2"
  shows "deep_copier (view_pair v1 v2) (copy_pair c1 c2)"
proof
  show "view_pair v1 v2 (h @ t) xy = Some v" if "view_pair v1 v2 h xy = Some v" for h xy v t
    using that deep_copier.stable[OF assms(1)] deep_copier.stable[OF assms(2)]
    by (auto simp: view_pair_def bind_eq_Some_conv)
  show "allocates (copy_pair c1 c2 xy) h (\<lambda>y t. fresh (length h) t (view_pair v1 v2) y v)"
    if view: "view_pair v1 v2 h xy = Some v" for h xy v
  proof -
    obtain a b where v: "v1 h (fst xy) = Some a" "v2 h (snd xy) = Some b" "v = (a, b)"
      using view by (auto simp: view_pair_def bind_eq_Some_conv)
    show ?thesis unfolding copy_pair_def
    proof (rule deep_copier.first_field[OF assms(1) v(1)])
      fix p s
      assume p: "fresh (length h) s v1 p a"
      show "allocates (State_Monad.bind (c2 (snd xy)) (\<lambda>q. State_Monad.return (p, q))) (h @ s)
          (\<lambda>z r. fresh (length h) (s @ r) (view_pair v1 v2) z v)"
      proof (rule deep_copier.field[OF assms(2) v(2)])
        fix q r
        assume "fresh (length h) (s @ r) v2 q b"
        with deep_copier.fresh_more[OF assms(1) p, of r] v(3)
        show "allocates (State_Monad.return (p, q)) (h @ s @ r) (\<lambda>z t. fresh (length h) (s @ r @ t) (view_pair v1 v2) z v)"
          by (simp add: fresh_def view_pair_def)
      qed
    qed
  qed
qed

lemma struct_copier:
  assumes "deep_copier v c"
    and view: "\<And>h g. view h g = Option.bind (v h (f g)) (\<lambda>a. Some (B g a))"
    and copy: "\<And>g. copy g = State_Monad.bind (c (f g)) (\<lambda>p. State_Monad.return (U g p))"
    and upd: "\<And>g p. f (U g p) = p" "\<And>g p. B (U g p) = B g"
  shows "deep_copier view copy"
proof
  show "view (h @ t) g = Some w" if "view h g = Some w" for h g w t
    using that deep_copier.stable[OF assms(1)] by (auto simp: view bind_eq_Some_conv)
  show "allocates (copy g) h (\<lambda>y t. fresh (length h) t view y w)" if g: "view h g = Some w" for h g w
  proof -
    obtain a where a: "v h (f g) = Some a" "w = B g a" using g by (auto simp: view bind_eq_Some_conv)
    show ?thesis unfolding copy
      by (rule deep_copier.first_field[OF assms(1) a(1)]) (simp add: fresh_def view upd a(2))
  qed
qed

lemmas struct_simps = view_pair_def copy_pair_def Option.bind_assoc

end
