(* ===== verification/Deep_Copy.thy ===== *)
theory Deep_Copy
  imports Api_Types Go_Memory
begin

text \<open>
  The deep copies of the API types, \<^verbatim>\<open>api/v1beta1/zz_generated.deepcopy.go\<close>. The client's cache hands out
  copies made by this code, and the reconcilers update the copy in place; that the rest of the
  development treats an object as a value, which nobody else can change, rests on the copy sharing no memory with the
  cached object.

  Each struct has its layout in memory (\<open>_mem\<close>), with pointers and slices where the Go struct has them, a
  view that reads the value of \<open>Api_Types\<close> it stands for, and its \<^verbatim>\<open>DeepCopyInto\<close> and \<^verbatim>\<open>DeepCopy\<close>.
  A \<^verbatim>\<open>DeepCopyInto\<close> is the computation of the struct it writes to \<^verbatim>\<open>*out\<close>: the assignment \<^verbatim>\<open>*out = *in\<close> is
  the input itself, whose pointer fields the following statements replace. The copies of the library's types
  (\<^verbatim>\<open>metav1.Time\<close>, \<^verbatim>\<open>Condition\<close>, \<^verbatim>\<open>ObjectMeta\<close>, \<^verbatim>\<open>ListMeta\<close>) are parameters.
\<close>

section \<open>Layouts\<close>

record GRPCConfig =
  grpc_Service :: string

record CABundleSource =
  ca_ConfigMapRef :: ConfigMapKeyRef

record TLSConfig_mem =
  m_InsecureSkipVerify :: bool
  m_CABundle :: pointer

record TargetConfig_mem =
  m_Mode :: string
  m_CustomPath :: string
  m_Port :: int
  m_NetworkPath :: string
  m_Host :: string
  m_Protocol :: string
  m_GRPC :: pointer
  m_TLS :: pointer

record LoadProfile_mem =
  m_Pattern :: string
  m_EndRPS :: pointer
  m_RampDuration :: pointer
  m_StepRPS :: pointer
  m_StepDuration :: pointer
  m_Spikes :: slice

record LoadConfig_mem =
  m_BaseRPS :: int
  m_ConcurrencyFactor :: int
  m_Concurrency :: int
  m_WarmupDuration :: pointer
  m_Profile :: pointer

record DisruptionConfig_mem =
  m_InjectPodDeletion :: bool
  m_MinReplicasForChaos :: int
  m_TriggerDelay :: pointer

record ScaleValidationSpec_mem =
  m_TargetRef :: CrossVersionObjectReference
  m_SLA :: duration
  m_Target :: TargetConfig_mem
  m_Load :: LoadConfig_mem
  m_Disruption :: pointer
  m_Schedule :: string
  m_Suspend :: bool

record ScaleValidationStatus_mem =
  m_Phase :: Phase
  m_ScaleUpDuration :: pointer
  m_SLAStatus :: Verdict
  m_TrafficIntegrity :: Verdict
  m_TotalRequests :: int
  m_FailedRequests :: int
  m_FailureRateBasisPoints :: int
  m_Diagnostics :: slice
  m_LastRunTime :: pointer
  m_History :: slice
  m_NextRunTime :: pointer
  m_ObservedGeneration :: int
  m_Conditions :: slice

text \<open>\<^verbatim>\<open>metav1.TypeMeta\<close>; \<^verbatim>\<open>metav1.ObjectMeta\<close> and \<^verbatim>\<open>metav1.ListMeta\<close> are parameters \<open>'m\<close> and \<open>'l\<close>.\<close>

record TypeMeta =
  tm_Kind :: string
  tm_APIVersion :: string

record 'm ScaleValidation_mem =
  m_TypeMeta :: TypeMeta
  m_ObjectMeta :: 'm
  m_Spec :: ScaleValidationSpec_mem
  m_Status :: ScaleValidationStatus_mem

record ('m, 'l) ScaleValidationList_mem =
  ml_TypeMeta :: TypeMeta
  ml_ListMeta :: 'l
  ml_Items :: slice

text \<open>The cells of a memory: what a pointer field points to, the arrays under the slices, the objects that a
  \<^verbatim>\<open>DeepCopy\<close> allocates, and the cells \<open>'x\<close> of the library's types.\<close>

datatype ('x, 'm, 'l) cell =
    Int32_cell "int"
  | Duration_cell "duration"
  | Time_cell "time"
  | GRPCConfig_cell "GRPCConfig"
  | CABundleSource_cell "CABundleSource"
  | ConfigMapKeyRef_cell "ConfigMapKeyRef"
  | CrossVersionObjectReference_cell "CrossVersionObjectReference"
  | TLSConfig_cell "TLSConfig_mem"
  | TargetConfig_cell "TargetConfig_mem"
  | SpikeWindow_cell "SpikeWindow"
  | Spikes_cell "SpikeWindow list"
  | LoadProfile_cell "LoadProfile_mem"
  | LoadConfig_cell "LoadConfig_mem"
  | DisruptionConfig_cell "DisruptionConfig_mem"
  | ScaleValidationSpec_cell "ScaleValidationSpec_mem"
  | DiagnosticAlert_cell "DiagnosticAlert"
  | Diagnostics_cell "DiagnosticAlert list"
  | RunSummary_cell "RunSummary"
  | History_cell "RunSummary list"
  | Conditions_cell "Condition list"
  | ScaleValidationStatus_cell "ScaleValidationStatus_mem"
  | ScaleValidation_cell "'m ScaleValidation_mem"
  | Items_cell "'m ScaleValidation_mem list"
  | ScaleValidationList_cell "('m, 'l) ScaleValidationList_mem"
  | Meta_cell "'x"

definition Int32_kind :: "(('x, 'm, 'l) cell, int) kind" where
  "Int32_kind = \<lparr>mk_cell = Int32_cell, un_cell = (\<lambda>c. case c of Int32_cell x \<Rightarrow> Some x | _ \<Rightarrow> None)\<rparr>"

definition Duration_kind :: "(('x, 'm, 'l) cell, duration) kind" where
  "Duration_kind = \<lparr>mk_cell = Duration_cell, un_cell = (\<lambda>c. case c of Duration_cell x \<Rightarrow> Some x | _ \<Rightarrow> None)\<rparr>"

definition Time_kind :: "(('x, 'm, 'l) cell, time) kind" where
  "Time_kind = \<lparr>mk_cell = Time_cell, un_cell = (\<lambda>c. case c of Time_cell x \<Rightarrow> Some x | _ \<Rightarrow> None)\<rparr>"

definition GRPCConfig_kind :: "(('x, 'm, 'l) cell, GRPCConfig) kind" where
  "GRPCConfig_kind = \<lparr>mk_cell = GRPCConfig_cell, un_cell = (\<lambda>c. case c of GRPCConfig_cell x \<Rightarrow> Some x | _ \<Rightarrow> None)\<rparr>"

definition CABundleSource_kind :: "(('x, 'm, 'l) cell, CABundleSource) kind" where
  "CABundleSource_kind = \<lparr>mk_cell = CABundleSource_cell, un_cell = (\<lambda>c. case c of CABundleSource_cell x \<Rightarrow> Some x | _ \<Rightarrow> None)\<rparr>"

definition ConfigMapKeyRef_kind :: "(('x, 'm, 'l) cell, ConfigMapKeyRef) kind" where
  "ConfigMapKeyRef_kind = \<lparr>mk_cell = ConfigMapKeyRef_cell, un_cell = (\<lambda>c. case c of ConfigMapKeyRef_cell x \<Rightarrow> Some x | _ \<Rightarrow> None)\<rparr>"

definition CrossVersionObjectReference_kind :: "(('x, 'm, 'l) cell, CrossVersionObjectReference) kind" where
  "CrossVersionObjectReference_kind = \<lparr>mk_cell = CrossVersionObjectReference_cell, un_cell = (\<lambda>c. case c of CrossVersionObjectReference_cell x \<Rightarrow> Some x | _ \<Rightarrow> None)\<rparr>"

definition TLSConfig_kind :: "(('x, 'm, 'l) cell, TLSConfig_mem) kind" where
  "TLSConfig_kind = \<lparr>mk_cell = TLSConfig_cell, un_cell = (\<lambda>c. case c of TLSConfig_cell x \<Rightarrow> Some x | _ \<Rightarrow> None)\<rparr>"

definition TargetConfig_kind :: "(('x, 'm, 'l) cell, TargetConfig_mem) kind" where
  "TargetConfig_kind = \<lparr>mk_cell = TargetConfig_cell, un_cell = (\<lambda>c. case c of TargetConfig_cell x \<Rightarrow> Some x | _ \<Rightarrow> None)\<rparr>"

definition SpikeWindow_kind :: "(('x, 'm, 'l) cell, SpikeWindow) kind" where
  "SpikeWindow_kind = \<lparr>mk_cell = SpikeWindow_cell, un_cell = (\<lambda>c. case c of SpikeWindow_cell x \<Rightarrow> Some x | _ \<Rightarrow> None)\<rparr>"

definition Spikes_kind :: "(('x, 'm, 'l) cell, SpikeWindow list) kind" where
  "Spikes_kind = \<lparr>mk_cell = Spikes_cell, un_cell = (\<lambda>c. case c of Spikes_cell x \<Rightarrow> Some x | _ \<Rightarrow> None)\<rparr>"

definition LoadProfile_kind :: "(('x, 'm, 'l) cell, LoadProfile_mem) kind" where
  "LoadProfile_kind = \<lparr>mk_cell = LoadProfile_cell, un_cell = (\<lambda>c. case c of LoadProfile_cell x \<Rightarrow> Some x | _ \<Rightarrow> None)\<rparr>"

definition LoadConfig_kind :: "(('x, 'm, 'l) cell, LoadConfig_mem) kind" where
  "LoadConfig_kind = \<lparr>mk_cell = LoadConfig_cell, un_cell = (\<lambda>c. case c of LoadConfig_cell x \<Rightarrow> Some x | _ \<Rightarrow> None)\<rparr>"

definition DisruptionConfig_kind :: "(('x, 'm, 'l) cell, DisruptionConfig_mem) kind" where
  "DisruptionConfig_kind = \<lparr>mk_cell = DisruptionConfig_cell, un_cell = (\<lambda>c. case c of DisruptionConfig_cell x \<Rightarrow> Some x | _ \<Rightarrow> None)\<rparr>"

definition ScaleValidationSpec_kind :: "(('x, 'm, 'l) cell, ScaleValidationSpec_mem) kind" where
  "ScaleValidationSpec_kind = \<lparr>mk_cell = ScaleValidationSpec_cell, un_cell = (\<lambda>c. case c of ScaleValidationSpec_cell x \<Rightarrow> Some x | _ \<Rightarrow> None)\<rparr>"

definition DiagnosticAlert_kind :: "(('x, 'm, 'l) cell, DiagnosticAlert) kind" where
  "DiagnosticAlert_kind = \<lparr>mk_cell = DiagnosticAlert_cell, un_cell = (\<lambda>c. case c of DiagnosticAlert_cell x \<Rightarrow> Some x | _ \<Rightarrow> None)\<rparr>"

definition Diagnostics_kind :: "(('x, 'm, 'l) cell, DiagnosticAlert list) kind" where
  "Diagnostics_kind = \<lparr>mk_cell = Diagnostics_cell, un_cell = (\<lambda>c. case c of Diagnostics_cell x \<Rightarrow> Some x | _ \<Rightarrow> None)\<rparr>"

definition RunSummary_kind :: "(('x, 'm, 'l) cell, RunSummary) kind" where
  "RunSummary_kind = \<lparr>mk_cell = RunSummary_cell, un_cell = (\<lambda>c. case c of RunSummary_cell x \<Rightarrow> Some x | _ \<Rightarrow> None)\<rparr>"

definition History_kind :: "(('x, 'm, 'l) cell, RunSummary list) kind" where
  "History_kind = \<lparr>mk_cell = History_cell, un_cell = (\<lambda>c. case c of History_cell x \<Rightarrow> Some x | _ \<Rightarrow> None)\<rparr>"

definition Conditions_kind :: "(('x, 'm, 'l) cell, Condition list) kind" where
  "Conditions_kind = \<lparr>mk_cell = Conditions_cell, un_cell = (\<lambda>c. case c of Conditions_cell x \<Rightarrow> Some x | _ \<Rightarrow> None)\<rparr>"

definition ScaleValidationStatus_kind :: "(('x, 'm, 'l) cell, ScaleValidationStatus_mem) kind" where
  "ScaleValidationStatus_kind = \<lparr>mk_cell = ScaleValidationStatus_cell, un_cell = (\<lambda>c. case c of ScaleValidationStatus_cell x \<Rightarrow> Some x | _ \<Rightarrow> None)\<rparr>"

definition ScaleValidation_kind :: "(('x, 'm, 'l) cell, 'm ScaleValidation_mem) kind" where
  "ScaleValidation_kind = \<lparr>mk_cell = ScaleValidation_cell, un_cell = (\<lambda>c. case c of ScaleValidation_cell x \<Rightarrow> Some x | _ \<Rightarrow> None)\<rparr>"

definition Items_kind :: "(('x, 'm, 'l) cell, 'm ScaleValidation_mem list) kind" where
  "Items_kind = \<lparr>mk_cell = Items_cell, un_cell = (\<lambda>c. case c of Items_cell x \<Rightarrow> Some x | _ \<Rightarrow> None)\<rparr>"

definition ScaleValidationList_kind :: "(('x, 'm, 'l) cell, ('m, 'l) ScaleValidationList_mem) kind" where
  "ScaleValidationList_kind = \<lparr>mk_cell = ScaleValidationList_cell, un_cell = (\<lambda>c. case c of ScaleValidationList_cell x \<Rightarrow> Some x | _ \<Rightarrow> None)\<rparr>"

definition Meta_kind :: "(('x, 'm, 'l) cell, 'x) kind" where
  "Meta_kind = \<lparr>mk_cell = Meta_cell, un_cell = (\<lambda>c. case c of Meta_cell x \<Rightarrow> Some x | _ \<Rightarrow> None)\<rparr>"

lemma kinds_ok [simp]:
  "kind_ok Int32_kind"
  "kind_ok Duration_kind"
  "kind_ok Time_kind"
  "kind_ok GRPCConfig_kind"
  "kind_ok CABundleSource_kind"
  "kind_ok ConfigMapKeyRef_kind"
  "kind_ok CrossVersionObjectReference_kind"
  "kind_ok TLSConfig_kind"
  "kind_ok TargetConfig_kind"
  "kind_ok SpikeWindow_kind"
  "kind_ok Spikes_kind"
  "kind_ok LoadProfile_kind"
  "kind_ok LoadConfig_kind"
  "kind_ok DisruptionConfig_kind"
  "kind_ok ScaleValidationSpec_kind"
  "kind_ok DiagnosticAlert_kind"
  "kind_ok Diagnostics_kind"
  "kind_ok RunSummary_kind"
  "kind_ok History_kind"
  "kind_ok Conditions_kind"
  "kind_ok ScaleValidationStatus_kind"
  "kind_ok ScaleValidation_kind"
  "kind_ok Items_kind"
  "kind_ok ScaleValidationList_kind"
  "kind_ok Meta_kind"
  by (simp_all add: kind_ok_def Int32_kind_def Duration_kind_def Time_kind_def GRPCConfig_kind_def CABundleSource_kind_def ConfigMapKeyRef_kind_def CrossVersionObjectReference_kind_def TLSConfig_kind_def TargetConfig_kind_def SpikeWindow_kind_def Spikes_kind_def LoadProfile_kind_def LoadConfig_kind_def DisruptionConfig_kind_def ScaleValidationSpec_kind_def DiagnosticAlert_kind_def Diagnostics_kind_def RunSummary_kind_def History_kind_def Conditions_kind_def ScaleValidationStatus_kind_def ScaleValidation_kind_def Items_kind_def ScaleValidationList_kind_def Meta_kind_def)

section \<open>The library's types\<close>

text \<open>The metadata of an object as the reconcilers read it, and the copies of the library with
  the views that state what they preserve.\<close>

record ObjectMeta =
  om_Name :: string
  om_Namespace :: string
  om_Generation :: int
  om_CreationTimestamp :: time
  om_DeletionTimestamp :: "time option"
  om_Finalizers :: "string list"

record ('x, 'm, 'l, 'w) meta_lib =
  Time_DeepCopyInto :: "time \<Rightarrow> (('x, 'm, 'l) cell list, time) state"
  Time_DeepCopy :: "pointer \<Rightarrow> (('x, 'm, 'l) cell list, pointer) state"
  Condition_DeepCopyInto :: "Condition \<Rightarrow> (('x, 'm, 'l) cell list, Condition) state"
  ObjectMeta_DeepCopyInto :: "'m \<Rightarrow> (('x, 'm, 'l) cell list, 'm) state"
  ObjectMeta_view :: "('x, 'm, 'l) cell list \<Rightarrow> 'm \<Rightarrow> ObjectMeta option"
  ListMeta_DeepCopyInto :: "'l \<Rightarrow> (('x, 'm, 'l) cell list, 'l) state"
  ListMeta_view :: "('x, 'm, 'l) cell list \<Rightarrow> 'l \<Rightarrow> 'w option"

definition meta_contract :: "('x, 'm, 'l, 'w) meta_lib \<Rightarrow> bool" where
  "meta_contract M \<longleftrightarrow> deep_copier plain (Time_DeepCopyInto M) \<and> deep_copier (view_ptr Time_kind plain) (Time_DeepCopy M)
     \<and> deep_copier plain (Condition_DeepCopyInto M)
     \<and> deep_copier (ObjectMeta_view M) (ObjectMeta_DeepCopyInto M) \<and> deep_copier (ListMeta_view M) (ListMeta_DeepCopyInto M)"

section \<open>Views\<close>

definition TLSConfig_view :: "('x, 'm, 'l) cell list \<Rightarrow> TLSConfig_mem \<Rightarrow> TLSConfig option" where
  "TLSConfig_view h g = do {
     ca \<leftarrow> view_ptr CABundleSource_kind plain h (m_CABundle g);
     Some \<lparr>InsecureSkipVerify = m_InsecureSkipVerify g, CABundle = map_option ca_ConfigMapRef ca\<rparr> }"

definition TargetConfig_view :: "('x, 'm, 'l) cell list \<Rightarrow> TargetConfig_mem \<Rightarrow> TargetConfig option" where
  "TargetConfig_view h g = do {
     grpc \<leftarrow> view_ptr GRPCConfig_kind plain h (m_GRPC g);
     tls \<leftarrow> view_ptr TLSConfig_kind TLSConfig_view h (m_TLS g);
     Some \<lparr>tgt_Mode = m_Mode g, tgt_CustomPath = m_CustomPath g, tgt_Port = m_Port g, tgt_NetworkPath = m_NetworkPath g,
       tgt_Host = m_Host g, tgt_Protocol = m_Protocol g, tgt_GRPC = map_option grpc_Service grpc, tgt_TLS = tls\<rparr> }"

definition LoadProfile_view :: "('x, 'm, 'l) cell list \<Rightarrow> LoadProfile_mem \<Rightarrow> LoadProfile option" where
  "LoadProfile_view h g = do {
     end_rps \<leftarrow> view_ptr Int32_kind plain h (m_EndRPS g);
     ramp \<leftarrow> view_ptr Duration_kind plain h (m_RampDuration g);
     step_rps \<leftarrow> view_ptr Int32_kind plain h (m_StepRPS g);
     step_d \<leftarrow> view_ptr Duration_kind plain h (m_StepDuration g);
     spikes \<leftarrow> view_slice Spikes_kind plain h (m_Spikes g);
     Some \<lparr>lp_Pattern = m_Pattern g, lp_EndRPS = end_rps, lp_RampDuration = ramp, lp_StepRPS = step_rps,
       lp_StepDuration = step_d, lp_Spikes = spikes\<rparr> }"

definition LoadConfig_view :: "('x, 'm, 'l) cell list \<Rightarrow> LoadConfig_mem \<Rightarrow> LoadConfig option" where
  "LoadConfig_view h g = do {
     warmup \<leftarrow> view_ptr Duration_kind plain h (m_WarmupDuration g);
     profile \<leftarrow> view_ptr LoadProfile_kind LoadProfile_view h (m_Profile g);
     Some \<lparr>load_BaseRPS = m_BaseRPS g, load_ConcurrencyFactor = m_ConcurrencyFactor g, load_Concurrency = m_Concurrency g,
       load_WarmupDuration = warmup, load_Profile = profile\<rparr> }"

definition DisruptionConfig_view :: "('x, 'm, 'l) cell list \<Rightarrow> DisruptionConfig_mem \<Rightarrow> DisruptionConfig option" where
  "DisruptionConfig_view h g = do {
     delay \<leftarrow> view_ptr Duration_kind plain h (m_TriggerDelay g);
     Some \<lparr>dis_InjectPodDeletion = m_InjectPodDeletion g, dis_MinReplicasForChaos = m_MinReplicasForChaos g,
       dis_TriggerDelay = delay\<rparr> }"

definition ScaleValidationSpec_view :: "('x, 'm, 'l) cell list \<Rightarrow> ScaleValidationSpec_mem \<Rightarrow> ScaleValidationSpec option" where
  "ScaleValidationSpec_view h g = do {
     target \<leftarrow> TargetConfig_view h (m_Target g);
     load \<leftarrow> LoadConfig_view h (m_Load g);
     disruption \<leftarrow> view_ptr DisruptionConfig_kind DisruptionConfig_view h (m_Disruption g);
     Some \<lparr>spec_TargetRef = m_TargetRef g, spec_SLA = m_SLA g, spec_Target = target, spec_Load = load,
       spec_Disruption = disruption, spec_Schedule = m_Schedule g, spec_Suspend = m_Suspend g\<rparr> }"

definition ScaleValidationStatus_view :: "('x, 'm, 'l) cell list \<Rightarrow> ScaleValidationStatus_mem \<Rightarrow> ScaleValidationStatus option" where
  "ScaleValidationStatus_view h g = do {
     scale_up \<leftarrow> view_ptr Duration_kind plain h (m_ScaleUpDuration g);
     diags \<leftarrow> view_slice Diagnostics_kind plain h (m_Diagnostics g);
     last \<leftarrow> view_ptr Time_kind plain h (m_LastRunTime g);
     history \<leftarrow> view_slice History_kind plain h (m_History g);
     next_run \<leftarrow> view_ptr Time_kind plain h (m_NextRunTime g);
     conds \<leftarrow> view_slice Conditions_kind plain h (m_Conditions g);
     Some \<lparr>st_Phase = m_Phase g, st_ScaleUpDuration = scale_up, st_SLAStatus = m_SLAStatus g,
       st_TrafficIntegrity = m_TrafficIntegrity g, st_TotalRequests = m_TotalRequests g,
       st_FailedRequests = m_FailedRequests g, st_FailureRateBasisPoints = m_FailureRateBasisPoints g,
       st_Diagnostics = diags, st_LastRunTime = last, st_History = history, st_NextRunTime = next_run,
       st_ObservedGeneration = m_ObservedGeneration g, st_Conditions = conds\<rparr> }"

definition ScaleValidation_view ::
  "('x, 'm, 'l, 'w) meta_lib \<Rightarrow> ('x, 'm, 'l) cell list \<Rightarrow> 'm ScaleValidation_mem \<Rightarrow> (TypeMeta \<times> ScaleValidation) option" where
  "ScaleValidation_view M h g = do {
     om \<leftarrow> ObjectMeta_view M h (m_ObjectMeta g);
     spec \<leftarrow> ScaleValidationSpec_view h (m_Spec g);
     status \<leftarrow> ScaleValidationStatus_view h (m_Status g);
     Some (m_TypeMeta g,
       \<lparr>sv_Name = om_Name om, sv_Namespace = om_Namespace om, sv_Generation = om_Generation om,
        sv_CreationTimestamp = om_CreationTimestamp om, sv_DeletionTimestamp = om_DeletionTimestamp om,
        sv_Finalizers = om_Finalizers om, sv_Spec = spec, sv_Status = status\<rparr>) }"

definition ScaleValidationList_view ::
  "('x, 'm, 'l, 'w) meta_lib \<Rightarrow> ('x, 'm, 'l) cell list \<Rightarrow> ('m, 'l) ScaleValidationList_mem \<Rightarrow>
     (TypeMeta \<times> 'w \<times> (TypeMeta \<times> ScaleValidation) list) option" where
  "ScaleValidationList_view M h g = do {
     lm \<leftarrow> ListMeta_view M h (ml_ListMeta g);
     items \<leftarrow> view_slice Items_kind (ScaleValidation_view M) h (ml_Items g);
     Some (ml_TypeMeta g, lm, items) }"

section \<open>The copies\<close>

text \<open>The structs without pointers.\<close>

definition CABundleSource_DeepCopyInto :: "CABundleSource \<Rightarrow> (('x, 'm, 'l) cell list, CABundleSource) state" where
  "CABundleSource_DeepCopyInto g = State_Monad.return (g\<lparr>ca_ConfigMapRef := ca_ConfigMapRef g\<rparr>)"

definition CABundleSource_DeepCopy :: "pointer \<Rightarrow> (('x, 'm, 'l) cell list, pointer) state" where
  "CABundleSource_DeepCopy = ptr_copy CABundleSource_kind CABundleSource_DeepCopyInto"

definition ConfigMapKeyRef_DeepCopyInto :: "ConfigMapKeyRef \<Rightarrow> (('x, 'm, 'l) cell list, ConfigMapKeyRef) state" where
  "ConfigMapKeyRef_DeepCopyInto g = State_Monad.return g"

definition ConfigMapKeyRef_DeepCopy :: "pointer \<Rightarrow> (('x, 'm, 'l) cell list, pointer) state" where
  "ConfigMapKeyRef_DeepCopy = ptr_copy ConfigMapKeyRef_kind ConfigMapKeyRef_DeepCopyInto"

definition CrossVersionObjectReference_DeepCopyInto ::
  "CrossVersionObjectReference \<Rightarrow> (('x, 'm, 'l) cell list, CrossVersionObjectReference) state" where
  "CrossVersionObjectReference_DeepCopyInto g = State_Monad.return g"

definition CrossVersionObjectReference_DeepCopy :: "pointer \<Rightarrow> (('x, 'm, 'l) cell list, pointer) state" where
  "CrossVersionObjectReference_DeepCopy = ptr_copy CrossVersionObjectReference_kind CrossVersionObjectReference_DeepCopyInto"

definition DiagnosticAlert_DeepCopyInto :: "DiagnosticAlert \<Rightarrow> (('x, 'm, 'l) cell list, DiagnosticAlert) state" where
  "DiagnosticAlert_DeepCopyInto g = State_Monad.return g"

definition DiagnosticAlert_DeepCopy :: "pointer \<Rightarrow> (('x, 'm, 'l) cell list, pointer) state" where
  "DiagnosticAlert_DeepCopy = ptr_copy DiagnosticAlert_kind DiagnosticAlert_DeepCopyInto"

definition GRPCConfig_DeepCopyInto :: "GRPCConfig \<Rightarrow> (('x, 'm, 'l) cell list, GRPCConfig) state" where
  "GRPCConfig_DeepCopyInto g = State_Monad.return g"

definition GRPCConfig_DeepCopy :: "pointer \<Rightarrow> (('x, 'm, 'l) cell list, pointer) state" where
  "GRPCConfig_DeepCopy = ptr_copy GRPCConfig_kind GRPCConfig_DeepCopyInto"

definition SpikeWindow_DeepCopyInto :: "SpikeWindow \<Rightarrow> (('x, 'm, 'l) cell list, SpikeWindow) state" where
  "SpikeWindow_DeepCopyInto g = State_Monad.return (g\<lparr>sw_At := sw_At g, sw_Duration := sw_Duration g\<rparr>)"

definition SpikeWindow_DeepCopy :: "pointer \<Rightarrow> (('x, 'm, 'l) cell list, pointer) state" where
  "SpikeWindow_DeepCopy = ptr_copy SpikeWindow_kind SpikeWindow_DeepCopyInto"

definition RunSummary_DeepCopyInto ::
  "('x, 'm, 'l, 'w) meta_lib \<Rightarrow> RunSummary \<Rightarrow> (('x, 'm, 'l) cell list, RunSummary) state" where
  "RunSummary_DeepCopyInto M g = do {
     t \<leftarrow> Time_DeepCopyInto M (run_FinishedAt g);
     State_Monad.return (g\<lparr>run_FinishedAt := t\<rparr>) }"

definition RunSummary_DeepCopy :: "('x, 'm, 'l, 'w) meta_lib \<Rightarrow> pointer \<Rightarrow> (('x, 'm, 'l) cell list, pointer) state" where
  "RunSummary_DeepCopy M = ptr_copy RunSummary_kind (RunSummary_DeepCopyInto M)"

text \<open>The structs with pointers. Where the code assigns what a pointer points to (\<^verbatim>\<open>**out = **in\<close>), or
  fills a slice with \<^verbatim>\<open>copy\<close>, the pointee is copied as it is.\<close>

definition TLSConfig_DeepCopyInto :: "TLSConfig_mem \<Rightarrow> (('x, 'm, 'l) cell list, TLSConfig_mem) state" where
  "TLSConfig_DeepCopyInto g = do {
     p \<leftarrow> ptr_copy CABundleSource_kind State_Monad.return (m_CABundle g);
     State_Monad.return (g\<lparr>m_CABundle := p\<rparr>) }"

definition TLSConfig_DeepCopy :: "pointer \<Rightarrow> (('x, 'm, 'l) cell list, pointer) state" where
  "TLSConfig_DeepCopy = ptr_copy TLSConfig_kind TLSConfig_DeepCopyInto"

definition TargetConfig_DeepCopyInto :: "TargetConfig_mem \<Rightarrow> (('x, 'm, 'l) cell list, TargetConfig_mem) state" where
  "TargetConfig_DeepCopyInto g = do {
     p \<leftarrow> ptr_copy GRPCConfig_kind State_Monad.return (m_GRPC g);
     q \<leftarrow> ptr_copy TLSConfig_kind TLSConfig_DeepCopyInto (m_TLS g);
     State_Monad.return (g\<lparr>m_GRPC := p, m_TLS := q\<rparr>) }"

definition TargetConfig_DeepCopy :: "pointer \<Rightarrow> (('x, 'm, 'l) cell list, pointer) state" where
  "TargetConfig_DeepCopy = ptr_copy TargetConfig_kind TargetConfig_DeepCopyInto"

definition DisruptionConfig_DeepCopyInto :: "DisruptionConfig_mem \<Rightarrow> (('x, 'm, 'l) cell list, DisruptionConfig_mem) state" where
  "DisruptionConfig_DeepCopyInto g = do {
     p \<leftarrow> ptr_copy Duration_kind State_Monad.return (m_TriggerDelay g);
     State_Monad.return (g\<lparr>m_TriggerDelay := p\<rparr>) }"

definition DisruptionConfig_DeepCopy :: "pointer \<Rightarrow> (('x, 'm, 'l) cell list, pointer) state" where
  "DisruptionConfig_DeepCopy = ptr_copy DisruptionConfig_kind DisruptionConfig_DeepCopyInto"

definition LoadProfile_DeepCopyInto :: "LoadProfile_mem \<Rightarrow> (('x, 'm, 'l) cell list, LoadProfile_mem) state" where
  "LoadProfile_DeepCopyInto g = do {
     p1 \<leftarrow> ptr_copy Int32_kind State_Monad.return (m_EndRPS g);
     p2 \<leftarrow> ptr_copy Duration_kind State_Monad.return (m_RampDuration g);
     p3 \<leftarrow> ptr_copy Int32_kind State_Monad.return (m_StepRPS g);
     p4 \<leftarrow> ptr_copy Duration_kind State_Monad.return (m_StepDuration g);
     s \<leftarrow> slice_copy Spikes_kind State_Monad.return (m_Spikes g);
     State_Monad.return (g\<lparr>m_EndRPS := p1, m_RampDuration := p2, m_StepRPS := p3, m_StepDuration := p4, m_Spikes := s\<rparr>) }"

definition LoadProfile_DeepCopy :: "pointer \<Rightarrow> (('x, 'm, 'l) cell list, pointer) state" where
  "LoadProfile_DeepCopy = ptr_copy LoadProfile_kind LoadProfile_DeepCopyInto"

definition LoadConfig_DeepCopyInto :: "LoadConfig_mem \<Rightarrow> (('x, 'm, 'l) cell list, LoadConfig_mem) state" where
  "LoadConfig_DeepCopyInto g = do {
     p \<leftarrow> ptr_copy Duration_kind State_Monad.return (m_WarmupDuration g);
     q \<leftarrow> ptr_copy LoadProfile_kind LoadProfile_DeepCopyInto (m_Profile g);
     State_Monad.return (g\<lparr>m_WarmupDuration := p, m_Profile := q\<rparr>) }"

definition LoadConfig_DeepCopy :: "pointer \<Rightarrow> (('x, 'm, 'l) cell list, pointer) state" where
  "LoadConfig_DeepCopy = ptr_copy LoadConfig_kind LoadConfig_DeepCopyInto"

definition ScaleValidationSpec_DeepCopyInto :: "ScaleValidationSpec_mem \<Rightarrow> (('x, 'm, 'l) cell list, ScaleValidationSpec_mem) state" where
  "ScaleValidationSpec_DeepCopyInto g = do {
     let out = g\<lparr>m_TargetRef := m_TargetRef g, m_SLA := m_SLA g\<rparr>;
     target \<leftarrow> TargetConfig_DeepCopyInto (m_Target g);
     load \<leftarrow> LoadConfig_DeepCopyInto (m_Load g);
     p \<leftarrow> ptr_copy DisruptionConfig_kind DisruptionConfig_DeepCopyInto (m_Disruption g);
     State_Monad.return (out\<lparr>m_Target := target, m_Load := load, m_Disruption := p\<rparr>) }"

definition ScaleValidationSpec_DeepCopy :: "pointer \<Rightarrow> (('x, 'm, 'l) cell list, pointer) state" where
  "ScaleValidationSpec_DeepCopy = ptr_copy ScaleValidationSpec_kind ScaleValidationSpec_DeepCopyInto"

definition ScaleValidationStatus_DeepCopyInto ::
  "('x, 'm, 'l, 'w) meta_lib \<Rightarrow> ScaleValidationStatus_mem \<Rightarrow> (('x, 'm, 'l) cell list, ScaleValidationStatus_mem) state" where
  "ScaleValidationStatus_DeepCopyInto M g = do {
     p \<leftarrow> ptr_copy Duration_kind State_Monad.return (m_ScaleUpDuration g);
     ds \<leftarrow> slice_copy Diagnostics_kind State_Monad.return (m_Diagnostics g);
     last \<leftarrow> Time_DeepCopy M (m_LastRunTime g);
     hs \<leftarrow> slice_copy History_kind (RunSummary_DeepCopyInto M) (m_History g);
     nxt \<leftarrow> Time_DeepCopy M (m_NextRunTime g);
     cs \<leftarrow> slice_copy Conditions_kind (Condition_DeepCopyInto M) (m_Conditions g);
     State_Monad.return (g\<lparr>m_ScaleUpDuration := p, m_Diagnostics := ds, m_LastRunTime := last, m_History := hs,
       m_NextRunTime := nxt, m_Conditions := cs\<rparr>) }"

definition ScaleValidationStatus_DeepCopy ::
  "('x, 'm, 'l, 'w) meta_lib \<Rightarrow> pointer \<Rightarrow> (('x, 'm, 'l) cell list, pointer) state" where
  "ScaleValidationStatus_DeepCopy M = ptr_copy ScaleValidationStatus_kind (ScaleValidationStatus_DeepCopyInto M)"

definition ScaleValidation_DeepCopyInto ::
  "('x, 'm, 'l, 'w) meta_lib \<Rightarrow> 'm ScaleValidation_mem \<Rightarrow> (('x, 'm, 'l) cell list, 'm ScaleValidation_mem) state" where
  "ScaleValidation_DeepCopyInto M g = do {
     let out = g\<lparr>m_TypeMeta := m_TypeMeta g\<rparr>;
     om \<leftarrow> ObjectMeta_DeepCopyInto M (m_ObjectMeta g);
     spec \<leftarrow> ScaleValidationSpec_DeepCopyInto (m_Spec g);
     status \<leftarrow> ScaleValidationStatus_DeepCopyInto M (m_Status g);
     State_Monad.return (out\<lparr>m_ObjectMeta := om, m_Spec := spec, m_Status := status\<rparr>) }"

definition ScaleValidation_DeepCopy ::
  "('x, 'm, 'l, 'w) meta_lib \<Rightarrow> pointer \<Rightarrow> (('x, 'm, 'l) cell list, pointer) state" where
  "ScaleValidation_DeepCopy M = ptr_copy ScaleValidation_kind (ScaleValidation_DeepCopyInto M)"

definition ScaleValidation_DeepCopyObject ::
  "('x, 'm, 'l, 'w) meta_lib \<Rightarrow> pointer \<Rightarrow> (('x, 'm, 'l) cell list, pointer) state" where
  "ScaleValidation_DeepCopyObject M p = do {
     c \<leftarrow> ScaleValidation_DeepCopy M p;
     if c \<noteq> None then State_Monad.return c else State_Monad.return None }"

definition ScaleValidationList_DeepCopyInto ::
  "('x, 'm, 'l, 'w) meta_lib \<Rightarrow> ('m, 'l) ScaleValidationList_mem \<Rightarrow> (('x, 'm, 'l) cell list, ('m, 'l) ScaleValidationList_mem) state" where
  "ScaleValidationList_DeepCopyInto M g = do {
     let out = g\<lparr>ml_TypeMeta := ml_TypeMeta g\<rparr>;
     lm \<leftarrow> ListMeta_DeepCopyInto M (ml_ListMeta g);
     items \<leftarrow> slice_copy Items_kind (ScaleValidation_DeepCopyInto M) (ml_Items g);
     State_Monad.return (out\<lparr>ml_ListMeta := lm, ml_Items := items\<rparr>) }"

definition ScaleValidationList_DeepCopy ::
  "('x, 'm, 'l, 'w) meta_lib \<Rightarrow> pointer \<Rightarrow> (('x, 'm, 'l) cell list, pointer) state" where
  "ScaleValidationList_DeepCopy M = ptr_copy ScaleValidationList_kind (ScaleValidationList_DeepCopyInto M)"

definition ScaleValidationList_DeepCopyObject ::
  "('x, 'm, 'l, 'w) meta_lib \<Rightarrow> pointer \<Rightarrow> (('x, 'm, 'l) cell list, pointer) state" where
  "ScaleValidationList_DeepCopyObject M p = do {
     c \<leftarrow> ScaleValidationList_DeepCopy M p;
     if c \<noteq> None then State_Monad.return c else State_Monad.return None }"

section \<open>The contracts\<close>

lemmas int32_ptr = ptr_copier[OF plain_copier kinds_ok(1)]
lemmas duration_ptr = ptr_copier[OF plain_copier kinds_ok(2)]

lemma TLSConfig_copier: "deep_copier TLSConfig_view TLSConfig_DeepCopyInto"
  by (rule struct_copier[OF ptr_copier[OF plain_copier kinds_ok(5)], where f = m_CABundle
        and U = "\<lambda>g p. g\<lparr>m_CABundle := p\<rparr>"
        and B = "\<lambda>g ca. \<lparr>InsecureSkipVerify = m_InsecureSkipVerify g, CABundle = map_option ca_ConfigMapRef ca\<rparr>"])
    (simp_all add: TLSConfig_view_def TLSConfig_DeepCopyInto_def)

lemma TargetConfig_copier: "deep_copier TargetConfig_view TargetConfig_DeepCopyInto"
  by (rule struct_copier[OF pair_copier[OF ptr_copier[OF plain_copier kinds_ok(4)] ptr_copier[OF TLSConfig_copier kinds_ok(8)]],
        where f = "\<lambda>g. (m_GRPC g, m_TLS g)" and U = "\<lambda>g (p, q). g\<lparr>m_GRPC := p, m_TLS := q\<rparr>"
        and B = "\<lambda>g (grpc, tls). \<lparr>tgt_Mode = m_Mode g, tgt_CustomPath = m_CustomPath g, tgt_Port = m_Port g,
          tgt_NetworkPath = m_NetworkPath g, tgt_Host = m_Host g, tgt_Protocol = m_Protocol g,
          tgt_GRPC = map_option grpc_Service grpc, tgt_TLS = tls\<rparr>"])
    (auto simp: TargetConfig_view_def TargetConfig_DeepCopyInto_def struct_simps)

lemma DisruptionConfig_copier: "deep_copier DisruptionConfig_view DisruptionConfig_DeepCopyInto"
  by (rule struct_copier[OF duration_ptr, where f = m_TriggerDelay and U = "\<lambda>g p. g\<lparr>m_TriggerDelay := p\<rparr>"
        and B = "\<lambda>g d. \<lparr>dis_InjectPodDeletion = m_InjectPodDeletion g, dis_MinReplicasForChaos = m_MinReplicasForChaos g,
          dis_TriggerDelay = d\<rparr>"])
    (simp_all add: DisruptionConfig_view_def DisruptionConfig_DeepCopyInto_def)

lemma LoadProfile_copier: "deep_copier LoadProfile_view LoadProfile_DeepCopyInto"
  by (rule struct_copier[OF pair_copier[OF int32_ptr pair_copier[OF duration_ptr pair_copier[OF int32_ptr
          pair_copier[OF duration_ptr slice_copier[OF plain_copier kinds_ok(11)]]]]],
        where f = "\<lambda>g. (m_EndRPS g, m_RampDuration g, m_StepRPS g, m_StepDuration g, m_Spikes g)"
        and U = "\<lambda>g (p1, p2, p3, p4, s). g\<lparr>m_EndRPS := p1, m_RampDuration := p2, m_StepRPS := p3, m_StepDuration := p4,
          m_Spikes := s\<rparr>"
        and B = "\<lambda>g (a, b, c, d, e). \<lparr>lp_Pattern = m_Pattern g, lp_EndRPS = a, lp_RampDuration = b, lp_StepRPS = c,
          lp_StepDuration = d, lp_Spikes = e\<rparr>"])
    (auto simp: LoadProfile_view_def LoadProfile_DeepCopyInto_def struct_simps)

lemma LoadConfig_copier: "deep_copier LoadConfig_view LoadConfig_DeepCopyInto"
  by (rule struct_copier[OF pair_copier[OF duration_ptr ptr_copier[OF LoadProfile_copier kinds_ok(12)]],
        where f = "\<lambda>g. (m_WarmupDuration g, m_Profile g)" and U = "\<lambda>g (p, q). g\<lparr>m_WarmupDuration := p, m_Profile := q\<rparr>"
        and B = "\<lambda>g (w, pr). \<lparr>load_BaseRPS = m_BaseRPS g, load_ConcurrencyFactor = m_ConcurrencyFactor g,
          load_Concurrency = m_Concurrency g, load_WarmupDuration = w, load_Profile = pr\<rparr>"])
    (auto simp: LoadConfig_view_def LoadConfig_DeepCopyInto_def struct_simps)

lemma ScaleValidationSpec_copier: "deep_copier ScaleValidationSpec_view ScaleValidationSpec_DeepCopyInto"
  by (rule struct_copier[OF pair_copier[OF TargetConfig_copier pair_copier[OF LoadConfig_copier
          ptr_copier[OF DisruptionConfig_copier kinds_ok(14)]]],
        where f = "\<lambda>g. (m_Target g, m_Load g, m_Disruption g)"
        and U = "\<lambda>g (t, l, p). g\<lparr>m_Target := t, m_Load := l, m_Disruption := p\<rparr>"
        and B = "\<lambda>g (t, l, d). \<lparr>spec_TargetRef = m_TargetRef g, spec_SLA = m_SLA g, spec_Target = t, spec_Load = l,
          spec_Disruption = d, spec_Schedule = m_Schedule g, spec_Suspend = m_Suspend g\<rparr>"])
    (auto simp: ScaleValidationSpec_view_def ScaleValidationSpec_DeepCopyInto_def struct_simps)

interpretation spec: deep_copier ScaleValidationSpec_view ScaleValidationSpec_DeepCopyInto
  by (rule ScaleValidationSpec_copier)

text \<open>The types that contain the library's, under the library's contract.\<close>

lemma meta_copiers:
  assumes "meta_contract M"
  shows "deep_copier plain (Time_DeepCopyInto M)" "deep_copier (view_ptr Time_kind plain) (Time_DeepCopy M)"
    "deep_copier plain (Condition_DeepCopyInto M)" "deep_copier (ObjectMeta_view M) (ObjectMeta_DeepCopyInto M)"
    "deep_copier (ListMeta_view M) (ListMeta_DeepCopyInto M)"
  using assms by (simp_all add: meta_contract_def)

lemma RunSummary_copier:
  assumes "meta_contract M"
  shows "deep_copier plain (RunSummary_DeepCopyInto M)"
  by (rule struct_copier[OF meta_copiers(1)[OF assms], where f = run_FinishedAt and U = "\<lambda>g t. g\<lparr>run_FinishedAt := t\<rparr>"
        and B = "\<lambda>g t. g\<lparr>run_FinishedAt := t\<rparr>"])
    (simp_all add: RunSummary_DeepCopyInto_def plain_def)

lemma ScaleValidationStatus_copier:
  assumes "meta_contract M"
  shows "deep_copier ScaleValidationStatus_view (ScaleValidationStatus_DeepCopyInto M)"
  by (rule struct_copier[OF pair_copier[OF duration_ptr pair_copier[OF slice_copier[OF plain_copier kinds_ok(17)]
          pair_copier[OF meta_copiers(2)[OF assms] pair_copier[OF slice_copier[OF RunSummary_copier[OF assms] kinds_ok(19)]
          pair_copier[OF meta_copiers(2)[OF assms] slice_copier[OF meta_copiers(3)[OF assms] kinds_ok(20)]]]]]],
        where f = "\<lambda>g. (m_ScaleUpDuration g, m_Diagnostics g, m_LastRunTime g, m_History g, m_NextRunTime g, m_Conditions g)"
        and U = "\<lambda>g (p, ds, l, hs, n, cs). g\<lparr>m_ScaleUpDuration := p, m_Diagnostics := ds, m_LastRunTime := l,
          m_History := hs, m_NextRunTime := n, m_Conditions := cs\<rparr>"
        and B = "\<lambda>g (p, ds, l, hs, n, cs). \<lparr>st_Phase = m_Phase g, st_ScaleUpDuration = p, st_SLAStatus = m_SLAStatus g,
          st_TrafficIntegrity = m_TrafficIntegrity g, st_TotalRequests = m_TotalRequests g,
          st_FailedRequests = m_FailedRequests g, st_FailureRateBasisPoints = m_FailureRateBasisPoints g,
          st_Diagnostics = ds, st_LastRunTime = l, st_History = hs, st_NextRunTime = n,
          st_ObservedGeneration = m_ObservedGeneration g, st_Conditions = cs\<rparr>"])
    (auto simp: ScaleValidationStatus_view_def ScaleValidationStatus_DeepCopyInto_def struct_simps)

lemma ScaleValidation_copier:
  assumes "meta_contract M"
  shows "deep_copier (ScaleValidation_view M) (ScaleValidation_DeepCopyInto M)"
  by (rule struct_copier[OF pair_copier[OF meta_copiers(4)[OF assms] pair_copier[OF ScaleValidationSpec_copier
          ScaleValidationStatus_copier[OF assms]]],
        where f = "\<lambda>g. (m_ObjectMeta g, m_Spec g, m_Status g)"
        and U = "\<lambda>g (om, sp, st). g\<lparr>m_ObjectMeta := om, m_Spec := sp, m_Status := st\<rparr>"
        and B = "\<lambda>g (om, sp, st). (m_TypeMeta g, \<lparr>sv_Name = om_Name om, sv_Namespace = om_Namespace om,
          sv_Generation = om_Generation om, sv_CreationTimestamp = om_CreationTimestamp om,
          sv_DeletionTimestamp = om_DeletionTimestamp om, sv_Finalizers = om_Finalizers om, sv_Spec = sp, sv_Status = st\<rparr>)"])
    (auto simp: ScaleValidation_view_def ScaleValidation_DeepCopyInto_def struct_simps)

lemma ScaleValidationList_copier:
  assumes "meta_contract M"
  shows "deep_copier (ScaleValidationList_view M) (ScaleValidationList_DeepCopyInto M)"
  by (rule struct_copier[OF pair_copier[OF meta_copiers(5)[OF assms] slice_copier[OF ScaleValidation_copier[OF assms] kinds_ok(23)]],
        where f = "\<lambda>g. (ml_ListMeta g, ml_Items g)" and U = "\<lambda>g (lm, is). g\<lparr>ml_ListMeta := lm, ml_Items := is\<rparr>"
        and B = "\<lambda>g (lm, is). (ml_TypeMeta g, lm, is)"])
    (auto simp: ScaleValidationList_view_def ScaleValidationList_DeepCopyInto_def struct_simps)

lemma DeepCopyObject_eq:
  "ScaleValidation_DeepCopyObject M p = ScaleValidation_DeepCopy M p"
  "ScaleValidationList_DeepCopyObject M p = ScaleValidationList_DeepCopy M p"
  by (auto intro!: state_ext simp: ScaleValidation_DeepCopyObject_def ScaleValidationList_DeepCopyObject_def split: prod.split)

section \<open>Properties\<close>

text \<open>A library whose object metadata is a name and a pointer to the finalizers, for the witness.\<close>

definition demo_meta :: "(string list, pointer, unit, unit) meta_lib" where
  "demo_meta = \<lparr>Time_DeepCopyInto = State_Monad.return, Time_DeepCopy = ptr_copy Time_kind State_Monad.return,
     Condition_DeepCopyInto = State_Monad.return, ObjectMeta_DeepCopyInto = ptr_copy Meta_kind State_Monad.return,
     ObjectMeta_view = (\<lambda>h p. Option.bind (view_ptr Meta_kind plain h p) (\<lambda>fs. Some \<lparr>om_Name = ''demo'', om_Namespace = ''ns'',
       om_Generation = 1, om_CreationTimestamp = 0, om_DeletionTimestamp = None,
       om_Finalizers = (case fs of None \<Rightarrow> [] | Some xs \<Rightarrow> xs)\<rparr>)),
     ListMeta_DeepCopyInto = State_Monad.return, ListMeta_view = plain\<rparr>"

lemma demo_meta_contract: "meta_contract demo_meta"
proof -
  have "deep_copier (ObjectMeta_view demo_meta) (ObjectMeta_DeepCopyInto demo_meta)"
    by (rule struct_copier[OF ptr_copier[OF plain_copier kinds_ok(25)], where f = "\<lambda>g. g" and U = "\<lambda>g p. p"
          and B = "\<lambda>g fs. \<lparr>om_Name = ''demo'', om_Namespace = ''ns'', om_Generation = 1, om_CreationTimestamp = 0,
            om_DeletionTimestamp = None, om_Finalizers = (case fs of None \<Rightarrow> [] | Some xs \<Rightarrow> xs)\<rparr>"])
      (simp_all add: demo_meta_def)
  then show ?thesis by (simp add: meta_contract_def demo_meta_def plain_copier ptr_copier)
qed

definition demo_spikes :: "SpikeWindow list" where
  "demo_spikes = [\<lparr>sw_At = 5, sw_Duration = 1, sw_RPS = 90\<rparr>]"

definition demo_mem :: "(string list, pointer, unit) cell list" where
  "demo_mem =
    [Meta_cell [''finalizer''],
     Spikes_cell demo_spikes,
     LoadProfile_cell \<lparr>m_Pattern = LoadPatternSpike, m_EndRPS = None, m_RampDuration = None, m_StepRPS = None,
       m_StepDuration = None, m_Spikes = Some (1, 1)\<rparr>,
     ScaleValidation_cell \<lparr>m_TypeMeta = \<lparr>tm_Kind = ''ScaleValidation'', tm_APIVersion = ''v1beta1''\<rparr>, m_ObjectMeta = Some 0,
       m_Spec = \<lparr>m_TargetRef = \<lparr>ref_APIVersion = ''apps/v1'', ref_Kind = ''Deployment'', ref_Name = ''web''\<rparr>, m_SLA = 60,
         m_Target = \<lparr>m_Mode = TargetModeServiceDefault, m_CustomPath = [], m_Port = 80, m_NetworkPath = ''ClusterIP'',
           m_Host = [], m_Protocol = [], m_GRPC = None, m_TLS = None\<rparr>,
         m_Load = \<lparr>m_BaseRPS = 10, m_ConcurrencyFactor = 0, m_Concurrency = 0, m_WarmupDuration = None, m_Profile = Some 2\<rparr>,
         m_Disruption = None, m_Schedule = [], m_Suspend = False\<rparr>,
       m_Status = \<lparr>m_Phase = PhasePending, m_ScaleUpDuration = None, m_SLAStatus = [], m_TrafficIntegrity = [],
         m_TotalRequests = 0, m_FailedRequests = 0, m_FailureRateBasisPoints = 0, m_Diagnostics = None, m_LastRunTime = None,
         m_History = None, m_NextRunTime = None, m_ObservedGeneration = 0, m_Conditions = None\<rparr>\<rparr>]"

definition object_view ::
  "('x, 'm, 'l, 'w) meta_lib \<Rightarrow> ('x, 'm, 'l) cell list \<Rightarrow> pointer \<Rightarrow> (TypeMeta \<times> ScaleValidation) option option" where
  "object_view M = view_ptr ScaleValidation_kind (ScaleValidation_view M)"

lemma demo_object_view:
  "\<exists>cr. object_view demo_meta demo_mem (Some 3) = Some (Some (\<lparr>tm_Kind = ''ScaleValidation'', tm_APIVersion = ''v1beta1''\<rparr>, cr))
     \<and> map_option lp_Spikes (load_Profile (spec_Load (sv_Spec cr))) = Some demo_spikes"
  by (simp add: object_view_def demo_mem_def demo_meta_def view_ptr_def view_slice_def deref_def plain_def ScaleValidation_view_def
      ScaleValidationSpec_view_def ScaleValidationStatus_view_def TargetConfig_view_def LoadConfig_view_def LoadProfile_view_def
      ScaleValidation_kind_def Meta_kind_def Spikes_kind_def LoadProfile_kind_def demo_spikes_def)

text \<open>C14. A copy shares no memory with its original: copying the object under a pointer, which always succeeds and
  only adds cells, gives a pointer to the same value; whatever is then written to the cells that were there before, the
  copy keeps its value, and whatever is written to the added cells, the original keeps its own. So a
  reconciler that updates the object it was given cannot change the cached one.\<close>

theorem DeepCopyObject_isolated:
  assumes "meta_contract M" "object_view M h p = Some v"
  shows "\<exists>q t. run_state (ScaleValidation_DeepCopyObject M p) h = (q, h @ t)
    \<and> (\<forall>ws. (\<forall>(a, c) \<in> set ws. a < length h) \<longrightarrow> object_view M (writes ws (h @ t)) q = Some v)
    \<and> (\<forall>ws. (\<forall>(a, c) \<in> set ws. length h \<le> a) \<longrightarrow> object_view M (writes ws (h @ t)) p = Some v)"
  unfolding DeepCopyObject_eq ScaleValidation_DeepCopy_def object_view_def
  by (rule deep_copier.isolated[OF ptr_copier[OF ScaleValidation_copier[OF assms(1)]]])
    (use assms(2) in \<open>simp_all add: object_view_def\<close>)

theorem DeepCopyObject_isolated_witness:
  "\<exists>q t cr tm. run_state (ScaleValidation_DeepCopyObject demo_meta (Some 3)) demo_mem = (q, demo_mem @ t)
     \<and> object_view demo_meta (writes [(1, Spikes_cell []), (3, Time_cell 0)] (demo_mem @ t)) q = Some (Some (tm, cr))
     \<and> map_option lp_Spikes (load_Profile (spec_Load (sv_Spec cr))) = Some demo_spikes"
proof -
  obtain tm cr where cr: "object_view demo_meta demo_mem (Some 3) = Some (Some (tm, cr))"
      "map_option lp_Spikes (load_Profile (spec_Load (sv_Spec cr))) = Some demo_spikes"
    using demo_object_view by blast
  obtain q t where run: "run_state (ScaleValidation_DeepCopyObject demo_meta (Some 3)) demo_mem = (q, demo_mem @ t)"
    and keep: "(\<forall>(a, c) \<in> set ws. a < length demo_mem) \<Longrightarrow> object_view demo_meta (writes ws (demo_mem @ t)) q = Some (Some (tm, cr))" for ws
    using DeepCopyObject_isolated[OF demo_meta_contract cr(1)] by blast
  have "object_view demo_meta (writes [(1, Spikes_cell []), (3, Time_cell 0)] (demo_mem @ t)) q = Some (Some (tm, cr))"
    by (rule keep) (simp add: demo_mem_def)
  with run cr(2) show ?thesis by blast
qed

text \<open>The same for a list and all its items.\<close>

lemma ListDeepCopyObject_isolated:
  assumes "meta_contract M" "view_ptr ScaleValidationList_kind (ScaleValidationList_view M) h p = Some v"
  shows "\<exists>q t. run_state (ScaleValidationList_DeepCopyObject M p) h = (q, h @ t)
    \<and> (\<forall>ws. (\<forall>(a, c) \<in> set ws. a < length h) \<longrightarrow>
          view_ptr ScaleValidationList_kind (ScaleValidationList_view M) (writes ws (h @ t)) q = Some v)
    \<and> (\<forall>ws. (\<forall>(a, c) \<in> set ws. length h \<le> a) \<longrightarrow>
          view_ptr ScaleValidationList_kind (ScaleValidationList_view M) (writes ws (h @ t)) p = Some v)"
  unfolding DeepCopyObject_eq ScaleValidationList_DeepCopy_def
  by (rule deep_copier.isolated[OF ptr_copier[OF ScaleValidationList_copier[OF assms(1)]]]) (simp_all add: assms(2))

end
