(* ===== verification/Loadgen_Schedule.thy ===== *)
theory Loadgen_Schedule
  imports Go_Float Loadgen_Config
begin

text \<open>
  The arrival schedule of a phase, \<^verbatim>\<open>internal/loadgen/schedule.go\<close>. Sending on the channel
  succeeds until the context is cancelled: \<open>q\<close> is the number of sends that still succeed, which
  makes every loop total, also the ones that the context alone would stop. The exponential draws of
  the Poisson pattern are a parameter.
\<close>

section \<open>Emitting\<close>

text \<open>\<^const>\<open>None\<close> is a false return; otherwise the sends that are left.\<close>

definition emit :: "time \<Rightarrow> nat \<Rightarrow> time \<Rightarrow> nat option" where
  "emit end_t q at_t =
     (if \<not> time_Before at_t end_t then None else case q of 0 \<Rightarrow> None | Suc q' \<Rightarrow> Some q')"

lemma emit_Some [simp]: "emit end_t q at_t = Some q' \<longleftrightarrow> at_t < end_t \<and> q = Suc q'"
  by (auto simp: emit_def time_defs split: nat.split)

lemma emit_None [simp]: "emit end_t q at_t = None \<longleftrightarrow> \<not> at_t < end_t \<or> q = 0"
  by (auto simp: emit_def time_defs split: nat.split)

definition dur_Seconds :: "duration \<Rightarrow> float64" where
  "dur_Seconds d = (let sec = go_div d Second; nsec = d - sec * Second
                    in fl_add (fl_of_int sec) (fl_div (fl_of_int nsec) (fl_of_int Second)))"

definition rate_interval :: "float64 \<Rightarrow> duration" where
  "rate_interval rate = fl_trunc (fl_div (fl_of_int Second) rate)"

section \<open>The four patterns\<close>

function constant_loop :: "time \<Rightarrow> duration \<Rightarrow> time \<Rightarrow> nat \<Rightarrow> nat \<Rightarrow> time list" where
  "constant_loop phaseStart interval end_t i q =
     (let at_t = time_Add phaseStart (dur_mul (int i) interval) in
      case emit end_t q at_t of None \<Rightarrow> []
      | Some q' \<Rightarrow> at_t # constant_loop phaseStart interval end_t (Suc i) q')"
  by pat_completeness auto
termination by (relation "measure (\<lambda>(_, _, _, _, q). q)") auto

declare constant_loop.simps [simp del]

definition emitConstant :: "time \<Rightarrow> int \<Rightarrow> time \<Rightarrow> nat \<Rightarrow> time list" where
  "emitConstant phaseStart rps end_t q =
     constant_loop phaseStart (rate_interval (fl_of_int rps)) end_t 0 q"

function poisson_loop :: "(nat \<Rightarrow> float64) \<Rightarrow> time \<Rightarrow> float64 \<Rightarrow> time \<Rightarrow> nat \<Rightarrow> nat \<Rightarrow> time list" where
  "poisson_loop draws at_t rate end_t i q =
     (let gap = fl_trunc (fl_mul (fl_div (draws i) rate) (fl_of_int Second)); at_t' = time_Add at_t gap in
      case emit end_t q at_t' of None \<Rightarrow> []
      | Some q' \<Rightarrow> at_t' # poisson_loop draws at_t' rate end_t (Suc i) q')"
  by pat_completeness auto
termination by (relation "measure (\<lambda>(_, _, _, _, _, q). q)") auto

declare poisson_loop.simps [simp del]

definition emitPoisson :: "(nat \<Rightarrow> float64) \<Rightarrow> time \<Rightarrow> float64 \<Rightarrow> time \<Rightarrow> nat \<Rightarrow> time list" where
  "emitPoisson draws phaseStart rate end_t q = poisson_loop draws phaseStart rate end_t 0 q"

definition ramp_interval :: "float64 \<Rightarrow> float64 \<Rightarrow> int \<Rightarrow> int \<Rightarrow> duration" where
  "ramp_interval elapsed totalSeconds startRPS endRPS =
     (let frac = fl_div elapsed totalSeconds;
          rate = fl_add (fl_of_int startRPS) (fl_mul frac (fl_of_int (wrap64 (endRPS - startRPS))));
          rate = (if rate < 1 then 1 else rate);
          interval = rate_interval rate
      in if interval \<le> 0 then Microsecond else interval)"

function ramp_loop :: "time \<Rightarrow> float64 \<Rightarrow> int \<Rightarrow> int \<Rightarrow> time \<Rightarrow> time \<Rightarrow> nat \<Rightarrow> time list" where
  "ramp_loop phaseStart totalSeconds startRPS endRPS end_t at_t q =
     (let elapsed = dur_Seconds (time_Sub at_t phaseStart) in
      if elapsed \<ge> totalSeconds then []
      else let interval = ramp_interval elapsed totalSeconds startRPS endRPS in
        case emit end_t q at_t of None \<Rightarrow> []
        | Some q' \<Rightarrow> at_t # ramp_loop phaseStart totalSeconds startRPS endRPS end_t (time_Add at_t interval) q')"
  by pat_completeness auto
termination by (relation "measure (\<lambda>(_, _, _, _, _, _, q). q)") auto

declare ramp_loop.simps [simp del]

definition emitRamp :: "time \<Rightarrow> duration \<Rightarrow> int \<Rightarrow> int \<Rightarrow> time \<Rightarrow> nat \<Rightarrow> time list" where
  "emitRamp phaseStart dur startRPS endRPS end_t q =
     ramp_loop phaseStart (dur_Seconds dur) startRPS endRPS end_t phaseStart q"

text \<open>One plateau: the arrivals, and the sends left when the plateau ends (\<^const>\<open>None\<close> when
  \<^verbatim>\<open>emit\<close> returned false and with it the whole function).\<close>

function step_segment :: "time \<Rightarrow> time \<Rightarrow> duration \<Rightarrow> time \<Rightarrow> nat \<Rightarrow> time list \<times> nat option" where
  "step_segment end_t segEnd interval at_t q =
     (if time_Before at_t segEnd
      then case emit end_t q at_t of None \<Rightarrow> ([], None)
           | Some q' \<Rightarrow> let (xs, r) = step_segment end_t segEnd interval (time_Add at_t interval) q' in (at_t # xs, r)
      else ([], Some q))"
  by pat_completeness auto
termination by (relation "measure (\<lambda>(_, _, _, _, q). q)") auto

declare step_segment.simps [simp del]

definition seg_rate :: "int \<Rightarrow> int \<Rightarrow> nat \<Rightarrow> int" where
  "seg_rate startRPS stepRPS s =
     (let r = wrap64 (startRPS + int s * stepRPS) in if r < 1 then 1 else r)"

definition seg_end :: "time \<Rightarrow> duration \<Rightarrow> duration \<Rightarrow> nat \<Rightarrow> time" where
  "seg_end phaseStart dur stepEvery s =
     (let segEnd = time_Add (time_Add phaseStart (dur_mul (int s) stepEvery)) stepEvery;
          d = time_Add phaseStart dur
      in if time_After segEnd d then d else segEnd)"

text \<open>The plateau loop: \<open>n\<close> plateaus are left, \<open>s\<close> is the next one.\<close>

fun step_loop :: "time \<Rightarrow> duration \<Rightarrow> int \<Rightarrow> int \<Rightarrow> duration \<Rightarrow> time \<Rightarrow> nat \<Rightarrow> nat \<Rightarrow> nat \<Rightarrow> time list" where
  "step_loop phaseStart dur startRPS stepRPS stepEvery end_t 0 s q = []"
| "step_loop phaseStart dur startRPS stepRPS stepEvery end_t (Suc n) s q =
     (case step_segment end_t (seg_end phaseStart dur stepEvery s)
             (rate_interval (fl_of_int (seg_rate startRPS stepRPS s)))
             (time_Add phaseStart (dur_mul (int s) stepEvery)) q of
        (xs, None) \<Rightarrow> xs
      | (xs, Some q') \<Rightarrow> xs @ step_loop phaseStart dur startRPS stepRPS stepEvery end_t n (Suc s) q')"

definition step_count :: "duration \<Rightarrow> duration \<Rightarrow> int" where
  "step_count dur stepEvery = math_Ceil (fl_div (dur_Seconds dur) (dur_Seconds stepEvery)) + 1"

definition emitStep :: "time \<Rightarrow> duration \<Rightarrow> int \<Rightarrow> int \<Rightarrow> duration \<Rightarrow> time \<Rightarrow> nat \<Rightarrow> time list" where
  "emitStep phaseStart dur startRPS stepRPS stepEvery end_t q =
     step_loop phaseStart dur startRPS stepRPS stepEvery end_t (nat (step_count dur stepEvery)) 0 q"

definition runSchedule :: "(nat \<Rightarrow> float64) \<Rightarrow> time \<Rightarrow> LoadPhase \<Rightarrow> nat \<Rightarrow> time list" where
  "runSchedule draws phaseStart p q =
     (let end_t = time_Add phaseStart (ph_Duration p) in
      if ph_Pattern p = PatternConstant then emitConstant phaseStart (ph_StartRPS p) end_t q
      else if ph_Pattern p = PatternPoisson then emitPoisson draws phaseStart (fl_of_int (ph_StartRPS p)) end_t q
      else if ph_Pattern p = PatternRamp
      then emitRamp phaseStart (ph_Duration p) (ph_StartRPS p) (ph_EndRPS p) end_t q
      else if ph_Pattern p = PatternStep
      then emitStep phaseStart (ph_Duration p) (ph_StartRPS p) (ph_StepRPS p) (ph_StepEvery p) end_t q
      else [])"

section \<open>Intervals\<close>

lemma rate_interval_int:
  "0 < rps \<Longrightarrow> rps \<le> 2 ^ 53 \<Longrightarrow> rate_interval (fl_of_int rps) = Second div rps"
  by (simp add: rate_interval_def fl_trunc_div)

lemma rate_interval_ge1: "1 \<le> rate \<Longrightarrow> 0 \<le> rate_interval rate \<and> rate_interval rate \<le> Second"
proof -
  assume r: "1 \<le> rate"
  have q: "0 \<le> fl_of_int Second / rate" "fl_of_int Second / rate \<le> of_int Second"
    using r by (simp_all add: fl_of_int_exact divide_le_eq)
  have "fl_div (fl_of_int Second) rate \<le> fl64 (of_int Second)"
    unfolding fl_div_def using q by (rule fl64_mono)
  also have "\<dots> = of_int Second" by (rule fl64_of_int) simp
  finally have "fl_div (fl_of_int Second) rate \<le> of_int Second" .
  moreover have "0 \<le> fl_div (fl_of_int Second) rate" unfolding fl_div_def using q(1) by (rule fl64_nonneg)
  ultimately show ?thesis by (simp add: rate_interval_def fl_trunc_def floor_le_iff)
qed

lemma ramp_interval_bounds: "1 \<le> ramp_interval e t a b \<and> ramp_interval e t a b \<le> Second"
  using rate_interval_ge1[of "max 1 (fl_add (fl_of_int a) (fl_mul (fl_div e t) (fl_of_int (wrap64 (b - a)))))"]
  by (auto simp: ramp_interval_def Let_def max_def not_less split: if_splits)

section \<open>Constant rate\<close>

text \<open>The number of arrivals a window of length \<open>d\<close> has at the given spacing.\<close>

definition slots :: "duration \<Rightarrow> duration \<Rightarrow> nat" where
  "slots d iv = nat ((d + iv - 1) div iv)"

lemma slots_iff: "0 < iv \<Longrightarrow> k < slots d iv \<longleftrightarrow> int k * iv < d"
  using le_div_iff_int[of iv "int k + 1" "d + iv - 1"] by (auto simp: slots_def zless_nat_eq_int_zless algebra_simps)

lemma slots_rate:
  assumes "0 < rps" "rps \<le> Second" "0 < d"
  shows "rps * d \<le> Second * int (slots d (Second div rps))"
proof -
  let ?iv = "Second div rps"
  have iv: "0 < ?iv" "?iv * rps \<le> Second"
    using assms le_div_iff_int[of rps 1 Second] le_div_iff_int[of rps ?iv Second] by auto
  have "\<not> int (slots d ?iv) * ?iv < d" using slots_iff[OF iv(1), of "slots d ?iv" d] by simp
  then have "rps * d \<le> rps * (int (slots d ?iv) * ?iv)" using assms by simp
  also have "\<dots> = (?iv * rps) * int (slots d ?iv)" by simp
  also have "\<dots> \<le> Second * int (slots d ?iv)" using iv by (intro mult_right_mono) auto
  finally show ?thesis .
qed

lemma constant_loop_eq:
  assumes "0 < iv" "0 < d" "in_int64 (d + iv)"
  shows "i \<le> slots d iv \<Longrightarrow> constant_loop t0 iv (t0 + d) i q = map (\<lambda>k. t0 + int k * iv) [i..<min (slots d iv) (i + q)]"
proof (induction q arbitrary: i)
  case (Suc q)
  have fits: "dur_mul (int i) iv = int i * iv"
  proof -
    have "int i * iv \<le> d + iv"
    proof (cases i)
      case (Suc j)
      then have "int j * iv < d" using Suc.prems \<open>i \<le> slots d iv\<close> slots_iff[OF assms(1), of j d] by simp
      then show ?thesis using Suc by (simp add: algebra_simps)
    qed (use assms in simp)
    then show ?thesis unfolding dur_mul_def
      using assms by (intro wrap64_id in_int64_nonneg[OF _ _ assms(3)]) auto
  qed
  show ?case
  proof (cases "i < slots d iv")
    case True
    then have "[i..<min (slots d iv) (i + Suc q)] = i # [Suc i..<min (slots d iv) (Suc i + q)]"
      by (subst upt_conv_Cons) auto
    then show ?thesis using True Suc.IH[of "Suc i"] slots_iff[OF assms(1), of i d]
      by (subst constant_loop.simps) (simp add: fits emit_def time_defs)
  next
    case False
    then show ?thesis using slots_iff[OF assms(1), of i d] Suc.prems fits
      by (subst constant_loop.simps) (simp add: emit_def time_defs)
  qed
qed (subst constant_loop.simps, simp add: emit_def Let_def)

section \<open>Steps\<close>

lemma slots_Suc:
  assumes "0 < iv" "0 < d"
  shows "slots d iv = Suc (slots (d - iv) iv)"
proof -
  have "(d - 1 + iv) div iv = (d - 1) div iv + 1" using assms by (intro div_add_self2) simp
  then have "(d + iv - 1) div iv = (d - iv + iv - 1) div iv + 1" by (simp add: algebra_simps)
  moreover have "0 \<le> (d - iv + iv - 1) div iv" using assms by (simp add: pos_imp_zdiv_nonneg_iff)
  ultimately show ?thesis by (simp add: slots_def nat_add_distrib)
qed

lemma slots_0: "0 < iv \<Longrightarrow> d \<le> 0 \<Longrightarrow> slots d iv = 0"
  using slots_iff[of iv 0 d] by (cases "slots d iv") auto

definition arrivals_from :: "time \<Rightarrow> duration \<Rightarrow> nat \<Rightarrow> time list" where
  "arrivals_from t0 iv n = map (\<lambda>k. t0 + int k * iv) [0..<n]"

lemma arrivals_from_Suc: "arrivals_from t0 iv (Suc n) = t0 # arrivals_from (t0 + iv) iv n"
  unfolding arrivals_from_def map_upt_Suc by (simp add: algebra_simps)

lemma step_segment_eq:
  assumes "0 < iv" "segEnd \<le> end_t"
  shows "step_segment end_t segEnd iv t q =
     (let n = slots (segEnd - t) iv in
      (take q (arrivals_from t iv n), if n \<le> q then Some (q - n) else None))"
proof (induction q arbitrary: t)
  case 0
  show ?case
    using slots_iff[OF assms(1), of 0 "segEnd - t"] assms(2)
    by (subst step_segment.simps) (auto simp: time_defs arrivals_from_def Let_def emit_def)
next
  case (Suc q)
  show ?case
  proof (cases "t < segEnd")
    case True
    then have "slots (segEnd - t) iv = Suc (slots (segEnd - (t + iv)) iv)"
      using slots_Suc[OF assms(1), of "segEnd - t"] by (simp add: algebra_simps)
    then show ?thesis using True Suc assms(2)
      by (subst step_segment.simps) (simp add: time_defs arrivals_from_Suc Let_def emit_def)
  next
    case False
    then show ?thesis using slots_0[OF assms(1), of "segEnd - t"]
      by (subst step_segment.simps) (simp add: time_defs arrivals_from_def Let_def)
  qed
qed

text \<open>The plateau \<open>s\<close> of a step phase, as its arrivals ought to be.\<close>

definition plateau :: "time \<Rightarrow> duration \<Rightarrow> int \<Rightarrow> int \<Rightarrow> duration \<Rightarrow> nat \<Rightarrow> time list" where
  "plateau t0 d startRPS stepRPS every s =
     (let iv = Second div (startRPS + int s * stepRPS); seg0 = int s * every
      in arrivals_from (t0 + seg0) iv (slots (min every (d - seg0)) iv))"

lemma step_loop_eq:
  assumes "0 < start" "0 < step" "0 < every" "0 < d" "start + int (slots d every) * step \<le> Second"
    and "in_int64 (int (s + n) * every)"
  shows "step_loop t0 d start step every (t0 + d) n s q =
    take q (concat (map (plateau t0 d start step every) [s..<min (s + n) (slots d every)]))"
  using assms(6)
proof (induction n arbitrary: s q)
  case (Suc n)
  have "int s * every \<le> int (s + Suc n) * every" using assms(3) by (intro mult_right_mono) auto
  then have fits: "dur_mul (int s) every = int s * every"
    unfolding dur_mul_def using assms(3)
    by (intro wrap64_id in_int64_nonneg[OF _ _ Suc.prems]) auto
  have se: "seg_end t0 d every s = t0 + min d (int s * every + every)"
    by (simp add: seg_end_def time_defs fits Let_def)
  show ?case
  proof (cases "s < slots d every")
    case True
    have rate: "0 < start + int s * step" "start + int s * step \<le> Second"
    proof -
      have "int s * step \<le> int (slots d every) * step" using True assms(2) by (intro mult_right_mono) auto
      then show "start + int s * step \<le> Second" using assms(5) by linarith
      show "0 < start + int s * step" using assms(1,2) by (simp add: add_pos_nonneg)
    qed
    have "in_int64 (start + int s * step)" using rate by (auto simp: in_int64_def int_bounds)
    then have sr: "seg_rate start step s = start + int s * step"
      using rate by (simp add: seg_rate_def wrap64_id)
    let ?iv = "Second div (start + int s * step)"
    have iv: "rate_interval (fl_of_int (seg_rate start step s)) = ?iv" "0 < ?iv"
      using rate le_div_iff_int[OF rate(1), of 1 Second] by (simp_all add: sr rate_interval_int)
    let ?n = "slots (min every (d - int s * every)) ?iv"
    have seg: "step_segment (t0 + d) (seg_end t0 d every s) ?iv (t0 + int s * every) q =
        (take q (plateau t0 d start step every s), if ?n \<le> q then Some (q - ?n) else None)"
    proof -
      have "seg_end t0 d every s - (t0 + int s * every) = min every (d - int s * every)"
        by (simp add: se min_def)
      then show ?thesis
        using step_segment_eq[OF iv(2), of "seg_end t0 d every s" "t0 + d" "t0 + int s * every" q]
        by (simp add: se plateau_def Let_def)
    qed
    have len: "length (plateau t0 d start step every s) = ?n"
      by (simp add: plateau_def Let_def arrivals_from_def)
    have upt: "[s..<min (Suc (s + n)) (slots d every)] = s # [Suc s..<min (Suc (s + n)) (slots d every)]"
      using True by (subst upt_conv_Cons) auto
    show ?thesis using Suc.IH[of "Suc s" "q - ?n"] Suc.prems seg
      by (simp add: iv time_defs fits upt len)
  next
    case False
    then have "d \<le> int s * every" using slots_iff[OF assms(3), of s d] by simp
    then have empty: "step_segment (t0 + d) (seg_end t0 d every s) iv (t0 + int s * every) q = ([], Some q)" for iv
      using assms(3) by (subst step_segment.simps) (simp add: se time_defs)
    show ?thesis using Suc.IH[of "Suc s" q] Suc.prems False by (simp add: empty time_defs fits)
  qed
qed simp

text \<open>The plateau count is computed in floating point; the extra plateau the code adds absorbs the
  rounding.\<close>

definition u53 :: rat where "u53 = 1 / 2 ^ 53"

lemma fl64_near:
  assumes "0 \<le> x" "x * (1 - e) \<le> y" "y \<le> x * (1 + e)" "0 \<le> e" "e \<le> 1"
  shows "x * (1 - e - u53) \<le> fl64 y" "fl64 y \<le> x * (1 + e + 2 * u53)"
proof -
  have u: "0 < u53" "u53 < 1" by (simp_all add: u53_def)
  have "0 \<le> x * (1 - e)" using assms by simp
  then have y: "0 \<le> y" using assms by linarith
  have "x * (1 - e - u53) \<le> (x * (1 - e)) * (1 - u53)" using assms u by (simp add: algebra_simps)
  also have "\<dots> \<le> y * (1 - u53)" using assms u by (intro mult_right_mono) auto
  also have "\<dots> \<le> fl64 y" using fl64_lower[OF y] by (simp add: u53_def)
  finally show "x * (1 - e - u53) \<le> fl64 y" .
  have "fl64 y \<le> y * (1 + u53)" using fl64_upper[OF y] by (simp add: u53_def)
  also have "\<dots> \<le> (x * (1 + e)) * (1 + u53)" using assms u by (intro mult_right_mono) auto
  also have "\<dots> = x * (1 + e + u53 + e * u53)" by (simp add: algebra_simps)
  also have "\<dots> \<le> x * (1 + e + 2 * u53)"
    using assms u mult_left_le_one_le[of u53 e] by (intro mult_left_mono) auto
  finally show "fl64 y \<le> x * (1 + e + 2 * u53)" .
qed

lemma dur_Seconds_near:
  assumes "0 \<le> d" "d \<le> 2 ^ 62"
  defines "x \<equiv> of_int d / of_int Second"
  shows "x * (1 - 4 * u53) \<le> dur_Seconds d" "dur_Seconds d \<le> x * (1 + 4 * u53)"
proof -
  let ?sec = "d div Second" and ?nsec = "d mod Second"
  have sec: "0 \<le> ?sec" "?sec \<le> 2 ^ 53"
    using assms zdiv_mono1[of d "2 ^ 62" Second] by (auto simp: pos_imp_zdiv_nonneg_iff)
  have nsec: "0 \<le> ?nsec" "?nsec < Second" by simp_all
  define a where "a = (of_int ?nsec / of_int Second :: rat)"
  have a: "0 \<le> a" using nsec by (simp add: a_def)
  have "d = ?sec * Second + ?nsec" by simp
  then have "of_int d = of_int ?sec * of_int Second + (of_int ?nsec :: rat)" by (metis of_int_add of_int_mult)
  then have x: "x = of_int ?sec + a" by (simp add: x_def a_def)
  have eq: "dur_Seconds d = fl64 (of_int ?sec + fl64 a)"
    using assms sec nsec by (simp add: dur_Seconds_def go_div_def Let_def minus_div_mult_eq_mod fl_add_def
        fl_div_def fl_of_int_exact a_def)
  have u: "0 < u53" "u53 < 1 / 8" by (simp_all add: u53_def)
  have fa: "a * (1 - u53) \<le> fl64 a" "fl64 a \<le> a * (1 + 2 * u53)"
    using fl64_near[of a 0 a] a by (simp_all add: u53_def)
  have s0: "(0::rat) \<le> of_int ?sec" using sec by simp
  have lo: "x * (1 - 2 * u53) \<le> of_int ?sec + fl64 a"
  proof -
    have "0 \<le> of_int ?sec * (2 * u53)" "0 \<le> a * u53" using s0 a u by (simp_all del: of_int_0_le_iff)
    moreover have "x * (1 - 2 * u53) = of_int ?sec - of_int ?sec * (2 * u53) + a * (1 - u53) - a * u53"
      by (simp add: x algebra_simps)
    ultimately show ?thesis using fa(1) by linarith
  qed
  have hi: "of_int ?sec + fl64 a \<le> x * (1 + 2 * u53)"
    using fa(2) u mult_nonneg_nonneg[OF s0, of u53] by (simp add: x algebra_simps)
  have x0: "0 \<le> x" using x a s0 by simp
  note n = fl64_near[OF x0 lo hi]
  show "x * (1 - 4 * u53) \<le> dur_Seconds d"
  proof -
    have "x * (1 - 4 * u53) = x * (1 - 2 * u53 - u53) - x * u53" by (simp add: algebra_simps)
    moreover have "0 \<le> x * u53" using x0 u by simp
    moreover have "x * (1 - 2 * u53 - u53) \<le> dur_Seconds d" using n(1) u by (simp add: eq)
    ultimately show ?thesis by linarith
  qed
  show "dur_Seconds d \<le> x * (1 + 4 * u53)" using n(2) u by (simp add: eq algebra_simps)
qed

lemma step_ratio_near:
  assumes "0 \<le> d" "d \<le> 2 ^ 62" "0 < e" "e \<le> 2 ^ 62"
  defines "r \<equiv> of_int d / of_int e"
  shows "r * (1 - 13 * u53) \<le> fl_div (dur_Seconds d) (dur_Seconds e)"
    "fl_div (dur_Seconds d) (dur_Seconds e) \<le> r * (1 + 14 * u53)"
proof -
  let ?X = "of_int d / of_int Second :: rat" and ?Y = "of_int e / of_int Second :: rat"
  have u: "0 < u53" "u53 < 1 / 1000" by (simp_all add: u53_def)
  have pos: "0 \<le> ?X" "0 < ?Y" "0 \<le> r" using assms by (simp_all add: r_def)
  note X = dur_Seconds_near[OF assms(1,2)] and Y = dur_Seconds_near[of e, OF _ assms(4)]
  have Ypos: "0 < ?Y * (1 - 4 * u53)" using pos u by simp
  have Yd: "0 < dur_Seconds e" "?Y * (1 - 4 * u53) \<le> dur_Seconds e" "dur_Seconds e \<le> ?Y * (1 + 4 * u53)"
    using Ypos Y assms(3) by auto
  have rY: "r * ?Y = ?X" using assms(3) by (simp add: r_def)
  have lo: "r * (1 - 12 * u53) \<le> dur_Seconds d / dur_Seconds e"
  proof -
    have "r * (1 - 12 * u53) * dur_Seconds e \<le> r * (1 - 12 * u53) * (?Y * (1 + 4 * u53))"
      using pos u Yd by (intro mult_left_mono) auto
    also have "\<dots> = (r * ?Y) * ((1 - 12 * u53) * (1 + 4 * u53))" by (simp only: mult_ac)
    also have "\<dots> \<le> ?X * (1 - 4 * u53)" unfolding rY using pos u
      by (intro mult_left_mono) (auto simp: algebra_simps)
    also have "\<dots> \<le> dur_Seconds d" by (rule X)
    finally show ?thesis using Yd by (simp add: pos_le_divide_eq)
  qed
  have hi: "dur_Seconds d / dur_Seconds e \<le> r * (1 + 12 * u53)"
  proof -
    have sq: "48 * (u53 * u53) \<le> 4 * u53" using u mult_right_mono[of u53 "1/1000" u53] by linarith
    have "dur_Seconds d \<le> ?X * (1 + 4 * u53)" by (rule X)
    also have "\<dots> \<le> (r * ?Y) * ((1 + 12 * u53) * (1 - 4 * u53))" unfolding rY
      using pos u sq by (intro mult_left_mono) (auto simp: algebra_simps)
    also have "\<dots> = r * (1 + 12 * u53) * (?Y * (1 - 4 * u53))" by (simp only: mult_ac)
    also have "\<dots> \<le> r * (1 + 12 * u53) * dur_Seconds e"
      using pos u Yd by (intro mult_left_mono) auto
    finally show ?thesis using Yd by (simp add: pos_divide_le_eq)
  qed
  show "r * (1 - 13 * u53) \<le> fl_div (dur_Seconds d) (dur_Seconds e)"
    "fl_div (dur_Seconds d) (dur_Seconds e) \<le> r * (1 + 14 * u53)"
    using fl64_near[OF pos(3) lo hi] u by (simp_all add: fl_div_def algebra_simps)
qed

lemma step_count_bounds:
  assumes "0 < d" "d \<le> 2 ^ 49" "0 < e" "e \<le> 2 ^ 49"
  shows "int (slots d e) \<le> step_count d e" "in_int64 (step_count d e * e)"
proof -
  define r where "r = (of_int d / of_int e :: rat)"
  have r: "0 < r" "r \<le> 2 ^ 49" using assms by (auto simp: r_def field_simps of_int_le_iff
        intro: order_trans[of _ "2 ^ 49"])
  let ?y = "fl_div (dur_Seconds d) (dur_Seconds e)"
  have y: "r * (1 - 13 * u53) \<le> ?y" "?y \<le> r * (1 + 14 * u53)"
    using step_ratio_near[of d e] assms by (simp_all add: r_def)
  have "r * (13 * u53) \<le> 2 ^ 49 * (13 * u53)" using r by (intro mult_right_mono) (auto simp: u53_def)
  then have "r * (13 * u53) < 1" by (simp add: u53_def)
  then have "r \<le> of_int (step_count d e)"
  proof -
    have "r - 1 < ?y" using y(1) \<open>r * (13 * u53) < 1\<close> by (simp add: algebra_simps)
    also have "\<dots> \<le> of_int \<lceil>?y\<rceil>" by (rule le_of_int_ceiling)
    finally show ?thesis by (simp add: step_count_def math_Ceil_def)
  qed
  then have "of_int d \<le> (of_int (step_count d e * e) :: rat)"
    using assms(3) by (simp add: r_def pos_divide_le_eq)
  then have "d \<le> step_count d e * e" by (simp only: of_int_le_iff)
  then show 1: "int (slots d e) \<le> step_count d e"
    using slots_iff[OF assms(3), of "nat (step_count d e)" d] assms
    by (smt (verit) int_nat_eq linorder_not_less mult_nonpos_nonneg of_nat_less_iff)
  have "of_int (step_count d e) \<le> ?y + 2"
    using ceiling_correct[of ?y] by (simp add: step_count_def math_Ceil_def)
  also have "\<dots> \<le> 2 * r + 2" using y(2) r mult_left_mono[of "14 * u53" 1 r] by (simp add: u53_def algebra_simps)
  finally have "of_int (step_count d e) * of_int e \<le> (2 * r + 2) * of_int e"
    using assms by (intro mult_right_mono) auto
  also have "\<dots> = of_int (2 * d + 2 * e)" using assms by (simp add: r_def field_simps)
  finally have "step_count d e * e \<le> 2 * d + 2 * e" by (simp only: of_int_mult[symmetric] of_int_le_iff)
  with \<open>d \<le> step_count d e * e\<close> assms show "in_int64 (step_count d e * e)"
    by (auto simp: in_int64_def int_bounds)
qed

section \<open>Order and window\<close>

text \<open>Arrivals in order, all in the half-open window.\<close>

definition well_timed :: "time \<Rightarrow> time \<Rightarrow> time list \<Rightarrow> bool" where
  "well_timed t0 t1 xs \<longleftrightarrow> sorted xs \<and> set xs \<subseteq> {t0..<t1}"

lemma well_timed_Nil [simp]: "well_timed t0 t1 []"
  by (simp add: well_timed_def)

lemma well_timed_take: "well_timed t0 t1 xs \<Longrightarrow> well_timed t0 t1 (take n xs)"
  by (auto simp: well_timed_def sorted_wrt_take dest: in_set_takeD)

lemma well_timed_mono: "well_timed t0 t1 xs \<Longrightarrow> t1 \<le> t2 \<Longrightarrow> well_timed t0 t2 xs"
  by (fastforce simp: well_timed_def)

lemma well_timed_Cons:
  "t0 \<le> t \<Longrightarrow> t < t1 \<Longrightarrow> well_timed t t1 xs \<Longrightarrow> well_timed t0 t1 (t # xs)"
  by (auto simp: well_timed_def)

lemma well_timed_append:
  "well_timed t0 t xs \<Longrightarrow> well_timed t t1 ys \<Longrightarrow> t0 \<le> t \<Longrightarrow> t \<le> t1 \<Longrightarrow> well_timed t0 t1 (xs @ ys)"
  by (fastforce simp: well_timed_def sorted_append)

lemma arrivals_from_well_timed:
  assumes "0 < iv" "d \<le> t1 - t0"
  shows "well_timed t0 t1 (arrivals_from t0 iv (slots d iv))"
proof -
  have "int k * iv < d" if "k < slots d iv" for k using that slots_iff[OF assms(1)] by simp
  then show ?thesis using assms
    by (fastforce simp: well_timed_def arrivals_from_def sorted_map sorted_wrt_iff_nth_less intro: mult_right_mono)
qed

lemma plateaus_well_timed:
  assumes "0 < start" "0 < step" "0 < every" "start + int (slots d every) * step \<le> Second" "n \<le> slots d every"
  shows "well_timed t0 (t0 + min d (int n * every)) (concat (map (plateau t0 d start step every) [0..<n]))"
  using assms(5)
proof (induction n)
  case (Suc n)
  have n: "int n * every < d" using Suc.prems slots_iff[OF assms(3), of n d] by simp
  have "int n * step \<le> int (slots d every) * step" using Suc.prems assms(2) by (intro mult_right_mono) auto
  then have "start + int n * step \<le> Second" using assms(4) by linarith
  moreover have "0 < start + int n * step" using assms(1,2) by (simp add: add_pos_nonneg)
  ultimately have "1 \<le> Second div (start + int n * step)" by (simp add: le_div_iff_int)
  then have "0 < Second div (start + int n * step)" by linarith
  then have "well_timed (t0 + int n * every) (t0 + min d (int (Suc n) * every)) (plateau t0 d start step every n)"
    unfolding plateau_def Let_def by (rule arrivals_from_well_timed) (auto simp: algebra_simps)
  then show ?case using Suc n assms(3)
    by (auto intro!: well_timed_append[where t = "t0 + int n * every"] simp: min_def algebra_simps)
qed simp

lemma ramp_loop_well_timed: "t0 \<le> t \<Longrightarrow> well_timed t t1 (ramp_loop t0 ts a b t1 t q)"
proof (induction q arbitrary: t)
  case (Suc q)
  let ?iv = "ramp_interval (dur_Seconds (time_Sub t t0)) ts a b"
  have iv: "1 \<le> ?iv" using ramp_interval_bounds by simp
  then have "well_timed (t + ?iv) t1 (ramp_loop t0 ts a b t1 (t + ?iv) q)" using Suc by simp
  then have "well_timed t t1 (t # ramp_loop t0 ts a b t1 (t + ?iv) q)" if "t < t1"
    using iv that by (intro well_timed_Cons) (auto simp: well_timed_def)
  then show ?case
    by (subst ramp_loop.simps) (simp add: Let_def emit_def time_defs)
qed (subst ramp_loop.simps, simp add: Let_def emit_def)

lemma ramp_loop_spacing:
  "successively (\<lambda>x y. 1 \<le> y - x \<and> y - x \<le> Second) (ramp_loop t0 ts a b t1 t q)
   \<and> (ramp_loop t0 ts a b t1 t q \<noteq> [] \<longrightarrow> hd (ramp_loop t0 ts a b t1 t q) = t)"
proof (induction q arbitrary: t)
  case (Suc q)
  let ?iv = "ramp_interval (dur_Seconds (time_Sub t t0)) ts a b"
  show ?case using Suc[of "t + ?iv"] ramp_interval_bounds[of "dur_Seconds (time_Sub t t0)" ts a b]
    by (subst (1 2 3) ramp_loop.simps) (auto simp: Let_def emit_def time_defs successively_Cons)
qed (subst (1 2 3) ramp_loop.simps, simp add: Let_def emit_def)

lemma poisson_loop_well_timed:
  assumes "\<And>i. 0 \<le> draws i" "0 < rate"
  shows "well_timed t t1 (poisson_loop draws t rate t1 i q)"
proof (induction q arbitrary: t i)
  case (Suc q)
  let ?gap = "fl_trunc (fl_mul (fl_div (draws i) rate) (fl_of_int Second))"
  have "0 \<le> fl_mul (fl_div (draws i) rate) (fl_of_int Second)"
    using assms unfolding fl_mul_def fl_div_def by (intro fl64_nonneg mult_nonneg_nonneg) (auto simp: fl_of_int_exact)
  then have gap: "0 \<le> ?gap" by (simp add: fl_trunc_def)
  have "well_timed (t + ?gap) t1 (poisson_loop draws (t + ?gap) rate t1 (Suc i) q)" using Suc by simp
  then have "well_timed t t1 ((t + ?gap) # poisson_loop draws (t + ?gap) rate t1 (Suc i) q)" if "t + ?gap < t1"
    using gap that by (intro well_timed_Cons) auto
  then show ?case by (subst poisson_loop.simps) (simp add: Let_def emit_def time_defs)
qed (subst poisson_loop.simps, simp add: Let_def emit_def)

lemma constant_arrivals:
  assumes "0 < rps" "rps \<le> Second" "0 < d" "d \<le> 2 ^ 62"
  shows "emitConstant t0 rps (t0 + d) q = take q (arrivals_from t0 (Second div rps) (slots d (Second div rps)))"
proof -
  let ?iv = "Second div rps"
  have iv: "0 < ?iv" "?iv \<le> Second"
    using assms le_div_iff_int[of rps 1 Second] zdiv_mono2[of Second 1 rps] by auto
  have "in_int64 (d + ?iv)" using assms iv by (auto simp: in_int64_def int_bounds)
  moreover have "take q [0..<n] = [0..<min q n]" for n by (simp add: min_def)
  ultimately show ?thesis using constant_loop_eq[OF iv(1) assms(3), of 0 t0 q] assms
    by (simp add: emitConstant_def rate_interval_int arrivals_from_def take_map min.commute)
qed

lemma emitStep_eq:
  assumes "0 < start" "0 < step" "0 < every" "every \<le> 2 ^ 49" "0 < d" "d \<le> 2 ^ 49"
    and "start + int (slots d every) * step \<le> Second"
  shows "emitStep t0 d start step every (t0 + d) q =
    take q (concat (map (plateau t0 d start step every) [0..<slots d every]))"
proof -
  note b = step_count_bounds[OF assms(5,6,3,4)]
  then have "0 \<le> step_count d every" by linarith
  then show ?thesis unfolding emitStep_def
    using step_loop_eq[OF assms(1-3,5,7), of 0 "nat (step_count d every)" t0 q] b
    by (simp add: min_absorb2 nat_le_iff le_nat_iff)
qed

section \<open>Properties\<close>

text \<open>The limits under which no 64-bit product of a schedule wraps and every interval is at least a
  nanosecond: a phase shorter than six days and rates up to one request per nanosecond.\<close>

definition schedulable :: "LoadPhase \<Rightarrow> bool" where
  "schedulable p \<longleftrightarrow> valid_phase p \<and> ph_Duration p \<le> 2 ^ 49 \<and> ph_StartRPS p \<le> Second
     \<and> (ph_Pattern p \<noteq> PatternStep \<or> ph_StepEvery p \<le> 2 ^ 49
          \<and> ph_StartRPS p + int (slots (ph_Duration p) (ph_StepEvery p)) * ph_StepRPS p \<le> Second)"

text \<open>C21. Safety of the schedule, for all four arrival patterns and wherever the context stops it:
  the arrivals of a validated phase come in order and all lie in the phase's half-open window, so no
  phase sends a request on behalf of the next.\<close>

theorem runSchedule_well_timed:
  assumes "schedulable p" "\<And>i. 0 \<le> draws i"
  shows "sorted (runSchedule draws t0 p q)
    \<and> set (runSchedule draws t0 p q) \<subseteq> {t0..<t0 + ph_Duration p}"
proof -
  have v: "0 < ph_Duration p" "0 < ph_StartRPS p" "ph_StartRPS p \<le> Second" "ph_Duration p \<le> 2 ^ 49"
    using assms(1) by (auto simp: schedulable_def valid_phase_def)
  have "well_timed t0 (t0 + ph_Duration p) (emitConstant t0 (ph_StartRPS p) (t0 + ph_Duration p) q)"
  proof -
    have "0 < Second div ph_StartRPS p" using v le_div_iff_int[of "ph_StartRPS p" 1 Second] by simp
    then show ?thesis using v by (subst constant_arrivals) (auto intro!: well_timed_take arrivals_from_well_timed)
  qed
  moreover have "well_timed t0 (t0 + ph_Duration p)
      (emitPoisson draws t0 (fl_of_int (ph_StartRPS p)) (t0 + ph_Duration p) q)"
    unfolding emitPoisson_def using v by (intro poisson_loop_well_timed assms(2)) (simp add: fl_of_int_exact)
  moreover have "well_timed t0 (t0 + ph_Duration p)
      (emitStep t0 (ph_Duration p) (ph_StartRPS p) (ph_StepRPS p) (ph_StepEvery p) (t0 + ph_Duration p) q)"
    if "ph_Pattern p = PatternStep"
  proof -
    have st: "0 < ph_StepRPS p" "0 < ph_StepEvery p" "ph_StepEvery p \<le> 2 ^ 49"
      "ph_StartRPS p + int (slots (ph_Duration p) (ph_StepEvery p)) * ph_StepRPS p \<le> Second"
      using that assms(1) by (auto simp: schedulable_def valid_phase_def)
    show ?thesis unfolding emitStep_eq[OF v(2) st(1-3) v(1,4) st(4)]
      using plateaus_well_timed[OF v(2) st(1,2,4) order_refl, of t0]
      by (intro well_timed_take) (rule well_timed_mono, auto)
  qed
  ultimately have "well_timed t0 (t0 + ph_Duration p) (runSchedule draws t0 p q)"
    by (simp add: runSchedule_def time_defs Let_def emitRamp_def ramp_loop_well_timed)
  then show ?thesis by (simp add: well_timed_def)
qed

lemma runSchedule_constant:
  assumes "schedulable p" "ph_Pattern p = PatternConstant"
  shows "runSchedule draws t0 p q =
      map (\<lambda>k. t0 + int k * (Second div ph_StartRPS p))
        [0..<min q (slots (ph_Duration p) (Second div ph_StartRPS p))]"
proof -
  have v: "0 < ph_Duration p" "0 < ph_StartRPS p" "ph_StartRPS p \<le> Second" "ph_Duration p \<le> 2 ^ 62"
    using assms(1) by (auto simp: schedulable_def valid_phase_def)
  have "take q [0..<n] = [0..<min q n]" for n by (simp add: min_def)
  then show ?thesis using assms(2)
    by (simp add: runSchedule_def time_defs constant_arrivals[OF v(2,3,1,4)] arrivals_from_def take_map)
qed

lemma schedulable_rate:
  "schedulable p \<Longrightarrow>
   ph_StartRPS p * ph_Duration p \<le> Second * int (slots (ph_Duration p) (Second div ph_StartRPS p))"
  by (auto simp: schedulable_def valid_phase_def intro!: slots_rate)

lemma schedulable_interval: "schedulable p \<Longrightarrow> 0 < Second div ph_StartRPS p"
  using le_div_iff_int[of "ph_StartRPS p" 1 Second] by (auto simp: schedulable_def valid_phase_def)

definition demo_phase :: "string \<Rightarrow> LoadPhase" where
  "demo_phase pat = \<lparr>ph_Name = MeasurePhaseName, ph_Pattern = pat, ph_Duration = 2 * Second,
     ph_StartRPS = 2, ph_EndRPS = 6, ph_StepRPS = 3, ph_StepEvery = Second, ph_RecordStats = True\<rparr>"

lemma demo_slots: "slots 2000000000 1000000000 = 2" "slots 2000000000 500000000 = 4"
  by (simp_all add: slots_def)

lemma demo_schedulable: "pat \<in> {PatternConstant, PatternPoisson, PatternRamp, PatternStep} \<Longrightarrow> schedulable (demo_phase pat)"
  by (auto simp: schedulable_def valid_phase_def demo_phase_def demo_slots)

theorem runSchedule_well_timed_witness:
  "sorted (runSchedule (\<lambda>i. 1 / 2) 0 (demo_phase PatternPoisson) 100)
   \<and> set (runSchedule (\<lambda>i. 1 / 2) 0 (demo_phase PatternPoisson) 100) \<subseteq> {0..<2 * Second}"
  using runSchedule_well_timed[OF demo_schedulable, of PatternPoisson "\<lambda>i. 1 / 2" 0 100]
  by (simp add: demo_phase_def)

text \<open>A constant phase is exactly periodic: computed in floating point, its arrivals are the
  multiples of the integer interval \<open>Second div rps\<close> that fit the window, in order and without drift, cut
  short only by the context; left alone, the phase delivers at least the configured rate.\<close>

theorem constant_schedule:
  assumes "schedulable p" "ph_Pattern p = PatternConstant"
  shows "runSchedule draws t0 p q =
      map (\<lambda>k. t0 + int k * (Second div ph_StartRPS p))
        [0..<min q (slots (ph_Duration p) (Second div ph_StartRPS p))]
    \<and> (\<forall>k. k < slots (ph_Duration p) (Second div ph_StartRPS p)
           \<longleftrightarrow> int k * (Second div ph_StartRPS p) < ph_Duration p)
    \<and> ph_StartRPS p * ph_Duration p \<le> Second * int (slots (ph_Duration p) (Second div ph_StartRPS p))"
  using runSchedule_constant[OF assms] schedulable_rate[OF assms(1)] slots_iff[OF schedulable_interval[OF assms(1)]]
  by simp

theorem constant_schedule_witness:
  "runSchedule (\<lambda>i. 0) 0 (demo_phase PatternConstant) 3 = [0, 500000000, 1000000000]"
  using constant_schedule[OF demo_schedulable, of PatternConstant "\<lambda>i. 0" 0 3]
  by (simp add: demo_phase_def demo_slots upt_rec)

text \<open>C22. A step phase climbs as configured: although the number of plateaus is computed in floating
  point, every plateau that starts inside the window is played, plateau \<open>s\<close> at the rate
  \<open>startRPS + s * stepRPS\<close> from its own start on and clipped at the end of the phase; and the rate
  the worker pool is sized for is at least the rate of every plateau.\<close>

theorem step_schedule:
  assumes "schedulable p" "ph_Pattern p = PatternStep"
  shows "runSchedule draws t0 p q = take q (concat (map
        (plateau t0 (ph_Duration p) (ph_StartRPS p) (ph_StepRPS p) (ph_StepEvery p))
        [0..<slots (ph_Duration p) (ph_StepEvery p)]))
    \<and> (\<forall>s < slots (ph_Duration p) (ph_StepEvery p). ph_StartRPS p + int s * ph_StepRPS p \<le> peakRPS p)"
proof
  have v: "0 < ph_Duration p" "0 < ph_StartRPS p" "ph_Duration p \<le> 2 ^ 49" "0 < ph_StepRPS p" "0 < ph_StepEvery p"
    "ph_StepEvery p \<le> 2 ^ 49" "ph_StartRPS p + int (slots (ph_Duration p) (ph_StepEvery p)) * ph_StepRPS p \<le> Second"
    using assms by (auto simp: schedulable_def valid_phase_def)
  show "runSchedule draws t0 p q = take q (concat (map
        (plateau t0 (ph_Duration p) (ph_StartRPS p) (ph_StepRPS p) (ph_StepEvery p))
        [0..<slots (ph_Duration p) (ph_StepEvery p)]))"
    using assms(2) by (simp add: runSchedule_def time_defs emitStep_eq[OF v(2,4,5,6,1,3,7)])
  let ?c = "ph_Duration p div ph_StepEvery p"
  have "0 \<le> ?c" using v by (simp add: pos_imp_zdiv_nonneg_iff)
  have c: "?c \<le> int (slots (ph_Duration p) (ph_StepEvery p))"
    using v zdiv_mono1[of "ph_Duration p" "ph_Duration p + ph_StepEvery p - 1" "ph_StepEvery p"] by (simp add: slots_def)
  have "?c * ph_StepRPS p \<le> int (slots (ph_Duration p) (ph_StepEvery p)) * ph_StepRPS p"
    using c v by (intro mult_right_mono) auto
  moreover have "0 \<le> ?c * ph_StepRPS p" using v \<open>0 \<le> ?c\<close> by simp
  ultimately have "in_int64 (ph_StartRPS p + ?c * ph_StepRPS p)"
    using v(2,7) unfolding in_int64_def int_bounds by linarith
  then have peak: "peakRPS p = ph_StartRPS p + ?c * ph_StepRPS p"
    using assms by (intro peakRPS_step) (auto simp: schedulable_def)
  show "\<forall>s < slots (ph_Duration p) (ph_StepEvery p). ph_StartRPS p + int s * ph_StepRPS p \<le> peakRPS p"
  proof (intro allI impI)
    fix s assume "s < slots (ph_Duration p) (ph_StepEvery p)"
    then have "int s \<le> ?c" using slots_iff[OF v(5), of s "ph_Duration p"] v le_div_iff_int[OF v(5), of "int s" "ph_Duration p"] by simp
    then show "ph_StartRPS p + int s * ph_StepRPS p \<le> peakRPS p" using v by (simp add: peak)
  qed
qed

theorem step_schedule_witness:
  "runSchedule (\<lambda>i. 0) 0 (demo_phase PatternStep) 4 = [0, 500000000, 1000000000, 1200000000]
   \<and> peakRPS (demo_phase PatternStep) \<ge> 5"
  using step_schedule[OF demo_schedulable, of PatternStep "\<lambda>i. 0" 0 4]
  by (auto simp: demo_phase_def demo_slots upt_rec plateau_def arrivals_from_def slots_def
      peakRPS_def go_div_def wrap64_def)



end
