(* ===== verification/Worker_Pool.thy ===== *)
theory Worker_Pool
  imports Loadgen_Collector Loadgen_Schedule "HOL-Library.Multiset"
begin

text \<open>
  The goroutines of one phase, \<^verbatim>\<open>runPhase\<close> and \<^verbatim>\<open>worker\<close> in \<^verbatim>\<open>internal/loadgen/generator.go\<close> and
  the channel side of \<^verbatim>\<open>runSchedule\<close> in \<^verbatim>\<open>schedule.go\<close>: an emitter that fills a bounded channel, a
  pool of workers that empty it, and a context that may end at any moment. Each rule is one
  communication or one request; the rules are taken in any order the Go scheduler may choose, and
  where several branches of a \<^verbatim>\<open>select\<close> are ready any of them may be taken. The sequential model of
  a phase is the specification.
\<close>

section \<open>The pool\<close>

definition scheduleBuffer :: nat where "scheduleBuffer = 64"

text \<open>A worker waits in its \<^verbatim>\<open>select\<close>, holds a slot (between the receive and the end of \<^verbatim>\<open>do\<close>), or has
  returned.\<close>

datatype worker = Idle | Busy time | Exited

text \<open>The emitter's remaining arrivals, the channel, whether the emitter has closed it, whether the
  phase's context has ended, the workers and the collector they share; \<open>pl_served\<close> records, for the
  proofs, the requests in the order in which they left \<^verbatim>\<open>do\<close>.\<close>

record 'h pool =
  pl_todo :: "time list"
  pl_chan :: "time list"
  pl_closed :: bool
  pl_done :: bool
  pl_workers :: "worker list"
  pl_collector :: "'h collector"
  pl_served :: "request list"

definition pool_start :: "LoadgenConfig \<Rightarrow> time list \<Rightarrow> 'h collector \<Rightarrow> 'h pool" where
  "pool_start cfg sched c = \<lparr>pl_todo = sched, pl_chan = [], pl_closed = False, pl_done = False,
     pl_workers = replicate (nat (lc_Concurrency cfg)) Idle, pl_collector = c, pl_served = []\<rparr>"

text \<open>The three things an emitter does: send (its \<^verbatim>\<open>select\<close> may still choose to after the context has
  ended), return after its last arrival, return because the context has ended. Both returns close
  the channel.\<close>

inductive emitter_step :: "'h pool \<Rightarrow> 'h pool \<Rightarrow> bool" where
  send: "pl_todo s = t # ts \<Longrightarrow> \<not> pl_closed s \<Longrightarrow> length (pl_chan s) < scheduleBuffer \<Longrightarrow>
     emitter_step s (s\<lparr>pl_todo := ts, pl_chan := pl_chan s @ [t]\<rparr>)"
| exhausted: "pl_todo s = [] \<Longrightarrow> \<not> pl_closed s \<Longrightarrow> emitter_step s (s\<lparr>pl_closed := True\<rparr>)"
| cancelled: "pl_done s \<Longrightarrow> \<not> pl_closed s \<Longrightarrow> emitter_step s (s\<lparr>pl_closed := True\<rparr>)"

text \<open>Worker \<open>i\<close>: receive a slot, return on a closed and drained channel, return because the context
  has ended, or finish the request of its slot. A request can only have seen a context that has
  ended by then.\<close>

inductive worker_step :: "'h hdr_ops \<Rightarrow> LoadPhase \<Rightarrow> nat \<Rightarrow> 'h pool \<Rightarrow> 'h pool \<Rightarrow> bool" for H p i where
  receive: "pl_workers s ! i = Idle \<Longrightarrow> pl_chan s = t # ts \<Longrightarrow>
     worker_step H p i s (s\<lparr>pl_chan := ts, pl_workers := (pl_workers s)[i := Busy t]\<rparr>)"
| drained: "pl_workers s ! i = Idle \<Longrightarrow> pl_chan s = [] \<Longrightarrow> pl_closed s \<Longrightarrow>
     worker_step H p i s (s\<lparr>pl_workers := (pl_workers s)[i := Exited]\<rparr>)"
| stopped: "pl_workers s ! i = Idle \<Longrightarrow> pl_done s \<Longrightarrow>
     worker_step H p i s (s\<lparr>pl_workers := (pl_workers s)[i := Exited]\<rparr>)"
| served: "pl_workers s ! i = Busy (req_slot r) \<Longrightarrow> req_cancelled_waiting r \<or> req_ctx_done r \<longrightarrow> pl_done s \<Longrightarrow>
     worker_step H p i s (s\<lparr>pl_workers := (pl_workers s)[i := Idle], pl_collector := gen_do H p r (pl_collector s),
       pl_served := pl_served s @ [r]\<rparr>)"

inductive pool_step :: "'h hdr_ops \<Rightarrow> LoadPhase \<Rightarrow> 'h pool \<Rightarrow> 'h pool \<Rightarrow> bool" for H p where
  emitter: "emitter_step s s' \<Longrightarrow> pool_step H p s s'"
| worker: "i < length (pl_workers s) \<Longrightarrow> worker_step H p i s s' \<Longrightarrow> pool_step H p s s'"
| expire: "\<not> pl_done s \<Longrightarrow> pool_step H p s (s\<lparr>pl_done := True\<rparr>)"

text \<open>\<^verbatim>\<open>wg.Wait\<close> returns when every worker has.\<close>

definition pool_finished :: "'h pool \<Rightarrow> bool" where
  "pool_finished s \<longleftrightarrow> list_all (\<lambda>w. w = Exited) (pl_workers s)"

abbreviation pool_run :: "'h hdr_ops \<Rightarrow> LoadPhase \<Rightarrow> nat \<Rightarrow> 'h pool \<Rightarrow> 'h pool \<Rightarrow> bool" where
  "pool_run H p n \<equiv> pool_step H p ^^ n"

section \<open>Invariant\<close>

text \<open>Updating one element of a list changes a sum over it by that element's share.\<close>

lemma sum_list_update_comm:
  fixes f :: "'a \<Rightarrow> 'b::comm_monoid_add"
  assumes "i < length xs"
  shows "sum_list (map f (xs[i := x])) + f (xs ! i) = sum_list (map f xs) + f x"
proof -
  have "sum_list (map f xs) = sum_list (map f (take i xs)) + (f (xs ! i) + sum_list (map f (drop (Suc i) xs)))"
    by (subst id_take_nth_drop[OF assms]) simp
  then show ?thesis by (simp add: upd_conv_take_nth_drop[OF assms] ac_simps)
qed

fun held :: "worker \<Rightarrow> time multiset" where
  "held (Busy t) = {#t#}"
| "held _ = {#}"

definition in_flight :: "worker list \<Rightarrow> time multiset" where
  "in_flight ws = sum_list (map held ws)"

lemma in_flight_update:
  "i < length ws \<Longrightarrow> in_flight (ws[i := w]) + held (ws ! i) = in_flight ws + held w"
  unfolding in_flight_def by (rule sum_list_update_comm)

lemma in_flight_idle [simp]: "in_flight (replicate n Idle) = {#}"
  unfolding in_flight_def by (induction n) auto

lemma in_flight_finished: "list_all (\<lambda>w. w = Exited) ws \<Longrightarrow> in_flight ws = {#}"
  unfolding in_flight_def by (induction ws) auto

text \<open>Every arrival is in exactly one place: served, held by a worker, in the channel, or still to be
  sent, and the last two in the order of the schedule. The collector has seen the served requests in order. As
  long as the context lives nothing is cancelled, the channel is closed only after the last arrival, and a worker
  returns only once it is drained.\<close>

definition pool_inv :: "'h hdr_ops \<Rightarrow> LoadPhase \<Rightarrow> time list \<Rightarrow> 'h collector \<Rightarrow> 'h pool \<Rightarrow> bool" where
  "pool_inv H p sched c s \<longleftrightarrow>
     (\<exists>taken. sched = taken @ pl_chan s @ pl_todo s
        \<and> mset taken = mset (map req_slot (pl_served s)) + in_flight (pl_workers s))
     \<and> pl_collector s = foldl (\<lambda>c r. gen_do H p r c) c (pl_served s)
     \<and> length (pl_chan s) \<le> scheduleBuffer
     \<and> (pl_done s \<or> (pl_closed s \<longrightarrow> pl_todo s = [])
          \<and> list_all (\<lambda>r. \<not> req_cancelled_waiting r \<and> \<not> req_ctx_done r) (pl_served s)
          \<and> (Exited \<in> set (pl_workers s) \<longrightarrow> pl_closed s \<and> pl_chan s = []))"

lemma pool_inv_start: "pool_inv H p sched c (pool_start cfg sched c)"
  by (auto simp: pool_inv_def pool_start_def)

lemma emitter_inv: "emitter_step s s' \<Longrightarrow> pool_inv H p sched c s \<Longrightarrow> pool_inv H p sched c s'"
  by (induction rule: emitter_step.induct) (auto simp: pool_inv_def)

lemma worker_inv:
  assumes "worker_step H p i s s'" "i < length (pl_workers s)" "pool_inv H p sched c s"
  shows "pool_inv H p sched c s'"
  using assms
proof (induction rule: worker_step.induct)
  case (receive s t ts)
  then obtain taken where "sched = taken @ t # ts @ pl_todo s"
      "mset taken = mset (map req_slot (pl_served s)) + in_flight (pl_workers s)"
    by (auto simp: pool_inv_def)
  moreover have "in_flight ((pl_workers s)[i := Busy t]) = in_flight (pl_workers s) + {#t#}"
    using in_flight_update[OF receive(3), of "Busy t"] receive(1) by simp
  ultimately have "sched = (taken @ [t]) @ ts @ pl_todo s
      \<and> mset (taken @ [t]) = mset (map req_slot (pl_served s)) + in_flight ((pl_workers s)[i := Busy t])"
    by simp
  then show ?case
    using receive(2,4) set_update_subset_insert[of "pl_workers s" i "Busy t"] by (auto simp: pool_inv_def)
next
  case (drained s)
  then show ?case using in_flight_update[OF drained(4), of Exited] by (auto simp: pool_inv_def)
next
  case (stopped s)
  then show ?case using in_flight_update[OF stopped(3), of Exited] by (auto simp: pool_inv_def)
next
  case (served s r)
  have "in_flight (pl_workers s) = in_flight ((pl_workers s)[i := Idle]) + {#req_slot r#}"
    using in_flight_update[OF served(3), of Idle] served(1) by simp
  then show ?case
    using served(2,4) set_update_subset_insert[of "pl_workers s" i Idle] by (auto simp: pool_inv_def ac_simps)
qed

lemma pool_inv_step: "pool_step H p s s' \<Longrightarrow> pool_inv H p sched c s \<Longrightarrow> pool_inv H p sched c s'"
proof (induction rule: pool_step.induct)
  case (expire s)
  then show ?case unfolding pool_inv_def by simp
qed (blast intro: emitter_inv worker_inv)+

lemma pool_inv_run: "pool_run H p n (pool_start cfg sched c) s \<Longrightarrow> pool_inv H p sched c s"
  by (induction n arbitrary: s) (auto intro: pool_inv_step pool_inv_start)

lemma pool_workers_length: "pool_run H p n s s' \<Longrightarrow> length (pl_workers s') = length (pl_workers s)"
proof (induction n arbitrary: s')
  case (Suc n)
  then obtain t where t: "pool_run H p n s t" "pool_step H p t s'" by auto
  from t(2) have "length (pl_workers s') = length (pl_workers t)"
    by cases (auto elim: emitter_step.cases worker_step.cases)
  with Suc.IH[OF t(1)] show ?case by simp
qed simp

section \<open>Termination\<close>

text \<open>Every step uses up part of a budget that is fixed at the start.\<close>

fun worker_weight :: "worker \<Rightarrow> nat" where
  "worker_weight Idle = 1"
| "worker_weight (Busy _) = 2"
| "worker_weight Exited = 0"

definition pool_budget :: "'h pool \<Rightarrow> nat" where
  "pool_budget s = 3 * length (pl_todo s) + 2 * length (pl_chan s) + (if pl_closed s then 0 else 1)
     + (if pl_done s then 0 else 1) + sum_list (map worker_weight (pl_workers s))"

lemma pool_budget_start: "pool_budget (pool_start cfg sched c) = 3 * length sched + 2 + nat (lc_Concurrency cfg)"
  by (simp add: pool_budget_def pool_start_def sum_list_replicate map_replicate)

lemma worker_budget:
  assumes "worker_step H p i s s'" "i < length (pl_workers s)"
  shows "pool_budget s' < pool_budget s"
  using assms
proof (induction rule: worker_step.induct)
  case (receive s t ts)
  then show ?case using sum_list_update_comm[OF receive(3), of worker_weight "Busy t"] by (simp add: pool_budget_def)
next
  case (drained s)
  then show ?case using sum_list_update_comm[OF drained(4), of worker_weight Exited] by (simp add: pool_budget_def)
next
  case (stopped s)
  then show ?case using sum_list_update_comm[OF stopped(3), of worker_weight Exited] by (simp add: pool_budget_def)
next
  case (served s r)
  then show ?case using sum_list_update_comm[OF served(3), of worker_weight Idle] by (simp add: pool_budget_def)
qed

lemma emitter_budget: "emitter_step s s' \<Longrightarrow> pool_budget s' < pool_budget s"
  by (induction rule: emitter_step.induct) (simp_all add: pool_budget_def)

lemma pool_budget_step: "pool_step H p s s' \<Longrightarrow> pool_budget s' < pool_budget s"
proof (induction rule: pool_step.induct)
  case (expire s)
  then show ?case by (simp add: pool_budget_def)
qed (blast intro: emitter_budget worker_budget)+

lemma pool_budget_run: "pool_run H p n s s' \<Longrightarrow> pool_budget s' + n \<le> pool_budget s"
proof (induction n arbitrary: s')
  case (Suc n)
  then obtain t where "pool_run H p n s t" "pool_step H p t s'" by auto
  with Suc.IH[of t] pool_budget_step[of H p t s'] show ?case by simp
qed simp

text \<open>A busy worker can always finish; an idle one can receive, or return from a drained channel; and
  while the channel is empty and open the emitter can send or close it.\<close>

lemma pool_progress:
  assumes "\<not> pool_finished s"
  shows "\<exists>s'. pool_step H p s s'"
proof -
  obtain i where i: "i < length (pl_workers s)" "pl_workers s ! i \<noteq> Exited"
    using assms by (auto simp: pool_finished_def list_all_length)
  show ?thesis
  proof (cases "pl_workers s ! i")
    case (Busy t)
    then have "pl_workers s ! i = Busy (req_slot \<lparr>req_slot = t, req_cancelled_waiting = False, req_answer = (200, None),
        req_completion = t, req_ctx_done = False\<rparr>)" by simp
    from worker_step.served[OF this, of H p] show ?thesis using pool_step.worker[OF i(1)] by auto
  next
    case Idle
    consider t ts where "pl_chan s = t # ts" | "pl_chan s = []" "pl_closed s" | "pl_chan s = []" "\<not> pl_closed s"
      by (cases "pl_chan s") auto
    then show ?thesis
    proof cases
      case 3
      then have "\<exists>s'. emitter_step s s'"
        using emitter_step.send[of s] emitter_step.exhausted[of s] by (cases "pl_todo s") (auto simp: scheduleBuffer_def)
      then show ?thesis by (blast intro: pool_step.emitter)
    qed (use Idle i in \<open>auto intro: pool_step.worker worker_step.intros\<close>)
  qed (use i in simp)
qed

text \<open>One worker and one arrival: it is sent, received and served, the channel is closed, the worker
  returns.\<close>

definition one_worker :: LoadgenConfig where
  "one_worker = demo_config\<lparr>lc_Concurrency := 1\<rparr>"

definition one_arrival :: "'h collector \<Rightarrow> 'h pool" where
  "one_arrival c = \<lparr>pl_todo = [], pl_chan = [], pl_closed = True, pl_done = False, pl_workers = [Exited],
     pl_collector = c, pl_served = [demo_request 200 5]\<rparr>"

lemma one_arrival_run:
  "pool_run H p 5 (pool_start one_worker [5] c) (one_arrival (gen_do H p (demo_request 200 5) c))"
proof -
  let ?st = "\<lambda>td ch cl w c rs. \<lparr>pl_todo = td, pl_chan = ch, pl_closed = cl, pl_done = False, pl_workers = [w],
      pl_collector = c, pl_served = rs\<rparr>"
  let ?c = "gen_do H p (demo_request 200 5) c" and ?r = "demo_request 200 5"
  have "pool_step H p (?st [5] [] False Idle c []) (?st [] [5] False Idle c [])"
    using pool_step.emitter[OF emitter_step.send[of "?st [5] [] False Idle c []" 5 "[]"]] by (simp add: scheduleBuffer_def)
  moreover have "pool_step H p (?st [] [5] False Idle c []) (?st [] [] False (Busy 5) c [])"
    using pool_step.worker[OF _ worker_step.receive[of "?st [] [5] False Idle c []" 0 5 "[]" H p]] by simp
  moreover have "pool_step H p (?st [] [] False (Busy 5) c []) (?st [] [] False Idle ?c [?r])"
    using pool_step.worker[OF _ worker_step.served[of "?st [] [] False (Busy 5) c []" 0 ?r H p]] by (simp add: demo_request_def)
  moreover have "pool_step H p (?st [] [] False Idle ?c [?r]) (?st [] [] True Idle ?c [?r])"
    using pool_step.emitter[OF emitter_step.exhausted[of "?st [] [] False Idle ?c [?r]"]] by simp
  moreover have "pool_step H p (?st [] [] True Idle ?c [?r]) (?st [] [] True Exited ?c [?r])"
    using pool_step.worker[OF _ worker_step.drained[of "?st [] [] True Idle ?c [?r]" 0 H p]] by simp
  moreover have "pool_start one_worker [5] c = ?st [5] [] False Idle c []" by (simp add: pool_start_def one_worker_def)
  ultimately show ?thesis
    unfolding one_arrival_def numeral_nat relpowp.simps(2) by (auto simp: OO_def)
qed

text \<open>When all workers have returned, the served requests account for the schedule.\<close>

lemma pool_run_served:
  assumes "pool_run H p n (pool_start cfg sched c) s" "pool_finished s" "0 < lc_Concurrency cfg"
  shows "\<exists>rs. pl_collector s = foldl (\<lambda>c r. gen_do H p r c) c rs
    \<and> mset (map req_slot rs) \<subseteq># mset sched
    \<and> (pl_done s \<or> mset (map req_slot rs) = mset sched \<and> list_all (\<lambda>r. recorded p r = ph_RecordStats p) rs)"
proof -
  note inv = pool_inv_run[OF assms(1)]
  obtain taken where t: "sched = taken @ pl_chan s @ pl_todo s" "mset taken = mset (map req_slot (pl_served s))"
    using inv in_flight_finished assms(2) by (auto simp: pool_inv_def pool_finished_def)
  have ne: "pl_workers s \<noteq> []"
    using pool_workers_length[OF assms(1)] assms(3) by (auto simp: pool_start_def)
  then have "Exited \<in> set (pl_workers s)" using assms(2) by (cases "pl_workers s") (auto simp: pool_finished_def)
  then have live: "pl_done s \<or> pl_chan s = [] \<and> pl_todo s = []
      \<and> list_all (\<lambda>r. \<not> req_cancelled_waiting r \<and> \<not> req_ctx_done r) (pl_served s)"
    using inv by (auto simp: pool_inv_def)
  have "list_all (\<lambda>r. recorded p r = ph_RecordStats p) (pl_served s)"
    if "list_all (\<lambda>r. \<not> req_cancelled_waiting r \<and> \<not> req_ctx_done r) (pl_served s)"
    using that by (rule list.pred_mono_strong) (simp add: recorded_def)
  moreover have "mset (map req_slot (pl_served s)) \<subseteq># mset sched" using t by (metis mset_append mset_subset_eq_add_left)
  ultimately show ?thesis
    using inv live t by (intro exI[of _ "pl_served s"]) (auto simp: pool_inv_def)
qed

text \<open>What a phase adds to the count of sent requests.\<close>

lemma c_sent_gen_do: "c_sent (gen_do H p r c) = c_sent c + (if recorded p r then 1 else 0)"
  by (auto simp: gen_do_def recorded_def recordError_def recordStatus_def Let_def split: prod.splits)

lemma c_sent_served:
  "c_sent (foldl (\<lambda>c r. gen_do H p r c) c rs) = c_sent c + length (filter (recorded p) rs)"
  by (induction rs arbitrary: c) (simp_all add: c_sent_gen_do)

lemma pool_sent:
  assumes "pool_run H p n (pool_start cfg sched c) s" "pool_finished s" "0 < lc_Concurrency cfg"
  shows "c_sent (pl_collector s) \<le> c_sent c + length sched
    \<and> (\<not> pl_done s \<longrightarrow> ph_RecordStats p \<longrightarrow> c_sent (pl_collector s) = c_sent c + length sched)"
proof -
  obtain rs where rs: "pl_collector s = foldl (\<lambda>c r. gen_do H p r c) c rs" "mset (map req_slot rs) \<subseteq># mset sched"
    "pl_done s \<or> mset (map req_slot rs) = mset sched \<and> list_all (\<lambda>r. recorded p r = ph_RecordStats p) rs"
    using pool_run_served[OF assms] by blast
  have "length rs \<le> length sched" using size_mset_mono[OF rs(2)] by simp
  moreover have "length rs = length sched" if "\<not> pl_done s"
    using rs(3) that by (metis length_map size_mset)
  moreover have "filter (recorded p) rs = rs" if "\<not> pl_done s" "ph_RecordStats p"
    using rs(3) that by (auto simp: filter_id_conv list_all_iff)
  moreover have "length (filter (recorded p) rs) \<le> length rs" by simp
  ultimately show ?thesis
    by (simp add: rs(1) c_sent_served del: length_filter_le)
qed

section \<open>Properties\<close>

text \<open>C27. The worker pool implements the sequential model of a phase, whatever the scheduler does: when all
  workers have returned, the collector is the one that model computes from some list of requests;
  no arrival was dispatched twice and none that the schedule does not hold; and if the context did not
  end, every arrival of the schedule was dispatched exactly once and recorded.\<close>

theorem worker_pool_refines:
  assumes "pool_run H p n (pool_start cfg sched (beginPhase p t0 c)) s" "pool_finished s" "0 < lc_Concurrency cfg"
  shows "\<exists>rs. endPhase t1 (pl_collector s) =
        runPhase H cfg p \<lparr>pe_ctx_done = False, pe_started = t0, pe_ended = t1, pe_requests = rs\<rparr> c
    \<and> mset (map req_slot rs) \<subseteq># mset sched
    \<and> (pl_done s \<or> mset (map req_slot rs) = mset sched \<and> list_all (\<lambda>r. recorded p r = ph_RecordStats p) rs)"
proof -
  obtain rs where "pl_collector s = foldl (\<lambda>c r. gen_do H p r c) (beginPhase p t0 c) rs"
    "mset (map req_slot rs) \<subseteq># mset sched"
    "pl_done s \<or> mset (map req_slot rs) = mset sched \<and> list_all (\<lambda>r. recorded p r = ph_RecordStats p) rs"
    using pool_run_served[OF assms] by blast
  with assms(3) show ?thesis by (intro exI[of _ rs]) (auto simp: runPhase_def Let_def)
qed

theorem worker_pool_refines_witness:
  "\<exists>rs. endPhase 9 (pl_collector (one_arrival (gen_do demo_hdr (demo_phase PatternConstant) (demo_request 200 5)
        (beginPhase (demo_phase PatternConstant) 0 (newCollector demo_hdr))))) =
      runPhase demo_hdr one_worker (demo_phase PatternConstant)
        \<lparr>pe_ctx_done = False, pe_started = 0, pe_ended = 9, pe_requests = rs\<rparr> (newCollector demo_hdr)
    \<and> mset (map req_slot rs) = {#5#}"
proof -
  let ?p = "demo_phase PatternConstant"
  let ?c = "beginPhase ?p 0 (newCollector demo_hdr)"
  have fin: "pool_finished (one_arrival (gen_do demo_hdr ?p (demo_request 200 5) ?c))" "0 < lc_Concurrency one_worker"
      "\<not> pl_done (one_arrival (gen_do demo_hdr ?p (demo_request 200 5) ?c))"
    by (simp_all add: pool_finished_def one_arrival_def one_worker_def)
  from worker_pool_refines[OF one_arrival_run fin(1,2), of 9] fin(3) show ?thesis by auto
qed

text \<open>C29. The pool never hangs: an execution of a phase with a given schedule takes at most three steps
  for each arrival, one for each worker and two more, and in every state in which some worker has
  not returned another step is possible; so every execution ends with all workers returned.\<close>

theorem worker_pool_terminates:
  assumes "pool_run H p n (pool_start cfg sched c) s"
  shows "n \<le> 3 * length sched + 2 + nat (lc_Concurrency cfg) \<and> (pool_finished s \<or> (\<exists>s'. pool_step H p s s'))"
  using pool_budget_run[OF assms] pool_progress[of s H p] by (auto simp: pool_budget_start)

theorem worker_pool_terminates_witness:
  "5 \<le> 3 * length [5 :: time] + 2 + nat (lc_Concurrency one_worker)"
  using worker_pool_terminates[OF one_arrival_run[of demo_hdr "demo_phase PatternConstant" "newCollector demo_hdr"]] by blast

text \<open>C28. The load a constant phase delivers, from the schedule through the channel and the workers to the
  collector: the pool never sends more than the arrivals that fit the window, whatever the scheduler does and whenever
  the context ends; and a measured phase whose context did not end before its last request has sent all of
  them, at least the configured rate times the duration.\<close>

theorem constant_load_delivered:
  assumes "schedulable p" "ph_Pattern p = PatternConstant"
    and "pool_run H p n (pool_start cfg (runSchedule draws t0 p q) (beginPhase p t0 c)) s" "pool_finished s"
    and "0 < lc_Concurrency cfg" "slots (ph_Duration p) (Second div ph_StartRPS p) \<le> q"
  shows "c_sent (pl_collector s) \<le> c_sent c + slots (ph_Duration p) (Second div ph_StartRPS p)
    \<and> (\<not> pl_done s \<and> ph_RecordStats p \<longrightarrow>
         c_sent (pl_collector s) = c_sent c + slots (ph_Duration p) (Second div ph_StartRPS p)
         \<and> ph_StartRPS p * ph_Duration p \<le> Second * (int (c_sent (pl_collector s)) - int (c_sent c)))"
proof -
  have len: "length (runSchedule draws t0 p q) = slots (ph_Duration p) (Second div ph_StartRPS p)"
    using runSchedule_constant[OF assms(1,2)] assms(6) by simp
  have "c_sent (beginPhase p t0 c) = c_sent c" by (simp add: beginPhase_def)
  then show ?thesis using pool_sent[OF assms(3-5)] schedulable_rate[OF assms(1)] by (simp add: len)
qed

definition one_per_second :: LoadPhase where
  "one_per_second = (demo_phase PatternConstant)\<lparr>ph_Duration := Second, ph_StartRPS := 1\<rparr>"

lemma one_per_second_slots: "slots 1000000000 1000000000 = 1"
  by (simp add: slots_def)

lemma one_per_second_schedulable: "schedulable one_per_second"
  by (simp add: one_per_second_def demo_phase_def schedulable_def valid_phase_def)

theorem constant_load_delivered_witness:
  "c_sent (gen_do demo_hdr one_per_second (demo_request 200 5)
     (beginPhase one_per_second 5 (newCollector demo_hdr))) = 1"
proof -
  let ?c = "beginPhase one_per_second 5 (newCollector demo_hdr)"
  let ?s = "one_arrival (gen_do demo_hdr one_per_second (demo_request 200 5) ?c)"
  have p: "ph_Pattern one_per_second = PatternConstant" "ph_RecordStats one_per_second"
      "slots (ph_Duration one_per_second) (Second div ph_StartRPS one_per_second) = 1"
    by (simp_all add: one_per_second_def demo_phase_def one_per_second_slots)
  have "runSchedule (\<lambda>i. 0) 5 one_per_second 1 = [5]"
    by (simp add: runSchedule_constant one_per_second_schedulable p)
  then have run: "pool_run demo_hdr one_per_second 5
      (pool_start one_worker (runSchedule (\<lambda>i. 0) 5 one_per_second 1) ?c) ?s"
    using one_arrival_run by simp
  have fin: "pool_finished ?s" "0 < lc_Concurrency one_worker" "\<not> pl_done ?s"
    by (simp_all add: pool_finished_def one_arrival_def one_worker_def)
  have "c_sent (pl_collector ?s) = c_sent (newCollector demo_hdr) + 1"
    using constant_load_delivered[OF one_per_second_schedulable p(1) run fin(1,2)] fin(3) p by simp
  then show ?thesis by (simp add: one_arrival_def newCollector_def)
qed

end
