(* ===== verification/Loadgen_Cmd.thy ===== *)
theory Loadgen_Cmd
  imports Job_Builder
begin

text \<open>
  The load generator's command, \<^verbatim>\<open>cmd/loadgen/main.go\<close>, and \<^verbatim>\<open>loadgen.New\<close>: the flags it
  registers, the configuration it makes of them, and its run. The flag library is the parameter
  \<open>Parse\<close>; \<open>pflag_law\<close> states the documented reading of \<^verbatim>\<open>--name value\<close> and boolean
  \<^verbatim>\<open>--name\<close> arguments. A duration and a phase list stay symbolic between the two processes: the
  one is printed by \<^verbatim>\<open>Duration.String\<close> and read by \<^verbatim>\<open>ParseDuration\<close>, the other is JSON on both
  sides.
\<close>

section \<open>Flags\<close>

datatype flag_kind = KString | KStrings | KInt | KDuration | KBool

datatype flag_val = FString string | FStrings "string list" | FInt int | FDuration duration | FBool bool
  | FJSON "LoadPhase list"

text \<open>The value of \<^verbatim>\<open>--phases\<close>: empty, a JSON phase list, or text that is no such list.\<close>

datatype phases_text = NoPhases | PhasesText "LoadPhase list" | NotPhases string

record opts =
  o_url :: string
  o_method :: string
  o_headers :: "string list"
  o_rps :: int
  o_duration :: duration
  o_concurrency :: int
  o_connectionMode :: string
  o_timeout :: duration
  o_targetMode :: string
  o_networkPath :: string
  o_resultFile :: string
  o_tlsInsecure :: bool
  o_tlsCABundle :: string
  o_phasesJSON :: phases_text
  o_protocol :: string
  o_grpcService :: string

definition loadgen_flags :: "(string \<times> flag_kind) list" where
  "loadgen_flags =
     [(''url'', KString), (''method'', KString), (''header'', KStrings), (''rps'', KInt), (''duration'', KDuration),
      (''concurrency'', KInt), (''connection-mode'', KString), (''timeout'', KDuration), (''target-mode'', KString),
      (''network-path'', KString), (''result-file'', KString), (''tls-insecure-skip-verify'', KBool),
      (''tls-ca-bundle'', KString), (''phases'', KString), (''protocol'', KString), (''grpc-service'', KString)]"

fun string_flag :: "flag_val option \<Rightarrow> string \<Rightarrow> string" where
  "string_flag (Some (FString s)) d = s"
| "string_flag _ d = d"

fun int_flag :: "flag_val option \<Rightarrow> int \<Rightarrow> int" where
  "int_flag (Some (FInt i)) d = i"
| "int_flag _ d = d"

fun duration_flag :: "flag_val option \<Rightarrow> duration \<Rightarrow> duration" where
  "duration_flag (Some (FDuration x)) d = x"
| "duration_flag _ d = d"

fun phases_flag :: "flag_val option \<Rightarrow> phases_text" where
  "phases_flag (Some (FJSON ps)) = PhasesText ps"
| "phases_flag (Some (FString s)) = (if s = [] then NoPhases else NotPhases s)"
| "phases_flag _ = NoPhases"

definition opts_of :: "(string \<Rightarrow> flag_val option) \<Rightarrow> opts" where
  "opts_of m = \<lparr>o_url = string_flag (m ''url'') [], o_method = string_flag (m ''method'') ''GET'',
     o_headers = (case m ''header'' of Some (FStrings hs) \<Rightarrow> hs | _ \<Rightarrow> []), o_rps = int_flag (m ''rps'') 0,
     o_duration = duration_flag (m ''duration'') 0, o_concurrency = int_flag (m ''concurrency'') 0,
     o_connectionMode = string_flag (m ''connection-mode'') [], o_timeout = duration_flag (m ''timeout'') (5 * Second),
     o_targetMode = string_flag (m ''target-mode'') [], o_networkPath = string_flag (m ''network-path'') [],
     o_resultFile = string_flag (m ''result-file'') [], o_tlsInsecure = (m ''tls-insecure-skip-verify'' = Some (FBool True)),
     o_tlsCABundle = string_flag (m ''tls-ca-bundle'') [], o_phasesJSON = phases_flag (m ''phases''),
     o_protocol = string_flag (m ''protocol'') [], o_grpcService = string_flag (m ''grpc-service'') []\<rparr>"

section \<open>Headers\<close>

fun header_loop :: "(string \<times> string) list \<Rightarrow> string list \<Rightarrow> string + (string \<times> string) list" where
  "header_loop m [] = Inr m"
| "header_loop m (h # hs) =
     (case Cut h CHR '':'' of
        None \<Rightarrow> Inl h
      | Some (k, v) \<Rightarrow> header_loop ((TrimSpace k, TrimSpace v) # filter (\<lambda>(k', _). k' \<noteq> TrimSpace k) m) hs)"

definition parseHeaders :: "string list \<Rightarrow> string + (string \<times> string) list" where
  "parseHeaders raw = (if raw = [] then Inr [] else header_loop [] raw)"

section \<open>The run\<close>

datatype cmd_error =
    FlagError
  | RequiredFlag
  | BadHeader string
  | ParsePhases string
  | MissingLoad
  | NewGenerator config_error
  | BuildClient client_error
  | EncodeResult
  | WriteStdout
  | WriteResultFile string

datatype cmd_effect = Stdout LoadResult | WriteFile string LoadResult

definition cmd_config :: "opts \<Rightarrow> cmd_error + LoadgenConfig" where
  "cmd_config opt =
     (case parseHeaders (o_headers opt) of
        Inl h \<Rightarrow> Inl (BadHeader h)
      | Inr headers \<Rightarrow>
          let cfg = \<lparr>lc_URL = o_url opt, lc_Method = o_method opt, lc_Headers = headers, lc_TargetRPS = o_rps opt,
                lc_Duration = o_duration opt, lc_Concurrency = o_concurrency opt, lc_ConnectionMode = o_connectionMode opt,
                lc_Timeout = o_timeout opt, lc_TargetMode = o_targetMode opt, lc_NetworkPath = o_networkPath opt,
                lc_TLSInsecureSkipVerify = o_tlsInsecure opt, lc_TLSCABundlePath = o_tlsCABundle opt,
                lc_Protocol = o_protocol opt, lc_GRPCService = o_grpcService opt, lc_Phases = []\<rparr>
          in case o_phasesJSON opt of
               NotPhases s \<Rightarrow> Inl (ParsePhases s)
             | PhasesText ps \<Rightarrow> Inr (cfg\<lparr>lc_Phases := ps\<rparr>)
             | NoPhases \<Rightarrow> if o_rps opt = 0 \<or> o_duration opt = 0 then Inl MissingLoad else Inr cfg)"

definition gen_New ::
  "(string \<Rightarrow> (string \<times> string) option) \<Rightarrow> (string \<Rightarrow> string \<Rightarrow> bool) \<Rightarrow> (string \<Rightarrow> string option) \<Rightarrow> (string \<Rightarrow> bool) \<Rightarrow>
   LoadgenConfig \<Rightarrow> cmd_error + LoadgenConfig \<times> client_kind" where
  "gen_New url_Parse http_NewRequest read_file has_pem cfg =
     (case config_Validate url_Parse http_NewRequest cfg of
        Some err \<Rightarrow> Inl (NewGenerator err)
      | None \<Rightarrow>
          let cfg = withDefaults cfg in
          case newProtocolClient url_Parse read_file has_pem cfg of
            Inl err \<Rightarrow> Inl (BuildClient err)
          | Inr client \<Rightarrow> Inr (cfg, client))"

text \<open>\<^verbatim>\<open>g.Run\<close> is the parameter \<open>run_gen\<close> (its model is \<open>gen_Run\<close>); \<open>out_ok\<close> and \<open>file_ok\<close> say
  whether the two writes succeed. Encoding a result cannot fail.\<close>

definition cmd_run ::
  "(LoadgenConfig \<Rightarrow> cmd_error + LoadgenConfig \<times> client_kind) \<Rightarrow> (LoadgenConfig \<times> client_kind \<Rightarrow> LoadResult) \<Rightarrow>
   bool \<Rightarrow> (string \<Rightarrow> bool) \<Rightarrow> opts \<Rightarrow> cmd_effect list \<times> (cmd_error option)" where
  "cmd_run new run_gen out_ok file_ok opt =
     (case cmd_config opt of
        Inl err \<Rightarrow> ([], Some err)
      | Inr cfg \<Rightarrow>
          (case new cfg of
             Inl err \<Rightarrow> ([], Some err)
           | Inr g \<Rightarrow>
               let result = run_gen g in
               if \<not> out_ok then ([], Some WriteStdout)
               else if o_resultFile opt = [] then ([Stdout result], None)
               else if \<not> file_ok (o_resultFile opt) then ([Stdout result], Some (WriteResultFile (o_resultFile opt)))
               else ([Stdout result, WriteFile (o_resultFile opt) result], None)))"

text \<open>\<^verbatim>\<open>main\<close>: the library rejects unknown or malformed flags, and the absence of a required one.\<close>

definition cmd_main ::
  "((string \<times> flag_kind) list \<Rightarrow> arg list \<Rightarrow> (string \<Rightarrow> flag_val option) option) \<Rightarrow>
   (opts \<Rightarrow> cmd_effect list \<times> (cmd_error option)) \<Rightarrow> arg list \<Rightarrow> cmd_effect list \<times> (cmd_error option)" where
  "cmd_main Parse run args =
     (case Parse loadgen_flags args of
        None \<Rightarrow> ([], Some FlagError)
      | Some m \<Rightarrow>
          if m ''url'' = None \<or> m ''connection-mode'' = None then ([], Some RequiredFlag) else run (opts_of m))"

section \<open>The flag library\<close>

datatype flag_item = StrItem string string | IntItem string int | DurItem string duration | BoolItem string | JSONItem string "LoadPhase list"

fun render_item :: "flag_item \<Rightarrow> arg list" where
  "render_item (StrItem n s) = [A (''--'' @ n), A s]"
| "render_item (IntItem n i) = [A (''--'' @ n), A (itoa i)]"
| "render_item (DurItem n d) = [A (''--'' @ n), ADur d]"
| "render_item (BoolItem n) = [A (''--'' @ n)]"
| "render_item (JSONItem n ps) = [A (''--'' @ n), APhases ps]"

fun item_binding :: "flag_item \<Rightarrow> string \<times> flag_val" where
  "item_binding (StrItem n s) = (n, FString s)"
| "item_binding (IntItem n i) = (n, FInt i)"
| "item_binding (DurItem n d) = (n, FDuration d)"
| "item_binding (BoolItem n) = (n, FBool True)"
| "item_binding (JSONItem n ps) = (n, FJSON ps)"

fun item_ok :: "(string \<times> flag_kind) list \<Rightarrow> flag_item \<Rightarrow> bool" where
  "item_ok flags (StrItem n s) \<longleftrightarrow> map_of flags n = Some KString"
| "item_ok flags (IntItem n i) \<longleftrightarrow> map_of flags n = Some KInt \<and> in_int64 i"
| "item_ok flags (DurItem n d) \<longleftrightarrow> map_of flags n = Some KDuration"
| "item_ok flags (BoolItem n) \<longleftrightarrow> map_of flags n = Some KBool"
| "item_ok flags (JSONItem n ps) \<longleftrightarrow> map_of flags n = Some KString"

definition pflag_law :: "((string \<times> flag_kind) list \<Rightarrow> arg list \<Rightarrow> (string \<Rightarrow> flag_val option) option) \<Rightarrow> bool" where
  "pflag_law Parse \<longleftrightarrow>
     (\<forall>flags items. list_all (item_ok flags) items \<longrightarrow>
        Parse flags (concat (map render_item items)) = Some (map_of (rev (map item_binding items))))"

text \<open>A reference parser, for the witnesses.\<close>

fun ref_value :: "flag_kind \<Rightarrow> arg \<Rightarrow> flag_val option" where
  "ref_value KString (A s) = Some (FString s)"
| "ref_value KString (APhases ps) = Some (FJSON ps)"
| "ref_value KInt (A s) = map_option FInt (ParseInt 64 s)"
| "ref_value KDuration (ADur d) = Some (FDuration d)"
| "ref_value _ _ = None"

definition flag_name :: "arg \<Rightarrow> string option" where
  "flag_name a = (case a of A s \<Rightarrow> CutPrefix s ''--'' | _ \<Rightarrow> None)"

function ref_bindings :: "(string \<times> flag_kind) list \<Rightarrow> arg list \<Rightarrow> (string \<times> flag_val) list option" where
  "ref_bindings flags [] = Some []"
| "ref_bindings flags (a # args) =
     (case flag_name a of None \<Rightarrow> None
      | Some n \<Rightarrow>
          (case map_of flags n of None \<Rightarrow> None
           | Some k \<Rightarrow>
               if k = KBool then map_option (Cons (n, FBool True)) (ref_bindings flags args)
               else case args of [] \<Rightarrow> None
                    | v # rest \<Rightarrow>
                        (case ref_value k v of None \<Rightarrow> None
                         | Some x \<Rightarrow> map_option (Cons (n, x)) (ref_bindings flags rest))))"
  by pat_completeness auto
termination by (relation "measure (\<lambda>(flags, args). length args)") auto

definition ref_pflag :: "(string \<times> flag_kind) list \<Rightarrow> arg list \<Rightarrow> (string \<Rightarrow> flag_val option) option" where
  "ref_pflag flags args = map_option (\<lambda>bs. map_of (rev bs)) (ref_bindings flags args)"

lemma ParseInt_itoa: "in_int64 i \<Longrightarrow> ParseInt 64 (itoa i) = Some i"
proof -
  assume i: "in_int64 i"
  have hd: "\<exists>d cs. utoa n = digit_char d # cs \<and> d < 10" for n
    by (induction n rule: utoa.induct) (subst utoa.simps, force)
  have ne: "digit_char d \<noteq> CHR ''-''" "digit_char d \<noteq> CHR ''+''" if "d < 10" for d
    using that char_digit_digit_char[OF that] by (auto simp: char_digit_def split: if_splits)
  have v: "ParseUint 64 (utoa (nat \<bar>i\<bar>)) = Some (nat \<bar>i\<bar>)"
    using i by (intro ParseUint_utoa) (auto simp: in_int64_def int_bounds abs_if)
  show ?thesis
  proof (cases "i < 0")
    case True
    then show ?thesis using v i by (simp add: itoa_def ParseInt_def Let_def in_int64_def int_bounds)
  next
    case False
    obtain d cs where u: "utoa (nat i) = digit_char d # cs" "d < 10" using hd by blast
    then show ?thesis using v i False ne[OF u(2)] by (simp add: itoa_def ParseInt_def Let_def in_int64_def int_bounds)
  qed
qed

lemma ref_bindings_item:
  assumes "item_ok flags it"
  shows "ref_bindings flags (render_item it @ args) = map_option (Cons (item_binding it)) (ref_bindings flags args)"
  using assms by (cases it) (simp_all add: flag_name_def CutPrefix_def HasPrefix_def ParseInt_itoa)

lemma ref_pflag_law: "pflag_law ref_pflag"
proof -
  have "ref_bindings flags (concat (map render_item items)) = Some (map item_binding items)"
    if "list_all (item_ok flags) items" for flags items
    using that by (induction items) (simp_all add: ref_bindings_item)
  then show ?thesis by (simp add: pflag_law_def ref_pflag_def)
qed

section \<open>The flags the controller passes\<close>

definition loadgen_items :: "ScaleValidation \<Rightarrow> string \<Rightarrow> string \<Rightarrow> LoadPhase list \<Rightarrow> flag_item list" where
  "loadgen_items cr url ca phases =
     (let t = spec_Target (sv_Spec cr); load = spec_Load (sv_Spec cr) in
      [StrItem ''url'' url, StrItem ''connection-mode'' KeepAlive, StrItem ''target-mode'' (tgt_Mode t),
       StrItem ''network-path'' (tgt_NetworkPath t), StrItem ''result-file'' resultFilePath]
      @ (if load_Concurrency load > 0 then [IntItem ''concurrency'' (load_Concurrency load)] else [])
      @ (if tgt_Protocol t \<noteq> [] then [StrItem ''protocol'' (tgt_Protocol t)] else [])
      @ (case tgt_GRPC t of None \<Rightarrow> [] | Some svc \<Rightarrow> if svc \<noteq> [] then [StrItem ''grpc-service'' svc] else [])
      @ (if phases \<noteq> [] then [JSONItem ''phases'' phases]
         else [IntItem ''rps'' (load_BaseRPS load), DurItem ''duration'' (spec_SLA (sv_Spec cr))])
      @ (case tgt_TLS t of None \<Rightarrow> [] | Some tls \<Rightarrow> if InsecureSkipVerify tls then [BoolItem ''tls-insecure-skip-verify''] else [])
      @ (if ca \<noteq> [] then [StrItem ''tls-ca-bundle'' ca] else []))"

lemma loadgenArgs_items:
  assumes "buildPhases (sv_Spec cr) = Inr phases"
  shows "loadgenArgs cr url ca = Inr (concat (map render_item (loadgen_items cr url ca phases)))"
  using assms by (simp add: loadgenArgs_def loadgen_items_def Let_def split: option.split)

lemma loadgen_items_ok:
  assumes "in_int32 (load_BaseRPS (spec_Load (sv_Spec cr)))" "in_int32 (load_Concurrency (spec_Load (sv_Spec cr)))"
  shows "list_all (item_ok loadgen_flags) (loadgen_items cr url ca phases)"
  using assms
  by (simp add: loadgen_items_def loadgen_flags_def Let_def in_int32_def in_int64_def int_bounds split: option.split)

definition job_opts :: "ScaleValidation \<Rightarrow> string \<Rightarrow> string \<Rightarrow> LoadPhase list \<Rightarrow> opts" where
  "job_opts cr url ca phases =
     (let t = spec_Target (sv_Spec cr); load = spec_Load (sv_Spec cr) in
      \<lparr>o_url = url, o_method = ''GET'', o_headers = [], o_rps = (if phases = [] then load_BaseRPS load else 0),
       o_duration = (if phases = [] then spec_SLA (sv_Spec cr) else 0), o_concurrency = max 0 (load_Concurrency load),
       o_connectionMode = KeepAlive, o_timeout = 5 * Second, o_targetMode = tgt_Mode t, o_networkPath = tgt_NetworkPath t,
       o_resultFile = resultFilePath,
       o_tlsInsecure = (case tgt_TLS t of None \<Rightarrow> False | Some tls \<Rightarrow> InsecureSkipVerify tls), o_tlsCABundle = ca,
       o_phasesJSON = (if phases = [] then NoPhases else PhasesText phases), o_protocol = tgt_Protocol t,
       o_grpcService = (case tgt_GRPC t of None \<Rightarrow> [] | Some svc \<Rightarrow> svc)\<rparr>)"

text \<open>An optional flag, and how a lookup passes over it.\<close>

definition opt_item :: "bool \<Rightarrow> flag_item \<Rightarrow> flag_item list" where
  "opt_item b it = (if b then [it] else [])"

definition lookup_items :: "flag_item list \<Rightarrow> string \<Rightarrow> flag_val option" where
  "lookup_items items = map_of (rev (map item_binding items))"

lemma lookup_append:
  "lookup_items (xs @ ys) n = (case lookup_items ys n of Some v \<Rightarrow> Some v | None \<Rightarrow> lookup_items xs n)"
  by (simp add: lookup_items_def map_add_def split: option.split)

lemma lookup_opt_item:
  "lookup_items (opt_item b it) n = (if b \<and> n = fst (item_binding it) then Some (snd (item_binding it)) else None)"
  by (cases it) (auto simp: opt_item_def lookup_items_def)

abbreviation job_grpc :: "ScaleValidation \<Rightarrow> string" where
  "job_grpc cr \<equiv> (case tgt_GRPC (spec_Target (sv_Spec cr)) of None \<Rightarrow> [] | Some svc \<Rightarrow> svc)"

abbreviation job_insecure :: "ScaleValidation \<Rightarrow> bool" where
  "job_insecure cr \<equiv> (case tgt_TLS (spec_Target (sv_Spec cr)) of None \<Rightarrow> False | Some tls \<Rightarrow> InsecureSkipVerify tls)"

lemma loadgen_items_opt:
  "loadgen_items cr url ca phases =
     opt_item True (StrItem ''url'' url) @ opt_item True (StrItem ''connection-mode'' KeepAlive)
     @ opt_item True (StrItem ''target-mode'' (tgt_Mode (spec_Target (sv_Spec cr))))
     @ opt_item True (StrItem ''network-path'' (tgt_NetworkPath (spec_Target (sv_Spec cr))))
     @ opt_item True (StrItem ''result-file'' resultFilePath)
     @ opt_item (load_Concurrency (spec_Load (sv_Spec cr)) > 0) (IntItem ''concurrency'' (load_Concurrency (spec_Load (sv_Spec cr))))
     @ opt_item (tgt_Protocol (spec_Target (sv_Spec cr)) \<noteq> []) (StrItem ''protocol'' (tgt_Protocol (spec_Target (sv_Spec cr))))
     @ opt_item (job_grpc cr \<noteq> []) (StrItem ''grpc-service'' (job_grpc cr))
     @ opt_item (phases \<noteq> []) (JSONItem ''phases'' phases)
     @ opt_item (phases = []) (IntItem ''rps'' (load_BaseRPS (spec_Load (sv_Spec cr))))
     @ opt_item (phases = []) (DurItem ''duration'' (spec_SLA (sv_Spec cr)))
     @ opt_item (job_insecure cr) (BoolItem ''tls-insecure-skip-verify'')
     @ opt_item (ca \<noteq> []) (StrItem ''tls-ca-bundle'' ca)"
  by (simp add: loadgen_items_def opt_item_def Let_def split: option.split)

definition job_binding :: "ScaleValidation \<Rightarrow> string \<Rightarrow> string \<Rightarrow> LoadPhase list \<Rightarrow> string \<Rightarrow> flag_val option" where
  "job_binding cr url ca phases = lookup_items (loadgen_items cr url ca phases)"

lemma job_binding_simps:
  "job_binding cr url ca phases ''url'' = Some (FString url)"
  "job_binding cr url ca phases ''method'' = None" "job_binding cr url ca phases ''header'' = None"
  "job_binding cr url ca phases ''timeout'' = None"
  "job_binding cr url ca phases ''connection-mode'' = Some (FString KeepAlive)"
  "job_binding cr url ca phases ''target-mode'' = Some (FString (tgt_Mode (spec_Target (sv_Spec cr))))"
  "job_binding cr url ca phases ''network-path'' = Some (FString (tgt_NetworkPath (spec_Target (sv_Spec cr))))"
  "job_binding cr url ca phases ''result-file'' = Some (FString resultFilePath)"
  "job_binding cr url ca phases ''concurrency'' =
     (if load_Concurrency (spec_Load (sv_Spec cr)) > 0 then Some (FInt (load_Concurrency (spec_Load (sv_Spec cr)))) else None)"
  "job_binding cr url ca phases ''protocol'' =
     (if tgt_Protocol (spec_Target (sv_Spec cr)) \<noteq> [] then Some (FString (tgt_Protocol (spec_Target (sv_Spec cr)))) else None)"
  "job_binding cr url ca phases ''grpc-service'' = (if job_grpc cr \<noteq> [] then Some (FString (job_grpc cr)) else None)"
  "job_binding cr url ca phases ''phases'' = (if phases \<noteq> [] then Some (FJSON phases) else None)"
  "job_binding cr url ca phases ''rps'' = (if phases = [] then Some (FInt (load_BaseRPS (spec_Load (sv_Spec cr)))) else None)"
  "job_binding cr url ca phases ''duration'' = (if phases = [] then Some (FDuration (spec_SLA (sv_Spec cr))) else None)"
  "job_binding cr url ca phases ''tls-insecure-skip-verify'' = (if job_insecure cr then Some (FBool True) else None)"
  "job_binding cr url ca phases ''tls-ca-bundle'' = (if ca \<noteq> [] then Some (FString ca) else None)"
  unfolding job_binding_def loadgen_items_opt
  by (simp_all add: lookup_append lookup_opt_item)

lemma opts_of_job: "opts_of (job_binding cr url ca phases) = job_opts cr url ca phases"
  unfolding opts_of_def job_binding_simps job_opts_def Let_def by (simp split: option.split)

section \<open>Properties\<close>


definition demo_target_cr :: ScaleValidation where
  "demo_target_cr = \<lparr>sv_Name = ''demo'', sv_Namespace = ''ns'', sv_Generation = 1, sv_CreationTimestamp = 0,
     sv_DeletionTimestamp = None, sv_Finalizers = [], sv_Spec = demo_spec,
     sv_Status = \<lparr>st_Phase = PhasePending, st_ScaleUpDuration = None, st_SLAStatus = [], st_TrafficIntegrity = [],
       st_TotalRequests = 0, st_FailedRequests = 0, st_FailureRateBasisPoints = 0, st_Diagnostics = [],
       st_LastRunTime = None, st_History = [], st_NextRunTime = None, st_ObservedGeneration = 0, st_Conditions = []\<rparr>\<rparr>"


end
