(* ===== verification/Observer_Cmd.thy ===== *)
theory Observer_Cmd
  imports Loadgen_Cmd
begin

text \<open>
  The observer's command, \<^verbatim>\<open>cmd/observer/main.go\<close>, and how the Job wires its two containers
  together: the flags of both sides, the volume they share and the security settings.
\<close>

section \<open>The command\<close>

definition observer_flags :: "(string \<times> flag_kind) list" where
  "observer_flags =
     [(''target-name'', KString), (''namespace'', KString), (''target-kind'', KString), (''target-group'', KString),
      (''target-version'', KString), (''target-resource'', KString), (''service-name'', KString), (''sla'', KDuration),
      (''poll-interval'', KDuration), (''result-file'', KString)]"

definition observer_config :: "(string \<Rightarrow> flag_val option) \<Rightarrow> ObsConfig" where
  "observer_config m = \<lparr>ob_TargetName = string_flag (m ''target-name'') [], ob_Namespace = string_flag (m ''namespace'') [],
     ob_TargetKind = string_flag (m ''target-kind'') ''Deployment'', ob_TargetGroup = string_flag (m ''target-group'') ''apps'',
     ob_TargetVersion = string_flag (m ''target-version'') ''v1'', ob_TargetResource = string_flag (m ''target-resource'') ''deployments'',
     ob_ServiceName = string_flag (m ''service-name'') [], ob_SLA = duration_flag (m ''sla'') 0,
     ob_PollInterval = duration_flag (m ''poll-interval'') 0, ob_ResultFile = string_flag (m ''result-file'') []\<rparr>"

datatype observer_cmd_error = ObsFlagError | ObsRequiredFlag | InClusterConfig | BuildSession session_error | EncodeReport | WriteReport

text \<open>\<^verbatim>\<open>run\<close>: outside a cluster it fails, and \<^verbatim>\<open>NewSession\<close> may; \<^verbatim>\<open>Session.Run\<close> never does; the report line is
  printed.\<close>

definition observer_run ::
  "bool \<Rightarrow> (ObsConfig \<Rightarrow> session_error + ObsConfig) \<Rightarrow> (ObsConfig \<Rightarrow> ObsReport) \<Rightarrow> (ObsReport \<Rightarrow> string option) \<Rightarrow> bool \<Rightarrow>
   ObsConfig \<Rightarrow> observer_cmd_error + string" where
  "observer_run in_cluster new_session run marshal out_ok cfg =
     (if \<not> in_cluster then Inl InClusterConfig
      else case new_session cfg of
        Inl err \<Rightarrow> Inl (BuildSession err)
      | Inr sess \<Rightarrow>
          let report = run sess in
          (case MarshalReportLine marshal report of
             None \<Rightarrow> Inl EncodeReport
           | Some line \<Rightarrow> if out_ok then Inr line else Inl WriteReport))"

definition observer_main ::
  "((string \<times> flag_kind) list \<Rightarrow> arg list \<Rightarrow> (string \<Rightarrow> flag_val option) option) \<Rightarrow>
   (ObsConfig \<Rightarrow> observer_cmd_error + string) \<Rightarrow> arg list \<Rightarrow> observer_cmd_error + string" where
  "observer_main Parse run args =
     (case Parse observer_flags args of
        None \<Rightarrow> Inl ObsFlagError
      | Some m \<Rightarrow>
          if m ''target-name'' = None \<or> m ''namespace'' = None \<or> m ''sla'' = None then Inl ObsRequiredFlag
          else run (observer_config m))"

section \<open>The flags the controller passes\<close>

text \<open>The configuration the observer gets for a target with the given REST mapping.\<close>

definition job_obs_config :: "ScaleValidation \<Rightarrow> string \<times> string \<times> string \<Rightarrow> ObsConfig" where
  "job_obs_config cr mapping = \<lparr>ob_TargetName = ref_Name (spec_TargetRef (sv_Spec cr)), ob_Namespace = sv_Namespace cr,
     ob_TargetKind = ref_Kind (spec_TargetRef (sv_Spec cr)), ob_TargetGroup = fst mapping, ob_TargetVersion = fst (snd mapping),
     ob_TargetResource = snd (snd mapping), ob_ServiceName = [], ob_SLA = spec_SLA (sv_Spec cr), ob_PollInterval = 0,
     ob_ResultFile = resultFilePath\<rparr>"

definition observer_items :: "ScaleValidation \<Rightarrow> string \<times> string \<times> string \<Rightarrow> flag_item list" where
  "observer_items cr mapping =
     [StrItem ''target-name'' (ref_Name (spec_TargetRef (sv_Spec cr))), StrItem ''namespace'' (sv_Namespace cr),
      StrItem ''target-kind'' (ref_Kind (spec_TargetRef (sv_Spec cr))), StrItem ''target-group'' (fst mapping),
      StrItem ''target-version'' (fst (snd mapping)), StrItem ''target-resource'' (snd (snd mapping)),
      DurItem ''sla'' (spec_SLA (sv_Spec cr)), StrItem ''result-file'' resultFilePath]"

lemma observerArgs_items:
  assumes "observerArgs K e cr = Inr args"
  obtains mapping where "e_rest_mapping e = Inr mapping" "args = concat (map render_item (observer_items cr mapping))"
  using assms
  by (auto simp: observerArgs_def observer_items_def targetGVK_def Let_def split: sum.splits prod.splits if_splits)

lemma observer_main_items:
  assumes "pflag_law Parse"
  shows "observer_main Parse run (concat (map render_item (observer_items cr mapping))) = run (job_obs_config cr mapping)"
proof -
  have "list_all (item_ok observer_flags) (observer_items cr mapping)"
    by (simp add: observer_items_def observer_flags_def)
  then have "Parse observer_flags (concat (map render_item (observer_items cr mapping)))
      = Some (map_of (rev (map item_binding (observer_items cr mapping))))"
    using assms unfolding pflag_law_def by blast
  then show ?thesis
    by (simp add: observer_main_def observer_config_def job_obs_config_def observer_items_def)
qed

end
