(* ===== verification/Controller_Cmd.thy ===== *)
theory Controller_Cmd
  imports Loadgen_Cmd
begin

text \<open>
  The controller manager's command, \<^verbatim>\<open>cmd/scale-sentry/controller.go\<close>: its flags, and the order in
  which the manager is built, the two reconcilers are registered and the manager is started. The
  steps of controller-runtime and client-go are answers of the environment.
\<close>

section \<open>The command\<close>

abbreviation "defaultLoadgenImage \<equiv> ''scale-sentry-loadgen:latest''"
abbreviation "defaultObserverImage \<equiv> ''scale-sentry-observer:latest''"
abbreviation "defaultObserverServiceAccnt \<equiv> ''scale-sentry-observer''"
abbreviation "leaderElectionID \<equiv> ''scale-sentry-leader''"

record controllerOpts =
  co_metricsAddr :: string
  co_probeAddr :: string
  co_leaderElect :: bool
  co_leaderElectNamespace :: string
  co_loadgenImage :: string
  co_observerImage :: string
  co_observerServiceAccount :: string
  co_imagePullSecrets :: "string list"
  co_devLogging :: bool

definition controller_flags :: "(string \<times> flag_kind) list" where
  "controller_flags =
     [(''metrics-bind-address'', KString), (''health-probe-bind-address'', KString), (''leader-elect'', KBool),
      (''leader-elect-namespace'', KString), (''loadgen-image'', KString), (''observer-image'', KString),
      (''observer-service-account'', KString), (''image-pull-secret'', KStrings), (''dev-logging'', KBool)]"

fun bool_flag :: "flag_val option \<Rightarrow> bool \<Rightarrow> bool" where
  "bool_flag (Some (FBool b)) d = b"
| "bool_flag _ d = d"

fun strings_flag :: "flag_val option \<Rightarrow> string list" where
  "strings_flag (Some (FStrings ss)) = ss"
| "strings_flag _ = []"

definition controllerOpts_of :: "(string \<Rightarrow> flag_val option) \<Rightarrow> controllerOpts" where
  "controllerOpts_of m = \<lparr>co_metricsAddr = string_flag (m ''metrics-bind-address'') '':8080'',
     co_probeAddr = string_flag (m ''health-probe-bind-address'') '':8081'', co_leaderElect = bool_flag (m ''leader-elect'') True,
     co_leaderElectNamespace = string_flag (m ''leader-elect-namespace'') [],
     co_loadgenImage = string_flag (m ''loadgen-image'') defaultLoadgenImage,
     co_observerImage = string_flag (m ''observer-image'') defaultObserverImage,
     co_observerServiceAccount = string_flag (m ''observer-service-account'') defaultObserverServiceAccnt,
     co_imagePullSecrets = strings_flag (m ''image-pull-secret''), co_devLogging = bool_flag (m ''dev-logging'') False\<rparr>"

record manager_options =
  mo_MetricsBindAddress :: string
  mo_HealthProbeBindAddress :: string
  mo_LeaderElection :: bool
  mo_LeaderElectionID :: string
  mo_LeaderElectionNamespace :: string

text \<open>What the manager is told, in order, and the error each step may return.\<close>

datatype manager_step =
    NewManager manager_options | NewClientset | SetupScaleValidation reconciler | SetupShadow
  | AddHealthz | AddReadyz | StartManager

fun step_message :: "manager_step \<Rightarrow> string" where
  "step_message (NewManager _) = ''create manager''"
| "step_message NewClientset = ''build clientset''"
| "step_message (SetupScaleValidation _) = ''set up scalevalidation controller''"
| "step_message SetupShadow = ''set up deployment-shadow controller''"
| "step_message AddHealthz = ''add healthz check''"
| "step_message AddReadyz = ''add readyz check''"
| "step_message StartManager = ''run manager''"

fun run_steps :: "(manager_step \<Rightarrow> goerror option) \<Rightarrow> manager_step list \<Rightarrow> manager_step list \<times> goerror option" where
  "run_steps err [] = ([], None)"
| "run_steps err (s # ss) =
     (case err s of
        Some cause \<Rightarrow> ([s], Some (Wrap [L (step_message s)] cause))
      | None \<Rightarrow> (let (done, res) = run_steps err ss in (s # done, res)))"

definition controller_reconciler :: "controllerOpts \<Rightarrow> reconciler" where
  "controller_reconciler opt = \<lparr>r_LoadgenImage = co_loadgenImage opt, r_ObserverImage = co_observerImage opt,
     r_ObserverServiceAccount = co_observerServiceAccount opt, r_ImagePullSecrets = co_imagePullSecrets opt,
     r_targetReadyTimeout = 0\<rparr>"

definition controller_steps :: "controllerOpts \<Rightarrow> manager_step list" where
  "controller_steps opt =
     [NewManager \<lparr>mo_MetricsBindAddress = co_metricsAddr opt, mo_HealthProbeBindAddress = co_probeAddr opt,
        mo_LeaderElection = co_leaderElect opt, mo_LeaderElectionID = leaderElectionID,
        mo_LeaderElectionNamespace = co_leaderElectNamespace opt\<rparr>,
      NewClientset, SetupScaleValidation (controller_reconciler opt), SetupShadow, AddHealthz, AddReadyz, StartManager]"

definition runController :: "(manager_step \<Rightarrow> goerror option) \<Rightarrow> controllerOpts \<Rightarrow> manager_step list \<times> goerror option" where
  "runController err opt = run_steps err (controller_steps opt)"

section \<open>Lemmas\<close>

text \<open>Steps are run in order up to and including the first that fails, whose error is returned.\<close>

lemma run_steps_prefix:
  "run_steps err ss =
     (case List.find (\<lambda>s. err s \<noteq> None) ss of
        None \<Rightarrow> (ss, None)
      | Some s \<Rightarrow> (takeWhile (\<lambda>s. err s = None) ss @ [s], Some (Wrap [L (step_message s)] (the (err s)))))"
  by (induction ss) (auto split: option.split)

text \<open>The manager is started only after both reconcilers and both probes were registered.\<close>

lemma runController_started:
  assumes "StartManager \<in> set (fst (runController err opt))"
  shows "fst (runController err opt) = controller_steps opt"
  using assms by (auto simp: runController_def controller_steps_def split: option.splits)

text \<open>The images and secrets the command was given are the ones the Job's containers and pod get.\<close>

lemma controller_job_images:
  assumes "buildLoadgenJob K (controller_reconciler opt) e cr url = Inr job"
  shows "map jc_Image (job_InitContainers job @ job_Containers job) = [co_observerImage opt, co_loadgenImage opt]
    \<and> job_ServiceAccountName job = co_observerServiceAccount opt \<and> job_ImagePullSecrets job = co_imagePullSecrets opt"
  using assms
  by (cases "observerArgs K e cr"; cases "loadgenArgs cr url (case caBundleRef cr of None \<Rightarrow> [] | Some ca \<Rightarrow> tlsCAMountPath @ ''/'' @ cm_Key ca)")
    (auto simp: buildLoadgenJob_def controller_reconciler_def imagePullSecretRefs_def Let_def)

end
