(* ===== verification/Loadgen_Url.thy ===== *)
theory Loadgen_Url
  imports Loadgen_Cmd
begin

text \<open>
  The load generator's URL builder, \<^verbatim>\<open>internal/loadgen/url.go\<close>, and its agreement with the
  controller's own, \<^verbatim>\<open>resolveTargetURL\<close> of \<^verbatim>\<open>internal/controller/job.go\<close>.
\<close>

section \<open>URLSpec\<close>

abbreviation "PathClusterIP \<equiv> ''ClusterIP''"
abbreviation "PathIngress \<equiv> ''Ingress''"

record URLSpec =
  us_TargetMode :: string
  us_NetworkPath :: string
  us_ServiceName :: string
  us_Namespace :: string
  us_IngressHost :: string
  us_CustomPath :: string
  us_Port :: int
  us_Scheme :: string

datatype url_error =
    NetworkPathRequired
  | UnknownNetworkPath string
  | ServiceNameRequired
  | NamespaceRequired
  | PortRequired
  | IngressHostRequired
  | TargetModeRequired
  | UnknownTargetMode string
  | CustomPathRequired string
  | CustomPathSlash string

definition resolvePath :: "string \<Rightarrow> string \<Rightarrow> url_error + string" where
  "resolvePath mode custom =
     (if mode = TargetModeServiceDefault then
        (if custom = [] then Inr ''/''
         else if \<not> HasPrefix custom ''/'' then Inl (CustomPathSlash custom) else Inr custom)
      else if mode = TargetModeCustomPath \<or> mode = TargetModeAutoDiscoverProbe then
        (if custom = [] then Inl (CustomPathRequired mode)
         else if \<not> HasPrefix custom ''/'' then Inl (CustomPathSlash custom) else Inr custom)
      else if mode = [] then Inl TargetModeRequired
      else Inl (UnknownTargetMode mode))"

definition buildClusterIP :: "URLSpec \<Rightarrow> url_error + string" where
  "buildClusterIP s =
     (if us_ServiceName s = [] then Inl ServiceNameRequired
      else if us_Namespace s = [] then Inl NamespaceRequired
      else if us_Port s \<le> 0 then Inl PortRequired
      else case resolvePath (us_TargetMode s) (us_CustomPath s) of
        Inl err \<Rightarrow> Inl err
      | Inr path \<Rightarrow>
          let scheme = (if us_Scheme s = [] then ''http'' else us_Scheme s);
              host = us_ServiceName s @ ''.'' @ us_Namespace s @ ''.svc.cluster.local''
          in Inr (scheme @ ''://'' @ host @ '':'' @ itoa (us_Port s) @ path))"

definition buildIngress :: "URLSpec \<Rightarrow> url_error + string" where
  "buildIngress s =
     (if us_IngressHost s = [] then Inl IngressHostRequired
      else case resolvePath (us_TargetMode s) (us_CustomPath s) of
        Inl err \<Rightarrow> Inl err
      | Inr path \<Rightarrow>
          let scheme = (if us_Scheme s = [] then ''https'' else us_Scheme s);
              host = (if us_Port s > 0 then us_IngressHost s @ '':'' @ itoa (us_Port s) else us_IngressHost s)
          in Inr (scheme @ ''://'' @ host @ path))"

definition url_Build :: "URLSpec \<Rightarrow> url_error + string" where
  "url_Build s =
     (if us_NetworkPath s = PathClusterIP then buildClusterIP s
      else if us_NetworkPath s = PathIngress then buildIngress s
      else if us_NetworkPath s = [] then Inl NetworkPathRequired
      else Inl (UnknownNetworkPath (us_NetworkPath s)))"

section \<open>Lemmas\<close>

lemma resolvePath_slash: "resolvePath mode custom = Inr path \<Longrightarrow> HasPrefix path ''/''"
  by (auto simp: resolvePath_def HasPrefix_def split: if_splits)

text \<open>The builder's input for the target of a specification, inside the cluster.\<close>

definition cluster_url_spec :: "ScaleValidation \<Rightarrow> URLSpec" where
  "cluster_url_spec cr =
     (let t = spec_Target (sv_Spec cr) in
      \<lparr>us_TargetMode = tgt_Mode t, us_NetworkPath = PathClusterIP, us_ServiceName = ref_Name (spec_TargetRef (sv_Spec cr)),
       us_Namespace = sv_Namespace cr, us_IngressHost = [],
       us_CustomPath = (if tgt_Mode t = TargetModeCustomPath then tgt_CustomPath t else []), us_Port = tgt_Port t, us_Scheme = []\<rparr>)"

section \<open>Properties\<close>

text \<open>The two URL builders agree inside the cluster: whenever the load generator's builder accepts
  the target of a specification in the modes ServiceDefault and CustomPath, with no host override, it
  returns exactly the URL the controller puts into the Job, and it accepts every such target with a
  name, a namespace, a positive port and, in the mode CustomPath, an absolute path.\<close>

theorem url_builders_agree:
  assumes "tgt_Host (spec_Target (sv_Spec cr)) = []"
    and "tgt_Mode (spec_Target (sv_Spec cr)) \<in> {TargetModeServiceDefault, TargetModeCustomPath}"
    and "ref_Name (spec_TargetRef (sv_Spec cr)) \<noteq> []" "sv_Namespace cr \<noteq> []"
  shows "url_Build (cluster_url_spec cr) =
     (if tgt_Port (spec_Target (sv_Spec cr)) \<le> 0 then Inl PortRequired
      else if tgt_Mode (spec_Target (sv_Spec cr)) = TargetModeCustomPath \<and> tgt_CustomPath (spec_Target (sv_Spec cr)) = []
      then Inl (CustomPathRequired TargetModeCustomPath)
      else if tgt_Mode (spec_Target (sv_Spec cr)) = TargetModeCustomPath \<and> \<not> HasPrefix (tgt_CustomPath (spec_Target (sv_Spec cr))) ''/''
      then Inl (CustomPathSlash (tgt_CustomPath (spec_Target (sv_Spec cr))))
      else map_sum (\<lambda>_. PortRequired) id (resolveTargetURL K e cr))"
  using assms
  by (auto simp: url_Build_def cluster_url_spec_def buildClusterIP_def resolvePath_def resolveTargetURL_def targetURL_def
      HasPrefix_def Let_def)

theorem url_builders_agree_witness:
  "url_Build (cluster_url_spec demo_target_cr) = Inr ''http://web.ns.svc.cluster.local:80/''"
proof -
  have itoa: "itoa 80 = ''80''" by code_simp
  show ?thesis
    by (subst url_builders_agree[where K = K and e = e for K e])
      (simp_all add: demo_target_cr_def demo_spec_def resolveTargetURL_def targetURL_def HasPrefix_def itoa Let_def)
qed

end
