(* ===== verification/Report_View.thy ===== *)
theory Report_View
  imports Api_Types
begin

text \<open>
  The diagnostic dashboard: \<^verbatim>\<open>internal/report/report.go\<close> and the command
  \<^verbatim>\<open>cmd/scale-sentry/report.go\<close>. The terminal styles are symbolic; a rendering is the list of its
  chunks, each with its style. \<^verbatim>\<open>sort.SliceStable\<close> is the stable sort of the HOL library.
\<close>

section \<open>Rendering\<close>

datatype style = NoStyle | TitleStyle | CriticalStyle | WarningStyle | InfoStyle | OkStyle | DimStyle

datatype chunk = Chunk style message

definition severityRank :: "Severity \<Rightarrow> int" where
  "severityRank s = (if s = ''Critical'' then 0 else if s = ''Warning'' then 1 else if s = ''Info'' then 2 else 3)"

definition styleFor :: "Severity \<Rightarrow> style" where
  "styleFor s = (if s = ''Critical'' then CriticalStyle else if s = ''Warning'' then WarningStyle else InfoStyle)"

definition upper :: "char \<Rightarrow> char" where
  "upper c = (let n = of_char c :: nat in if 97 \<le> n \<and> n \<le> 122 then char_of (n - 32) else c)"

abbreviation "newline \<equiv> Chunk NoStyle [L [CHR 0x0A]]"
abbreviation "indent \<equiv> Chunk NoStyle [L [CHR 0x0A, CHR '' '', CHR '' '']]"
abbreviation "middle_dot \<equiv> [CHR 0xC2, CHR 0xB7]"
abbreviation "check_mark \<equiv> [CHR 0xE2, CHR 0x9C, CHR 0x93]"
abbreviation "bullet \<equiv> [CHR 0xE2, CHR 0x97, CHR 0x8F]"
abbreviation "arrow \<equiv> [CHR 0xE2, CHR 0x86, CHR 0xB3]"

text \<open>\<^verbatim>\<open>strings.ToUpper\<close> on the ASCII severities of the API.\<close>

definition renderAlert :: "DiagnosticAlert \<Rightarrow> chunk list" where
  "renderAlert a =
     [Chunk (styleFor (alert_Severity a)) [L ''['', L (map upper (alert_Severity a)), L ''] '', L (alert_Type a)], indent,
      Chunk NoStyle (alert_Message a)]
     @ (if alert_Recommendation a \<noteq> [] then [indent, Chunk DimStyle (L (arrow @ '' '') # alert_Recommendation a)] else [])
     @ [newline]"

fun count_severities :: "int \<times> int \<times> int \<Rightarrow> DiagnosticAlert list \<Rightarrow> int \<times> int \<times> int" where
  "count_severities acc [] = acc"
| "count_severities (crit, warn, info) (a # as) =
     count_severities
       (if alert_Severity a = ''Critical'' then (crit + 1, warn, info)
        else if alert_Severity a = ''Warning'' then (crit, warn + 1, info)
        else (crit, warn, info + 1)) as"

definition ordered_alerts :: "DiagnosticAlert list \<Rightarrow> DiagnosticAlert list" where
  "ordered_alerts alerts = sort_key (\<lambda>a. severityRank (alert_Severity a)) alerts"

definition Render :: "DiagnosticAlert list \<Rightarrow> chunk list" where
  "Render alerts =
     [Chunk TitleStyle [L (''scale-sentry '' @ middle_dot @ '' diagnostic report'')], newline, newline]
     @ (if length alerts = 0 then [Chunk OkStyle [L (check_mark @ '' all checks passed, no diagnostics'')], newline]
        else
          let (crit, warn, info) = count_severities (0, 0, 0) alerts in
          [Chunk CriticalStyle [L (bullet @ '' ''), D crit, L '' critical''], Chunk NoStyle [L ''   ''],
           Chunk WarningStyle [L (bullet @ '' ''), D warn, L '' warning''], Chunk NoStyle [L ''   ''],
           Chunk InfoStyle [L (bullet @ '' ''), D info, L '' info''], newline, newline]
          @ concat (map (\<lambda>a. renderAlert a @ [newline]) (ordered_alerts alerts)))"

section \<open>The interactive model\<close>

record Model = m_alerts :: "DiagnosticAlert list"

definition NewModel :: "DiagnosticAlert list \<Rightarrow> Model" where
  "NewModel alerts = \<lparr>m_alerts = alerts\<rparr>"

text \<open>A message is a key press with its name, or something else; the flag says whether to quit.\<close>

definition model_Update :: "Model \<Rightarrow> string option \<Rightarrow> Model \<times> bool" where
  "model_Update m key =
     (m, case key of None \<Rightarrow> False | Some k \<Rightarrow> k = ''q'' \<or> k = ''esc'' \<or> k = ''ctrl+c'')"

definition model_View :: "Model \<Rightarrow> chunk list" where
  "model_View m = Render (m_alerts m) @ [newline, Chunk DimStyle [L ''press q to quit'']]"

section \<open>The command\<close>

datatype report_cmd_error = ReadStdin | ReadFile string | DecodeDiagnostics

definition readDiagnostics :: "string option \<Rightarrow> (string \<Rightarrow> string option) \<Rightarrow> string \<Rightarrow> report_cmd_error + string" where
  "readDiagnostics stdin read_file file =
     (if file = [] then (case stdin of None \<Rightarrow> Inl ReadStdin | Some raw \<Rightarrow> Inr raw)
      else case read_file file of None \<Rightarrow> Inl (ReadFile file) | Some raw \<Rightarrow> Inr raw)"

datatype report_output = Plain_output "chunk list" | Interactive Model

definition report_cmd ::
  "string option \<Rightarrow> (string \<Rightarrow> string option) \<Rightarrow> (string \<Rightarrow> DiagnosticAlert list option) \<Rightarrow> string \<Rightarrow> bool \<Rightarrow>
   report_cmd_error + report_output" where
  "report_cmd stdin read_file unmarshal file plain =
     (case readDiagnostics stdin read_file file of
        Inl err \<Rightarrow> Inl err
      | Inr raw \<Rightarrow>
          (case (if raw = [] then Some [] else unmarshal raw) of
             None \<Rightarrow> Inl DecodeDiagnostics
           | Some alerts \<Rightarrow>
               Inr (if plain then Plain_output (Render alerts @ [newline]) else Interactive (NewModel alerts))))"

section \<open>Lemmas\<close>

lemma count_severities_spec:
  "count_severities (c, w, i) alerts =
     (c + int (length (filter (\<lambda>a. alert_Severity a = ''Critical'') alerts)),
      w + int (length (filter (\<lambda>a. alert_Severity a = ''Warning'') alerts)),
      i + int (length (filter (\<lambda>a. alert_Severity a \<noteq> ''Critical'' \<and> alert_Severity a \<noteq> ''Warning'') alerts)))"
  by (induction alerts arbitrary: c w i) auto

section \<open>Properties\<close>

text \<open>The dashboard loses and reorders nothing it should not: it shows every alert once, most severe
  first, with the alerts of one severity in their original order, and the three counts in its heading
  add up to the number of alerts.\<close>

theorem report_order:
  "mset (ordered_alerts alerts) = mset alerts
   \<and> sorted_wrt (\<lambda>a b. severityRank (alert_Severity a) \<le> severityRank (alert_Severity b)) (ordered_alerts alerts)
   \<and> filter (\<lambda>a. severityRank (alert_Severity a) = r) (ordered_alerts alerts) = filter (\<lambda>a. severityRank (alert_Severity a) = r) alerts
   \<and> (case count_severities (0, 0, 0) alerts of (crit, warn, info) \<Rightarrow> crit + warn + info = int (length alerts))
   \<and> drop 10 (Render alerts) = concat (map (\<lambda>a. renderAlert a @ [newline]) (ordered_alerts alerts))"
proof (intro conjI)
  have "sorted (map (\<lambda>a. severityRank (alert_Severity a)) (ordered_alerts alerts))" by (simp add: ordered_alerts_def)
  then show "sorted_wrt (\<lambda>a b. severityRank (alert_Severity a) \<le> severityRank (alert_Severity b)) (ordered_alerts alerts)"
    by (simp add: sorted_wrt_map)
  show "filter (\<lambda>a. severityRank (alert_Severity a) = r) (ordered_alerts alerts) = filter (\<lambda>a. severityRank (alert_Severity a) = r) alerts"
    unfolding ordered_alerts_def by (rule sort_key_stable)
  show "case count_severities (0, 0, 0) alerts of (crit, warn, info) \<Rightarrow> crit + warn + info = int (length alerts)"
    by (induction alerts) (auto simp: count_severities_spec)
  show "drop 10 (Render alerts) = concat (map (\<lambda>a. renderAlert a @ [newline]) (ordered_alerts alerts))"
    by (cases "alerts = []") (simp_all add: Render_def ordered_alerts_def count_severities_spec)
qed (simp add: ordered_alerts_def)

end
