(* ===== verification/Basis_Points.thy ===== *)
theory Basis_Points
  imports Reconciler
begin

text \<open>
  The failure rate of a run on its way into the status: a floating-point ratio in the observer's
  report, integer basis points in the API.
\<close>

section \<open>Lemmas\<close>

abbreviation exact_points :: "nat \<Rightarrow> nat \<Rightarrow> rat" where
  "exact_points f s \<equiv> 10000 * (of_nat f / of_nat s)"

abbreviation rate_of :: "nat \<Rightarrow> nat \<Rightarrow> float64" where
  "rate_of f s \<equiv> fl_div (fl_of_int (int f)) (fl_of_int (int s))"

lemma rate_of_exact: "f \<le> s \<Longrightarrow> s \<le> 2 ^ 50 \<Longrightarrow> rate_of f s = fl64 (of_nat f / of_nat s)"
  by (simp add: fl_div_def fl_of_int_exact)

lemma rate_of_range:
  assumes "f \<le> s" "0 < s" "s \<le> 2 ^ 50"
  shows "0 \<le> rate_of f s" "rate_of f s \<le> 1"
proof -
  have q: "0 \<le> (of_nat f / of_nat s :: rat)" "of_nat f / of_nat s \<le> (1 :: rat)" using assms by simp_all
  show "0 \<le> rate_of f s" using rate_of_exact[of f s] assms fl64_nonneg[OF q(1)] by simp
  have "fl64 (of_nat f / of_nat s) \<le> fl64 1" by (rule fl64_mono[OF q])
  then show "rate_of f s \<le> 1" using rate_of_exact[of f s] assms fl64_of_int[of 1] by simp
qed

text \<open>The product carries two roundings, each of relative error at most one part in two to the 53.\<close>

lemma points_error:
  assumes "f \<le> s" "0 < s" "s \<le> 2 ^ 50"
  shows "\<bar>fl_mul (rate_of f s) 10000 - exact_points f s\<bar> \<le> 1 / 10 ^ 11"
proof -
  let ?q = "of_nat f / of_nat s :: rat" and ?r = "rate_of f s"
  have q: "0 \<le> ?q" "?q \<le> 1" using assms by simp_all
  have r: "0 \<le> ?r" "?r \<le> 1" using rate_of_range[OF assms] by simp_all
  have "\<bar>?r - ?q\<bar> \<le> ?q / 2 ^ 53" using fl64_rel_error[of ?q] rate_of_exact[of f s] assms q by simp
  also have "\<dots> \<le> 1 / 2 ^ 53" using q by simp
  finally have e1: "\<bar>?r - ?q\<bar> \<le> 1 / 2 ^ 53" .
  have "\<bar>fl_mul ?r 10000 - ?r * 10000\<bar> \<le> \<bar>?r * 10000\<bar> / 2 ^ 53" unfolding fl_mul_def by (rule fl64_rel_error)
  also have "\<dots> \<le> 10000 / 2 ^ 53" using r by simp
  finally have e2: "\<bar>fl_mul ?r 10000 - ?r * 10000\<bar> \<le> 10000 / 2 ^ 53" .
  have "fl_mul ?r 10000 - 10000 * ?q = (fl_mul ?r 10000 - ?r * 10000) + 10000 * (?r - ?q)" by (simp add: algebra_simps)
  then have "\<bar>fl_mul ?r 10000 - 10000 * ?q\<bar> \<le> 10000 / 2 ^ 53 + 10000 * (1 / 2 ^ 53)"
    using e1 e2 unfolding abs_le_iff by linarith
  also have "\<dots> \<le> 1 / 10 ^ 11" by simp
  finally show ?thesis .
qed

lemma math_Round_error: "0 \<le> x \<Longrightarrow> \<bar>of_int (math_Round x) - x\<bar> \<le> 1 / 2"
proof -
  assume "0 \<le> x"
  let ?n = "\<lfloor>x + 1 / 2\<rfloor>"
  have "of_int ?n \<le> x + 1 / 2" by (rule of_int_floor_le)
  moreover have "x + 1 / 2 < of_int ?n + 1" using floor_correct[of "x + 1 / 2"] by simp
  ultimately have "\<bar>of_int ?n - x\<bar> \<le> 1 / 2" unfolding abs_le_iff by linarith
  then show ?thesis using \<open>0 \<le> x\<close> by (simp add: math_Round_def)
qed

section \<open>Properties\<close>

text \<open>C36. The basis points in the status are the failure rate: for a run of up to a quadrillion requests,
  with at most that many failures, they lie between 0 and 10000, and they differ from the exact ratio by at
  most half a point, up to one part in a hundred billion.\<close>

theorem basis_points_accurate:
  assumes "f \<le> s" "0 < s" "s \<le> 2 ^ 50"
  shows "0 \<le> failureRateBasisPoints (rate_of f s) \<and> failureRateBasisPoints (rate_of f s) \<le> 10000
    \<and> \<bar>of_int (failureRateBasisPoints (rate_of f s)) - exact_points f s\<bar> \<le> 1 / 2 + 1 / 10 ^ 11"
proof -
  let ?r = "rate_of f s" and ?p = "fl_mul (rate_of f s) 10000"
  have r: "0 \<le> ?r" "?r \<le> 1" using rate_of_range[OF assms] by simp_all
  have p: "0 \<le> ?p" using r by (simp add: fl_mul_def fl64_nonneg)
  have "?p \<le> fl64 10000" unfolding fl_mul_def by (rule fl64_mono) (use r in simp_all)
  then have p_le: "?p \<le> 10000" using fl64_of_int[of 10000] by simp
  have top: "math_Round ?p \<le> 10000" using math_Round_mono[OF p p_le] math_Round_of_int[of 10000] by simp
  have val: "failureRateBasisPoints ?r = math_Round ?p"
  proof (cases "?r \<le> 0")
    case True
    then have "?r = 0" using r by simp
    then have "?p = of_int 0" by (simp add: fl_mul_def)
    then show ?thesis using \<open>?r = 0\<close> math_Round_of_int[of 0] by (simp add: failureRateBasisPoints_def)
  next
    case False
    then show ?thesis using top by (simp add: failureRateBasisPoints_def FailureRateScale_def MaxInt32_def Let_def)
  qed
  have "\<bar>of_int (math_Round ?p) - exact_points f s\<bar> \<le> \<bar>of_int (math_Round ?p) - ?p\<bar> + \<bar>?p - exact_points f s\<bar>"
    by linarith
  then have "\<bar>of_int (math_Round ?p) - exact_points f s\<bar> \<le> 1 / 2 + 1 / 10 ^ 11"
    using math_Round_error[OF p] points_error[OF assms] by linarith
  then show ?thesis using val top math_Round_nonneg[OF p] by simp
qed

theorem basis_points_accurate_witness:
  "\<bar>of_int (failureRateBasisPoints (rate_of 1 3)) - exact_points 1 3\<bar> \<le> 1 / 2 + 1 / 10 ^ 11"
  using basis_points_accurate[of 1 3] by simp

text \<open>The comment on the conversion promises that a tiny but real failure rate does not read as zero; one
  failure in thirty thousand requests does.\<close>

lemma tiny_rate_reads_zero: "failureRateBasisPoints (rate_of 1 30000) = 0"
proof -
  let ?p = "fl_mul (rate_of 1 30000) 10000"
  have p: "0 \<le> ?p" using rate_of_range[of 1 30000] by (simp add: fl_mul_def fl64_nonneg)
  have "\<bar>?p - exact_points 1 30000\<bar> \<le> 1 / 10 ^ 11" by (rule points_error) simp_all
  then have "?p \<le> 1 / 3 + 1 / 10 ^ 11" by (simp only: abs_le_iff) simp
  then have "?p < 1 / 2" by simp
  then have "math_Round ?p = 0" using p by (simp add: math_Round_def floor_eq_iff)
  then show ?thesis by (simp add: failureRateBasisPoints_def FailureRateScale_def Let_def MaxInt32_def)
qed

end
