(* ===== verification/Spec2Isabelle.thy ===== *)
theory Spec2Isabelle
  imports Status_Schema Cluster Deep_Copy Worker_Pool Observer_Cmd Controller_Cmd Loadgen_Schedule Loadgen_Collector Loadgen_Url Shadow Report_View Basis_Points
begin

text \<open>
  A verification development for scale-sentry, a Kubernetes controller that validates how a workload
  scales under synthetic load. A user creates a \<^verbatim>\<open>ScaleValidation\<close> object; the controller waits for the
  target to be ready, creates a Job with two containers, a load generator and an observer, reads the
  report the observer prints, and stores a verdict in the status of the object.

  \<^bold>\<open>The parts and their theories\<close> (sources under \<^verbatim>\<open>src/\<close>).

  \<^item> Shared: \<open>Prelude\<close> (64-bit durations and times, integer widths, \<open>named_theorems\<close>), \<open>Go_Float\<close>
    (float64 as rationals with rounding to nearest even, its error bounds, \<^verbatim>\<open>math.Round\<close>), \<open>Go_Strings\<close>
    (the functions of \<^verbatim>\<open>strings\<close> and \<^verbatim>\<open>strconv\<close> the code calls), \<open>Go_Memory\<close> (pointers, slices and allocation
    over a memory of cells, and the locale of a deep copy).
  \<^item> \<^verbatim>\<open>api/v1beta1\<close>: \<open>Api_Types\<close> (the records of spec and status), \<open>Crd_Schema\<close> (the validation markers as
    admission predicates), \<open>Deep_Copy\<close> (\<^verbatim>\<open>zz_generated.deepcopy.go\<close>: the layout of every type in memory, its copies).
  \<^item> \<^verbatim>\<open>internal/analyzer\<close>: \<open>Correlation\<close> (a locale for the two-pointer scan both correlators share),
    \<open>Leakage\<close>, \<open>Drain\<close>, \<open>Hpa_Watcher\<close>, \<open>Cgroup\<close> (\<^verbatim>\<open>cpu.stat\<close> and cAdvisor), \<open>Probelag\<close>, \<open>Audits\<close> (PDB, DNS and
    probe audits). \<^verbatim>\<open>internal/chaos\<close>: \<open>Chaos\<close>.
  \<^item> \<^verbatim>\<open>internal/loadgen\<close>: \<open>Loadgen_Config\<close> (configuration, phases, validation), \<open>Loadgen_Schedule\<close> (the
    arrival times of the four patterns), \<open>Loadgen_Client\<close> (HTTP/1, HTTP/2 and gRPC clients and their
    construction), \<open>Loadgen_Collector\<close> (a run and its result), \<open>Worker_Pool\<close> (the goroutines of a
    phase), \<open>Loadgen_Url\<close>. \<^verbatim>\<open>cmd/loadgen\<close>: \<open>Loadgen_Cmd\<close>.
  \<^item> \<^verbatim>\<open>internal/observer\<close>: \<open>Endpoint_Tracker\<close>, \<open>Endpoint_Watch\<close> (re-established watches), \<open>Observer\<close> (target
    resolution, a session, the report and its log line). \<^verbatim>\<open>cmd/observer\<close>: \<open>Observer_Cmd\<close>.
  \<^item> \<^verbatim>\<open>internal/controller\<close>: \<open>Load_Profile\<close> (from the spec to phases), \<open>K8s\<close> (the answers of the API server
    and the laws of the library functions), \<open>Job_Builder\<close> (\<^verbatim>\<open>target.go\<close>, \<^verbatim>\<open>job.go\<close>), \<open>Reconciler\<close>
    (\<^verbatim>\<open>scalevalidation_controller.go\<close>, \<^verbatim>\<open>schedule.go\<close>, \<^verbatim>\<open>disruption.go\<close>, \<^verbatim>\<open>conditions.go\<close>), \<open>Shadow\<close>
    (\<^verbatim>\<open>shadow_controller.go\<close> and \<^verbatim>\<open>time.ParseDuration\<close>). \<^verbatim>\<open>internal/report\<close> and its command: \<open>Report_View\<close>.
    \<^verbatim>\<open>cmd/scale-sentry/controller.go\<close>: \<open>Controller_Cmd\<close>. \<^verbatim>\<open>internal/metrics\<close>: \<open>Metrics\<close>.

  \<^bold>\<open>How state and effects are modelled.\<close> A Go struct is a record, an error a value of a sum or an option.
  A reconcile call is a function of the object it read and of an environment \<open>env\<close> that holds every
  answer of the API server and the clocks during that call; its result is the list of effects it
  had (status writes, creations, deletions, events, metric increments, each with the error the
  server gave) and the value it returned. \<open>apply_effects\<close> is what such a list leaves stored. The
  observer's session and the requests of the load generator are functions of their answers in the
  same way. Objects are values; the one place where their memory matters, the generated copies that separate
  the object a reconciler updates from the cached one, is modelled over an explicit memory. Concurrency is modelled where it decides something: the worker pool is a step relation
  over its channel, its workers and its context, and the lifecycle of an object is a step
  relation over reconcile calls, spec edits and deletion, each with arbitrary answers. \<open>Cluster\<close> adds the Job to that
  state: calls create and delete it, the cluster runs it, anybody may remove it, and a call is told what is there.

  \<^bold>\<open>What is proved.\<close>

  \<^item> The lifecycle (\<open>Handlers\<close>, \<open>Effects\<close>, \<open>Lifecycle\<close>, \<open>Lifecycle_Props\<close>): every handler is an instance of
    one locale (at most one status write, a failed one is returned as an error, every write follows an edge and keeps the
    invariant); from this follow the invariant of all reachable objects, the guards of Job
    creation and pod deletion, at most one disruption per run, and the finalizer protocol.
  \<^item> The object and its Job (\<open>Cluster\<close>, which refines the lifecycle): no Job outlives its object, the Job that exists is the
    current run's and so is every verdict, and a run has at most one Job while status writes succeed.
  \<^item> Schedules and progress (\<open>Schedule_Props\<close>, \<open>Progress\<close>): exactly when a finished object runs again, how
    it waits for its schedule, that a run and a deletion complete.
  \<^item> Schema and metrics (\<open>Status_Schema\<close>, \<open>Metrics\<close>, \<open>Basis_Points\<close>): every status written is admitted by the
    custom resource's schema; a stored verdict is counted once, under the label that agrees with it; the failure
    rate in basis points is the exact ratio up to rounding.
  \<^item> Copies (\<open>Deep_Copy\<close>): a copied object stands for the same value and shares no cell with its original. The
    contract of each type is put together from those of its fields by the lemmas of \<open>Go_Memory\<close>.
  \<^item> The analyzers: the correlators count exactly the failures near an event; the HPA watcher refines a
    specification over the list of snapshots; parsers round-trip; thresholds are exact in floating point.
  \<^item> The load generator: accepted configurations and profiles, the number and the times of arrivals of
    each pattern, one contract for the three clients (a locale), the accounting of a run, and
    that the worker pool implements the sequential model of a phase, dispatches no arrival twice,
    loses none while its context lives, delivers the configured constant rate to the collector, and always ends.
  \<^item> The observer: the endpoint tracker refines the set of ready addresses, also across broken watches;
    the report line survives the log.
  \<^item> Across components (this theory): the two containers of the Job are wired to each other and to the
    specification; the arguments the controller renders are accepted; a disruption of an admitted
    object leaves a healthy pod; the phase that is stored is the verdict over what the observer saw and the load
    generator counted.

  \<^bold>\<open>Parameters and hypotheses.\<close> Third-party code is a parameter: condition and finalizer helpers
  (\<open>k8s_laws\<close>), the flag library (\<open>pflag_law\<close>), the copies of the metadata types (\<open>meta_contract\<close>), cron schedules, label selectors, JSON, the Prometheus
  parser, the HDR histogram, URL parsing, the network. Each law has a reference implementation that
  satisfies it, which the witnesses use.

  \<^bold>\<open>Bounds and fuel.\<close> Durations and times are integers with 64-bit wrap-around written out where the code
  adds or multiplies them. Loops are structural, or have a termination measure; the arrival loops take
  the number of arrivals the receiver accepts as their bound, and the theorems on complete
  schedules show which bound suffices. \<open>ParseDuration\<close> uses the length of its input as fuel, which is enough
  because every round consumes a unit. The floating-point theorems hold up to \<^verbatim>\<open>2^50\<close> requests.

  \<^bold>\<open>Not modelled.\<close> The truncation of stored times to seconds; reads from a stale cache, other than as a
  write that fails and is retried; the work queue, leader election and the manager of
  controller-runtime; the encoding of JSON, of flags and of terminal styles; log lines; the schema of
  conditions, which is generated from Kubernetes' own types; the registration of the types in a scheme;
  tests, manifests and build tools.
\<close>

section \<open>The Job\<close>


lemma demo_job: "\<exists>job. buildLoadgenJob report_k8s demo_reconciler Lifecycle_Props.demo_env dis_cr ''http://web'' = Inr job"
  by (simp add: buildLoadgenJob_def observerArgs_def targetGVK_def loadgenArgs_def buildPhases_def caBundleRef_def Let_def
      report_k8s_def demo_defs dis_cr_def dis_spec_def demo_spec_def)


section \<open>Disruption of an admitted object\<close>

text \<open>C37. A disruption never takes the target down: for an object the API server admits (its schema demands
  at least two replicas), whenever a reconcile call asks for the deletion of a pod, that pod is a
  healthy pod of the target and another pod of the target is healthy too.\<close>

theorem admitted_disruption_leaves_pod:
  assumes "spec_admitted (sv_Spec cr)" "DeletePod n err \<in> set (fst (reconcile_cr K R e cr))"
  shows "\<exists>pods v. targetPods e cr = Inr pods \<and> v \<in> set pods \<and> pod_Name v = n \<and> healthy_pod v
    \<and> (\<exists>p \<in> set (remove1 v pods). healthy_pod p)"
proof -
  obtain d pods v where v: "spec_Disruption (sv_Spec cr) = Some d" "targetPods e cr = Inr pods" "v \<in> set pods" "pod_Name v = n"
      "healthy_pod v" "max 1 (dis_MinReplicasForChaos d) \<le> int (length (filter healthy_pod pods))"
    using reconcile_DeletePod[OF assms(2)] by blast
  then have "2 \<le> int (length (filter healthy_pod pods))"
    using assms(1) by (simp add: spec_admitted_def disruption_admitted_def)
  from healthy_pod_left[OF v(3,5) this] v show ?thesis by blast
qed

theorem admitted_disruption_leaves_pod_witness:
  "\<exists>pods. targetPods (run_env None) (w_cr dis_running) = Inr pods \<and> (\<exists>v \<in> set pods. \<exists>p \<in> set (remove1 v pods). healthy_pod p)"
proof -
  have "spec_admitted (sv_Spec (w_cr dis_running))"
    by (simp add: dis_cr_def demo_cr_def dis_spec_def demo_spec_def spec_admitted_def target_admitted_def load_admitted_def
        profile_admitted_def spike_admitted_def disruption_admitted_def enum_defs in_int32_def in_int64_def int_bounds)
  moreover have "DeletePod ''a'' None \<in> set (fst (reconcile_cr demo_k8s demo_reconciler (run_env None) (w_cr dis_running)))"
    by (rule dis_running_deletes)
  ultimately show ?thesis using admitted_disruption_leaves_pod by blast
qed

section \<open>From the observer to the stored verdict\<close>

text \<open>C2. The verdict, end to end: the observer, started with the arguments the controller put in the Job,
  prints a report line; if the Job completes and the log of its pod holds that line (after lines that
  do not start with the marker, and before anything), the next reconcile call stores the phase Failed
  exactly when the autoscaler was late against the SLA of the specification or more than one request
  in a hundred failed, and Succeeded otherwise, with the request counts of the load generator's result. The
  JSON encoder is assumed to emit one line ending in a visible character, and the decoder to invert
  it.\<close>

theorem verdict_end_to_end:
  assumes cr: "owned K cr" "in_progress (st_Phase (sv_Status cr))" and args: "observerArgs K e0 cr = Inr args"
    and flag: "pflag_law Parse"
    and codec: "\<And>r b. marshal r = Some b \<Longrightarrow> report_Unmarshal K b = Some r \<and> b \<noteq> [] \<and> CHR 0x0A \<notin> set b \<and> graphic (last b)"
    and printed: "observer_main Parse (observer_run True (NewSession True True) (\<lambda>cfg. Session_Run asSelector scaled cfg env) marshal True) args = Inr line"
    and result: "oe_result env = Some r" "res_Failed r \<le> res_Sent r" "res_Sent r \<le> 2 ^ 50"
    and job: "e_job e = Inr job" "\<not> jobConditionTrue job ''Failed''" "jobConditionTrue job ''Complete''"
    and pod: "e_job_pods e = Inr (pod # pods)" "observerTerminated pod"
    and noise: "list_all (\<lambda>l. CHR 0x0A \<notin> set l \<and> CutPrefix (TrimSpace l) ReportLogPrefix = None) pre"
    and logged: "e_log e (jp_Name pod) = Inr (concat (map (\<lambda>l. l @ [CHR 0x0A]) pre) @ line @ CHR 0x0A # rest)"
    and ok: "e_status_err e = None"
  shows "\<exists>mapping cfg st. e_rest_mapping e0 = Inr mapping \<and> cfg = session_config (job_obs_config cr mapping)
    \<and> ob_SLA cfg = spec_SLA (sv_Spec cr) \<and> st = sv_Status (stored K R e cr)
    \<and> st_Phase st = (if sla_spec cfg env = VerdictFail \<or> res_Sent r < 100 * res_Failed r then PhaseFailed else PhaseSucceeded)
    \<and> st_TotalRequests st = int (res_Sent r) \<and> st_FailedRequests st = int (res_Failed r)"
proof -
  obtain mapping where m: "e_rest_mapping e0 = Inr mapping" "args = concat (map render_item (observer_items cr mapping))"
    using args by (rule observerArgs_items)
  let ?cfg = "session_config (job_obs_config cr mapping)"
  let ?rep = "Session_Run asSelector scaled ?cfg env"
  have cfg: "ob_ResultFile ?cfg \<noteq> []" "ob_SLA ?cfg = spec_SLA (sv_Spec cr)"
    by (simp_all add: session_config_def applyTargetDefaults_def job_obs_config_def Let_def)
  have load: "obs_loadResult ?cfg env = Some r" using cfg result by (simp add: obs_loadResult_def)
  obtain b where b: "marshal ?rep = Some b" "line = ReportLogPrefix @ b"
    using printed unfolding m(2) observer_main_items[OF flag]
    by (auto simp: observer_run_def NewSession_def MarshalReportLine_def Let_def split: option.splits)
  have "reported K e ?rep"
    unfolding reported_def using job pod logged ok ParseReportLog_line[of "report_Unmarshal K" b ?rep pre rest] codec[OF b(1)] noise
    by (auto simp: b(2))
  from running_finishes(1)[OF cr this] have "sv_Status (stored K R e cr) = sv_Status (finished_cr K e cr ?rep)" by simp
  then show ?thesis
    using m(1) cfg(2) result load trafficVerdict_exact[of r]
    by (intro exI[of _ mapping] exI[of _ ?cfg]) (simp add: finished_cr_fields finished_cr_counts Session_Run_sla Session_Run_load)
qed

text \<open>A run with thirty failed requests out of three hundred, and a codec for its report.\<close>

definition demo_session :: ObsReport where
  "demo_session = Session_Run (\<lambda>s. None) (\<lambda>v t u. None) (session_config (job_obs_config (w_cr dis_running) (''apps'', ''v1'', ''deployments'')))
     (Observer.demo_env\<lparr>oe_result := Some (demo_result 300 30)\<rparr>)"

definition session_k8s :: k8s where
  "session_k8s = ref_k8s (\<lambda>s. if s = ''r'' then Some demo_session else None) (\<lambda>s. Inr (\<lambda>t. t))"

definition session_marshal :: "ObsReport \<Rightarrow> string option" where
  "session_marshal r = (if r = demo_session then Some ''r'' else None)"

theorem verdict_end_to_end_witness:
  "st_Phase (sv_Status (stored session_k8s demo_reconciler (done_env ''r'') (w_cr dis_running))) = PhaseFailed"
proof -
  let ?cr = "w_cr dis_running" and ?env = "Observer.demo_env\<lparr>oe_result := Some (demo_result 300 30)\<rparr>"
  let ?pod = "\<lparr>jp_Name = ''p'', jp_InitContainerStatuses = [(''observer'', True)]\<rparr>"
  have cr: "owned session_k8s ?cr" "in_progress (st_Phase (sv_Status ?cr))"
    by (simp_all add: owned_def in_progress_def dis_cr_def demo_cr_def session_k8s_def ref_k8s_def)
  have rest: "e_rest_mapping Lifecycle_Props.demo_env = Inr (''apps'', ''v1'', ''deployments'')" by (simp add: Lifecycle_Props.demo_env_def)
  obtain args where args: "observerArgs session_k8s Lifecycle_Props.demo_env ?cr = Inr args"
    by (simp add: observerArgs_def targetGVK_def Let_def demo_defs dis_cr_def dis_spec_def demo_spec_def session_k8s_def)
  then have "args = concat (map render_item (observer_items ?cr (''apps'', ''v1'', ''deployments'')))"
    by (rule observerArgs_items) (simp add: rest)
  then have printed: "observer_main ref_pflag (observer_run True (NewSession True True) (\<lambda>cfg. Session_Run (\<lambda>s. None) (\<lambda>v t u. None) cfg ?env) session_marshal True)
      args = Inr (ReportLogPrefix @ ''r'')"
    by (simp add: observer_main_items[OF ref_pflag_law] observer_run_def NewSession_def MarshalReportLine_def session_marshal_def demo_session_def)
  have codec: "report_Unmarshal session_k8s b = Some r \<and> b \<noteq> [] \<and> CHR 0x0A \<notin> set b \<and> graphic (last b)"
    if "session_marshal r = Some b" for r b
    using that by (auto simp: session_marshal_def session_k8s_def ref_k8s_def graphic_def split: if_splits)
  have result: "oe_result ?env = Some (demo_result 300 30)" "res_Failed (demo_result 300 30) \<le> res_Sent (demo_result 300 30)"
      "res_Sent (demo_result 300 30) \<le> 2 ^ 50"
    by (simp_all add: demo_result_def)
  have e: "e_job (done_env ''r'') = Inr \<lparr>jb_Name = ''demo-loadgen'', jb_DeletionTimestamp = None, jb_Conditions = [(''Complete'', ''True'')]\<rparr>"
      "e_job_pods (done_env ''r'') = Inr [?pod]" "observerTerminated ?pod"
      "e_log (done_env ''r'') (jp_Name ?pod) = Inr (concat (map (\<lambda>l. l @ [CHR 0x0A]) []) @ (ReportLogPrefix @ ''r'') @ CHR 0x0A # [])"
      "e_status_err (done_env ''r'') = None"
    by (simp_all add: done_env_def observerTerminated_def Lifecycle_Props.demo_env_def)
  from verdict_end_to_end[OF cr args ref_pflag_law codec printed result e(1) _ _ e(2,3) _ e(4,5), of demo_reconciler]
  show ?thesis by (auto simp: jobConditionTrue_def demo_result_def)
qed

text \<open>A session whose target cannot be resolved returns at once, before the load generator has written
  its result; both verdicts are then Unknown, and the run is stored as Succeeded.\<close>

lemma unresolved_target_succeeds:
  assumes "resolveTarget cfg env = Inl err" "oe_result env = None"
  shows "rep_SLAStatus (Session_Run asSelector scaled cfg env) = VerdictUnknown
    \<and> rep_TrafficIntegrity (Session_Run asSelector scaled cfg env) = VerdictUnknown
    \<and> st_Phase (sv_Status (finished_cr K e cr (Session_Run asSelector scaled cfg env))) = PhaseSucceeded"
  using assms
  by (simp add: finished_cr_fields Session_Run_sla Session_Run_load(1) sla_spec_def obs_loadResult_def trafficVerdict_def)

text \<open>The schema admits a rate or an SLA that is not positive. Without a profile and a warmup the controller
  builds the Job all the same, and the load generator then refuses to start, whatever it is started with.\<close>

lemma nonpositive_load_fails_in_Job:
  assumes "load_Profile (spec_Load (sv_Spec cr)) = None" "load_WarmupDuration (spec_Load (sv_Spec cr)) = None"
    and "load_BaseRPS (spec_Load (sv_Spec cr)) \<le> 0 \<or> spec_SLA (sv_Spec cr) \<le> 0"
  shows "buildPhases (sv_Spec cr) = Inr []
    \<and> (\<exists>err. cmd_run (gen_New url_Parse http_NewRequest read_file has_pem) run_gen out_ok file_ok (job_opts cr url ca [])
          = ([], Some err))"
proof
  show "buildPhases (sv_Spec cr) = Inr []" using assms(1,2) by (simp add: buildPhases_def Let_def)
  have "config_Validate url_Parse http_NewRequest cfg \<noteq> None"
    if "lc_Phases cfg = []" "lc_TargetRPS cfg \<le> 0 \<or> lc_Duration cfg \<le> 0" for cfg
    using that by (auto simp: config_Validate_def split: option.split prod.split)
  then have new: "\<exists>err. gen_New url_Parse http_NewRequest read_file has_pem cfg = Inl err"
    if "lc_Phases cfg = []" "lc_TargetRPS cfg \<le> 0 \<or> lc_Duration cfg \<le> 0" for cfg
    using that by (fastforce simp: gen_New_def)
  let ?opt = "job_opts cr url ca []"
  have opt: "o_headers ?opt = []" "o_phasesJSON ?opt = NoPhases" "o_rps ?opt \<le> 0 \<or> o_duration ?opt \<le> 0"
    using assms(3) by (simp_all add: job_opts_def Let_def)
  show "\<exists>err. cmd_run (gen_New url_Parse http_NewRequest read_file has_pem) run_gen out_ok file_ok ?opt = ([], Some err)"
  proof (cases "cmd_config ?opt")
    case (Inr cfg)
    then have "lc_Phases cfg = []" "lc_TargetRPS cfg \<le> 0 \<or> lc_Duration cfg \<le> 0"
      using opt by (auto simp: cmd_config_def parseHeaders_def Let_def split: if_splits)
    from new[OF this] Inr show ?thesis by (auto simp: cmd_run_def)
  qed (simp add: cmd_run_def)
qed

lemma nonpositive_load_admitted:
  "\<exists>s. spec_admitted s \<and> load_Profile (spec_Load s) = None \<and> load_WarmupDuration (spec_Load s) = None
     \<and> load_BaseRPS (spec_Load s) \<le> 0 \<and> spec_SLA s \<le> 0"
  by (rule exI[of _ "demo_spec\<lparr>spec_SLA := 0, spec_Load := (spec_Load demo_spec)\<lparr>load_BaseRPS := 0,
        load_WarmupDuration := None, load_Profile := None\<rparr>\<rparr>"])
    (simp add: spec_admitted_def target_admitted_def load_admitted_def demo_spec_def enum_defs in_int64_def in_int32_def int_bounds)

end
